(* ===== verification/Py_Prelude.thy ===== *)
theory Py_Prelude
  imports Complex_Main "HOL-Library.AList" "HOL-Library.Sublist"
begin

text \<open>
  The Python runtime the scripts of the repository rely on, as executable HOL functions:
  exceptions as values, the string methods (\<^verbatim>\<open>strip\<close>, \<^verbatim>\<open>split\<close>, \<^verbatim>\<open>in\<close>, \<^verbatim>\<open>replace\<close>,
  \<^verbatim>\<open>join\<close>, \<^verbatim>\<open>splitlines\<close>), decimal printing and parsing of integers and finite floats, and
  insertion-ordered dictionaries as association lists (\<open>AList.update\<close> is exactly
  \<^verbatim>\<open>d[k] = v\<close>: it overwrites in place and appends a new key at the end).

  A \<^verbatim>\<open>str\<close> is a \<^typ>\<open>string\<close> over the Latin-1 code points, a Python \<^verbatim>\<open>int\<close> an \<^typ>\<open>int\<close>, and
  a \<^verbatim>\<open>float\<close> the rational number it denotes: rounding is not modelled.  The literals
  \<^verbatim>\<open>inf\<close> and \<^verbatim>\<open>nan\<close> have no rational value and are reported as \<open>NonFinite\<close>, which no
  statement of the development counts as a normal result.  \<open>IllTyped\<close> stands for a JSON value of
  a type no parameter file has: Python would go on with it, the model does not.
\<close>

named_theorems py_simps \<open>unfolding rules of the Python runtime\<close>

section \<open>Exceptions as values\<close>

datatype py_exc =
    IndexError
  | KeyError string
  | ValueError
  | ZeroDivisionError
  | AssertionError
  | TypeError
  | UnboundLocalError
  | JSONDecodeError
  | FileNotFoundError string
  | FunctionTimedOut
  | Exception string
  | SystemExit int
  | NonFinite
  | OutOfFuel
  | IllTyped

type_synonym 'a py = "py_exc + 'a"

definition py_bind :: "'a py \<Rightarrow> ('a \<Rightarrow> 'b py) \<Rightarrow> 'b py" where
  "py_bind m f = (case m of Inl e \<Rightarrow> Inl e | Inr x \<Rightarrow> f x)"

lemma py_bind_simps [simp]:
  "py_bind (Inl e) f = Inl e"
  "py_bind (Inr x) f = f x"
  by (simp_all add: py_bind_def)

lemma py_bind_Inr_iff [simp]: "py_bind m f = Inr y \<longleftrightarrow> (\<exists>x. m = Inr x \<and> f x = Inr y)"
  by (cases m) auto

lemma py_bind_Inl_iff: "py_bind m f = Inl e \<longleftrightarrow> m = Inl e \<or> (\<exists>x. m = Inr x \<and> f x = Inl e)"
  by (cases m) auto

lemma py_bind_assoc: "py_bind (py_bind m f) g = py_bind m (\<lambda>x. py_bind (f x) g)"
  by (cases m) auto

lemma py_bind_Inr_right [simp]: "py_bind m Inr = m"
  by (cases m) auto

definition py_assert :: "bool \<Rightarrow> unit py" where
  "py_assert b = (if b then Inr () else Inl AssertionError)"

lemma py_assert_simps [simp]:
  "py_assert True = Inr ()"
  "py_assert False = Inl AssertionError"
  "py_assert b = Inr u \<longleftrightarrow> b"
  by (auto simp: py_assert_def)

text \<open>The loops \<^verbatim>\<open>for x in xs\<close> that thread a state and stop at the first exception.\<close>

fun py_foldM :: "('s \<Rightarrow> 'a \<Rightarrow> 's py) \<Rightarrow> 's \<Rightarrow> 'a list \<Rightarrow> 's py" where
  "py_foldM f s [] = Inr s"
| "py_foldM f s (x # xs) = py_bind (f s x) (\<lambda>s'. py_foldM f s' xs)"

lemma py_foldM_append:
  "py_foldM f s (xs @ ys) = py_bind (py_foldM f s xs) (\<lambda>s'. py_foldM f s' ys)"
  by (induction xs arbitrary: s) (auto simp: py_bind_assoc)

lemma py_foldM_invariant:
  assumes "py_foldM f s xs = Inr s'" and "P s"
    and "\<And>s x t. P s \<Longrightarrow> x \<in> set xs \<Longrightarrow> f s x = Inr t \<Longrightarrow> P t"
  shows "P s'"
  using assms
proof (induction xs arbitrary: s)
  case Nil
  then show ?case by simp
next
  case (Cons x xs)
  from Cons.prems(1) obtain t where t: "f s x = Inr t" and r: "py_foldM f t xs = Inr s'" by auto
  have "P t" by (rule Cons.prems(3)[OF Cons.prems(2) _ t]) simp
  then show ?case by (rule Cons.IH[OF r]) (rule Cons.prems(3), simp_all)
qed

text \<open>A loop whose body may \<^verbatim>\<open>break\<close>: the flag returned with the state says so.\<close>

fun py_for_break :: "('s \<Rightarrow> 'a \<Rightarrow> ('s \<times> bool) py) \<Rightarrow> 's \<Rightarrow> 'a list \<Rightarrow> ('s \<times> bool) py" where
  "py_for_break f s [] = Inr (s, False)"
| "py_for_break f s (x # xs) =
     py_bind (f s x) (\<lambda>(s', brk). if brk then Inr (s', True) else py_for_break f s' xs)"

lemma py_for_break_append:
  "py_for_break f s (xs @ ys) =
     py_bind (py_for_break f s xs) (\<lambda>(s', brk). if brk then Inr (s', True) else py_for_break f s' ys)"
proof (induction xs arbitrary: s)
  case (Cons x xs)
  show ?case
  proof (cases "f s x")
    case (Inr a)
    obtain s' b where "a = (s', b)" by (cases a)
    with Inr Cons show ?thesis by simp
  qed simp
qed simp

lemma py_for_break_skip:
  "(\<And>x. x \<in> set xs \<Longrightarrow> f s x = Inr (s, False)) \<Longrightarrow> py_for_break f s xs = Inr (s, False)"
  by (induction xs) auto

fun py_mapM :: "('a \<Rightarrow> 'b py) \<Rightarrow> 'a list \<Rightarrow> 'b list py" where
  "py_mapM f [] = Inr []"
| "py_mapM f (x # xs) = py_bind (f x) (\<lambda>y. py_bind (py_mapM f xs) (\<lambda>ys. Inr (y # ys)))"

lemma py_mapM_Inr_iff: "py_mapM f xs = Inr ys \<longleftrightarrow> map f xs = map Inr ys"
proof (induction xs arbitrary: ys)
  case Nil
  then show ?case by auto
next
  case (Cons x xs)
  then show ?case by (cases ys) auto
qed

lemma py_mapM_length: "py_mapM f xs = Inr ys \<Longrightarrow> length ys = length xs"
  by (metis length_map py_mapM_Inr_iff)

lemma py_mapM_ok: "(\<And>x. x \<in> set xs \<Longrightarrow> f x = Inr (g x)) \<Longrightarrow> py_mapM f xs = Inr (map g xs)"
  by (induction xs) auto

text \<open>\<^verbatim>\<open>xs[i]\<close> (the scripts use non-negative literals) and the first element.\<close>

definition py_index :: "'a list \<Rightarrow> nat \<Rightarrow> 'a py" where
  "py_index xs i = (if i < length xs then Inr (xs ! i) else Inl IndexError)"

lemma py_index_simps [simp]:
  "py_index [] i = Inl IndexError"
  "py_index (x # xs) 0 = Inr x"
  "py_index (x # xs) (Suc i) = py_index xs i"
  by (simp_all add: py_index_def)

lemma py_index_numeral [simp]: "py_index (x # xs) (numeral k) = py_index xs (pred_numeral k)"
  by (simp add: numeral_eq_Suc)

lemma py_index_Inr_iff: "py_index xs i = Inr x \<longleftrightarrow> i < length xs \<and> xs ! i = x"
  by (auto simp: py_index_def)

definition dict_get :: "(string \<times> 'v) list \<Rightarrow> string \<Rightarrow> 'v py" where
  "dict_get d k = (case map_of d k of None \<Rightarrow> Inl (KeyError k) | Some v \<Rightarrow> Inr v)"

lemma dict_get_update [simp]: "dict_get (AList.update k v d) k = Inr v"
  by (simp add: dict_get_def update_conv)

lemma dict_get_Inr_iff: "dict_get d k = Inr v \<longleftrightarrow> map_of d k = Some v"
  by (auto simp: dict_get_def split: option.splits)

section \<open>Characters and strings\<close>

definition code :: "char \<Rightarrow> nat" where
  "code c = of_char c"

definition is_digit :: "char \<Rightarrow> bool" where
  "is_digit c \<longleftrightarrow> 48 \<le> code c \<and> code c \<le> 57"

definition digit_val :: "char \<Rightarrow> nat" where
  "digit_val c = code c - 48"

definition digit_char :: "nat \<Rightarrow> char" where
  "digit_char d = char_of (48 + d)"

text \<open>\<^verbatim>\<open>str.isspace\<close> on the Latin-1 code points.\<close>

definition py_space :: "char \<Rightarrow> bool" where
  "py_space c \<longleftrightarrow> code c \<in> {9, 10, 11, 12, 13, 28, 29, 30, 31, 32, 133, 160}"

text \<open>\<^verbatim>\<open>\w\<close> in Latin-1.\<close>

definition word_char :: "char \<Rightarrow> bool" where
  "word_char c \<longleftrightarrow> (let n = code c in
     48 \<le> n \<and> n \<le> 57 \<or> 65 \<le> n \<and> n \<le> 90 \<or> n = 95 \<or> 97 \<le> n \<and> n \<le> 122 \<or>
     n \<in> {170, 178, 179, 181, 185, 186, 188, 189, 190} \<or> 192 \<le> n \<and> n \<noteq> 215 \<and> n \<noteq> 247)"

text \<open>\<^verbatim>\<open>str.isdigit\<close>: besides the decimal digits, the three Latin-1 superscripts.\<close>

definition py_isdigit :: "string \<Rightarrow> bool" where
  "py_isdigit s \<longleftrightarrow> s \<noteq> [] \<and> (\<forall>c \<in> set s. is_digit c \<or> code c \<in> {178, 179, 185})"

definition py_lstrip :: "string \<Rightarrow> string" where
  "py_lstrip s = dropWhile py_space s"

definition py_rstrip :: "string \<Rightarrow> string" where
  "py_rstrip s = rev (dropWhile py_space (rev s))"

definition py_strip :: "string \<Rightarrow> string" where
  "py_strip s = py_rstrip (py_lstrip s)"

definition py_startswith :: "string \<Rightarrow> string \<Rightarrow> bool" where
  "py_startswith s p \<longleftrightarrow> take (length p) s = p"

definition py_endswith :: "string \<Rightarrow> string \<Rightarrow> bool" where
  "py_endswith s p \<longleftrightarrow> take (length p) (rev s) = rev p"

text \<open>\<^verbatim>\<open>p in s\<close> on strings.\<close>

fun py_in :: "string \<Rightarrow> string \<Rightarrow> bool" where
  "py_in p [] = (p = [])"
| "py_in p (c # cs) = (py_startswith (c # cs) p \<or> py_in p cs)"

text \<open>\<^verbatim>\<open>s.split(c)\<close> for a one-character separator: never empty, empty fields are kept.\<close>

fun split_on :: "char \<Rightarrow> string \<Rightarrow> string list" where
  "split_on c [] = [[]]"
| "split_on c (x # xs) =
     (if x = c then [] # split_on c xs
      else (case split_on c xs of [] \<Rightarrow> [[x]] | y # ys \<Rightarrow> (x # y) # ys))"

text \<open>\<^verbatim>\<open>s.split()\<close>: maximal runs of non-space characters.\<close>

fun split_ws_aux :: "string \<Rightarrow> string \<Rightarrow> string list" where
  "split_ws_aux acc [] = (if acc = [] then [] else [rev acc])"
| "split_ws_aux acc (x # xs) =
     (if py_space x then (if acc = [] then split_ws_aux [] xs else rev acc # split_ws_aux [] xs)
      else split_ws_aux (x # acc) xs)"

definition split_ws :: "string \<Rightarrow> string list" where
  "split_ws s = split_ws_aux [] s"

text \<open>\<^verbatim>\<open>sep.join(xs)\<close>.\<close>

fun py_join :: "string \<Rightarrow> string list \<Rightarrow> string" where
  "py_join sep [] = []"
| "py_join sep [x] = x"
| "py_join sep (x # y # zs) = x @ sep @ py_join sep (y # zs)"

text \<open>
  \<^verbatim>\<open>s.replace(old, new)\<close> for a non-empty \<open>old\<close>, left to right without overlaps, and with a
  count of one.
\<close>

function py_replace :: "string \<Rightarrow> string \<Rightarrow> string \<Rightarrow> string" where
  "py_replace old new [] = []"
| "py_replace old new (c # cs) =
     (if old \<noteq> [] \<and> py_startswith (c # cs) old
      then new @ py_replace old new (drop (length old) (c # cs))
      else c # py_replace old new cs)"
  by pat_completeness auto
termination
  by (relation "measure (\<lambda>(old, new, s). length s)") (auto simp: Suc_le_eq)

fun py_replace1 :: "string \<Rightarrow> string \<Rightarrow> string \<Rightarrow> string" where
  "py_replace1 old new [] = (if old = [] then new else [])"
| "py_replace1 old new (c # cs) =
     (if py_startswith (c # cs) old then new @ drop (length old) (c # cs)
      else c # py_replace1 old new cs)"

text \<open>
  \<^verbatim>\<open>f.readlines()\<close> and \<^verbatim>\<open>for line in f\<close> on a text stream whose newlines are already
  \<^verbatim>\<open>\n\<close>: the newline stays on its line.
\<close>

fun readlines :: "string \<Rightarrow> string list" where
  "readlines [] = []"
| "readlines (c # cs) =
     (if c = CHR 0x0A then [c] # readlines cs
      else (case readlines cs of [] \<Rightarrow> [[c]] | l # ls \<Rightarrow> (c # l) # ls))"

text \<open>\<^verbatim>\<open>s.splitlines()\<close>, with the line boundaries of \<^verbatim>\<open>str\<close> in Latin-1.\<close>

definition line_break :: "char \<Rightarrow> bool" where
  "line_break c \<longleftrightarrow> code c \<in> {10, 11, 12, 13, 28, 29, 30, 133}"

fun splitlines :: "string \<Rightarrow> string list" where
  "splitlines [] = []"
| "splitlines [c] = (if line_break c then [[]] else [[c]])"
| "splitlines (c # d # cs) =
     (if code c = 13 \<and> code d = 10 then [] # splitlines cs
      else if line_break c then [] # splitlines (d # cs)
      else (case splitlines (d # cs) of [] \<Rightarrow> [[c]] | l # ls \<Rightarrow> (c # l) # ls))"

section \<open>Decimal numbers\<close>

fun show_nat :: "nat \<Rightarrow> string" where
  "show_nat n = (if n < 10 then [digit_char n]
                 else show_nat (n div 10) @ [digit_char (n mod 10)])"

declare show_nat.simps [simp del]

definition show_int :: "int \<Rightarrow> string" where
  "show_int i = (if i < 0 then CHR ''-'' # show_nat (nat (- i)) else show_nat (nat i))"

text \<open>Digits with single underscores between them, as \<^verbatim>\<open>int()\<close> and \<^verbatim>\<open>float()\<close> accept.\<close>

fun dec_digits :: "nat \<Rightarrow> string \<Rightarrow> nat option" where
  "dec_digits n [] = Some n"
| "dec_digits n (c # cs) =
     (if is_digit c then dec_digits (10 * n + digit_val c) cs
      else if c = CHR ''_'' then
        (case cs of [] \<Rightarrow> None
         | d # ds \<Rightarrow> if is_digit d then dec_digits (10 * n + digit_val d) ds else None)
      else None)"

definition py_nat :: "string \<Rightarrow> nat option" where
  "py_nat s = (case s of [] \<Rightarrow> None
     | c # cs \<Rightarrow> if is_digit c then dec_digits (digit_val c) cs else None)"

text \<open>\<^verbatim>\<open>int(s)\<close>.\<close>

definition py_int :: "string \<Rightarrow> int py" where
  "py_int s = (let t = py_strip s in
     case t of
       [] \<Rightarrow> Inl ValueError
     | c # cs \<Rightarrow>
        (case py_nat (if c = CHR ''-'' \<or> c = CHR ''+'' then cs else t) of
           None \<Rightarrow> Inl ValueError
         | Some n \<Rightarrow> Inr (if c = CHR ''-'' then - int n else int n)))"

text \<open>
  \<^verbatim>\<open>float(s)\<close>: sign, digits with an optional point (a digit on at least one side) and an
  optional exponent.
\<close>

definition lower :: "string \<Rightarrow> string" where
  "lower s = map (\<lambda>c. if 65 \<le> code c \<and> code c \<le> 90 then char_of (code c + 32) else c) s"

definition non_finite :: "string \<Rightarrow> bool" where
  "non_finite s \<longleftrightarrow> lower s \<in> {''inf'', ''infinity'', ''nan''}"

definition dec_mantissa :: "string \<Rightarrow> rat option" where
  "dec_mantissa s =
     (let a = takeWhile (\<lambda>c. c \<noteq> CHR ''.'') s; b = dropWhile (\<lambda>c. c \<noteq> CHR ''.'') s in
      if b = [] then map_option of_nat (py_nat a)
      else
        (case (if a = [] then Some 0 else py_nat a, if tl b = [] then Some 0 else py_nat (tl b)) of
           (Some i, Some f) \<Rightarrow>
             if a = [] \<and> tl b = [] then None
             else Some (of_nat i + of_nat f / 10 ^ length (filter is_digit (tl b)))
         | _ \<Rightarrow> None))"

definition dec_float :: "string \<Rightarrow> rat option" where
  "dec_float s =
     (let e = (\<lambda>c. c \<noteq> CHR ''e'' \<and> c \<noteq> CHR ''E'');
          m = takeWhile e s; x = dropWhile e s in
      case dec_mantissa m of
        None \<Rightarrow> None
      | Some r \<Rightarrow>
          (if x = [] then Some r
           else
             let y = tl x; neg = (y \<noteq> [] \<and> hd y = CHR ''-'');
                 ds = (if y \<noteq> [] \<and> (hd y = CHR ''-'' \<or> hd y = CHR ''+'') then tl y else y) in
             case py_nat ds of
               None \<Rightarrow> None
             | Some k \<Rightarrow> Some (if neg then r / 10 ^ k else r * 10 ^ k)))"

definition py_float :: "string \<Rightarrow> rat py" where
  "py_float s = (let t = py_strip s in
     case t of
       [] \<Rightarrow> Inl ValueError
     | c # cs \<Rightarrow>
        (let u = (if c = CHR ''-'' \<or> c = CHR ''+'' then cs else t) in
         if non_finite u then Inl NonFinite
         else case dec_float u of
             None \<Rightarrow> Inl ValueError
           | Some r \<Rightarrow> Inr (if c = CHR ''-'' then - r else r)))"

section \<open>Lemmas on strings\<close>

lemma digit_char_props [simp]:
  assumes "d < 10"
  shows "is_digit (digit_char d)" and "digit_val (digit_char d) = d" and "code (digit_char d) = 48 + d"
  using assms by (simp_all add: is_digit_def digit_val_def digit_char_def code_def)

lemma digit_not_space [simp]: "is_digit c \<Longrightarrow> \<not> py_space c"
  by (auto simp: is_digit_def py_space_def)

lemma show_nat_digits: "\<forall>c \<in> set (show_nat n). is_digit c"
proof (induction n rule: show_nat.induct)
  case (1 n)
  then show ?case by (subst show_nat.simps) auto
qed

lemma show_nat_nonempty [simp]: "show_nat n \<noteq> []"
  by (subst show_nat.simps) simp

lemma show_nat_less10 [simp]: "n < 10 \<Longrightarrow> show_nat n = [digit_char n]"
  by (subst show_nat.simps) simp

lemma show_nat_step [simp]: "\<not> n < 10 \<Longrightarrow> show_nat n = show_nat (n div 10) @ [digit_char (n mod 10)]"
  by (subst show_nat.simps) simp

declare show_nat_less10 [simp del] show_nat_step [simp del]

lemmas show_nat_unfold [py_simps] = show_nat_less10 show_nat_step

lemma dec_digits_append:
  "\<forall>c \<in> set s. is_digit c \<Longrightarrow> dec_digits n s = Some m \<Longrightarrow> dec_digits n (s @ t) = dec_digits m t"
  by (induction s arbitrary: n) auto

text \<open>Printing then reading a number gives the number back.\<close>

lemma py_nat_show_nat [simp]: "py_nat (show_nat n) = Some n"
proof (induction n rule: show_nat.induct)
  case (1 n)
  show ?case
  proof (cases "n < 10")
    case True
    then show ?thesis by (simp add: py_nat_def show_nat_less10)
  next
    case False
    with 1 have IH: "py_nat (show_nat (n div 10)) = Some (n div 10)" by simp
    obtain c cs where c: "show_nat (n div 10) = c # cs" by (cases "show_nat (n div 10)") auto
    with show_nat_digits[of "n div 10"] have d: "is_digit c" "\<forall>x \<in> set cs. is_digit x" by auto
    with IH c have "dec_digits (digit_val c) cs = Some (n div 10)" by (simp add: py_nat_def)
    with d False c show ?thesis
      by (simp add: py_nat_def show_nat_step dec_digits_append)
  qed
qed

lemma show_nat_inject [simp]: "show_nat m = show_nat n \<longleftrightarrow> m = n"
  by (metis option.inject py_nat_show_nat)

lemma show_nat_hd: "show_nat n = c # cs \<Longrightarrow> is_digit c"
  using show_nat_digits[of n] by auto

lemma not_digit_minus [simp]: "\<not> is_digit (CHR ''-'')" "\<not> is_digit (CHR ''+'')" "\<not> is_digit (CHR ''_'')"
  by (simp_all add: is_digit_def code_def)

lemma show_int_inject [simp]: "show_int i = show_int j \<longleftrightarrow> i = j"
proof
  assume a: "show_int i = show_int j"
  have "(i < 0) = (j < 0)"
    using a show_nat_hd[of "nat i" "CHR ''-''"] show_nat_hd[of "nat j" "CHR ''-''"]
    by (metis show_int_def not_digit_minus(1))
  with a show "i = j" by (auto simp: show_int_def split: if_splits)
qed simp

lemma dropWhile_none: "\<forall>c \<in> set s. \<not> P c \<Longrightarrow> dropWhile P s = s"
  by (cases s) auto

lemma strip_id: "\<forall>c \<in> set s. \<not> py_space c \<Longrightarrow> py_strip s = s"
  by (simp add: py_strip_def py_lstrip_def py_rstrip_def dropWhile_none)

lemma strip_newline:
  "\<forall>c \<in> set s. \<not> py_space c \<Longrightarrow> py_strip (s @ [CHR 0x0A]) = s"
proof -
  assume a: "\<forall>c \<in> set s. \<not> py_space c"
  have sp: "py_space (CHR 0x0A)" by (simp add: py_space_def code_def)
  show ?thesis
  proof (cases s)
    case Nil
    with sp show ?thesis by (simp add: py_strip_def py_lstrip_def py_rstrip_def)
  next
    case (Cons x xs)
    with a sp show ?thesis
      by (simp add: py_strip_def py_lstrip_def py_rstrip_def dropWhile_append2 dropWhile_none)
  qed
qed

lemma space_chars [simp]: "py_space (CHR '' '')" "py_space (CHR 0x0A)" "py_space (CHR 0x09)"
  by (simp_all add: py_space_def code_def)

lemma strip_ends:
  assumes "s \<noteq> []" and "\<not> py_space (hd s)" and "\<not> py_space (last s)"
  shows "py_strip s = s" and "py_strip (s @ [CHR 0x0A]) = s"
proof -
  have h: "dropWhile py_space (s @ t) = s @ t" for t using assms(1,2) by (cases s) auto
  have l: "dropWhile py_space (rev s) = rev s" using assms(1,3) by (cases s rule: rev_cases) auto
  show "py_strip s = s" using h[of "[]"] l by (simp add: py_strip_def py_lstrip_def py_rstrip_def)
  show "py_strip (s @ [CHR 0x0A]) = s"
    using h l by (simp add: py_strip_def py_lstrip_def py_rstrip_def)
qed

lemma py_int_show_int [simp]: "py_int (show_int i) = Inr i"
proof -
  have ns: "\<not> py_space (CHR ''-'')" by (simp add: py_space_def code_def)
  have "\<forall>c \<in> set (show_int i). \<not> py_space c"
    using show_nat_digits ns by (auto simp: show_int_def)
  then have st: "py_strip (show_int i) = show_int i" by (rule strip_id)
  show ?thesis
  proof (cases "i < 0")
    case True
    with st show ?thesis by (simp add: py_int_def show_int_def)
  next
    case False
    obtain c cs where c: "show_nat (nat i) = c # cs" by (cases "show_nat (nat i)") auto
    with show_nat_hd have "is_digit c" by blast
    then have "c \<noteq> CHR ''-''" "c \<noteq> CHR ''+''" by auto
    moreover have "py_nat (c # cs) = Some (nat i)" using py_nat_show_nat[of "nat i"] c by simp
    ultimately show ?thesis using False st c by (simp add: py_int_def show_int_def)
  qed
qed

text \<open>
  A pattern occurs in a string only if all its characters do; this decides most of the
  substring tests the log parser makes.
\<close>

lemma py_in_iff: "py_in p s \<longleftrightarrow> (\<exists>a b. s = a @ p @ b)"
proof (induction s)
  case Nil
  then show ?case by auto
next
  case (Cons c s)
  have "py_startswith (c # s) p \<longleftrightarrow> (\<exists>b. c # s = p @ b)"
    unfolding py_startswith_def by (metis append_eq_conv_conj append_take_drop_id)
  with Cons show ?case
    by (auto simp: Cons_eq_append_conv)
qed

lemma py_in_set: "py_in p s \<Longrightarrow> set p \<subseteq> set s"
  by (auto simp: py_in_iff)

lemma py_in_missing: "c \<in> set p \<Longrightarrow> c \<notin> set s \<Longrightarrow> \<not> py_in p s"
  using py_in_set by blast

lemma py_in_self [simp]: "py_in p p"
  by (auto simp: py_in_iff intro: exI[of _ "[]"])

lemma py_in_append1: "py_in p s \<Longrightarrow> py_in p (s @ t)"
  by (auto simp: py_in_iff) (metis append_assoc)

lemma py_in_append2: "py_in p t \<Longrightarrow> py_in p (s @ t)"
  by (auto simp: py_in_iff) (metis append_assoc)

text \<open>
  A labelled field \<^verbatim>\<open>name value\<close>: a pattern whose last character does not occur in the value
  occurs in the field only if it occurs in the name.
\<close>

definition fld :: "string \<Rightarrow> string \<Rightarrow> string" where
  "fld name t = name @ t"

lemma py_in_fld:
  assumes "p \<noteq> []" and "last p \<notin> set t"
  shows "py_in p (fld s t) \<longleftrightarrow> py_in p s"
proof
  assume "py_in p (fld s t)"
  then obtain a b where e: "s @ t = (a @ p) @ b" by (auto simp: py_in_iff fld_def)
  show "py_in p s"
  proof (cases "length (a @ p) \<le> length s")
    case True
    with e have "\<exists>d. s = (a @ p) @ d" by (metis append_eq_append_conv_if append_take_drop_id)
    then show ?thesis by (auto simp: py_in_iff)
  next
    case False
    then obtain d where d: "a @ p = s @ d" "t = d @ b"
      using e by (metis append_eq_append_conv2 length_append linorder_linear trans_le_add1)
    with False have "d \<noteq> []" by auto
    with d assms show ?thesis by (metis UnCI last_appendR last_in_set set_append)
  qed
qed (simp add: fld_def py_in_append1)

text \<open>Splitting undoes joining.\<close>

lemma split_on_nonempty [simp]: "split_on c s \<noteq> []"
  by (induction s) (auto split: list.splits)

lemma split_on_no_sep: "c \<notin> set s \<Longrightarrow> split_on c s = [s]"
  by (induction s) auto

lemma split_on_append: "c \<notin> set s \<Longrightarrow> split_on c (s @ c # t) = s # split_on c t"
  by (induction s) auto

lemma split_on_app:
  "c \<notin> set t \<Longrightarrow> split_on c (s @ t) = butlast (split_on c s) @ [last (split_on c s) @ t]"
  by (induction s) (auto simp: split_on_no_sep split: list.splits)

lemma split_on_join:
  "xs \<noteq> [] \<Longrightarrow> \<forall>x \<in> set xs. c \<notin> set x \<Longrightarrow> split_on c (py_join [c] xs) = xs"
  by (induction "[c]" xs rule: py_join.induct) (auto simp: split_on_no_sep split_on_append)

lemma join_split_on [simp]: "py_join [c] (split_on c s) = s"
proof (induction s)
  case Nil
  then show ?case by simp
next
  case (Cons x s)
  obtain y ys where y: "split_on c s = y # ys" by (cases "split_on c s") auto
  with Cons show ?case by (cases ys) auto
qed

lemma py_join_append:
  "xs \<noteq> [] \<Longrightarrow> ys \<noteq> [] \<Longrightarrow> py_join sep (xs @ ys) = py_join sep xs @ sep @ py_join sep ys"
proof (induction sep xs rule: py_join.induct)
  case (2 sep x)
  then show ?case by (cases ys) auto
qed auto

text \<open>Reading the lines of a file and writing them back is the identity.\<close>

lemma concat_readlines [simp]: "concat (readlines s) = s"
proof (induction s)
  case (Cons c s)
  then show ?case by (cases "readlines s") auto
qed simp

lemma readlines_line:
  "CHR 0x0A \<notin> set l \<Longrightarrow> readlines (l @ CHR 0x0A # s) = (l @ [CHR 0x0A]) # readlines s"
  by (induction l) auto

lemma concat_map_concat: "concat (map concat xs) = concat (concat xs)"
  by (induction xs) auto

definition is_line :: "string \<Rightarrow> bool" where
  "is_line l \<longleftrightarrow> l \<noteq> [] \<and> last l = CHR 0x0A \<and> CHR 0x0A \<notin> set (butlast l)"

lemma is_lineI [simp, intro]: "CHR 0x0A \<notin> set l \<Longrightarrow> is_line (l @ [CHR 0x0A])"
  by (simp add: is_line_def)

lemma readlines_concat: "\<forall>l \<in> set ls. is_line l \<Longrightarrow> readlines (concat ls) = ls"
proof (induction ls)
  case (Cons l ls)
  then have "is_line l" and IH: "readlines (concat ls) = ls" by auto
  then obtain k where "l = k @ [CHR 0x0A]" "CHR 0x0A \<notin> set k"
    unfolding is_line_def by (metis append_butlast_last_id)
  with IH show ?case by (simp add: readlines_line)
qed simp

text \<open>Patterns without white space survive stripping and splitting.\<close>

lemma py_in_drop_prefix:
  assumes "p \<noteq> []" and "hd p \<notin> set a"
  shows "py_in p (a @ t) \<longleftrightarrow> py_in p t"
proof
  show "py_in p (a @ t) \<Longrightarrow> py_in p t"
    using assms(2)
  proof (induction a)
    case (Cons x a)
    have "\<not> py_startswith (x # a @ t) p" using assms(1) Cons.prems(2) by (cases p) (auto simp: py_startswith_def)
    with Cons show ?case by auto
  qed simp
qed (rule py_in_append2)

lemma strip_parts:
  obtains a b where "s = a @ py_strip s @ b" "\<forall>c \<in> set a. py_space c" "\<forall>c \<in> set b. py_space c"
proof -
  define t where "t = dropWhile py_space s"
  have st: "py_strip s = rev (dropWhile py_space (rev t))"
    by (simp add: py_strip_def py_lstrip_def py_rstrip_def t_def)
  have "t = rev (takeWhile py_space (rev t) @ dropWhile py_space (rev t))" by simp
  then have "t = py_strip s @ rev (takeWhile py_space (rev t))" unfolding st by (simp del: takeWhile_dropWhile_id)
  moreover have "s = takeWhile py_space s @ t" by (simp add: t_def)
  ultimately show ?thesis
    by (intro that[of "takeWhile py_space s" "rev (takeWhile py_space (rev t))"])
       (auto dest: set_takeWhileD)
qed

lemma py_in_strip:
  assumes "p \<noteq> []" and "\<forall>c \<in> set p. \<not> py_space c"
  shows "py_in p (py_strip s) \<longleftrightarrow> py_in p s"
proof -
  obtain a b where s: "s = a @ py_strip s @ b" and sp: "\<forall>c \<in> set a. py_space c" "\<forall>c \<in> set b. py_space c"
    by (rule strip_parts)
  have "last p \<in> set p" "hd p \<in> set p" using assms(1) by auto
  then have "last p \<notin> set b" "hd p \<notin> set a" using assms(2) sp by blast+
  then have "py_in p (a @ fld (py_strip s) b) \<longleftrightarrow> py_in p (py_strip s)"
    using py_in_drop_prefix[OF assms(1)] py_in_fld[OF assms(1)] by simp
  then show ?thesis using s by (simp add: fld_def)
qed

lemma py_in_trans: "py_in p s \<Longrightarrow> py_in s t \<Longrightarrow> py_in p t"
  by (metis py_in_iff append_assoc)

lemma py_strip_in: "py_in (py_strip s) s"
  using strip_parts[of s] by (metis py_in_iff)

lemma split_on_in: "l \<in> set (split_on c s) \<Longrightarrow> py_in l s"
proof -
  assume "l \<in> set (split_on c s)"
  then obtain xs ys where "split_on c s = xs @ l # ys" by (meson split_list)
  then have "s = py_join [c] (xs @ l # ys)" by (metis join_split_on)
  moreover have "py_in l (py_join [c] (l # ys))" by (cases ys) (auto intro: py_in_append1)
  ultimately show ?thesis
    by (cases "xs = []") (auto simp: py_join_append intro: py_in_append2 py_in_append2[where s = "[c]", simplified])
qed

lemma split_on_append2:
  "split_on c (s @ t) =
     butlast (split_on c s) @ (last (split_on c s) @ hd (split_on c t)) # tl (split_on c t)"
  by (induction s) (auto split: list.splits)

lemma split_on_finds:
  assumes "py_in p s" and "c \<notin> set p"
  shows "\<exists>l \<in> set (split_on c s). py_in p l"
proof -
  obtain a b where s: "s = a @ p @ b" using assms(1) py_in_iff by blast
  have "hd (split_on c (p @ b)) = p @ hd (split_on c b)"
    by (simp add: split_on_append2 split_on_no_sep[OF assms(2)])
  then have "last (split_on c a) @ p @ hd (split_on c b) \<in> set (split_on c s)"
    unfolding s by (simp add: split_on_append2[of c a])
  then show ?thesis using py_in_iff by blast
qed

section \<open>Scanning\<close>

lemma scan_while:
  assumes "list_all P xs" "ys = [] \<or> \<not> P (hd ys)"
  shows "takeWhile P (xs @ ys) = xs" "dropWhile P (xs @ ys) = ys"
  using assms by (induction xs; cases ys; simp)+

lemma line_break_codes: "line_break (CHR 0x0A)" "\<not> line_break c \<Longrightarrow> code c \<noteq> 13"
  by (auto simp: line_break_def code_def)

lemma splitlines_line:
  "\<forall>c \<in> set l. \<not> line_break c \<Longrightarrow> splitlines (l @ CHR 0x0A # t) = l # splitlines t"
proof (induction l)
  case Nil
  have "code (CHR 0x0A) \<noteq> 13" by (simp add: code_def)
  then show ?case by (cases t) (auto simp: line_break_codes)
next
  case (Cons c l)
  obtain d ds where d: "l @ CHR 0x0A # t = d # ds" by (cases l) auto
  have c: "\<not> line_break c" "code c \<noteq> 13" using Cons.prems line_break_codes by auto
  have "splitlines (d # ds) = l # splitlines t" using Cons d by simp
  with c d show ?case by simp
qed

text \<open>\<^verbatim>\<open>int(s)\<close> of a string of decimal digits.\<close>

definition digits_val :: "string \<Rightarrow> nat" where
  "digits_val s = foldl (\<lambda>n c. 10 * n + digit_val c) 0 s"

definition number :: "string \<Rightarrow> bool" where
  "number s \<longleftrightarrow> s \<noteq> [] \<and> list_all is_digit s"

lemma dec_digits_val: "list_all is_digit s \<Longrightarrow> dec_digits n s = Some (foldl (\<lambda>n c. 10 * n + digit_val c) n s)"
  by (induction s arbitrary: n) auto

lemma digits_val_nat: "number s \<Longrightarrow> py_nat s = Some (digits_val s)"
  by (cases s) (auto simp: number_def py_nat_def digits_val_def dec_digits_val)

lemma number_show [simp]: "number (show_nat n)"
  using show_nat_digits by (auto simp: number_def list_all_iff show_nat_nonempty)

lemma digits_val_show [simp]: "digits_val (show_nat n) = n"
  using digits_val_nat[of "show_nat n"] by simp

end
