(* ===== verification/Py_State.thy ===== *)
theory Py_State
  imports Py_Prelude
begin

text \<open>
  Statements with effects: a computation takes the state of the outside world it touches and
  returns the new state together with a value or an exception.  What was done before an
  exception stays done, as in Python.  The file system is a map from paths to contents.
\<close>

type_synonym ('s, 'a) act = "'s \<Rightarrow> 'a py \<times> 's"

definition act_return :: "'a \<Rightarrow> ('s, 'a) act" where
  "act_return x s = (Inr x, s)"

definition act_raise :: "py_exc \<Rightarrow> ('s, 'a) act" where
  "act_raise e s = (Inl e, s)"

definition act_lift :: "'a py \<Rightarrow> ('s, 'a) act" where
  "act_lift r s = (r, s)"

definition act_get :: "('s \<Rightarrow> 'a) \<Rightarrow> ('s, 'a) act" where
  "act_get f s = (Inr (f s), s)"

definition act_modify :: "('s \<Rightarrow> 's) \<Rightarrow> ('s, unit) act" where
  "act_modify f s = (Inr (), f s)"

definition act_bind :: "('s, 'a) act \<Rightarrow> ('a \<Rightarrow> ('s, 'b) act) \<Rightarrow> ('s, 'b) act" where
  "act_bind m f s = (case m s of (Inl e, t) \<Rightarrow> (Inl e, t) | (Inr x, t) \<Rightarrow> f x t)"

text \<open>\<^verbatim>\<open>m; n\<close>, \<^verbatim>\<open>for x in xs: f(x)\<close> and \<^verbatim>\<open>try: m except e: h(e)\<close>.\<close>

definition act_seq :: "('s, 'a) act \<Rightarrow> ('s, 'b) act \<Rightarrow> ('s, 'b) act" where
  "act_seq m n = act_bind m (\<lambda>_. n)"

fun act_for :: "'a list \<Rightarrow> ('a \<Rightarrow> ('s, unit) act) \<Rightarrow> ('s, unit) act" where
  "act_for [] f = act_return ()"
| "act_for (x # xs) f = act_seq (f x) (act_for xs f)"

text \<open>A loop that carries local variables.\<close>

fun act_fold :: "('b \<Rightarrow> 'a \<Rightarrow> ('s, 'b) act) \<Rightarrow> 'b \<Rightarrow> 'a list \<Rightarrow> ('s, 'b) act" where
  "act_fold f b [] = act_return b"
| "act_fold f b (x # xs) = act_bind (f b x) (\<lambda>c. act_fold f c xs)"

definition act_catch :: "('s, 'a) act \<Rightarrow> (py_exc \<Rightarrow> ('s, 'a) act) \<Rightarrow> ('s, 'a) act" where
  "act_catch m h s = (case m s of (Inl e, t) \<Rightarrow> h e t | (Inr x, t) \<Rightarrow> (Inr x, t))"

lemmas act_defs [py_simps] =
  act_return_def act_raise_def act_lift_def act_get_def act_modify_def

lemma act_return_iff: "act_return x s = (Inr y, t) \<longleftrightarrow> y = x \<and> t = s"
  by (auto simp: act_return_def)

lemma act_bind_ok [simp]: "m s = (Inr x, t) \<Longrightarrow> act_bind m f s = f x t"
  by (simp add: act_bind_def)

lemma act_bind_err [simp]: "m s = (Inl e, t) \<Longrightarrow> act_bind m f s = (Inl e, t)"
  by (simp add: act_bind_def)

lemma act_seq_ok: "m s = (Inr x, t) \<Longrightarrow> act_seq m n s = n t"
  by (simp add: act_seq_def)

lemma act_bind_InrD:
  "act_bind m f s = (Inr y, u) \<Longrightarrow> \<exists>x t. m s = (Inr x, t) \<and> f x t = (Inr y, u)"
  by (auto simp: act_bind_def split: prod.splits sum.splits)

lemma act_bind_Inr_iff:
  "act_bind m f s = (Inr y, u) \<longleftrightarrow> (\<exists>x t. m s = (Inr x, t) \<and> f x t = (Inr y, u))"
  by (auto simp: act_bind_def split: prod.splits sum.splits)

lemma act_seq_Inr_iff:
  "act_seq m n s = (Inr y, u) \<longleftrightarrow> (\<exists>x t. m s = (Inr x, t) \<and> n t = (Inr y, u))"
  by (simp add: act_seq_def act_bind_Inr_iff)

lemma act_bind_split:
  "act_bind m f s = r \<longleftrightarrow>
     (\<exists>x t. m s = (Inr x, t) \<and> f x t = r) \<or> (\<exists>e t. m s = (Inl e, t) \<and> r = (Inl e, t))"
  by (auto simp: act_bind_def split: prod.splits sum.splits)

lemma act_for_append: "act_for (xs @ ys) f s = act_seq (act_for xs f) (act_for ys f) s"
  by (induction xs arbitrary: s)
     (auto simp: act_seq_def act_bind_def act_return_def split: prod.splits sum.splits)

text \<open>An invariant of the state that every computation of a block keeps, normally or not.\<close>

definition act_keeps :: "('s \<Rightarrow> bool) \<Rightarrow> ('s, 'a) act \<Rightarrow> bool" where
  "act_keeps P m \<longleftrightarrow> (\<forall>s. P s \<longrightarrow> P (snd (m s)))"

lemma act_keepsI [intro]: "(\<And>s. P s \<Longrightarrow> P (snd (m s))) \<Longrightarrow> act_keeps P m"
  by (simp add: act_keeps_def)

lemma act_keepsD: "act_keeps P m \<Longrightarrow> P s \<Longrightarrow> m s = (r, t) \<Longrightarrow> P t"
  unfolding act_keeps_def by (metis snd_conv)

lemma act_keeps_pure [simp]:
  "act_keeps P (act_return x)" "act_keeps P (act_raise e)" "act_keeps P (act_lift r)"
  "act_keeps P (act_get g)"
  by (simp_all add: act_keeps_def act_defs)

lemma act_keeps_bind:
  "act_keeps P m \<Longrightarrow> (\<And>x. act_keeps P (f x)) \<Longrightarrow> act_keeps P (act_bind m f)"
  unfolding act_keeps_def act_bind_def by (auto split: prod.splits sum.splits)

lemma act_keeps_seq: "act_keeps P m \<Longrightarrow> act_keeps P n \<Longrightarrow> act_keeps P (act_seq m n)"
  unfolding act_seq_def by (rule act_keeps_bind)

lemma act_keeps_for: "(\<And>x. x \<in> set xs \<Longrightarrow> act_keeps P (f x)) \<Longrightarrow> act_keeps P (act_for xs f)"
  by (induction xs) (auto intro: act_keeps_seq)

lemma act_keeps_catch:
  "act_keeps P m \<Longrightarrow> (\<And>e. act_keeps P (h e)) \<Longrightarrow> act_keeps P (act_catch m h)"
  unfolding act_keeps_def act_catch_def by (auto split: prod.splits sum.splits)

section \<open>Files\<close>

type_synonym fs = "string \<Rightarrow> string option"

definition read_file :: "string \<Rightarrow> (fs, string) act" where
  "read_file p f = (case f p of None \<Rightarrow> (Inl (FileNotFoundError p), f) | Some t \<Rightarrow> (Inr t, f))"

definition write_file :: "string \<Rightarrow> string \<Rightarrow> (fs, unit) act" where
  "write_file p t f = (Inr (), f(p \<mapsto> t))"

lemma read_file_ok [simp]: "f p = Some t \<Longrightarrow> read_file p f = (Inr t, f)"
  by (simp add: read_file_def)

lemma write_file_ok [simp]: "write_file p t f = (Inr (), f(p \<mapsto> t))"
  by (simp add: write_file_def)

text \<open>Writing a list of files: later writes to other names leave a file as it is.\<close>

lemma act_for_write:
  "act_for ws (\<lambda>(p, t). write_file p t) f = (Inr (), f ++ map_of (rev ws))"
  by (induction ws arbitrary: f)
     (auto simp: act_seq_def act_bind_def act_return_def map_add_def fun_eq_iff split: option.splits)

text \<open>Python slices \<^verbatim>\<open>xs[s:e]\<close> with their clamping of the bounds.\<close>

definition slice_bound :: "nat \<Rightarrow> int \<Rightarrow> nat" where
  "slice_bound n k = (if k < 0 then nat (int n + k) else min n (nat k))"

definition py_slice :: "'a list \<Rightarrow> int \<Rightarrow> int \<Rightarrow> 'a list" where
  "py_slice xs s e =
     (let a = slice_bound (length xs) s; b = slice_bound (length xs) e in take (b - a) (drop a xs))"

lemma py_slice_nat:
  "py_slice xs (int a) (int b) = take (b - a) (drop a xs)"
  by (auto simp: py_slice_def slice_bound_def min_def)

text \<open>A loop every round of which adds one to a count.\<close>

lemma act_fold_count:
  assumes "\<And>b p s b' s'. step b p s = (Inr b', s') \<Longrightarrow> f b' = Suc (f b)"
  shows "act_fold step b ps s = (Inr b', s') \<Longrightarrow> f b' = f b + length ps"
proof (induction ps arbitrary: b s)
  case Nil
  then show ?case by (simp add: act_return_iff)
next
  case (Cons p ps)
  then obtain c t where c: "step b p s = (Inr c, t)" "act_fold step c ps t = (Inr b', s')"
    by (auto simp: act_bind_Inr_iff)
  with Cons.IH[OF c(2)] assms[OF c(1)] show ?case by simp
qed

text \<open>A loop whose rounds establish something about their element and keep it afterwards.\<close>

lemma act_fold_all:
  assumes "\<And>b p s b' s'. step b p s = (Inr b', s') \<Longrightarrow> Q p b'"
    and "\<And>b p s b' s' q. step b p s = (Inr b', s') \<Longrightarrow> Q q b \<Longrightarrow> Q q b'"
  shows "act_fold step b ps s = (Inr b', s') \<Longrightarrow> (\<forall>p \<in> set ps. Q p b') \<and> (\<forall>q. Q q b \<longrightarrow> Q q b')"
proof (induction ps arbitrary: b s)
  case Nil
  then show ?case by (simp add: act_return_iff)
next
  case (Cons p ps)
  then obtain c t where c: "step b p s = (Inr c, t)" "act_fold step c ps t = (Inr b', s')"
    by (auto simp: act_bind_Inr_iff)
  with Cons.IH[OF c(2)] assms(1)[OF c(1)] assms(2)[OF c(1)] show ?case by auto
qed

lemma act_fold_keeps:
  assumes "\<And>b p s b' s'. step b p s = (Inr b', s') \<Longrightarrow> Q b \<Longrightarrow> Q b'"
  shows "act_fold step b ps s = (Inr b', s') \<Longrightarrow> Q b \<Longrightarrow> Q b'"
proof (induction ps arbitrary: b s)
  case (Cons p ps)
  then show ?case using assms by (auto simp: act_bind_Inr_iff)
qed (simp add: act_return_iff)

lemma act_fold_each:
  assumes "act_fold step b ps s = (Inr b', s')"
    and "\<And>b p s b' s'. step b p s = (Inr b', s') \<Longrightarrow> Q p b'"
    and "\<And>b p s b' s' q. step b p s = (Inr b', s') \<Longrightarrow> Q q b \<Longrightarrow> Q q b'"
  shows "\<forall>p \<in> set ps. Q p b'"
  by (rule conjunct1[OF act_fold_all[of step Q, OF _ _ assms(1)]]) (fact assms(2,3))+

end
