(* ===== verification/Split_Workload.thy ===== *)
theory Split_Workload
  imports Py_State
begin

text \<open>
  \<^verbatim>\<open>ycsb/split_workload.py\<close>: the load and transaction traces of a YCSB workload are cut into
  one file per client thread.  Modelled: the command line, the split counts, the cutting of the
  line list and the files written.  Shown: the cuts are a partition of the trace in order, their
  sizes, and the file-level effect of a whole run.
\<close>

section \<open>Definitions\<close>

record split_args =
  workload :: string
  keyType :: string
  CNum :: int
  clientPerNode :: int
  loader_num :: int

definition parse_split_args :: "string list \<Rightarrow> split_args py" where
  "parse_split_args argv =
     (if length argv \<noteq> 5 \<and> length argv \<noteq> 6 then Inl (SystemExit 0)
      else
        py_bind (py_int (argv ! 3)) (\<lambda>c.
        py_bind (py_int (argv ! 4)) (\<lambda>k.
        py_bind (py_int (if length argv = 5 then ''8'' else argv ! 5)) (\<lambda>l.
          Inr \<lparr>workload = argv ! 1, keyType = argv ! 2, CNum = c, clientPerNode = k,
               loader_num = l\<rparr>))))"

definition splitNums :: "split_args \<Rightarrow> (string \<times> int) list" where
  "splitNums a = [(''load'', CNum a * min (clientPerNode a) (loader_num a)),
                  (''txn'', CNum a * clientPerNode a)]"

definition split_part :: "string list \<Rightarrow> int \<Rightarrow> int \<Rightarrow> int \<Rightarrow> string list" where
  "split_part lines splitNum splitSize i =
     (let s = i * splitSize;
          e = (if i = splitNum - 1 then int (length lines) else (i + 1) * splitSize)
      in py_slice lines s e)"

definition split_lines :: "string list \<Rightarrow> int \<Rightarrow> string list list py" where
  "split_lines lines splitNum =
     (if splitNum = 0 then Inl ZeroDivisionError
      else let splitSize = int (length lines) div splitNum
           in Inr (map (split_part lines splitNum splitSize) [0..splitNum - 1]))"

definition split_fname :: "string \<Rightarrow> split_args \<Rightarrow> string \<Rightarrow> string" where
  "split_fname dir a op =
     dir @ ''/workloads/'' @ op @ ''_'' @ keyType a @ ''_workload'' @ workload a"

definition split_op :: "string \<Rightarrow> split_args \<Rightarrow> string \<times> int \<Rightarrow> (fs, unit) act" where
  "split_op dir a = (\<lambda>(op, splitNum).
     let fname = split_fname dir a op in
     act_bind (read_file fname) (\<lambda>text.
     act_bind (act_lift (split_lines (readlines text) splitNum)) (\<lambda>parts.
       act_for (map (\<lambda>(i, slines). (fname @ show_nat i, concat slines)) (enumerate 0 parts))
         (\<lambda>(p, t). write_file p t))))"

definition split_main :: "string \<Rightarrow> string list \<Rightarrow> (fs, unit) act" where
  "split_main dir argv =
     act_bind (act_lift (parse_split_args argv)) (\<lambda>a. act_for (splitNums a) (split_op dir a))"

section \<open>The cuts\<close>

lemma concat_chunks:
  "concat (map (\<lambda>i. take k (drop (i * k) xs)) [0..<m]) = take (m * k) xs"
proof (induction m)
  case (Suc m)
  have "take (m * k) xs @ take k (drop (m * k) xs) = take (m * k + k) xs"
    by (simp add: take_add)
  with Suc show ?case by (simp add: algebra_simps)
qed simp

lemma upto_nat: "[0..int m - 1] = map int [0..<m]"
proof (induction m)
  case (Suc m)
  then show ?case using upto_rec2[of 0 "int m"] by simp
qed simp

lemma split_part_nat:
  assumes "i < Suc m"
  shows "split_part xs (int (Suc m)) (int k) (int i) =
    (if i = m then drop (m * k) xs else take k (drop (i * k) xs))"
proof (cases "i = m")
  case True
  have "split_part xs (int (Suc m)) (int k) (int i) = py_slice xs (int (m * k)) (int (length xs))"
    using True by (simp add: split_part_def)
  also have "\<dots> = drop (m * k) xs" unfolding py_slice_nat by simp
  finally show ?thesis using True by simp
next
  case False
  have "split_part xs (int (Suc m)) (int k) (int i) = py_slice xs (int (i * k)) (int ((i + 1) * k))"
    using False by (simp add: split_part_def algebra_simps)
  also have "\<dots> = take k (drop (i * k) xs)" unfolding py_slice_nat by (simp add: algebra_simps)
  finally show ?thesis using False by simp
qed

lemma split_lines_Suc:
  "split_lines xs (int (Suc m)) =
     Inr (map (\<lambda>i. take (length xs div Suc m) (drop (i * (length xs div Suc m)) xs)) [0..<m]
          @ [drop (m * (length xs div Suc m)) xs])"
proof -
  let ?k = "length xs div Suc m"
  have "int (length xs) div int (Suc m) = int ?k" by (simp only: zdiv_int)
  then have "split_lines xs (int (Suc m)) =
      Inr (map (split_part xs (int (Suc m)) (int ?k)) [0..int (Suc m) - 1])"
    unfolding split_lines_def Let_def by (simp del: of_nat_Suc)
  also have "\<dots> = Inr (map (\<lambda>i. split_part xs (int (Suc m)) (int ?k) (int i)) [0..<Suc m])"
    unfolding upto_nat by (simp add: comp_def del: upt_Suc of_nat_Suc)
  also have "\<dots> = Inr (map (\<lambda>i. if i = m then drop (m * ?k) xs else take ?k (drop (i * ?k) xs)) [0..<Suc m])"
    by (simp add: split_part_nat del: upt_Suc of_nat_Suc cong: map_cong)
  also have "\<dots> = Inr (map (\<lambda>i. take ?k (drop (i * ?k) xs)) [0..<m] @ [drop (m * ?k) xs])"
    by simp
  finally show ?thesis .
qed

lemma split_lines_concat:
  assumes "0 < n" and "split_lines xs n = Inr parts"
  shows "concat parts = xs" and "int (length parts) = n"
proof -
  from assms(1) obtain m where n: "n = int (Suc m)" by (metis pos_int_cases Suc_pred)
  with assms(2) show "concat parts = xs" and "int (length parts) = n"
    by (auto simp: split_lines_Suc concat_chunks simp del: of_nat_Suc)
qed

lemma split_lines_sizes:
  assumes "split_lines xs (int (Suc m)) = Inr parts" and "i < Suc m"
  shows "length (parts ! i) =
    (if i < m then length xs div Suc m else length xs div Suc m + length xs mod Suc m)"
proof -
  let ?k = "length xs div Suc m"
  have p: "parts = map (\<lambda>i. take ?k (drop (i * ?k) xs)) [0..<m] @ [drop (m * ?k) xs]"
    using assms(1) unfolding split_lines_Suc by simp
  have tot: "Suc m * ?k + length xs mod Suc m = length xs" by (rule mult_div_mod_eq)
  show ?thesis
  proof (cases "i < m")
    case True
    then have "Suc i * ?k \<le> Suc m * ?k" by (intro mult_le_mono1) simp
    with tot have "i * ?k + ?k \<le> length xs" unfolding mult_Suc by linarith
    with True p show ?thesis by (simp add: nth_append)
  next
    case False
    with assms(2) have "i = m" by simp
    with p tot show ?thesis by (simp add: nth_append)
  qed
qed

section \<open>The files\<close>

definition split_writes :: "string \<Rightarrow> string list list \<Rightarrow> (string \<times> string) list" where
  "split_writes fname parts = map (\<lambda>(i, sl). (fname @ show_nat i, concat sl)) (enumerate 0 parts)"

lemma split_writes_set:
  "(p, t) \<in> set (split_writes fname parts) \<longleftrightarrow>
     (\<exists>i < length parts. p = fname @ show_nat i \<and> t = concat (parts ! i))"
  by (force simp: split_writes_def in_set_enumerate_eq image_iff Bex_def)

lemma split_writes_distinct: "distinct (map fst (split_writes fname parts))"
proof -
  have "map fst (split_writes fname parts) = map (\<lambda>i. fname @ show_nat i) [0..<length parts]"
    by (rule nth_equalityI) (auto simp: split_writes_def nth_enumerate_eq)
  then show ?thesis by (simp add: distinct_map inj_on_def)
qed

lemma split_writes_lookup:
  "map_of (rev (split_writes fname parts)) p = Some t \<longleftrightarrow>
     (\<exists>i < length parts. p = fname @ show_nat i \<and> t = concat (parts ! i))"
proof -
  have "distinct (map fst (rev (split_writes fname parts)))"
    using split_writes_distinct by (simp flip: rev_map)
  then show ?thesis by (simp add: map_of_eq_Some_iff split_writes_set)
qed

lemma split_writes_other:
  "(\<And>i. p \<noteq> fname @ show_nat i) \<Longrightarrow> map_of (rev (split_writes fname parts)) p = None"
  by (metis not_None_eq split_writes_lookup)

lemma split_op_eq:
  assumes "f (split_fname dir a op) = Some text"
    and "split_lines (readlines text) n = Inr parts"
  shows "split_op dir a (op, n) f =
    (Inr (), f ++ map_of (rev (split_writes (split_fname dir a op) parts)))"
  using assms
  by (simp add: split_op_def Let_def act_bind_def act_lift_def act_for_write split_writes_def)

lemma split_fname_neq [simp]:
  "split_fname dir a ''load'' @ x \<noteq> split_fname dir a ''txn'' @ y"
  "split_fname dir a ''load'' \<noteq> split_fname dir a ''txn'' @ y"
  "split_fname dir a ''txn'' \<noteq> split_fname dir a ''load'' @ y"
  by (simp_all add: split_fname_def)

section \<open>Properties\<close>

text \<open>
  For a positive number of parts, splitting never fails, produces exactly that many
  parts, and concatenating the parts in order gives the trace back: no operation of the
  workload is lost, duplicated or reordered.
\<close>

theorem split_lines_partition:
  assumes "0 < splitNum"
  shows "\<exists>parts. split_lines lines splitNum = Inr parts \<and> concat parts = lines \<and>
           int (length parts) = splitNum"
proof -
  have "\<exists>parts. split_lines lines splitNum = Inr parts"
    using assms by (simp add: split_lines_def Let_def)
  then show ?thesis using split_lines_concat[OF assms] by blast
qed

theorem split_lines_partition_witness:
  "\<exists>parts. split_lines [''a'', ''b'', ''c''] 2 = Inr parts \<and> concat parts = [''a'', ''b'', ''c''] \<and>
     int (length parts) = 2"
  by (rule split_lines_partition) simp

text \<open>
  Every client but the last gets exactly \<^verbatim>\<open>lineNum // splitNum\<close> operations; the last one
  gets those plus the whole remainder, that is up to \<^verbatim>\<open>splitNum - 1\<close> more.
\<close>

theorem split_lines_balance:
  assumes "0 < splitNum" and "split_lines lines splitNum = Inr parts" and "i < length parts"
  shows "length (parts ! i) =
    (if Suc i < length parts then length lines div nat splitNum
     else length lines div nat splitNum + length lines mod nat splitNum)"
proof -
  from assms(1) obtain m where n: "splitNum = int (Suc m)" by (metis pos_int_cases Suc_pred)
  have "length parts = Suc m" using split_lines_concat(2)[OF assms(1,2)] n by simp
  moreover have "nat splitNum = Suc m" using n by simp
  ultimately show ?thesis using split_lines_sizes[of lines m parts i] assms(2,3) n by auto
qed

theorem split_lines_balance_witness:
  "length ([[''a''], [''b'', ''c'']] ! 1) =
     (if Suc 1 < length [[''a''], [''b'', ''c'']] then length [''a'', ''b'', ''c''] div nat 2
      else length [''a'', ''b'', ''c''] div nat 2 + length [''a'', ''b'', ''c''] mod nat 2)"
proof (rule split_lines_balance)
  show "split_lines [''a'', ''b'', ''c''] 2 = Inr [[''a''], [''b'', ''c'']]"
    by code_simp
qed simp_all

text \<open>
  C30: A run with positive node, client and loader counts and both traces present succeeds: it
  leaves the two traces untouched, and for each of them the numbered files hold the parts in
  order, so that reading the parts back to back is the original text.  In particular the
  parts of the load trace never overwrite those of the transaction trace.
\<close>

theorem split_main_files:
  assumes "parse_split_args argv = Inr a"
    and "0 < CNum a" "0 < clientPerNode a" "0 < loader_num a"
    and "f (split_fname dir a ''load'') = Some lt" "f (split_fname dir a ''txn'') = Some xt"
  shows "\<exists>f' pl pt. split_main dir argv f = (Inr (), f') \<and>
      f' (split_fname dir a ''load'') = Some lt \<and> f' (split_fname dir a ''txn'') = Some xt \<and>
      int (length pl) = CNum a * min (clientPerNode a) (loader_num a) \<and>
      int (length pt) = CNum a * clientPerNode a \<and>
      (\<forall>i < length pl. f' (split_fname dir a ''load'' @ show_nat i) = Some (pl ! i)) \<and>
      (\<forall>i < length pt. f' (split_fname dir a ''txn'' @ show_nat i) = Some (pt ! i)) \<and>
      concat pl = lt \<and> concat pt = xt"
proof -
  let ?nl = "CNum a * min (clientPerNode a) (loader_num a)" and ?nt = "CNum a * clientPerNode a"
  let ?fl = "split_fname dir a ''load''" and ?ft = "split_fname dir a ''txn''"
  have "0 < ?nl" "0 < ?nt" using assms by simp_all
  from split_lines_partition[OF this(1), of "readlines lt"]
    split_lines_partition[OF this(2), of "readlines xt"]
  obtain ql qt where ql: "split_lines (readlines lt) ?nl = Inr ql" "concat ql = readlines lt"
      "int (length ql) = ?nl"
    and qt: "split_lines (readlines xt) ?nt = Inr qt" "concat qt = readlines xt"
      "int (length qt) = ?nt" by blast
  define f1 where "f1 = f ++ map_of (rev (split_writes ?fl ql))"
  define f2 where "f2 = f1 ++ map_of (rev (split_writes ?ft qt))"
  have "f1 ?ft = Some xt"
    using assms(6) by (simp add: f1_def map_add_def split_writes_other)
  then have run: "split_main dir argv f = (Inr (), f2)"
    using assms(1,5) ql(1) qt(1)
    by (simp add: split_main_def act_bind_def act_lift_def act_seq_def act_return_def
        splitNums_def split_op_eq f1_def f2_def)
  have load: "f2 (?fl @ show_nat i) = Some (map concat ql ! i)" if "i < length ql" for i
    using that split_writes_lookup[of ?fl ql "?fl @ show_nat i" "concat (ql ! i)"]
    by (auto simp: f2_def f1_def map_add_def split_writes_other)
  have txn: "f2 (?ft @ show_nat i) = Some (map concat qt ! i)" if "i < length qt" for i
    using that split_writes_lookup[of ?ft qt "?ft @ show_nat i" "concat (qt ! i)"]
    by (auto simp: f2_def map_add_def)
  have keep: "f2 ?fl = Some lt" "f2 ?ft = Some xt"
    using assms(5,6) by (simp_all add: f2_def f1_def map_add_def split_writes_other)
  have "concat (map concat ql) = lt" "concat (map concat qt) = xt"
    using ql(2) qt(2) by (simp_all add: concat_map_concat)
  then show ?thesis
    using run load txn keep ql(3) qt(3) by (metis length_map)
qed

theorem split_main_files_witness:
  "\<exists>f' pl pt. split_main ''d'' [''s'', ''c'', ''randint'', ''1'', ''1'']
       [''d/workloads/load_randint_workloadc'' \<mapsto> ''INSERT 1'',
        ''d/workloads/txn_randint_workloadc'' \<mapsto> ''READ 1''] = (Inr (), f') \<and>
     f' ''d/workloads/load_randint_workloadc'' = Some ''INSERT 1'' \<and>
     f' ''d/workloads/txn_randint_workloadc'' = Some ''READ 1'' \<and>
     int (length pl) = 1 \<and> int (length pt) = 1 \<and>
     (\<forall>i < length pl. f' (''d/workloads/load_randint_workloadc'' @ show_nat i) = Some (pl ! i)) \<and>
     (\<forall>i < length pt. f' (''d/workloads/txn_randint_workloadc'' @ show_nat i) = Some (pt ! i)) \<and>
     concat pl = ''INSERT 1'' \<and> concat pt = ''READ 1''"
proof -
  let ?a = "\<lparr>workload = ''c'', keyType = ''randint'', CNum = 1, clientPerNode = 1, loader_num = 8\<rparr>"
  have "py_int ''1'' = Inr 1" "py_int ''8'' = Inr 8"
    by code_simp+
  then have p: "parse_split_args [''s'', ''c'', ''randint'', ''1'', ''1''] = Inr ?a"
    by (simp add: parse_split_args_def numeral_eq_Suc)
  show ?thesis
    using split_main_files[OF p, where dir = "''d''" and lt = "''INSERT 1''" and xt = "''READ 1''" and
        f = "[''d/workloads/load_randint_workloadc'' \<mapsto> ''INSERT 1'',
              ''d/workloads/txn_randint_workloadc'' \<mapsto> ''READ 1'']"]
    by (simp add: split_fname_def)
qed

end
