(* ===== verification/Gen_Workload.thy ===== *)
theory Gen_Workload
  imports Py_State
begin

text \<open>
  \<^verbatim>\<open>ycsb/gen_workload.py\<close>: YCSB is run for its load and transaction phases, its output is
  reduced to \<^verbatim>\<open>OP key\<close> lines, and the keys are then kept (\<^verbatim>\<open>randint\<close>), renumbered in insertion
  order (\<^verbatim>\<open>monoint\<close>) or replaced by e-mail addresses (\<^verbatim>\<open>email\<close>).  Modelled: the whole script,
  with the shell (\<^verbatim>\<open>os.system\<close>, which runs YCSB and \<^verbatim>\<open>rm\<close>) as a parameter.  Shown: renumbering
  is an injective renaming of the trace, the e-mail indices never collide and stay in range,
  and the blank-line behaviour of the two extraction loops.
\<close>

section \<open>Definitions\<close>

definition py_partition :: "char \<Rightarrow> string \<Rightarrow> string \<times> string \<times> string" where
  "py_partition c s =
     (takeWhile (\<lambda>x. x \<noteq> c) s, if c \<in> set s then [c] else [], tl (dropWhile (\<lambda>x. x \<noteq> c) s))"

definition reverseHostName :: "string \<Rightarrow> string" where
  "reverseHostName email =
     (let (name, sep, host) = py_partition (CHR ''@'') email;
          hostparts = split_on (CHR ''.'') (py_strip host);
          r_host = py_join ''.'' (rev hostparts)
      in py_strip (py_replace '' '' '''' (r_host @ sep @ name)))"

definition nl :: string where
  "nl = [CHR 0x0A]"

text \<open>The two extraction loops: the lines written for one line read.\<close>

definition extract_load :: "string \<Rightarrow> string list py" where
  "extract_load line =
     (let cols = split_ws line in
      if 0 < length cols \<and> cols ! 0 = ''INSERT''
      then py_bind (py_index cols 2) (\<lambda>c. Inr [cols ! 0 @ '' '' @ drop 4 c @ nl])
      else Inr [])"

definition extract_txn :: "string \<Rightarrow> string list py" where
  "extract_txn line =
     (let cols = split_ws line in
      py_bind (py_index cols 0) (\<lambda>op.
      if op = ''SCAN'' \<or> op = ''INSERT'' \<or> op = ''READ'' \<or> op = ''UPDATE''
      then
        py_bind (py_index cols 2) (\<lambda>c.
        let startkey = drop 4 c in
        if op = ''SCAN''
        then py_bind (py_index cols 3) (\<lambda>numkeys.
               Inr [op @ '' '' @ startkey @ '' '' @ numkeys @ nl])
        else Inr [op @ '' '' @ startkey @ nl])
      else Inr []))"

definition extract_all :: "(string \<Rightarrow> string list py) \<Rightarrow> string list \<Rightarrow> string list py" where
  "extract_all f lines = py_bind (py_mapM f lines) (\<lambda>oss. Inr (concat oss))"

text \<open>The \<^verbatim>\<open>monoint\<close> loops: key map, counter, lines written.\<close>

type_synonym 'v keymap = "int \<Rightarrow> 'v option"

definition keymap_get :: "'v keymap \<Rightarrow> int \<Rightarrow> 'v py" where
  "keymap_get m k = (case m k of None \<Rightarrow> Inl (KeyError (show_int k)) | Some v \<Rightarrow> Inr v)"

definition mono_load_step ::
  "nat keymap \<times> nat \<times> string list \<Rightarrow> string \<Rightarrow> (nat keymap \<times> nat \<times> string list) py" where
  "mono_load_step = (\<lambda>(keymap, count, out) line.
     let cols = split_ws line in
     py_bind (py_index cols 1) (\<lambda>c1. py_bind (py_int c1) (\<lambda>k.
     py_bind (py_index cols 0) (\<lambda>op.
       Inr (keymap(k \<mapsto> count), count + 1, out @ [op @ '' '' @ show_nat count @ nl])))))"

definition mono_txn_step ::
  "nat keymap \<times> nat \<times> string list \<Rightarrow> string \<Rightarrow> (nat keymap \<times> nat \<times> string list) py" where
  "mono_txn_step = (\<lambda>(keymap, count, out) line.
     let cols = split_ws line in
     py_bind (py_index cols 0) (\<lambda>op.
     if op = ''SCAN'' then
       py_bind (py_index cols 1) (\<lambda>c1. py_bind (py_int c1) (\<lambda>k. py_bind (keymap_get keymap k) (\<lambda>v.
       py_bind (py_index cols 2) (\<lambda>c2.
         Inr (keymap, count, out @ [op @ '' '' @ show_nat v @ '' '' @ c2 @ nl])))))
     else if op = ''INSERT'' then
       py_bind (py_index cols 1) (\<lambda>c1. py_bind (py_int c1) (\<lambda>k.
         Inr (keymap(k \<mapsto> count), count + 1, out @ [op @ '' '' @ show_nat count @ nl])))
     else
       py_bind (py_index cols 1) (\<lambda>c1. py_bind (py_int c1) (\<lambda>k. py_bind (keymap_get keymap k) (\<lambda>v.
         Inr (keymap, count, out @ [op @ '' '' @ show_nat v @ nl]))))))"

definition monoint :: "string list \<Rightarrow> string list \<Rightarrow> (string list \<times> string list) py" where
  "monoint load txn =
     py_bind (py_foldM mono_load_step (Map.empty, 0, []) load) (\<lambda>(keymap, count, load_out).
     py_bind (py_foldM mono_txn_step (keymap, count, []) txn) (\<lambda>(_, _, txn_out).
       Inr (load_out, txn_out)))"

text \<open>The \<^verbatim>\<open>email\<close> branch.\<close>

definition email_list_size :: int where
  "email_list_size = 125050709"

definition la_workload :: "string \<Rightarrow> bool" where
  "la_workload wl \<longleftrightarrow>
     wl \<in> set ([''workloadla''] @
       map (\<lambda>i. ''workload'' @ show_nat i @ ''-'') [0, 10, 20, 30, 40, 50, 60, 70, 80, 90, 100])"

definition email_gap :: "string \<Rightarrow> nat \<Rightarrow> int py" where
  "email_gap wl sample_size =
     (if sample_size = 0 then Inl ZeroDivisionError
      else let gap = email_list_size div int sample_size in
        if la_workload wl then Inr 1
        else py_bind (py_assert (gap \<ge> 2)) (\<lambda>_. Inr gap))"

definition load_email_idx :: "int \<Rightarrow> nat \<Rightarrow> int" where
  "load_email_idx gap count = int count * gap"

definition txn_email_idx :: "string \<Rightarrow> int \<Rightarrow> nat \<Rightarrow> int" where
  "txn_email_idx wl gap count = (if la_workload wl then int count else int count * gap + 1)"

definition email_at :: "string list \<Rightarrow> int \<Rightarrow> string py" where
  "email_at emails i = py_bind (py_index emails (nat i)) (\<lambda>e. Inr (reverseHostName e))"

definition email_load_step :: "string list \<Rightarrow> int \<Rightarrow>
  string keymap \<times> nat \<times> string list \<Rightarrow> string \<Rightarrow> (string keymap \<times> nat \<times> string list) py" where
  "email_load_step emails gap = (\<lambda>(keymap, count, out) line.
     let cols = split_ws line in
     py_bind (email_at emails (load_email_idx gap count)) (\<lambda>email.
     py_bind (py_index cols 1) (\<lambda>c1. py_bind (py_int c1) (\<lambda>k.
       py_bind (py_index cols 0) (\<lambda>op.
       Inr (keymap(k \<mapsto> email), count + 1, out @ [op @ '' '' @ email @ nl]))))))"

definition email_txn_step :: "string list \<Rightarrow> string \<Rightarrow> int \<Rightarrow>
  string keymap \<times> nat \<times> string list \<Rightarrow> string \<Rightarrow> (string keymap \<times> nat \<times> string list) py" where
  "email_txn_step emails wl gap = (\<lambda>(keymap, count, out) line.
     let cols = split_ws line in
     py_bind (py_index cols 0) (\<lambda>op.
     if op = ''SCAN'' then
       py_bind (py_index cols 1) (\<lambda>c1. py_bind (py_int c1) (\<lambda>k. py_bind (keymap_get keymap k) (\<lambda>v.
       py_bind (py_index cols 2) (\<lambda>c2.
         Inr (keymap, count, out @ [op @ '' '' @ v @ '' '' @ c2 @ nl])))))
     else if op = ''INSERT'' then
       py_bind (email_at emails (txn_email_idx wl gap count)) (\<lambda>email.
       py_bind (py_index cols 1) (\<lambda>c1. py_bind (py_int c1) (\<lambda>k.
         Inr (keymap(k \<mapsto> email), count + 1, out @ [op @ '' '' @ email @ nl]))))
     else
       py_bind (py_index cols 1) (\<lambda>c1. py_bind (py_int c1) (\<lambda>k. py_bind (keymap_get keymap k) (\<lambda>v.
         Inr (keymap, count, out @ [op @ '' '' @ v @ nl]))))))"

definition email_keys ::
  "string \<Rightarrow> string list \<Rightarrow> string list \<Rightarrow> string list \<Rightarrow> (string list \<times> string list) py" where
  "email_keys wl emails load txn =
     py_bind (email_gap wl (length load)) (\<lambda>gap.
     py_bind (py_foldM (email_load_step emails gap) (Map.empty, 0, []) load)
       (\<lambda>(keymap, count, load_out).
     py_bind (py_foldM (email_txn_step emails wl gap)
         (keymap, if la_workload wl then count else 0, []) txn) (\<lambda>(_, _, txn_out).
       Inr (load_out, txn_out))))"

text \<open>
  The script.  The shell is a parameter: it runs YCSB, whose output redirection creates the two
  raw traces, and removes the intermediate files.
\<close>

type_synonym shell = "string \<Rightarrow> fs \<Rightarrow> fs"

definition gen_main :: "shell \<Rightarrow> string list \<Rightarrow> (fs, unit) act" where
  "gen_main sh argv =
     (if length argv \<noteq> 4 then act_raise (SystemExit 0)
      else
       let wl = argv ! 1; key_type = argv ! 2; spec = argv ! 3 @ ''_workload_spec/'';
           out_ycsb_load = ''workloads/ycsb_load_'' @ key_type @ ''_'' @ wl;
           out_ycsb_txn = ''workloads/ycsb_txn_'' @ key_type @ ''_'' @ wl;
           out_load_ycsbkey = ''workloads/load_ycsbkey_'' @ wl;
           out_txn_ycsbkey = ''workloads/txn_ycsbkey_'' @ wl;
           out_load = ''workloads/load_'' @ key_type @ ''_'' @ wl;
           out_txn = ''workloads/txn_'' @ key_type @ ''_'' @ wl;
           put = (\<lambda>(l, t). act_seq (write_file out_load (concat l)) (write_file out_txn (concat t)))
       in
       act_seq (act_modify (sh (''YCSB/bin/ycsb load basic -P '' @ spec @ wl @ '' -s > '' @ out_ycsb_load)))
      (act_seq (act_modify (sh (''YCSB/bin/ycsb run basic -P '' @ spec @ wl @ '' -s > '' @ out_ycsb_txn)))
      (act_bind (read_file out_ycsb_load) (\<lambda>raw_load.
       act_bind (act_lift (extract_all extract_load (readlines raw_load))) (\<lambda>load.
       act_seq (write_file out_load_ycsbkey (concat load))
      (act_bind (read_file out_ycsb_txn) (\<lambda>raw_txn.
       act_bind (act_lift (extract_all extract_txn (readlines raw_txn))) (\<lambda>txn.
       act_seq (write_file out_txn_ycsbkey (concat txn))
      (act_seq (act_modify (sh (''rm -f '' @ out_ycsb_load)))
      (act_seq (act_modify (sh (''rm -f '' @ out_ycsb_txn)))
      (act_seq
        (if key_type = ''randint'' then
           act_bind (read_file out_load_ycsbkey) (\<lambda>l.
           act_bind (read_file out_txn_ycsbkey) (\<lambda>t. put (readlines l, readlines t)))
         else if key_type = ''monoint'' then
           act_bind (read_file out_load_ycsbkey) (\<lambda>l.
           act_bind (read_file out_txn_ycsbkey) (\<lambda>t.
           act_bind (act_lift (monoint (readlines l) (readlines t))) put))
         else if key_type = ''email'' then
           act_bind (read_file ''emails.txt'') (\<lambda>e.
           act_bind (read_file out_load_ycsbkey) (\<lambda>l.
           act_bind (read_file out_txn_ycsbkey) (\<lambda>t.
           act_bind (act_lift (email_keys wl (readlines e) (readlines l) (readlines t))) put)))
         else act_return ())
      (act_seq (act_modify (sh (''rm -f '' @ out_load_ycsbkey)))
               (act_modify (sh (''rm -f '' @ out_txn_ycsbkey)))))))))))))))"

section \<open>Words of a line\<close>

definition word :: "string \<Rightarrow> bool" where
  "word w \<longleftrightarrow> w \<noteq> [] \<and> (\<forall>c \<in> set w. \<not> py_space c)"

lemma split_ws_aux_word:
  "\<forall>c \<in> set w. \<not> py_space c \<Longrightarrow> split_ws_aux acc (w @ s) = split_ws_aux (rev w @ acc) s"
  by (induction w arbitrary: acc) auto

lemma split_ws_cons: "word w \<Longrightarrow> py_space c \<Longrightarrow> split_ws (w @ c # s) = w # split_ws s"
  by (auto simp: word_def split_ws_def split_ws_aux_word)

lemma split_ws_Nil [simp]: "split_ws [] = []"
  by (simp add: split_ws_def)

lemma split_ws_nil_iff: "split_ws s = [] \<longleftrightarrow> (\<forall>c \<in> set s. py_space c)"
proof -
  have "split_ws_aux acc s = [] \<longleftrightarrow> acc = [] \<and> (\<forall>c \<in> set s. py_space c)" for acc
    by (induction s arbitrary: acc) auto
  then show ?thesis by (simp add: split_ws_def)
qed

lemma word_show_nat [simp]: "word (show_nat n)"
  using show_nat_digits by (auto simp: word_def)

lemma word_show_int [simp]: "word (show_int i)"
proof -
  have "\<not> py_space (CHR ''-'')" by (simp add: py_space_def code_def)
  then show ?thesis using word_show_nat by (auto simp: show_int_def word_def)
qed

section \<open>Traces of operations\<close>

text \<open>
  What the extraction writes and the renumbering reads: operations on integer keys, the scan
  with its length as text.
\<close>

datatype 'k op = Insert 'k | Read 'k | Update 'k | Scan 'k string

primrec op_key :: "'k op \<Rightarrow> 'k" where
  "op_key (Insert k) = k"
| "op_key (Read k) = k"
| "op_key (Update k) = k"
| "op_key (Scan k n) = k"

primrec op_name :: "'k op \<Rightarrow> string" where
  "op_name (Insert k) = ''INSERT''"
| "op_name (Read k) = ''READ''"
| "op_name (Update k) = ''UPDATE''"
| "op_name (Scan k n) = ''SCAN''"

primrec is_insert :: "'k op \<Rightarrow> bool" where
  "is_insert (Insert k) = True"
| "is_insert (Read k) = False"
| "is_insert (Update k) = False"
| "is_insert (Scan k n) = False"

primrec op_wf :: "'k op \<Rightarrow> bool" where
  "op_wf (Insert k) = True"
| "op_wf (Read k) = True"
| "op_wf (Update k) = True"
| "op_wf (Scan k n) = word n"

definition render_op :: "int op \<Rightarrow> string" where
  "render_op p = op_name p @ '' '' @ show_int (op_key p) @
     (case p of Scan k n \<Rightarrow> '' '' @ n | _ \<Rightarrow> []) @ nl"

lemma split_ws_render:
  assumes "op_wf p"
  shows "split_ws (render_op p) =
    [op_name p, show_int (op_key p)] @ (case p of Scan k n \<Rightarrow> [n] | _ \<Rightarrow> [])"
proof -
  have n: "word (op_name p)" by (cases p) (auto simp: word_def py_space_def code_def)
  show ?thesis
  proof (cases p)
    case (Scan k m)
    with assms have "word m" by simp
    with Scan n show ?thesis
      using split_ws_cons[of "op_name p" "CHR '' ''" "show_int k @ '' '' @ m @ nl"]
        split_ws_cons[of "show_int k" "CHR '' ''" "m @ nl"] split_ws_cons[of m "CHR 0x0A" "[]"]
      by (simp add: render_op_def nl_def)
  qed (use n split_ws_cons[of "op_name p" "CHR '' ''" "show_int (op_key p) @ nl"]
         split_ws_cons[of "show_int (op_key p)" "CHR 0x0A" "[]"] in
       \<open>simp_all add: render_op_def nl_def\<close>)
qed

text \<open>The renumbering of a trace and the condition under which it is defined.\<close>

fun step_keys :: "nat keymap \<times> nat \<Rightarrow> int op \<Rightarrow> nat keymap \<times> nat" where
  "step_keys (m, c) p = (if is_insert p then (m(op_key p \<mapsto> c), c + 1) else (m, c))"

fun defined_ops :: "int set \<Rightarrow> int op list \<Rightarrow> bool" where
  "defined_ops K [] = True"
| "defined_ops K (p # ps) =
     (if is_insert p then op_key p \<notin> K \<and> defined_ops (insert (op_key p) K) ps
      else op_key p \<in> K \<and> defined_ops K ps)"

lemma show_int_nat [simp]: "show_int (int n) = show_nat n"
  by (simp add: show_int_def)

lemma render_op_int:
  "render_op (Insert (int c)) = ''INSERT'' @ '' '' @ show_nat c @ nl"
  "render_op (Read (int c)) = ''READ'' @ '' '' @ show_nat c @ nl"
  "render_op (Update (int c)) = ''UPDATE'' @ '' '' @ show_nat c @ nl"
  "render_op (Scan (int c) n) = ''SCAN'' @ '' '' @ show_nat c @ '' '' @ n @ nl"
  by (simp_all add: render_op_def)

lemma mono_txn_step_render:
  assumes "op_wf p" and "is_insert p \<or> op_key p \<in> dom m"
  shows "mono_txn_step (m, c, out) (render_op p) =
    (let (m', c') = step_keys (m, c) p in
     Inr (m', c', out @ [render_op (map_op (\<lambda>k. int (the (m' k))) p)]))"
  using assms
  by (cases p) (auto simp: mono_txn_step_def split_ws_render keymap_get_def render_op_int)

lemma mono_load_step_render:
  assumes "is_insert p"
  shows "mono_load_step (m, c, out) (render_op p) =
    (let (m', c') = step_keys (m, c) p in
     Inr (m', c', out @ [render_op (map_op (\<lambda>k. int (the (m' k))) p)]))"
  using assms by (cases p) (auto simp: mono_load_step_def split_ws_render render_op_int)

text \<open>
  Along a defined trace the key map only grows, stays injective and is dense in
  \<open>{0..<count}\<close>, so every line can be read with the final map.
\<close>

definition key_inv :: "nat keymap \<times> nat \<Rightarrow> bool" where
  "key_inv = (\<lambda>(m, c). inj_on m (dom m) \<and> ran m = {..<c})"

lemma key_inv_empty [simp]: "key_inv (Map.empty, 0)"
  by (simp add: key_inv_def)

lemma key_inv_step:
  assumes "key_inv (m, c)" and "is_insert p \<longrightarrow> op_key p \<notin> dom m"
  shows "key_inv (step_keys (m, c) p)"
proof (cases "is_insert p")
  case True
  with assms have fresh: "m (op_key p) = None" by auto
  have "m x \<noteq> Some c" for x
    using assms(1) ranI[of m x c] by (auto simp: key_inv_def)
  with assms(1) fresh have "inj_on (m(op_key p \<mapsto> c)) (insert (op_key p) (dom m))"
    by (auto simp: key_inv_def inj_on_def dom_def split: if_splits)
  moreover have "ran (m(op_key p \<mapsto> c)) = {..<Suc c}"
    using assms(1) ran_map_upd[of m "op_key p" c, OF fresh] by (simp add: key_inv_def lessThan_Suc)
  ultimately show ?thesis using True by (simp add: key_inv_def)
qed (use assms in simp)

definition renumber :: "nat keymap \<Rightarrow> int op \<Rightarrow> int op" where
  "renumber m p = map_op (\<lambda>k. int (the (m k))) p"

lemma op_key_set: "k \<in> set_op p \<longleftrightarrow> k = op_key p"
  by (cases p) auto

lemma renumber_cong: "m (op_key p) = m' (op_key p) \<Longrightarrow> renumber m p = renumber m' p"
  unfolding renumber_def by (rule op.map_cong0) (simp add: op_key_set)

lemma foldl_step_keys_mono:
  assumes "defined_ops (dom m) ps" and "foldl step_keys (m, c) ps = (m', c')"
  shows "m \<subseteq>\<^sub>m m' \<and> (\<forall>p \<in> set ps. op_key p \<in> dom m')"
  using assms
proof (induction ps arbitrary: m c)
  case (Cons p ps)
  obtain m1 c1 where s: "step_keys (m, c) p = (m1, c1)" by (cases "step_keys (m, c) p")
  have d: "defined_ops (dom m1) ps" using Cons.prems(1) s by (cases "is_insert p") auto
  have le: "m \<subseteq>\<^sub>m m1" "op_key p \<in> dom m1"
    using Cons.prems(1) s by (auto simp: map_le_def split: if_splits)
  from Cons.IH[OF d] Cons.prems(2) s have "m1 \<subseteq>\<^sub>m m'" "\<forall>q \<in> set ps. op_key q \<in> dom m'" by auto
  with le show ?case by (auto intro: map_le_trans dest: map_le_implies_dom_le)
qed (auto simp: map_le_def)

lemma foldl_step_keys_inv:
  assumes "defined_ops (dom m) ps" and "key_inv (m, c)"
  shows "key_inv (foldl step_keys (m, c) ps)"
  using assms
proof (induction ps arbitrary: m c)
  case (Cons p ps)
  obtain m1 c1 where s: "step_keys (m, c) p = (m1, c1)" by (cases "step_keys (m, c) p")
  have "defined_ops (dom m1) ps" using Cons.prems(1) s by (cases "is_insert p") auto
  moreover have "key_inv (m1, c1)"
    using key_inv_step[OF Cons.prems(2), of p] Cons.prems(1) s by (auto split: if_splits)
  ultimately show ?case using Cons.IH s by simp
qed simp

text \<open>A loop that renumbers each operation with the map after it renumbers with the final map.\<close>

lemma mono_loop:
  assumes "defined_ops (dom m) ps"
    and step: "\<And>m c out p. p \<in> set ps \<Longrightarrow> is_insert p \<or> op_key p \<in> dom m \<Longrightarrow>
      f (m, c, out) (render_op p) =
        (let (m', c') = step_keys (m, c) p in Inr (m', c', out @ [render_op (renumber m' p)]))"
    and "foldl step_keys (m, c) ps = (m', c')"
  shows "py_foldM f (m, c, out) (map render_op ps) =
    Inr (m', c', out @ map (render_op \<circ> renumber m') ps)"
  using assms
proof (induction ps arbitrary: m c out)
  case (Cons p ps)
  obtain m1 c1 where s: "step_keys (m, c) p = (m1, c1)" by (cases "step_keys (m, c) p")
  have d: "defined_ops (dom m1) ps" using Cons.prems(1) s by (cases "is_insert p") auto
  have k: "op_key p \<in> dom m1" "is_insert p \<or> op_key p \<in> dom m"
    using Cons.prems(1) s by (auto split: if_splits)
  have r: "foldl step_keys (m1, c1) ps = (m', c')" using Cons.prems(3) s by simp
  have "m1 (op_key p) = m' (op_key p)"
    using foldl_step_keys_mono[OF d r] k(1) by (simp add: map_le_def)
  then have e: "renumber m1 p = renumber m' p" by (rule renumber_cong)
  have "py_foldM f (m1, c1, out @ [render_op (renumber m' p)]) (map render_op ps) =
      Inr (m', c', (out @ [render_op (renumber m' p)]) @ map (render_op \<circ> renumber m') ps)"
    by (rule Cons.IH[OF d _ r]) (use Cons.prems(2) in simp)
  then show ?case using Cons.prems(2)[of p m c out] k(2) s e by simp
qed simp

lemma dom_foldl_step_keys:
  "dom (fst (foldl step_keys (m, c) ps)) = dom m \<union> op_key ` set (filter is_insert ps)"
  by (induction ps arbitrary: m c) auto

lemma defined_ops_append:
  "defined_ops K (ps @ qs) \<longleftrightarrow>
     defined_ops K ps \<and> defined_ops (K \<union> op_key ` set (filter is_insert ps)) qs"
  by (induction ps arbitrary: K) simp_all

lemma load_numbers:
  assumes "\<forall>p \<in> set ps. is_insert p" and "defined_ops (dom m) ps"
    and "foldl step_keys (m, c) ps = (m', c')"
  shows "map (\<lambda>p. m' (op_key p)) ps = map Some [c..<c + length ps]"
  using assms
proof (induction ps arbitrary: m c)
  case (Cons p ps)
  then have d: "defined_ops (dom (m(op_key p \<mapsto> c))) ps"
    and r: "foldl step_keys (m(op_key p \<mapsto> c), Suc c) ps = (m', c')" by auto
  have "m' (op_key p) = Some c"
    using foldl_step_keys_mono[OF d r] by (auto simp: map_le_def)
  moreover have "map (\<lambda>p. m' (op_key p)) ps = map Some [Suc c..<Suc c + length ps]"
    by (rule Cons.IH[OF _ d r]) (use Cons.prems(1) in simp)
  ultimately show ?case by (simp add: upt_conv_Cons del: upt_Suc)
qed simp

lemma mono_load_loop:
  assumes "\<forall>p \<in> set ps. is_insert p" and "defined_ops {} ps"
    and "foldl step_keys (Map.empty, 0) ps = (m', c')"
  shows "py_foldM mono_load_step (Map.empty, 0, []) (map render_op ps) =
    Inr (m', c', map (render_op \<circ> renumber m') ps)"
  using mono_loop[of Map.empty ps mono_load_step 0 m' c' "[]"] assms
  by (auto simp: mono_load_step_render renumber_def)

lemma mono_txn_loop:
  assumes "\<forall>p \<in> set ps. op_wf p" and "defined_ops (dom m) ps"
    and "foldl step_keys (m, c) ps = (m', c')"
  shows "py_foldM mono_txn_step (m, c, []) (map render_op ps) =
    Inr (m', c', map (render_op \<circ> renumber m') ps)"
  using mono_loop[of m ps mono_txn_step c m' c' "[]"] assms
  by (auto simp: mono_txn_step_render renumber_def)

section \<open>Properties\<close>

text \<open>
  C1: On a trace whose load phase only inserts, in which no key is inserted twice and every
  other operation touches a key inserted before, \<^verbatim>\<open>monoint\<close> succeeds and its output is the input
  under one injective renaming of the keys; the loaded keys become 0, 1, 2, ... in load order.
  So the renumbered workload has exactly the access pattern of the original one.
\<close>

theorem monoint_renaming:
  assumes "\<forall>p \<in> set load. is_insert p" and "\<forall>p \<in> set txn. op_wf p"
    and "defined_ops {} (load @ txn)"
  shows "\<exists>\<rho>. inj_on \<rho> (op_key ` set (load @ txn)) \<and>
      map (\<lambda>p. \<rho> (op_key p)) load = map int [0..<length load] \<and>
      monoint (map render_op load) (map render_op txn) =
        Inr (map (render_op \<circ> map_op \<rho>) load, map (render_op \<circ> map_op \<rho>) txn)"
proof -
  obtain m c where l: "foldl step_keys (Map.empty, 0) load = (m, c)" by fastforce
  obtain m' c' where t: "foldl step_keys (m, c) txn = (m', c')" by fastforce
  have dl: "defined_ops (dom Map.empty) load" and dt: "defined_ops (dom m) txn"
    using assms(3) dom_foldl_step_keys[of Map.empty 0 load] l by (auto simp: defined_ops_append)
  have le: "m \<subseteq>\<^sub>m m'" and keys: "op_key ` set (load @ txn) \<subseteq> dom m'"
    using foldl_step_keys_mono[OF dt t] foldl_step_keys_mono[OF dl l]
      map_le_implies_dom_le[of m m'] by auto
  have inv: "inj_on m' (dom m')"
    using foldl_step_keys_inv[OF _ key_inv_empty, of "load @ txn"] assms(3) l t
    by (simp add: key_inv_def)
  define \<rho> where "\<rho> = (\<lambda>k. int (the (m' k)))"
  have "inj_on \<rho> (op_key ` set (load @ txn))"
    using inv keys unfolding \<rho>_def inj_on_def by (metis domIff of_nat_eq_iff option.expand subsetD)
  moreover have same: "m (op_key p) = m' (op_key p)" if "p \<in> set load" for p
    using le that foldl_step_keys_mono[OF dl l] by (simp add: map_le_def)
  then have "renumber m p = map_op \<rho> p" if "p \<in> set load" for p
    using renumber_cong[of m p m'] that by (simp add: renumber_def \<rho>_def)
  then have "map (render_op \<circ> renumber m) load = map (render_op \<circ> map_op \<rho>) load" by simp
  then have "monoint (map render_op load) (map render_op txn) =
      Inr (map (render_op \<circ> map_op \<rho>) load, map (render_op \<circ> map_op \<rho>) txn)"
    using mono_load_loop[OF assms(1) _ l] mono_txn_loop[OF assms(2) dt t] dl
    by (simp add: monoint_def renumber_def \<rho>_def comp_def)
  moreover have nums: "map (\<lambda>p. m' (op_key p)) load = map Some [0..<length load]"
    using load_numbers[OF assms(1) dl l] same by (simp cong: map_cong)
  have "map (\<lambda>p. \<rho> (op_key p)) load = map (\<lambda>v. int (the v)) (map (\<lambda>p. m' (op_key p)) load)"
    by (simp add: \<rho>_def)
  then have "map (\<lambda>p. \<rho> (op_key p)) load = map int [0..<length load]"
    unfolding nums by simp
  ultimately show ?thesis by blast
qed

theorem monoint_renaming_witness:
  "\<exists>\<rho> :: int \<Rightarrow> int. inj_on \<rho> (op_key ` set ([Insert 90, Insert 7] @ [Read 7, Insert 55, Scan 55 ''3''])) \<and>
      map (\<lambda>p. \<rho> (op_key p)) [Insert 90, Insert 7] = map int [0..<length [Insert (90 :: int), Insert 7]] \<and>
      monoint (map render_op [Insert 90, Insert 7]) (map render_op [Read 7, Insert 55, Scan 55 ''3'']) =
        Inr (map (render_op \<circ> map_op \<rho>) [Insert 90, Insert 7],
             map (render_op \<circ> map_op \<rho>) [Read 7, Insert 55, Scan 55 ''3''])"
  by (rule monoint_renaming) (simp_all add: word_def py_space_def code_def)

text \<open>
  The indices into the e-mail list.  For an ordinary workload the addresses given to the
  loaded keys and to at most as many later inserts are pairwise different positions inside a
  list of the configured size; for a load-only workload load and inserts use consecutive
  positions.
\<close>

theorem email_indices_disjoint:
  assumes "email_gap wl n = Inr gap"
  shows "if la_workload wl
    then map (load_email_idx gap) [0..<n] @ map (txn_email_idx wl gap) [n..<n + m] = map int [0..<n + m]
    else distinct (map (load_email_idx gap) [0..<n] @ map (txn_email_idx wl gap) [0..<n]) \<and>
      (\<forall>x \<in> set (map (load_email_idx gap) [0..<n] @ map (txn_email_idx wl gap) [0..<n]).
         0 \<le> x \<and> x < email_list_size)"
proof (cases "la_workload wl")
  case True
  then have "gap = 1" using assms by (auto simp: email_gap_def Let_def split: if_splits)
  with True show ?thesis
    by (simp add: load_email_idx_def txn_email_idx_def upt_add_eq_append[of 0 n m])
next
  case False
  with assms have n: "0 < n" and g: "gap = email_list_size div int n" "2 \<le> gap"
    by (auto simp: email_gap_def Let_def py_assert_def split: if_splits)
  have tot: "int n * gap \<le> email_list_size"
    unfolding g(1) using mult_div_mod_eq[of "int n" email_list_size]
      pos_mod_sign[of "int n" email_list_size] n by linarith
  have bound: "int i * gap + 1 < email_list_size" if "i < n" for i
  proof -
    have "int (Suc i) * gap \<le> int n * gap" using that g(2) by (intro mult_right_mono) auto
    with tot g(2) show ?thesis by (simp add: algebra_simps)
  qed
  have apart: "int i * gap \<noteq> int j * gap + 1" for i j
  proof
    assume a: "int i * gap = int j * gap + 1"
    then have "(int i - int j) * gap = 1" by (simp add: algebra_simps)
    then have "gap dvd 1" by (metis dvd_triv_right)
    with g(2) show False by simp
  qed
  have bound0: "int i * gap < email_list_size" if "i < n" for i
    using bound[OF that] by simp
  have "distinct (map (load_email_idx gap) [0..<n] @ map (txn_email_idx wl gap) [0..<n])"
    using False g(2) apart
    by (auto simp: load_email_idx_def txn_email_idx_def distinct_map inj_on_def)
  moreover have "\<forall>x \<in> set (map (load_email_idx gap) [0..<n] @ map (txn_email_idx wl gap) [0..<n]).
      0 \<le> x \<and> x < email_list_size"
    using False g(2) bound bound0 by (auto simp: load_email_idx_def txn_email_idx_def)
  ultimately show ?thesis using False by simp
qed

theorem email_indices_disjoint_witness:
  "if la_workload ''workloada''
    then map (load_email_idx 62525354) [0..<2] @ map (txn_email_idx ''workloada'' 62525354) [2..<2 + 0]
         = map int [0..<2 + 0]
    else distinct (map (load_email_idx 62525354) [0..<2] @ map (txn_email_idx ''workloada'' 62525354) [0..<2]) \<and>
      (\<forall>x \<in> set (map (load_email_idx 62525354) [0..<2] @ map (txn_email_idx ''workloada'' 62525354) [0..<2]).
         0 \<le> x \<and> x < email_list_size)"
proof (rule email_indices_disjoint)
  show "email_gap ''workloada'' 2 = Inr 62525354" by code_simp
qed

text \<open>
  A blank line in the YCSB output.  The load loop skips it; the transaction loop, which
  lacks the length guard, stops with an \<^verbatim>\<open>IndexError\<close> at the first one it meets.
\<close>

theorem extract_blank_line:
  assumes "\<forall>c \<in> set l. py_space c" and "py_mapM extract_txn pre = Inr outs"
  shows "extract_all extract_txn (pre @ l # post) = Inl IndexError \<and>
    extract_all extract_load (pre @ l # post) = extract_all extract_load (pre @ post)"
proof (intro conjI)
  have ws: "split_ws l = []" using assms(1) by (simp add: split_ws_nil_iff)
  have app: "py_mapM f (xs @ ys) =
      py_bind (py_mapM f xs) (\<lambda>a. py_bind (py_mapM f ys) (\<lambda>b. Inr (a @ b)))"
    for f :: "string \<Rightarrow> string list py" and xs ys
    by (induction xs) (auto simp: py_bind_def split: sum.splits)
  show "extract_all extract_txn (pre @ l # post) = Inl IndexError"
    using assms(2) ws by (simp add: extract_all_def app extract_txn_def)
  show "extract_all extract_load (pre @ l # post) = extract_all extract_load (pre @ post)"
    using ws by (auto simp: extract_all_def app extract_load_def py_bind_def split: sum.splits)
qed

theorem extract_blank_line_witness:
  "extract_all extract_txn ([''READ usertable user42''] @ nl # []) = Inl IndexError \<and>
   extract_all extract_load ([''READ usertable user42''] @ nl # []) =
     extract_all extract_load ([''READ usertable user42''] @ [])"
proof -
  have b: "\<forall>c \<in> set nl. py_space c" by (simp add: nl_def)
  have p: "py_mapM extract_txn [''READ usertable user42''] = Inr [[''READ 42'' @ nl]]" by code_simp
  show ?thesis using extract_blank_line[OF b p, of "[]"] by simp
qed

end
