(* ===== verification/Run_Harness.thy ===== *)
theory Run_Harness
  imports Py_State
begin

text \<open>
  \<^verbatim>\<open>exp/run_harness.py\<close>: one benchmark run with its debug artefacts.  The child process is an
  input: what each \<^verbatim>\<open>communicate\<close> call gives (\<open>None\<close> when it exceeds its time limit), the exit code
  and the files it leaves.  So is what the harness asks of the host.  Paths are joined with a
  slash; directories are not represented.  Shown: the verdict files agree with the exit code and
  the error output, the newest core file of the run is the one kept, the snapshot holds what
  it should; and a run cut off by the time limit can still be filed as a success.
\<close>

section \<open>Definitions\<close>

definition pjoin :: "string \<Rightarrow> string \<Rightarrow> string" where
  "pjoin d n = d @ CHR ''/'' # n"

record host =
  git_head :: string
  nr_hugepages :: "string option"
  memcached :: "string option"
  nodename :: string
  uname :: "string list"
  cwd_cores :: "(string \<times> rat) list"
  tmp_cores :: "(string \<times> rat) list"
  utc_stamp :: string
  started_at :: rat

record child =
  comm1 :: "(string \<times> string) option"
  comm2 :: "(string \<times> string) option"
  comm3 :: "string \<times> string"
  returncode :: int
  child_files :: "(string \<times> string) list"

text \<open>\<^verbatim>\<open>if p.exists(): shutil.copy(p, q)\<close>.\<close>

definition copy_if_exists :: "string \<Rightarrow> string \<Rightarrow> (fs, unit) act" where
  "copy_if_exists p q f = (case f p of None \<Rightarrow> (Inr (), f) | Some t \<Rightarrow> write_file q t f)"

definition host_lines :: "host \<Rightarrow> string list" where
  "host_lines h =
     [''nr_hugepages='' @ (case nr_hugepages h of Some hp \<Rightarrow> py_strip hp | None \<Rightarrow> ''unavailable''),
      ''memcached='' @ (case memcached h of
         Some out \<Rightarrow> if py_strip out = [] then ''not running'' else py_strip out
       | None \<Rightarrow> ''check-failed''),
      ''hostname='' @ nodename h,
      ''uname='' @ py_join '' '' (uname h)]"

definition capture_snapshot :: "host \<Rightarrow> string \<Rightarrow> string \<Rightarrow> string \<Rightarrow> (fs, unit) act" where
  "capture_snapshot h debug_dir build_dir source_dir =
     act_seq (write_file (pjoin debug_dir ''commit.txt'') (py_strip (git_head h) @ [CHR 0x0A]))
    (act_seq (copy_if_exists (pjoin build_dir ''CMakeCache.txt'') (pjoin debug_dir ''CMakeCache.txt''))
    (act_seq (copy_if_exists (pjoin (pjoin source_dir ''include'') ''Common.h'') (pjoin debug_dir ''Common.h''))
     (write_file (pjoin debug_dir ''host.txt'') (py_join [CHR 0x0A] (host_lines h) @ [CHR 0x0A]))))"

text \<open>\<^verbatim>\<open>max(candidates, key=mtime)\<close>: the first of the newest.\<close>

fun newest :: "string \<times> rat \<Rightarrow> (string \<times> rat) list \<Rightarrow> string \<times> rat" where
  "newest best [] = best"
| "newest best (p # ps) = newest (if snd best < snd p then p else best) ps"

definition find_core_dump :: "host \<Rightarrow> rat \<Rightarrow> string option" where
  "find_core_dump h started =
     (case filter (\<lambda>p. snd p \<ge> started - 1) (cwd_cores h @ tmp_cores h) of
        [] \<Rightarrow> None
      | p # ps \<Rightarrow> Some (fst (newest p ps)))"

text \<open>The three-stage wait for the child: its output, with a note if the limit was exceeded.\<close>

definition communicate :: "child \<Rightarrow> string option \<Rightarrow> string \<times> string" where
  "communicate ch timeout =
     (case comm1 ch of
        Some out \<Rightarrow> out
      | None \<Rightarrow>
          (let (stdout, stderr) = (case comm2 ch of Some out \<Rightarrow> out | None \<Rightarrow> comm3 ch) in
           (stdout, stderr @ [CHR 0x0A] @ ''[harness] TIMEOUT after '' @
              (case timeout of None \<Rightarrow> ''None'' | Some t \<Rightarrow> t) @ ''s'' @ [CHR 0x0A])))"

definition run_failed :: "int \<Rightarrow> string \<Rightarrow> bool" where
  "run_failed exit_code stderr \<longleftrightarrow>
     exit_code \<noteq> 0 \<or> py_in ''Segmentation fault'' stderr \<or> py_in ''Assertion'' stderr \<or>
     py_in ''Aborted'' stderr"

definition copy_file :: "string \<Rightarrow> string \<Rightarrow> (fs, unit) act" where
  "copy_file p q = act_bind (read_file p) (write_file q)"

definition run_with_capture ::
  "host \<Rightarrow> child \<Rightarrow> string list \<Rightarrow> string \<Rightarrow> string \<Rightarrow> string \<Rightarrow> string \<Rightarrow> string option \<Rightarrow> (fs, int) act" where
  "run_with_capture h ch cmd workload build_dir source_dir debug_root timeout =
     (let debug_dir = pjoin debug_root (utc_stamp h @ ''-'' @ workload);
          (stdout, stderr) = communicate ch timeout;
          exit_code = returncode ch in
      act_seq (write_file (pjoin debug_dir ''stderr.log'') [])
     (act_seq (write_file (pjoin debug_dir ''stdout.log'') [])
     (act_seq (act_for (child_files ch) (\<lambda>(p, t). write_file p t))
     (act_seq (write_file (pjoin debug_dir ''stdout.log'') stdout)
     (act_seq (write_file (pjoin debug_dir ''stderr.log'') stderr)
     (act_seq
       (if run_failed exit_code stderr then
          act_seq (capture_snapshot h debug_dir build_dir source_dir)
         (act_seq (case find_core_dump h (started_at h) of
                     None \<Rightarrow> act_return ()
                   | Some core \<Rightarrow> copy_file core (pjoin debug_dir ''core''))
          (write_file (pjoin debug_dir ''FAILED'')
             (''exit_code='' @ show_int exit_code @ [CHR 0x0A] @ ''cmd='' @ py_join '' '' cmd @ [CHR 0x0A])))
        else write_file (pjoin debug_dir ''OK'') (''exit_code='' @ show_int exit_code @ [CHR 0x0A]))
     (act_return exit_code)))))))"

text \<open>\<^verbatim>\<open>main\<close> after argument parsing; \<^verbatim>\<open>parser.error\<close> exits with status 2.\<close>

definition harness_cmd :: "string list \<Rightarrow> string list" where
  "harness_cmd cmd = (case cmd of c # cs \<Rightarrow> if c = ''--'' then cs else cmd | [] \<Rightarrow> [])"

definition harness_main ::
  "host \<Rightarrow> child \<Rightarrow> string list \<Rightarrow> string \<Rightarrow> string \<Rightarrow> string \<Rightarrow> string \<Rightarrow> string option \<Rightarrow> (fs, int) act" where
  "harness_main h ch cmd workload build_dir source_dir debug_root timeout =
     (if harness_cmd cmd = [] then act_raise (SystemExit 2)
      else run_with_capture h ch (harness_cmd cmd) workload build_dir source_dir debug_root timeout)"

section \<open>Lemmas\<close>

lemma pjoin_inject [simp]: "pjoin d m = pjoin d n \<longleftrightarrow> m = n"
  by (simp add: pjoin_def)

lemma act_seq_write [simp]: "act_seq (write_file p t) m f = m (f(p \<mapsto> t))"
  by (simp add: act_seq_def)

lemma newest_max: "newest b ps \<in> set (b # ps) \<and> (\<forall>p \<in> set (b # ps). snd p \<le> snd (newest b ps))"
proof (induction ps arbitrary: b)
  case (Cons p ps)
  show ?case using Cons.IH[of p] Cons.IH[of b] by (cases "snd b < snd p") fastforce+
qed simp

lemma copy_if_exists_eq:
  "copy_if_exists p q f = (Inr (), case f p of None \<Rightarrow> f | Some t \<Rightarrow> f(q \<mapsto> t))"
  by (simp add: copy_if_exists_def split: option.splits)

text \<open>A computation that succeeds, changes files of a given set only and removes none.\<close>

definition writes_only :: "string set \<Rightarrow> (fs, 'a) act \<Rightarrow> bool" where
  "writes_only P m \<longleftrightarrow> (\<forall>f. \<exists>x g. m f = (Inr x, g) \<and> (\<forall>r. r \<notin> P \<longrightarrow> g r = f r) \<and> (\<forall>r. f r \<noteq> None \<longrightarrow> g r \<noteq> None))"

lemma writes_only_write: "p \<in> P \<Longrightarrow> writes_only P (write_file p t)"
  by (auto simp: writes_only_def)

lemma writes_only_copy: "q \<in> P \<Longrightarrow> writes_only P (copy_if_exists p q)"
  by (auto simp: writes_only_def copy_if_exists_eq split: option.splits)

lemma writes_only_seq:
  assumes "writes_only P m" and "writes_only P n"
  shows "writes_only P (act_seq m n)"
  unfolding writes_only_def
proof
  fix f
  obtain x g where g: "m f = (Inr x, g)" "\<forall>r. r \<notin> P \<longrightarrow> g r = f r" "\<forall>r. f r \<noteq> None \<longrightarrow> g r \<noteq> None"
    using spec[OF assms(1)[unfolded writes_only_def], of f] by meson
  obtain y h where "n g = (Inr y, h)" "\<forall>r. r \<notin> P \<longrightarrow> h r = g r" "\<forall>r. g r \<noteq> None \<longrightarrow> h r \<noteq> None"
    using spec[OF assms(2)[unfolded writes_only_def], of g] by meson
  then have "act_seq m n f = (Inr y, h)" "\<forall>r. r \<notin> P \<longrightarrow> h r = f r" "\<forall>r. f r \<noteq> None \<longrightarrow> h r \<noteq> None"
    using g act_seq_ok[of m f x g n] by simp_all
  then show "\<exists>x h. act_seq m n f = (Inr x, h) \<and> (\<forall>r. r \<notin> P \<longrightarrow> h r = f r) \<and> (\<forall>r. f r \<noteq> None \<longrightarrow> h r \<noteq> None)"
    by blast
qed

definition snapshot_files :: "string \<Rightarrow> string set" where
  "snapshot_files d =
     {pjoin d ''commit.txt'', pjoin d ''CMakeCache.txt'', pjoin d ''Common.h'', pjoin d ''host.txt''}"

lemma capture_snapshot_writes: "writes_only (snapshot_files d) (capture_snapshot h d b s)"
  unfolding capture_snapshot_def snapshot_files_def
  by (intro writes_only_seq writes_only_write writes_only_copy) blast+

section \<open>Properties\<close>

text \<open>
  \<^verbatim>\<open>find_core_dump\<close> returns nothing exactly when no core file is recent enough; otherwise it
  returns a candidate that is at most a second older than the start of the run and such that no
  recent candidate is newer.\<close>

theorem find_core_dump_newest:
  "case find_core_dump h started of
     None \<Rightarrow> list_all (\<lambda>(p, t). t < started - 1) (cwd_cores h @ tmp_cores h)
   | Some core \<Rightarrow> list_ex (\<lambda>(p, t). p = core \<and> started - 1 \<le> t \<and>
       list_all (\<lambda>(q, u). u \<le> t) (cwd_cores h @ tmp_cores h)) (cwd_cores h @ tmp_cores h)"
proof (cases "filter (\<lambda>p. snd p \<ge> started - 1) (cwd_cores h @ tmp_cores h)")
  case Nil
  then show ?thesis by (auto simp: find_core_dump_def filter_empty_conv list_all_iff not_le)
next
  case (Cons p ps)
  let ?n = "newest p ps" and ?cs = "cwd_cores h @ tmp_cores h"
  have set: "set (p # ps) = {c \<in> set ?cs. started - 1 \<le> snd c}"
    unfolding Cons[symmetric] by auto
  then have n: "?n \<in> set ?cs" "started - 1 \<le> snd ?n" and m: "\<forall>c \<in> set ?cs. started - 1 \<le> snd c \<longrightarrow> snd c \<le> snd ?n"
    using newest_max[of p ps] unfolding set by blast+
  then have "\<forall>c \<in> set ?cs. snd c \<le> snd ?n" by (meson linear order_trans)
  then have "list_all (\<lambda>(q, u). u \<le> snd ?n) ?cs" unfolding list_all_iff by (simp add: case_prod_beta)
  moreover obtain q t where "?n = (q, t)" by (cases ?n)
  moreover have "find_core_dump h started = Some (fst ?n)" by (simp only: find_core_dump_def Cons list.case)
  ultimately show ?thesis using n by (auto simp: list_ex_iff)
qed

text \<open>The files at the moment the verdict is reached.\<close>

definition before_verdict :: "child \<Rightarrow> string option \<Rightarrow> string \<Rightarrow> fs \<Rightarrow> fs" where
  "before_verdict ch timeout d f =
     ((f(pjoin d ''stderr.log'' \<mapsto> [], pjoin d ''stdout.log'' \<mapsto> [])) ++ map_of (rev (child_files ch)))
     (pjoin d ''stdout.log'' \<mapsto> fst (communicate ch timeout),
      pjoin d ''stderr.log'' \<mapsto> snd (communicate ch timeout))"

definition record_failure ::
  "host \<Rightarrow> string list \<Rightarrow> string \<Rightarrow> string \<Rightarrow> string \<Rightarrow> int \<Rightarrow> (fs, unit) act" where
  "record_failure h cmd d b s exit_code =
     act_seq (capture_snapshot h d b s)
    (act_seq (case find_core_dump h (started_at h) of
                None \<Rightarrow> act_return ()
              | Some core \<Rightarrow> copy_file core (pjoin d ''core''))
     (write_file (pjoin d ''FAILED'')
        (''exit_code='' @ show_int exit_code @ [CHR 0x0A] @ ''cmd='' @ py_join '' '' cmd @ [CHR 0x0A])))"

lemma run_with_capture_eq:
  "run_with_capture h ch cmd w b s dr timeout f =
     (let d = pjoin dr (utc_stamp h @ ''-'' @ w) in
      act_seq
       (if run_failed (returncode ch) (snd (communicate ch timeout))
        then record_failure h cmd d b s (returncode ch)
        else write_file (pjoin d ''OK'') (''exit_code='' @ show_int (returncode ch) @ [CHR 0x0A]))
       (act_return (returncode ch)) (before_verdict ch timeout d f))"
  unfolding run_with_capture_def before_verdict_def record_failure_def Let_def case_prod_beta
    act_seq_write act_seq_ok[OF act_for_write] ..

lemma record_failure_ok:
  assumes "\<forall>core. find_core_dump h (started_at h) = Some core \<longrightarrow> f core \<noteq> None"
  shows "\<exists>g. record_failure h cmd d b s c f = (Inr (), g) \<and> g (pjoin d ''FAILED'') \<noteq> None \<and>
    (\<forall>r. r \<notin> snapshot_files d \<union> {pjoin d ''core'', pjoin d ''FAILED''} \<longrightarrow> g r = f r)"
proof -
  obtain g where g: "capture_snapshot h d b s f = (Inr (), g)" "\<forall>r. r \<notin> snapshot_files d \<longrightarrow> g r = f r"
    "\<forall>r. f r \<noteq> None \<longrightarrow> g r \<noteq> None"
    using capture_snapshot_writes[of d h b s] unfolding writes_only_def by (metis old.unit.exhaust)
  show ?thesis
  proof (cases "find_core_dump h (started_at h)")
    case None
    with g show ?thesis by (auto simp: record_failure_def act_seq_ok[of "capture_snapshot h d b s", OF g(1)] act_seq_def act_return_def)
  next
    case (Some core)
    then obtain t where "g core = Some t" using assms g(3) by blast
    then have "copy_file core (pjoin d ''core'') g = (Inr (), g(pjoin d ''core'' \<mapsto> t))"
      by (simp add: copy_file_def)
    with Some g show ?thesis by (auto simp: record_failure_def act_seq_ok[of "capture_snapshot h d b s", OF g(1)] act_seq_ok)
  qed
qed

text \<open>
  For a fresh artefact directory the harness returns the exit code of the child and leaves
  exactly one verdict: \<^verbatim>\<open>FAILED\<close> when the exit code is not 0 or the error output mentions a
  segmentation fault, an assertion or an abort, and \<^verbatim>\<open>OK\<close> otherwise; both streams are kept in either
  case.\<close>

theorem harness_verdict:
  assumes "d = pjoin dr (utc_stamp h @ ''-'' @ w)"
    and "\<forall>v \<in> {''OK'', ''FAILED''}. f (pjoin d v) = None \<and> pjoin d v \<notin> fst ` set (child_files ch)"
    and "\<forall>core. find_core_dump h (started_at h) = Some core \<longrightarrow> core \<in> fst ` set (child_files ch)"
    and "failed = run_failed (returncode ch) (snd (communicate ch timeout))"
  shows "\<exists>g. run_with_capture h ch cmd w b s dr timeout f = (Inr (returncode ch), g) \<and>
    (g (pjoin d ''FAILED'') \<noteq> None \<longleftrightarrow> failed) \<and> (g (pjoin d ''OK'') \<noteq> None \<longleftrightarrow> \<not> failed) \<and>
    g (pjoin d ''stdout.log'') = Some (fst (communicate ch timeout)) \<and>
    g (pjoin d ''stderr.log'') = Some (snd (communicate ch timeout))"
proof -
  let ?f = "before_verdict ch timeout d f"
  have cf: "map_of (rev (child_files ch)) p = None \<longleftrightarrow> p \<notin> fst ` set (child_files ch)" for p
    by (simp add: map_of_eq_None_iff)
  have "map_of (rev (child_files ch)) (pjoin d ''OK'') = None"
    "map_of (rev (child_files ch)) (pjoin d ''FAILED'') = None" using assms(2) cf by blast+
  then have fresh: "?f (pjoin d ''OK'') = None" "?f (pjoin d ''FAILED'') = None"
    using assms(2) by (simp_all add: before_verdict_def map_add_def)
  have logs: "?f (pjoin d ''stdout.log'') = Some (fst (communicate ch timeout))"
    "?f (pjoin d ''stderr.log'') = Some (snd (communicate ch timeout))"
    by (simp_all add: before_verdict_def)
  have core: "\<forall>core. find_core_dump h (started_at h) = Some core \<longrightarrow> ?f core \<noteq> None"
    using assms(3) cf by (auto simp: before_verdict_def map_add_def split: option.splits)
  have run: "run_with_capture h ch cmd w b s dr timeout f =
      act_seq (if failed then record_failure h cmd d b s (returncode ch)
        else write_file (pjoin d ''OK'') (''exit_code='' @ show_int (returncode ch) @ [CHR 0x0A]))
       (act_return (returncode ch)) ?f"
    unfolding run_with_capture_eq Let_def assms(1,4) ..
  show ?thesis
  proof (cases failed)
    case True
    obtain g where g: "record_failure h cmd d b s (returncode ch) ?f = (Inr (), g)"
      "g (pjoin d ''FAILED'') \<noteq> None"
      "\<forall>r. r \<notin> snapshot_files d \<union> {pjoin d ''core'', pjoin d ''FAILED''} \<longrightarrow> g r = ?f r"
      using record_failure_ok[OF core] by blast
    have "g (pjoin d n) = ?f (pjoin d n)" if "n \<in> {''OK'', ''stdout.log'', ''stderr.log''}" for n
      using g(3) that by (auto simp: snapshot_files_def)
    with True g(2) fresh logs show ?thesis
      unfolding run by (auto simp: act_seq_ok[of "record_failure _ _ _ _ _ _", OF g(1)] act_return_def)
  next
    case False
    with fresh logs show ?thesis unfolding run by (auto simp: act_return_def)
  qed
qed

definition sample_host :: host where
  "sample_host = \<lparr>git_head = ''abc'', nr_hugepages = None, memcached = Some [], nodename = ''n0'',
     uname = [''Linux'', ''n0''], cwd_cores = [(''build/core.1'', 7), (''build/core.0'', 2)],
     tmp_cores = [], utc_stamp = ''T'', started_at = 5\<rparr>"

definition sample_child :: child where
  "sample_child = \<lparr>comm1 = Some (''out'', ''Aborted''), comm2 = None, comm3 = ([], []),
     returncode = 0, child_files = [(''build/core.1'', ''x'')]\<rparr>"

theorem harness_verdict_witness:
  "\<exists>g. run_with_capture sample_host sample_child [''./t''] ''c'' ''build'' ''.'' ''debug'' None (\<lambda>_. None) = (Inr 0, g) \<and>
    g ''debug/T-c/FAILED'' \<noteq> None \<and> g ''debug/T-c/OK'' = None \<and>
    g ''debug/T-c/stdout.log'' = Some ''out'' \<and> g ''debug/T-c/stderr.log'' = Some ''Aborted''"
proof -
  have d: "pjoin ''debug'' (utc_stamp sample_host @ ''-'' @ ''c'') = ''debug/T-c''"
    by (simp add: pjoin_def sample_host_def)
  have c: "find_core_dump sample_host (started_at sample_host) = Some ''build/core.1''"
    "run_failed (returncode sample_child) (snd (communicate sample_child None))"
    "returncode sample_child = 0" "communicate sample_child None = (''out'', ''Aborted'')"
    by code_simp+
  have "\<exists>g. run_with_capture sample_host sample_child [''./t''] ''c'' ''build'' ''.'' ''debug'' None (\<lambda>_. None) =
      (Inr (returncode sample_child), g) \<and>
    (g (pjoin ''debug/T-c'' ''FAILED'') \<noteq> None \<longleftrightarrow> True) \<and> (g (pjoin ''debug/T-c'' ''OK'') \<noteq> None \<longleftrightarrow> \<not> True) \<and>
    g (pjoin ''debug/T-c'' ''stdout.log'') = Some (fst (communicate sample_child None)) \<and>
    g (pjoin ''debug/T-c'' ''stderr.log'') = Some (snd (communicate sample_child None))"
    by (rule harness_verdict) (use d c in \<open>auto simp: sample_child_def pjoin_def\<close>)
  then show ?thesis by (simp add: c(3,4) pjoin_def)
qed

text \<open>
  A run that exceeds its time limit but ends with exit code 0 once it is asked to terminate, and
  whose error output shows none of the three crash messages, is filed as \<^verbatim>\<open>OK\<close> and not as
  \<^verbatim>\<open>FAILED\<close>, and the harness reports 0: the time limit itself is no failure condition.\<close>

theorem harness_timeout_ok:
  assumes "comm1 ch = None" and "comm2 ch = Some (out, err)" and "returncode ch = 0"
    and "\<not> run_failed 0 (snd (communicate ch timeout))"
    and "d = pjoin dr (utc_stamp h @ ''-'' @ w)"
    and "f (pjoin d ''FAILED'') = None" and "pjoin d ''FAILED'' \<notin> fst ` set (child_files ch)"
  shows "\<exists>g. run_with_capture h ch cmd w b s dr timeout f = (Inr 0, g) \<and>
    g (pjoin d ''OK'') \<noteq> None \<and> g (pjoin d ''FAILED'') = None"
proof -
  have "map_of (rev (child_files ch)) (pjoin d ''FAILED'') = None"
    using assms(7) by (simp add: map_of_eq_None_iff)
  then have "before_verdict ch timeout d f (pjoin d ''FAILED'') = None"
    using assms(6) by (simp add: before_verdict_def map_add_def)
  moreover have "run_with_capture h ch cmd w b s dr timeout f =
      act_seq (write_file (pjoin d ''OK'') (''exit_code='' @ show_int 0 @ [CHR 0x0A]))
        (act_return 0) (before_verdict ch timeout d f)"
    unfolding run_with_capture_eq Let_def assms(3,5) using assms(4) by simp
  ultimately show ?thesis by (auto simp: act_return_def)
qed

definition hung_child :: child where
  "hung_child = \<lparr>comm1 = None, comm2 = Some (''out'', []), comm3 = ([], []), returncode = 0, child_files = []\<rparr>"

theorem harness_timeout_ok_witness:
  "\<exists>g. run_with_capture sample_host hung_child [''./t''] ''c'' ''build'' ''.'' ''debug'' (Some ''5.0'') (\<lambda>_. None) = (Inr 0, g) \<and>
    g (pjoin (pjoin ''debug'' ''T-c'') ''OK'') \<noteq> None \<and> g (pjoin (pjoin ''debug'' ''T-c'') ''FAILED'') = None"
proof (rule harness_timeout_ok)
  show "comm1 hung_child = None" "comm2 hung_child = Some (''out'', [])" "returncode hung_child = 0"
    by (simp_all add: hung_child_def)
  show "\<not> run_failed 0 (snd (communicate hung_child (Some ''5.0'')))" by code_simp
qed (simp_all add: sample_host_def hung_child_def)

end
