(* ===== verification/Lat_Parser.thy ===== *)
theory Lat_Parser
  imports Py_State "HOL-Library.Multiset"
begin

text \<open>
  Latency histograms: \<^verbatim>\<open>exp/utils/lat_parser.py\<close> (class \<^verbatim>\<open>LatParser\<close>) and the stand-alone
  \<^verbatim>\<open>us_lat/cluster_latency.py\<close>.  Both read \<^verbatim>\<open>latency TAB count\<close> lines from every node, merge
  them into one dictionary and read percentiles off the cumulated counts.  An SFTP session is
  the list of lines of each remote file.  Shown: the values returned are the percentiles of the
  merged samples and always exist, and the two implementations agree.
\<close>

section \<open>Definitions\<close>

type_synonym lat_cnt = "(string \<times> int) list"
type_synonym sftp = "string \<Rightarrow> string list option"

text \<open>One line: \<^verbatim>\<open>lat, cnt = line.strip().split('\t', 1)\<close> and the update of the dictionary.\<close>

definition lat_line :: "lat_cnt \<Rightarrow> string \<Rightarrow> lat_cnt py" where
  "lat_line d line =
     (let t = py_strip line; tab = CHR 0x09 in
      if tab \<notin> set t then Inl ValueError
      else
        let lat = takeWhile (\<lambda>c. c \<noteq> tab) t; cnt = tl (dropWhile (\<lambda>c. c \<noteq> tab) t) in
        py_bind (py_int cnt) (\<lambda>n.
          if n \<noteq> 0
          then Inr (AList.update lat ((case map_of d lat of None \<Rightarrow> 0 | Some m \<Rightarrow> m) + n) d)
          else Inr d))"

text \<open>
  \<^verbatim>\<open>LatParser\<close> catches an error inside a file and goes on with what was read so far;
  \<^verbatim>\<open>cluster_latency.py\<close> lets it propagate.
\<close>

fun lat_file :: "lat_cnt \<Rightarrow> string list \<Rightarrow> lat_cnt" where
  "lat_file d [] = d"
| "lat_file d (l # ls) = (case lat_line d l of Inl e \<Rightarrow> d | Inr d' \<Rightarrow> lat_file d' ls)"

definition load_remote_lat :: "lat_cnt \<Rightarrow> string \<Rightarrow> sftp \<Rightarrow> lat_cnt py" where
  "load_remote_lat d path sftp =
     (case sftp path of None \<Rightarrow> Inl (FileNotFoundError path)
      | Some ls \<Rightarrow> py_foldM lat_line d ls)"

text \<open>\<^verbatim>\<open>sorted(items, key=lambda s: float(s[0]))\<close>, each item with its key.\<close>

definition lat_sorted :: "lat_cnt \<Rightarrow> (rat \<times> string \<times> int) list py" where
  "lat_sorted d =
     py_bind (py_mapM (\<lambda>(l, c). py_bind (py_float l) (\<lambda>r. Inr (r, l, c))) d)
       (\<lambda>xs. Inr (sort_key fst xs))"

fun cal_loop ::
  "int \<Rightarrow> rat \<Rightarrow> rat \<Rightarrow> int \<Rightarrow> rat option \<Rightarrow> (rat \<times> string \<times> int) list \<Rightarrow> rat option \<times> rat option"
where
  "cal_loop all_lat th50 th99 cum p50 [] = (p50, None)"
| "cal_loop all_lat th50 th99 cum p50 ((r, l, cnt) # xs) =
     (let cum = cum + cnt;
          (p50, th50) = (if of_int cum \<ge> th50 then (Some r, of_int all_lat + 1) else (p50, th50))
      in if of_int cum \<ge> th99 then (p50, Some r)
         else cal_loop all_lat th50 th99 cum p50 xs)"

definition cal_lat :: "lat_cnt \<Rightarrow> (rat \<times> rat) py" where
  "cal_lat d =
     (let all_lat = sum_list (map snd d);
          th50 = of_int all_lat / 2; th99 = of_int all_lat * 99 / 100 in
      py_bind (lat_sorted d) (\<lambda>xs.
        case cal_loop all_lat th50 th99 0 None xs of
          (Some p50, Some p99) \<Rightarrow> Inr (p50, p99)
        | _ \<Rightarrow> Inl AssertionError))"

definition epoch_file :: "string \<Rightarrow> int \<Rightarrow> string" where
  "epoch_file dir e = dir @ ''/epoch_'' @ show_int e @ ''.lat''"

definition load_epoch :: "sftp list \<Rightarrow> string \<Rightarrow> lat_cnt py" where
  "load_epoch sftps path =
     py_foldM (\<lambda>d sftp. case sftp path of None \<Rightarrow> Inl (FileNotFoundError path)
                        | Some ls \<Rightarrow> Inr (lat_file d ls)) [] sftps"

definition load_remote_lats ::
  "sftp list \<Rightarrow> string \<Rightarrow> int \<Rightarrow> int \<Rightarrow> int \<Rightarrow> (int \<times> rat \<times> rat) list py" where
  "load_remote_lats sftps dir CN_num epoch_start epoch_num =
     py_foldM (\<lambda>res e.
         py_bind (load_epoch (py_slice sftps 0 CN_num) (epoch_file dir e)) (\<lambda>d.
         if d = [] then Inr res
         else py_bind (cal_lat d) (\<lambda>pp. Inr (AList.update e pp res))))
       [] [epoch_start..epoch_start + epoch_num - 1]"

text \<open>\<^verbatim>\<open>cal_lat\<close> of \<^verbatim>\<open>cluster_latency.py\<close>: eight thresholds, each printed once and then disabled.\<close>

definition lat_thresholds :: "int \<Rightarrow> (string \<times> rat) list" where
  "lat_thresholds all_lat =
     [(''p50'', of_int all_lat / 2), (''p90'', of_int all_lat * 9 / 10),
      (''p95'', of_int all_lat * 95 / 100), (''p96'', of_int all_lat * 96 / 100),
      (''p97'', of_int all_lat * 97 / 100), (''p98'', of_int all_lat * 98 / 100),
      (''p99'', of_int all_lat * 99 / 100), (''p999'', of_int all_lat * 999 / 1000)]"

fun report_loop ::
  "int \<Rightarrow> (string \<times> rat) list \<Rightarrow> int \<Rightarrow> (rat \<times> string \<times> int) list \<Rightarrow> (string \<times> string) list" where
  "report_loop all_lat ths cum [] = []"
| "report_loop all_lat ths cum ((r, lat, cnt) # xs) =
     (let cum = cum + cnt in
      map (\<lambda>(p, th). (p, lat)) (filter (\<lambda>(p, th). of_int cum \<ge> th) ths) @
      report_loop all_lat
        (map (\<lambda>(p, th). (p, if of_int cum \<ge> th then of_int all_lat + 1 else th)) ths) cum xs)"

definition cluster_cal_lat :: "lat_cnt \<Rightarrow> (string \<times> string) list py" where
  "cluster_cal_lat d =
     (let all_lat = sum_list (map snd d) in
      py_bind (lat_sorted d) (\<lambda>xs. Inr (report_loop all_lat (lat_thresholds all_lat) 0 xs)))"

definition cluster_latency :: "sftp list \<Rightarrow> string \<Rightarrow> int \<Rightarrow> int \<Rightarrow> (int \<times> (string \<times> string) list) list py" where
  "cluster_latency clients dir epoch_start epoch_num =
     py_mapM (\<lambda>e.
       py_bind (py_foldM (\<lambda>d c. load_remote_lat d (epoch_file dir e) c) [] clients) (\<lambda>d.
       py_bind (cluster_cal_lat d) (\<lambda>out. Inr (e, out))))
     [epoch_start..epoch_start + epoch_num - 1]"

section \<open>The dictionary\<close>

text \<open>Total and validity of the counts kept by the loaders.\<close>

definition counts_pos :: "lat_cnt \<Rightarrow> bool" where
  "counts_pos d \<longleftrightarrow> (\<forall>(l, c) \<in> set d. 0 < c)"

lemma update_sum:
  "distinct (map fst d) \<Longrightarrow>
   sum_list (map snd (AList.update l ((case map_of d l of None \<Rightarrow> 0 | Some m \<Rightarrow> m) + n) d)) =
     sum_list (map snd d) + (n :: int)"
  by (induction d) (auto split: option.splits)

lemma lat_line_total:
  assumes "lat_line d line = Inr d'" and "distinct (map fst d)"
  shows "distinct (map fst d') \<and>
    (\<exists>n. sum_list (map snd d') = sum_list (map snd d) + n \<and>
         py_int (tl (dropWhile (\<lambda>c. c \<noteq> CHR 0x09) (py_strip line))) = Inr n)"
proof -
  from assms(1) obtain n where
    n: "py_int (tl (dropWhile (\<lambda>c. c \<noteq> CHR 0x09) (py_strip line))) = Inr n"
    unfolding lat_line_def Let_def by (auto split: if_splits)
  then show ?thesis
    using assms by (auto simp: lat_line_def Let_def update_sum distinct_update split: if_splits)
qed

section \<open>Percentiles\<close>

text \<open>
  The specification: the samples of value at most \<open>v\<close>, and the least value below which at
  least the fraction \<open>q\<close> of all samples lies.
\<close>

definition samples_upto :: "(rat \<times> string \<times> int) list \<Rightarrow> rat \<Rightarrow> int" where
  "samples_upto xs v = sum_list (map (snd \<circ> snd) (filter (\<lambda>x. fst x \<le> v) xs))"

definition total_samples :: "(rat \<times> string \<times> int) list \<Rightarrow> int" where
  "total_samples xs = sum_list (map (snd \<circ> snd) xs)"

definition is_percentile :: "rat \<Rightarrow> (rat \<times> string \<times> int) list \<Rightarrow> rat \<Rightarrow> bool" where
  "is_percentile q xs v \<longleftrightarrow>
     v \<in> fst ` set xs \<and> q * of_int (total_samples xs) \<le> of_int (samples_upto xs v) \<and>
     (\<forall>u \<in> fst ` set xs. u < v \<longrightarrow> of_int (samples_upto xs u) < q * of_int (total_samples xs))"

text \<open>The first item whose cumulated count reaches a threshold.\<close>

fun first_reach :: "rat \<Rightarrow> int \<Rightarrow> (rat \<times> string \<times> int) list \<Rightarrow> (rat \<times> string) option" where
  "first_reach th cum [] = None"
| "first_reach th cum ((r, l, cnt) # xs) =
     (if of_int (cum + cnt) \<ge> th then Some (r, l) else first_reach th (cum + cnt) xs)"

lemma first_reach_Some:
  assumes "first_reach th cum xs = Some (v, l)"
  obtains ys c zs where "xs = ys @ (v, l, c) # zs"
    and "th \<le> of_int (cum + total_samples ys + c)"
    and "\<forall>as bs. ys = as @ bs \<longrightarrow> as \<noteq> [] \<longrightarrow> of_int (cum + total_samples as) < th"
  using assms
proof (induction xs arbitrary: cum thesis)
  case (Cons x xs)
  obtain r k cnt where x: "x = (r, k, cnt)" by (cases x)
  show ?case
  proof (cases "of_int (cum + cnt) \<ge> th")
    case True
    with Cons.prems x show ?thesis
      by (intro Cons.prems(1)[of "[]" cnt xs]) (auto simp: total_samples_def)
  next
    case False
    with Cons.prems(2) x have "first_reach th (cum + cnt) xs = Some (v, l)" by simp
    then obtain ys c zs where *: "xs = ys @ (v, l, c) # zs"
        "th \<le> of_int (cum + cnt + total_samples ys + c)"
        "\<forall>as bs. ys = as @ bs \<longrightarrow> as \<noteq> [] \<longrightarrow> of_int (cum + cnt + total_samples as) < th"
      by (rule Cons.IH[rotated])
    show ?thesis
    proof (rule Cons.prems(1)[of "x # ys" c zs])
      show "\<forall>as bs. x # ys = as @ bs \<longrightarrow> as \<noteq> [] \<longrightarrow> of_int (cum + total_samples as) < th"
      proof (intro allI impI)
        fix as bs assume a: "x # ys = as @ bs" "as \<noteq> []"
        then obtain as' where as: "as = x # as'" "ys = as' @ bs" by (cases as) auto
        show "of_int (cum + total_samples as) < th"
          using *(3) as False x by (cases "as' = []") (auto simp: total_samples_def add.assoc)
      qed
    qed (use * x in \<open>simp_all add: total_samples_def add.assoc\<close>)
  qed
qed simp

lemma first_reach_exists:
  "xs \<noteq> [] \<Longrightarrow> th \<le> of_int (cum + total_samples xs) \<Longrightarrow> \<exists>p. first_reach th cum xs = Some p"
proof (induction xs arbitrary: cum)
  case (Cons x xs)
  then show ?case by (cases x; cases xs) (auto simp: total_samples_def add.assoc)
qed simp

lemma samples_upto_append:
  "samples_upto (xs @ ys) v = samples_upto xs v + samples_upto ys v"
  by (simp add: samples_upto_def)

lemma samples_upto_nonneg:
  "\<forall>x \<in> set xs. 0 < snd (snd x) \<Longrightarrow> 0 \<le> samples_upto xs v"
  by (induction xs) (auto simp: samples_upto_def)

lemma total_samples_nonneg: "\<forall>x \<in> set xs. 0 < snd (snd x) \<Longrightarrow> 0 \<le> total_samples xs"
  by (induction xs) (auto simp: total_samples_def)

lemma total_samples_Cons [simp]: "total_samples ((r, l, c) # xs) = c + total_samples xs"
  by (simp add: total_samples_def)

lemma samples_upto_all: "\<forall>x \<in> set xs. fst x \<le> v \<Longrightarrow> samples_upto xs v = total_samples xs"
  by (simp add: samples_upto_def total_samples_def filter_id_conv)

lemma samples_upto_none: "\<forall>x \<in> set xs. v < fst x \<Longrightarrow> samples_upto xs v = 0"
  by (induction xs) (auto simp: samples_upto_def)

lemma sorted_filter_takeWhile:
  "sorted (map f ys) \<Longrightarrow> filter (\<lambda>x. f x \<le> u) ys = takeWhile (\<lambda>x. f x \<le> u) ys"
proof (induction ys)
  case (Cons a ys)
  show ?case
  proof (cases "f a \<le> u")
    case False
    with Cons.prems have "\<forall>x \<in> set ys. \<not> f x \<le> u" by auto
    with False show ?thesis by (simp add: filter_empty_conv)
  qed (use Cons in simp)
qed simp

text \<open>On a sorted list of positive counts the first item to reach the threshold is the percentile.\<close>

lemma first_reach_percentile:
  assumes "sorted (map fst xs)" and pos: "\<forall>x \<in> set xs. 0 < snd (snd x)"
    and "first_reach (q * of_int (total_samples xs)) 0 xs = Some (v, l)"
  shows "is_percentile q xs v"
proof -
  let ?th = "q * of_int (total_samples xs)"
  obtain ys c zs where xs: "xs = ys @ (v, l, c) # zs"
    and reach: "?th \<le> of_int (0 + total_samples ys + c)"
    and before: "\<forall>as bs. ys = as @ bs \<longrightarrow> as \<noteq> [] \<longrightarrow> of_int (0 + total_samples as) < ?th"
    by (rule first_reach_Some[OF assms(3)])
  have srt: "\<forall>x \<in> set ys. fst x \<le> v" "\<forall>x \<in> set zs. v \<le> fst x" "sorted (map fst ys)"
    using assms(1) unfolding xs by (auto simp: sorted_append)
  have "samples_upto xs v = total_samples ys + c + samples_upto zs v"
    using srt(1) unfolding xs samples_upto_append
    by (simp add: samples_upto_all) (simp add: samples_upto_def)
  moreover have "0 \<le> samples_upto zs v" using pos xs by (intro samples_upto_nonneg) auto
  ultimately have upto: "?th \<le> of_int (samples_upto xs v)"
    using reach order_trans by fastforce
  have "of_int (samples_upto xs u) < ?th" if u: "u \<in> fst ` set xs" "u < v" for u
  proof -
    let ?as = "takeWhile (\<lambda>x. fst x \<le> u) ys"
    have "samples_upto ((v, l, c) # zs) u = 0"
      using srt(2) u(2) by (intro samples_upto_none) auto
    moreover have "samples_upto ys u = total_samples ?as"
    proof -
      have "filter (\<lambda>x. fst x \<le> u) ys = ?as"
        using srt(3) by (rule sorted_filter_takeWhile)
      then show ?thesis by (simp add: samples_upto_def total_samples_def)
    qed
    ultimately have eq: "samples_upto xs u = total_samples ?as"
      unfolding xs samples_upto_append by simp
    from u xs srt(2) have "u \<in> fst ` set ys" by auto
    then obtain y where y: "y \<in> set ys" "fst y = u" by auto
    then have "ys \<noteq> []" "fst (hd ys) \<le> u" using srt(3) by (cases ys; auto)+
    then have "?as \<noteq> []" by (cases ys) auto
    then show ?thesis using before eq by (metis add_0 takeWhile_dropWhile_id)
  qed
  with upto show ?thesis unfolding is_percentile_def xs by auto
qed

section \<open>The loops compute first reaches\<close>

lemma first_reach_beyond:
  assumes "cum + total_samples xs \<le> all_lat" and "\<forall>x \<in> set xs. 0 < snd (snd x)"
  shows "first_reach (of_int all_lat + 1) cum xs = None"
  using assms
proof (induction xs arbitrary: cum)
  case (Cons x xs)
  obtain r l c where x: "x = (r, l, c)" by (cases x)
  have "0 \<le> total_samples xs" using Cons.prems(2) by (intro total_samples_nonneg) simp
  with Cons.prems(1) x have "cum + c \<le> all_lat" by simp
  then have "\<not> of_int all_lat + 1 \<le> (of_int (cum + c) :: rat)" by linarith
  with Cons x show ?case by simp
qed simp

lemma cal_loop_disabled:
  assumes "cum + total_samples xs \<le> all_lat" and "\<forall>x \<in> set xs. 0 < snd (snd x)"
  shows "cal_loop all_lat (of_int all_lat + 1) th99 cum p50 xs =
    (p50, map_option fst (first_reach th99 cum xs))"
  using assms
proof (induction xs arbitrary: cum)
  case (Cons x xs)
  obtain r l c where x: "x = (r, l, c)" by (cases x)
  have "\<not> of_int all_lat + 1 \<le> (of_int (cum + c) :: rat)"
    using first_reach_beyond[OF Cons.prems] x by (auto split: if_splits)
  with Cons x show ?case by (simp add: Let_def)
qed simp

lemma cal_loop_first_reach:
  assumes "cum + total_samples xs \<le> all_lat" and "\<forall>x \<in> set xs. 0 < snd (snd x)" and "th50 \<le> th99"
  shows "cal_loop all_lat th50 th99 cum None xs =
    (map_option fst (first_reach th50 cum xs), map_option fst (first_reach th99 cum xs))"
  using assms
proof (induction xs arbitrary: cum)
  case (Cons x xs)
  obtain r l c where x: "x = (r, l, c)" by (cases x)
  have le: "cum + c + total_samples xs \<le> all_lat" using Cons.prems(1) x by simp
  show ?case
  proof (cases "th50 \<le> of_int (cum + c)")
    case True
    with x le Cons.prems show ?thesis by (simp add: cal_loop_disabled Let_def)
  next
    case False
    with Cons.prems(3) have "\<not> th99 \<le> of_int (cum + c)" by simp
    with False x le Cons show ?thesis by (simp add: Let_def)
  qed
qed simp

lemma map_of_hits:
  "distinct (map fst ths) \<Longrightarrow>
   map_of (map (\<lambda>(p, th). (p, l)) (filter (\<lambda>(p, th). Q th) ths)) p =
     (case map_of ths p of None \<Rightarrow> None | Some th \<Rightarrow> if Q th then Some l else None)"
proof (induction ths)
  case (Cons a ths)
  obtain q t where a: "a = (q, t)" by (cases a)
  show ?case
  proof (cases "q = p")
    case True
    with Cons.prems a have "map_of ths p = None" by (simp add: map_of_eq_None_iff)
    with Cons True a show ?thesis by simp
  qed (use Cons a in simp)
qed simp

lemma map_of_disable:
  "map_of (map (\<lambda>(p, th). (p, g th)) ths) p = map_option g (map_of ths p)"
  by (induction ths) auto

text \<open>Each label is printed when its threshold is first reached, and never again.\<close>

lemma report_loop_lookup:
  assumes "cum + total_samples xs \<le> all_lat" and "\<forall>x \<in> set xs. 0 < snd (snd x)"
    and "distinct (map fst ths)"
  shows "map_of (report_loop all_lat ths cum xs) p =
      Option.bind (map_of ths p) (\<lambda>th. map_option snd (first_reach th cum xs)) \<and>
    distinct (map fst (report_loop all_lat ths cum xs))"
  using assms
proof (induction xs arbitrary: cum ths p)
  case (Cons x xs)
  obtain r l c where x: "x = (r, l, c)" by (cases x)
  let ?hit = "\<lambda>t :: rat. t \<le> of_int (cum + c)"
  let ?g = "\<lambda>th. if ?hit th then of_int all_lat + 1 else th"
  let ?ths' = "map (\<lambda>(p, th). (p, ?g th)) ths"
  let ?out = "map (\<lambda>(p, th). (p, l)) (filter (\<lambda>(p, th). ?hit th) ths)"
  have le: "cum + c + total_samples xs \<le> all_lat" using Cons.prems(1) x by simp
  have pos: "\<forall>x \<in> set xs. 0 < snd (snd x)" using Cons.prems(2) by simp
  have "map fst ?ths' = map fst ths" by (simp add: comp_def case_prod_unfold)
  then have ks: "distinct (map fst ?ths')" using Cons.prems(3) by (simp only:)
  have rest: "map_of (report_loop all_lat ?ths' (cum + c) xs) q =
      Option.bind (map_of ths q) (\<lambda>th. map_option snd (first_reach (?g th) (cum + c) xs))" for q
    using conjunct1[OF Cons.IH[OF le pos ks]] unfolding map_of_disable
    by (cases "map_of ths q") simp_all
  have eq: "report_loop all_lat ths cum (x # xs) = ?out @ report_loop all_lat ?ths' (cum + c) xs"
    using x by (simp add: Let_def)
  have look: "map_of (report_loop all_lat ths cum (x # xs)) p =
      Option.bind (map_of ths p) (\<lambda>th. map_option snd (first_reach th cum (x # xs)))"
    unfolding eq map_of_append map_add_def map_of_hits[OF Cons.prems(3)] rest
    using x by (cases "map_of ths p") auto
  have "distinct (map fst ?out)"
    using Cons.prems(3) by (simp add: comp_def case_prod_unfold distinct_map_filter)
  moreover have "distinct (map fst (report_loop all_lat ?ths' (cum + c) xs))"
    by (rule conjunct2[OF Cons.IH[OF le pos ks]])
  moreover have "q \<notin> fst ` set ?out" if "q \<in> fst ` set (report_loop all_lat ?ths' (cum + c) xs)" for q
  proof
    assume "q \<in> fst ` set ?out"
    then have "map_of ?out q \<noteq> None" by (simp add: map_of_eq_None_iff)
    then obtain th where th: "map_of ths q = Some th" "?hit th"
      unfolding map_of_hits[OF Cons.prems(3)] by (auto split: option.splits if_splits)
    then have "map_of (report_loop all_lat ?ths' (cum + c) xs) q = None"
      using rest[of q] first_reach_beyond[OF le pos] by simp
    then have "q \<notin> fst ` set (report_loop all_lat ?ths' (cum + c) xs)"
      by (rule iffD1[OF map_of_eq_None_iff])
    with that show False by blast
  qed
  ultimately have "distinct (map fst (report_loop all_lat ths cum (x # xs)))"
    unfolding eq map_append distinct_append set_map by blast
  with look show ?case by blast
qed (simp add: bind_eq_None_conv[symmetric] split: option.splits)

lemma lat_sorted_props:
  assumes "lat_sorted d = Inr xs"
  shows "sorted (map fst xs)" and "total_samples xs = sum_list (map snd d)"
    and "(\<forall>x \<in> set xs. 0 < snd (snd x)) = counts_pos d" and "xs = [] \<longleftrightarrow> d = []"
    and "\<forall>(r, l, c) \<in> set xs. py_float l = Inr r"
proof -
  let ?f = "\<lambda>(l, c). py_bind (py_float l) (\<lambda>r. Inr (r, l, c))"
  from assms obtain ys where ys: "map ?f d = map Inr ys" and xs: "xs = sort_key fst ys"
    by (auto simp: lat_sorted_def py_mapM_Inr_iff)
  have d: "d = map snd ys"
    using ys by (induction d arbitrary: ys) (auto simp: Cons_eq_map_conv map_eq_Cons_conv)
  have fl: "\<forall>(r, l, c) \<in> set ys. py_float l = Inr r"
  proof safe
    fix r l c assume "(r, l, c) \<in> set ys"
    then have "Inr (r, l, c) \<in> set (map ?f d)" unfolding ys by simp
    then show "py_float l = Inr r" by (auto simp: image_iff dest!: sym[of "Inr _"])
  qed
  have m: "mset xs = mset ys" and st: "set xs = set ys" unfolding xs by simp_all
  show "sorted (map fst xs)" unfolding xs by simp
  have "sum_list (map (snd \<circ> snd) xs) = sum_list (map (snd \<circ> snd) ys)"
    using m by (metis mset_map sum_mset_sum_list)
  then show "total_samples xs = sum_list (map snd d)" unfolding total_samples_def d by simp
  show "(\<forall>x \<in> set xs. 0 < snd (snd x)) = counts_pos d"
    unfolding counts_pos_def st d by auto
  show "xs = [] \<longleftrightarrow> d = []" using st d by (metis map_is_Nil_conv set_empty)
  show "\<forall>(r, l, c) \<in> set xs. py_float l = Inr r" using fl st by simp
qed

lemma first_reach_mem: "first_reach th cum xs = Some (r, l) \<Longrightarrow> \<exists>c. (r, l, c) \<in> set xs"
  by (induction xs arbitrary: cum) (fastforce split: if_splits)+

lemma total_samples_pos:
  "\<forall>x \<in> set xs. 0 < snd (snd x) \<Longrightarrow> xs \<noteq> [] \<Longrightarrow> 0 < total_samples xs"
  using total_samples_nonneg[of "tl xs"] by (cases xs) (auto simp: total_samples_def)

lemma is_percentile_mono:
  assumes "is_percentile q xs v" and "is_percentile q' xs v'" and "q \<le> q'" and "0 \<le> total_samples xs"
  shows "v \<le> v'"
proof (rule ccontr)
  assume "\<not> v \<le> v'"
  with assms(1,2) have "of_int (samples_upto xs v') < q * of_int (total_samples xs)"
    by (auto simp: is_percentile_def)
  also have "\<dots> \<le> q' * of_int (total_samples xs)" using assms(3,4) by (intro mult_right_mono) auto
  also have "\<dots> \<le> of_int (samples_upto xs v')" using assms(2) by (simp add: is_percentile_def)
  finally show False by simp
qed

lemma first_reach_at:
  assumes "xs \<noteq> []" and "\<forall>x \<in> set xs. 0 < snd (snd x)" and "q \<le> 1"
  shows "\<exists>v l. first_reach (q * of_int (total_samples xs)) 0 xs = Some (v, l)"
proof -
  have "q * of_int (total_samples xs) \<le> 1 * of_int (total_samples xs)"
    using assms(3) total_samples_nonneg[OF assms(2)] by (intro mult_right_mono) auto
  then show ?thesis using first_reach_exists[OF assms(1), of _ 0] by fastforce
qed

lemma cal_lat_first_reach:
  assumes "lat_sorted d = Inr xs" and "d \<noteq> []" and "counts_pos d"
  obtains p50 l50 p99 l99 where
      "first_reach (1/2 * of_int (total_samples xs)) 0 xs = Some (p50, l50)"
      "first_reach (99/100 * of_int (total_samples xs)) 0 xs = Some (p99, l99)"
      "cal_lat d = Inr (p50, p99)"
proof -
  note p = lat_sorted_props[OF assms(1)]
  have pos: "\<forall>x \<in> set xs. 0 < snd (snd x)" and ne: "xs \<noteq> []" using p(3,4) assms(2,3) by auto
  obtain p50 l50 p99 l99 where
    r: "first_reach (1/2 * of_int (total_samples xs)) 0 xs = Some (p50, l50)"
      "first_reach (99/100 * of_int (total_samples xs)) 0 xs = Some (p99, l99)"
    using first_reach_at[OF ne pos, of "1/2"] first_reach_at[OF ne pos, of "99/100"] by auto
  have le: "of_int (total_samples xs) / 2 \<le> (of_int (total_samples xs) * 99 / 100 :: rat)"
    using total_samples_nonneg[OF pos] by simp
  have th: "of_int (total_samples xs) / 2 = (1/2 * of_int (total_samples xs) :: rat)"
    "of_int (total_samples xs) * 99 / 100 = (99/100 * of_int (total_samples xs) :: rat)" by simp_all
  have "cal_lat d = Inr (p50, p99)"
    using assms(1) cal_loop_first_reach[of 0 xs "total_samples xs", OF _ pos le] r
    unfolding cal_lat_def Let_def p(2)[symmetric] th by simp
  then show thesis using that r by blast
qed

lemma thresholds_share: "\<forall>x \<in> set (lat_thresholds n). \<exists>a \<le> 1. snd x = a * of_int n"
proof -
  have share: "\<exists>a \<le> 1. of_int n * k / m = a * (of_int n :: rat)" if "k / m \<le> 1" for k m
    by (rule exI[of _ "k / m"]) (use that in simp)
  show ?thesis
    using share[of 1 2] share[of 9 10] share[of 95 100] share[of 96 100] share[of 97 100]
      share[of 98 100] share[of 99 100] share[of 999 1000]
    by (simp add: lat_thresholds_def)
qed

lemma split_tab:
  "CHR 0x09 \<notin> set l \<Longrightarrow>
   takeWhile (\<lambda>c. c \<noteq> CHR 0x09) (l @ CHR 0x09 # t) = l \<and>
   tl (dropWhile (\<lambda>c. c \<noteq> CHR 0x09) (l @ CHR 0x09 # t)) = t"
  by (induction l) auto

text \<open>A histogram file as the benchmark writes it: one latency and its count per line.\<close>

definition render_lat :: "string \<times> nat \<Rightarrow> string" where
  "render_lat = (\<lambda>(l, n). l @ [CHR 0x09] @ show_nat n @ [CHR 0x0A])"

definition lat_key :: "string \<Rightarrow> bool" where
  "lat_key l \<longleftrightarrow> l \<noteq> [] \<and> (\<forall>c \<in> set l. \<not> py_space c)"

definition count_of :: "lat_cnt \<Rightarrow> string \<Rightarrow> int" where
  "count_of d l = (case map_of d l of None \<Rightarrow> 0 | Some n \<Rightarrow> n)"

lemma lat_line_render:
  assumes "lat_key l"
  shows "lat_line d (render_lat (l, n)) =
    Inr (if n = 0 then d else AList.update l (count_of d l + int n) d)"
proof -
  have tab: "CHR 0x09 \<notin> set l" using assms space_chars(3) unfolding lat_key_def by blast
  let ?s = "l @ CHR 0x09 # show_nat n"
  have "\<not> py_space (hd ?s)" using assms by (cases l) (auto simp: lat_key_def)
  moreover have "\<not> py_space (last ?s)"
    using show_nat_digits[of n] last_in_set[of "show_nat n"] by (auto dest: digit_not_space)
  ultimately have "py_strip (render_lat (l, n)) = ?s"
    using strip_ends(2)[of ?s] by (simp add: render_lat_def)
  moreover have "py_int (show_nat n) = Inr (int n)"
    using py_int_show_int[of "int n"] by (simp add: show_int_def)
  ultimately show ?thesis
    using split_tab[OF tab, of "show_nat n"] by (simp add: lat_line_def Let_def count_of_def)
qed

section \<open>Properties\<close>

text \<open>
  C21: \<^verbatim>\<open>__cal_lat\<close> on a non-empty dictionary of positive counts whose keys are numbers: the
  assertion at its end cannot fail, and the two values are the 50th and 99th percentile of the
  merged samples: the least latency with at least that share of all samples at or below it.
  In particular the first never exceeds the second.
\<close>

theorem cal_lat_percentiles:
  assumes "lat_sorted d = Inr xs" and "d \<noteq> []" and "counts_pos d"
  shows "\<exists>p50 p99. cal_lat d = Inr (p50, p99) \<and> is_percentile (1/2) xs p50 \<and>
           is_percentile (99/100) xs p99 \<and> p50 \<le> p99"
proof -
  note p = lat_sorted_props[OF assms(1)]
  have pos: "\<forall>x \<in> set xs. 0 < snd (snd x)" using p(3) assms(3) by simp
  obtain p50 l50 p99 l99 where
    r: "first_reach (1/2 * of_int (total_samples xs)) 0 xs = Some (p50, l50)"
      "first_reach (99/100 * of_int (total_samples xs)) 0 xs = Some (p99, l99)"
    and c: "cal_lat d = Inr (p50, p99)"
    by (rule cal_lat_first_reach[OF assms])
  have "is_percentile (1/2) xs p50" "is_percentile (99/100) xs p99"
    using first_reach_percentile[OF p(1) pos r(1)] first_reach_percentile[OF p(1) pos r(2)] .
  moreover from this have "p50 \<le> p99"
    by (rule is_percentile_mono) (use total_samples_nonneg[OF pos] in simp_all)
  ultimately show ?thesis using c by blast
qed

theorem cal_lat_percentiles_witness:
  "\<exists>p50 p99. cal_lat [(''2.5'', 3), (''1'', 4)] = Inr (p50, p99) \<and>
     is_percentile (1/2) [(1, ''1'', 4), (5/2, ''2.5'', 3)] p50 \<and>
     is_percentile (99/100) [(1, ''1'', 4), (5/2, ''2.5'', 3)] p99 \<and> p50 \<le> p99"
proof (rule cal_lat_percentiles)
  show "lat_sorted [(''2.5'', 3), (''1'', 4)] = Inr [(1, ''1'', 4), (5/2, ''2.5'', 3)]" by code_simp
qed (simp_all add: counts_pos_def)

text \<open>
  C38: The stand-alone reporter and the class agree.  On the same dictionary
  \<^verbatim>\<open>cluster_latency.py\<close> prints each of its eight labels exactly once, and the latencies it
  prints for p50 and p99 are the values \<^verbatim>\<open>LatParser\<close> returns.
\<close>

theorem cluster_cal_lat_agrees:
  assumes "lat_sorted d = Inr xs" and "d \<noteq> []" and "counts_pos d"
  shows "\<exists>out p50 p99 l50 l99. cluster_cal_lat d = Inr out \<and> cal_lat d = Inr (p50, p99) \<and>
    distinct (map fst out) \<and>
    set (map fst out) = {''p50'', ''p90'', ''p95'', ''p96'', ''p97'', ''p98'', ''p99'', ''p999''} \<and>
    map_of out ''p50'' = Some l50 \<and> py_float l50 = Inr p50 \<and>
    map_of out ''p99'' = Some l99 \<and> py_float l99 = Inr p99"
proof -
  note p = lat_sorted_props[OF assms(1)]
  have pos: "\<forall>x \<in> set xs. 0 < snd (snd x)" and ne: "xs \<noteq> []" using p(3,4) assms(2,3) by auto
  let ?n = "total_samples xs"
  let ?out = "report_loop ?n (lat_thresholds ?n) 0 xs"
  obtain p50 l50 p99 l99 where
    r: "first_reach (1/2 * of_int ?n) 0 xs = Some (p50, l50)"
      "first_reach (99/100 * of_int ?n) 0 xs = Some (p99, l99)"
    and c: "cal_lat d = Inr (p50, p99)"
    by (rule cal_lat_first_reach[OF assms])
  have dt: "distinct (map fst (lat_thresholds ?n))" by (simp add: lat_thresholds_def)
  have look: "map_of ?out q = Option.bind (map_of (lat_thresholds ?n) q)
      (\<lambda>th. map_option snd (first_reach th 0 xs))"
    and dist: "distinct (map fst ?out)" for q
    using report_loop_lookup[of 0 xs ?n, OF _ pos dt, of q] by simp_all
  have "map_of ?out q \<noteq> None \<longleftrightarrow> q \<in> fst ` set (lat_thresholds ?n)" for q
  proof
    assume "q \<in> fst ` set (lat_thresholds ?n)"
    then obtain th where th: "map_of (lat_thresholds ?n) q = Some th"
      by (metis map_of_eq_None_iff not_None_eq)
    then obtain a where "a \<le> 1" "th = a * of_int ?n"
      using thresholds_share[of ?n] map_of_SomeD by fastforce
    then show "map_of ?out q \<noteq> None"
      using look[of q] th first_reach_at[OF ne pos, of a] by auto
  next
    assume some: "map_of ?out q \<noteq> None"
    have "map_of ?out q = None" if "map_of (lat_thresholds ?n) q = None"
      unfolding look that by simp
    with some have "map_of (lat_thresholds ?n) q \<noteq> None" by (rule contrapos_nn)
    then show "q \<in> fst ` set (lat_thresholds ?n)"
      by (rule contrapos_np) (rule iffD2[OF map_of_eq_None_iff])
  qed
  then have "q \<in> fst ` set ?out \<longleftrightarrow> q \<in> fst ` set (lat_thresholds ?n)" for q
    unfolding map_of_eq_None_iff not_not .
  then have labels: "fst ` set ?out = fst ` set (lat_thresholds ?n)" by (rule set_eqI)
  have fl: "py_float l50 = Inr p50" "py_float l99 = Inr p99"
    using p(5) first_reach_mem[OF r(1)] first_reach_mem[OF r(2)] by auto
  have "map_of ?out ''p50'' = Some l50" "map_of ?out ''p99'' = Some l99"
    using r unfolding look by (simp_all add: lat_thresholds_def mult.commute)
  moreover have "cluster_cal_lat d = Inr ?out"
    using assms(1) p(2) by (simp add: cluster_cal_lat_def Let_def)
  moreover have "set (map fst ?out) =
      {''p50'', ''p90'', ''p95'', ''p96'', ''p97'', ''p98'', ''p99'', ''p999''}"
    using labels by (simp add: lat_thresholds_def)
  ultimately show ?thesis using c dist fl by blast
qed

theorem cluster_cal_lat_agrees_witness:
  "\<exists>out p50 p99 l50 l99. cluster_cal_lat [(''2.5'', 3), (''1'', 4)] = Inr out \<and>
    cal_lat [(''2.5'', 3), (''1'', 4)] = Inr (p50, p99) \<and> distinct (map fst out) \<and>
    set (map fst out) = {''p50'', ''p90'', ''p95'', ''p96'', ''p97'', ''p98'', ''p99'', ''p999''} \<and>
    map_of out ''p50'' = Some l50 \<and> py_float l50 = Inr p50 \<and>
    map_of out ''p99'' = Some l99 \<and> py_float l99 = Inr p99"
proof (rule cluster_cal_lat_agrees)
  show "lat_sorted [(''2.5'', 3), (''1'', 4)] = Inr [(1, ''1'', 4), (5/2, ''2.5'', 3)]" by code_simp
qed (simp_all add: counts_pos_def)

text \<open>
  Merging a histogram file adds, for every latency, the counts the file lists for it; an
  unreadable line (no tab, or a count that is not a number) ends the file silently, so exactly
  the lines before it are counted.
\<close>

theorem lat_file_counts:
  assumes "\<forall>(l, n) \<in> set es. lat_key l" and "bad = [] \<or> (\<exists>e. \<forall>d. lat_line d (hd bad) = Inl e)"
  shows "count_of (lat_file d (map render_lat es @ bad)) l =
    count_of d l + int (sum_list (map snd (filter (\<lambda>e. fst e = l) es)))"
  using assms(1)
proof (induction es arbitrary: d)
  case Nil
  then show ?case using assms(2) by (cases bad) auto
next
  case (Cons e es)
  obtain k n where e: "e = (k, n)" by (cases e)
  let ?d = "if n = 0 then d else AList.update k (count_of d k + int n) d"
  have "count_of ?d l = count_of d l + (if k = l then int n else 0)"
    by (auto simp: count_of_def update_conv')
  then show ?case using Cons e by (simp add: lat_line_render)
qed

theorem lat_file_counts_witness:
  "count_of (lat_file [(''1.5'', 2)] (map render_lat [(''1.5'', 4), (''2'', 1)] @ [''garbage''])) ''1.5'' =
     count_of [(''1.5'', 2)] ''1.5'' +
       int (sum_list (map snd (filter (\<lambda>e. fst e = ''1.5'') [(''1.5'', 4), (''2'', 1)])))"
proof (rule lat_file_counts)
  have "CHR 0x09 \<notin> set (py_strip ''garbage'')" by code_simp
  then show "[''garbage''] = [] \<or> (\<exists>e. \<forall>d. lat_line d (hd [''garbage'']) = Inl e)"
    by (simp add: lat_line_def Let_def)
qed (simp add: lat_key_def py_space_def code_def)

end
