(* ===== verification/Log_Parser.thy ===== *)
theory Log_Parser
  imports Py_State
begin

text \<open>
  \<^verbatim>\<open>exp/utils/log_parser.py\<close> (class \<^verbatim>\<open>LogParser\<close>): the numbers the benchmark prints per epoch,
  read back from the logs of the nodes.  A log is the list of its lines; the logs of a run are
  an insertion-ordered dictionary.  Shown: on logs of the form \<^verbatim>\<open>test/ycsb_test.cpp\<close> prints, the
  averaging parser returns the mean over an exactly determined range of epochs, the single-epoch
  parser returns the numbers of that epoch, and the choice of the log among the nodes.
\<close>

section \<open>Definitions\<close>

type_synonym logs = "(string \<times> string list) list"

definition field :: "string \<Rightarrow> nat \<Rightarrow> string py" where
  "field line i = py_index (split_on (CHR '' '') (py_strip line)) i"

text \<open>
  \<^verbatim>\<open>data = line.strip().split(' ')[i]; if data.replace('.', '').isdigit(): ... float(data) * k\<close>:
  \<open>None\<close> when the guard fails.
\<close>

definition num_field :: "string \<Rightarrow> nat \<Rightarrow> rat \<Rightarrow> rat option py" where
  "num_field line i k =
     py_bind (field line i) (\<lambda>data.
     if py_isdigit (py_replace ''.'' '''' data)
     then py_bind (py_float data) (\<lambda>r. Inr (Some (r * k)))
     else Inr None)"

definition get_avg :: "rat list \<Rightarrow> rat" where
  "get_avg l = (if l = [] then 0 else sum_list l / of_nat (length l))"

fun cache_log :: "rat list \<times> rat list \<Rightarrow> string list \<Rightarrow> (rat list \<times> rat list) py" where
  "cache_log (cs, hs) [] = Inr (cs, hs)"
| "cache_log (cs, hs) (line # ls) =
     py_bind (if py_in ''consumed cache size'' line
              then py_bind (field line 4) (\<lambda>x. py_bind (py_float x) (\<lambda>r. Inr (cs @ [r])))
              else Inr cs) (\<lambda>cs.
     if py_in ''consumed hotspot buffer size'' line
     then py_bind (field line 5) (\<lambda>x. py_bind (py_float x) (\<lambda>r. Inr (cs, hs @ [r])))
     else cache_log (cs, hs) ls)"

definition get_cache_statistics :: "logs \<Rightarrow> (rat \<times> rat) py" where
  "get_cache_statistics logs =
     py_bind (py_foldM cache_log ([], []) (map snd logs)) (\<lambda>(cs, hs).
       Inr (get_avg cs, get_avg hs))"

record log_stats =
  tpt :: "rat option"
  cache_hit_rate :: rat
  lock_fail_cnt :: rat
  leaf_invalid_rate :: rat
  speculative_ratio :: rat
  speculative_accuracy :: rat
  load_factor :: rat

definition no_stats :: log_stats where
  "no_stats = \<lparr>tpt = None, cache_hit_rate = 0, lock_fail_cnt = 0, leaf_invalid_rate = 0,
     speculative_ratio = 0, speculative_accuracy = 0, load_factor = 0\<rparr>"

definition epoch_mark :: "int \<Rightarrow> string" where
  "epoch_mark e = ''epoch '' @ show_int e @ '' passed!''"

definition set_if :: "rat option \<Rightarrow> rat \<Rightarrow> rat" where
  "set_if v old = (case v of None \<Rightarrow> old | Some x \<Rightarrow> x)"

definition parse_step ::
  "int \<Rightarrow> bool \<times> log_stats \<Rightarrow> string \<Rightarrow> ((bool \<times> log_stats) \<times> bool) py" where
  "parse_step target_epoch = (\<lambda>(flag, st) line.
     if py_in (epoch_mark target_epoch) line then Inr ((True, st), False)
     else if flag \<and> py_in ''cluster throughput'' line then
       py_bind (field line 2) (\<lambda>x. py_bind (py_float x) (\<lambda>r.
         Inr ((flag, st\<lparr>tpt := Some r\<rparr>), False)))
     else if flag \<and> py_in ''cache hit rate'' line then
       py_bind (num_field line 3 1) (\<lambda>v.
         Inr ((flag, st\<lparr>cache_hit_rate := set_if v (cache_hit_rate st)\<rparr>), False))
     else if flag \<and> py_in ''avg. lock/cas fail cnt'' line then
       py_bind (num_field line 4 1) (\<lambda>v.
         Inr ((flag, st\<lparr>lock_fail_cnt := set_if v (lock_fail_cnt st)\<rparr>), False))
     else if flag \<and> py_in ''read invalid leaf rate'' line then
       py_bind (num_field line 4 100) (\<lambda>v.
         Inr ((flag, st\<lparr>leaf_invalid_rate := set_if v (leaf_invalid_rate st)\<rparr>), False))
     else if flag \<and> py_in ''speculative read rate'' line then
       py_bind (num_field line 3 100) (\<lambda>v.
         Inr ((flag, st\<lparr>speculative_ratio := set_if v (speculative_ratio st)\<rparr>), False))
     else if flag \<and> py_in ''correct ratio of speculative read'' line then
       py_bind (num_field line 5 100) (\<lambda>v.
         Inr ((flag, st\<lparr>speculative_accuracy := set_if v (speculative_accuracy st)\<rparr>), False))
     else if flag \<and> py_in ''avg. leaf load factor'' line then
       py_bind (num_field line 4 100) (\<lambda>v.
         Inr ((flag, st\<lparr>load_factor := set_if v (load_factor st)\<rparr>), True))
     else Inr ((flag, st), False))"

definition parse_log :: "string list \<Rightarrow> int \<Rightarrow> log_stats py" where
  "parse_log lg target_epoch =
     py_bind (py_for_break (parse_step target_epoch) (False, no_stats) lg)
       (\<lambda>((flag, st), brk). Inr st)"

record avg_stats =
  a_tpt :: "rat list"
  a_cache_hit_rate :: "rat list"
  a_lock_fail_cnt :: "rat list"
  a_leaf_invalid_rate :: "rat list"
  a_speculative_ratio :: "rat list"
  a_speculative_accuracy :: "rat list"
  a_load_factor :: "rat list"

definition no_avg :: avg_stats where
  "no_avg = \<lparr>a_tpt = [], a_cache_hit_rate = [], a_lock_fail_cnt = [], a_leaf_invalid_rate = [],
     a_speculative_ratio = [], a_speculative_accuracy = [], a_load_factor = []\<rparr>"

definition push_if :: "rat option \<Rightarrow> rat list \<Rightarrow> rat list" where
  "push_if v l = (case v of None \<Rightarrow> l | Some x \<Rightarrow> l @ [x])"

definition start_epoch :: "int \<Rightarrow> int" where
  "start_epoch target_epoch = max (target_epoch div 2) (target_epoch - 4)"

definition avg_step ::
  "int \<Rightarrow> bool \<times> avg_stats \<times> int \<Rightarrow> string \<Rightarrow> ((bool \<times> avg_stats \<times> int) \<times> bool) py" where
  "avg_step target_epoch = (\<lambda>(flag, st, cnt) line.
     if py_in (epoch_mark (start_epoch target_epoch)) line then Inr ((True, st, cnt), False)
     else if flag \<and> py_in ''cluster throughput'' line then
       py_bind (field line 2) (\<lambda>x. py_bind (py_float x) (\<lambda>r.
         Inr ((flag, st\<lparr>a_tpt := a_tpt st @ [r]\<rparr>, cnt), False)))
     else if flag \<and> py_in ''cache hit rate'' line then
       py_bind (num_field line 3 1) (\<lambda>v.
         Inr ((flag, st\<lparr>a_cache_hit_rate := push_if v (a_cache_hit_rate st)\<rparr>, cnt), False))
     else if flag \<and> py_in ''avg. lock/cas fail cnt'' line then
       py_bind (num_field line 4 1) (\<lambda>v.
         Inr ((flag, st\<lparr>a_lock_fail_cnt := push_if v (a_lock_fail_cnt st)\<rparr>, cnt), False))
     else if flag \<and> py_in ''read invalid leaf rate'' line then
       py_bind (num_field line 4 100) (\<lambda>v.
         Inr ((flag, st\<lparr>a_leaf_invalid_rate := push_if v (a_leaf_invalid_rate st)\<rparr>, cnt), False))
     else if flag \<and> py_in ''speculative read rate'' line then
       py_bind (num_field line 3 100) (\<lambda>v.
         Inr ((flag, st\<lparr>a_speculative_ratio := push_if v (a_speculative_ratio st)\<rparr>, cnt), False))
     else if flag \<and> py_in ''correct ratio of speculative read'' line then
       py_bind (num_field line 5 100) (\<lambda>v.
         Inr ((flag, st\<lparr>a_speculative_accuracy := push_if v (a_speculative_accuracy st)\<rparr>, cnt), False))
     else if flag \<and> py_in ''avg. leaf load factor'' line then
       py_bind (num_field line 4 100) (\<lambda>v.
         Inr ((flag, st\<lparr>a_load_factor := push_if v (a_load_factor st)\<rparr>, cnt + 1),
              cnt + 1 = target_epoch))
     else Inr ((flag, st, cnt), False))"

definition avg_result :: "avg_stats \<Rightarrow> log_stats" where
  "avg_result st =
     \<lparr>tpt = (if a_tpt st = [] then None else Some (get_avg (a_tpt st))),
      cache_hit_rate = get_avg (a_cache_hit_rate st),
      lock_fail_cnt = get_avg (a_lock_fail_cnt st),
      leaf_invalid_rate = get_avg (a_leaf_invalid_rate st),
      speculative_ratio = get_avg (a_speculative_ratio st),
      speculative_accuracy = get_avg (a_speculative_accuracy st),
      load_factor = get_avg (a_load_factor st)\<rparr>"

definition parse_log_avg :: "string list \<Rightarrow> int \<Rightarrow> log_stats py" where
  "parse_log_avg lg target_epoch =
     py_bind (py_for_break (avg_step target_epoch) (False, no_avg, start_epoch target_epoch) lg)
       (\<lambda>((flag, st, cnt), brk). Inr (avg_result st))"

text \<open>The first log with a throughput wins; with no log at all \<^verbatim>\<open>tpt\<close> is unbound.\<close>

fun pick_log :: "(string list \<Rightarrow> log_stats py) \<Rightarrow> log_stats option \<Rightarrow> logs \<Rightarrow> log_stats py" where
  "pick_log parse prev [] =
     (case prev of None \<Rightarrow> Inl UnboundLocalError
      | Some st \<Rightarrow> py_bind (py_assert (tpt st \<noteq> None)) (\<lambda>_. Inr st))"
| "pick_log parse prev ((ip, lg) # logs) =
     py_bind (parse lg) (\<lambda>st. if tpt st \<noteq> None then Inr st else pick_log parse (Some st) logs)"

definition get_statistics :: "logs \<Rightarrow> int \<Rightarrow> bool \<Rightarrow> log_stats py" where
  "get_statistics logs target_epoch avg =
     pick_log (\<lambda>lg. if avg then parse_log_avg lg target_epoch else parse_log lg target_epoch)
       None logs"

definition redundant_step ::
  "bool \<times> rat option \<times> rat option \<times> rat option \<Rightarrow> string \<Rightarrow>
   ((bool \<times> rat option \<times> rat option \<times> rat option) \<times> bool) py" where
  "redundant_step = (\<lambda>(flag, r, w, c) line.
     if py_in ''Calculation done!'' line then Inr ((True, r, w, c), False)
     else if flag \<and> py_in ''Avg. redundant rdma_read'' line then
       py_bind (num_field line 3 1) (\<lambda>v. Inr ((flag, if v = None then r else v, w, c), False))
     else if flag \<and> py_in ''Avg. redundant rdma_write'' line then
       py_bind (num_field line 3 1) (\<lambda>v. Inr ((flag, r, if v = None then w else v, c), False))
     else if flag \<and> py_in ''Avg. redundant rdma_cas'' line then
       py_bind (num_field line 3 1) (\<lambda>v. Inr ((flag, r, w, if v = None then c else v), True))
     else Inr ((flag, r, w, c), False))"

definition get_redundant_statistics ::
  "string list \<Rightarrow> (rat option \<times> rat option \<times> rat option) py" where
  "get_redundant_statistics lg =
     py_bind (py_for_break redundant_step (False, None, None, None) lg)
       (\<lambda>((flag, res), brk). Inr res)"

section \<open>What the benchmark prints\<close>

text \<open>
  The statistics block of one epoch (\<^verbatim>\<open>test/ycsb_test.cpp\<close>, lines 490-505): the epoch mark, the
  throughput and thirteen rates, each number as the text \<^verbatim>\<open>printf\<close> made of it.
\<close>

record epoch_out =
  eo_tpt :: string
  eo_rates :: "string list"

definition rate_names :: "string list" where
  "rate_names =
     [''cache hit rate: '', ''avg. lock/cas fail cnt: '', ''write combining rate: '',
      ''read delegation rate: '', ''read leaf retry rate: '', ''read invalid leaf rate: '',
      ''read sibling leaf rate: '', ''speculative read rate: '',
      ''correct ratio of speculative read: '', ''read two hopscotch-segments rate: '',
      ''write two hopscotch-segments rate: '', ''node split rate: '', ''avg. leaf load factor: '']"

definition epoch_lines :: "int \<Rightarrow> epoch_out \<Rightarrow> string list" where
  "epoch_lines e b =
     [epoch_mark e, fld ''cluster throughput '' (eo_tpt b @ '' Mops'')] @
     map2 fld rate_names (eo_rates b) @ [[]]"

text \<open>Number tokens: \<^verbatim>\<open>%.4lf\<close> output, including the not-a-number of an empty counter.\<close>

definition token :: "string \<Rightarrow> bool" where
  "token t \<longleftrightarrow> t \<noteq> [] \<and> set t \<subseteq> set ''0123456789.-na''"

definition num_token :: "string \<Rightarrow> bool" where
  "num_token t \<longleftrightarrow> token t \<and> (\<exists>r. py_float t = Inr r)"

definition rate_token :: "string \<Rightarrow> bool" where
  "rate_token t \<longleftrightarrow>
     token t \<and> (py_isdigit (py_replace ''.'' [] t) \<longrightarrow> (\<exists>r. py_float t = Inr r))"

definition tok_val :: "string \<Rightarrow> rat" where
  "tok_val t = (case py_float t of Inr r \<Rightarrow> r | Inl e \<Rightarrow> 0)"

definition rate_val :: "string \<Rightarrow> rat \<Rightarrow> rat option" where
  "rate_val t k = (if py_isdigit (py_replace ''.'' [] t) then Some (tok_val t * k) else None)"

definition epoch_ok :: "epoch_out \<Rightarrow> bool" where
  "epoch_ok b \<longleftrightarrow> num_token (eo_tpt b) \<and> length (eo_rates b) = 13 \<and>
     (\<forall>t \<in> set (eo_rates b). rate_token t)"

lemma num_token_code [code]: "num_token t \<longleftrightarrow> token t \<and> \<not> isl (py_float t)"
  by (cases "py_float t") (auto simp: num_token_def)

lemma rate_token_code [code]:
  "rate_token t \<longleftrightarrow>
     token t \<and> (py_isdigit (py_replace ''.'' [] t) \<longrightarrow> \<not> isl (py_float t))"
  by (cases "py_float t") (auto simp: rate_token_def)

lemma token_no_space: "token t \<Longrightarrow> \<forall>c \<in> set t. \<not> py_space c"
proof -
  have "\<forall>c \<in> set ''0123456789.-na''. \<not> py_space c" by code_simp
  then show "token t \<Longrightarrow> ?thesis" unfolding token_def by blast
qed

lemma token_last: "token t \<Longrightarrow> c \<notin> set ''0123456789.-na'' \<Longrightarrow> c \<notin> set t"
  unfolding token_def by blast

lemma field_fld:
  assumes "token t" and "s \<noteq> []" and "\<not> py_space (hd s)"
  shows "field (fld s t) i =
    py_index (butlast (split_on (CHR '' '') s) @ [last (split_on (CHR '' '') s) @ t]) i"
proof -
  have ns: "\<forall>c \<in> set t. \<not> py_space c" "t \<noteq> []"
    using assms(1) token_no_space by (auto simp: token_def)
  then have "py_strip (s @ t) = s @ t" using assms(2,3) by (intro strip_ends(1)) auto
  moreover have "CHR '' '' \<notin> set t" using ns(1) space_chars(1) by blast
  ultimately show ?thesis by (simp add: field_def fld_def split_on_app)
qed

lemma field_tpt:
  assumes "token t"
  shows "field (fld ''cluster throughput '' (t @ '' Mops'')) 2 = Inr t"
proof -
  have "\<forall>c \<in> set t. \<not> py_space c" using assms token_no_space by blast
  then have sp: "CHR '' '' \<notin> set t" using space_chars(1) by blast
  have "py_strip (''cluster throughput '' @ t @ '' Mops'') = ''cluster throughput '' @ t @ '' Mops''"
    by (rule strip_ends(1)) (simp_all add: py_space_def code_def)
  moreover have "split_on (CHR '' '') (''cluster throughput '' @ t @ '' Mops'') =
      [''cluster'', ''throughput'', t, ''Mops'']"
    using split_on_append[OF sp, of "''Mops''"] by simp
  ultimately show ?thesis by (simp add: field_def fld_def)
qed

lemma num_field_rate:
  assumes "rate_token t" and "field l i = Inr t"
  shows "num_field l i k = Inr (rate_val t k)"
  using assms by (auto simp: num_field_def rate_token_def rate_val_def tok_val_def)

section \<open>Which branch a line takes\<close>

definition log_keywords :: "string list" where
  "log_keywords = [''cluster throughput'', ''cache hit rate'', ''avg. lock/cas fail cnt'',
     ''read invalid leaf rate'', ''speculative read rate'', ''correct ratio of speculative read'',
     ''avg. leaf load factor'']"

lemma mark_not_in_fld:
  assumes "CHR ''!'' \<notin> set s" and "CHR ''!'' \<notin> set t"
  shows "\<not> py_in (epoch_mark e) (fld s t)"
  using assms by (intro py_in_missing[of "CHR ''!''"]) (auto simp: epoch_mark_def fld_def)

lemma mark_in_mark: "py_in (epoch_mark a) (epoch_mark b) \<longleftrightarrow> a = b"
proof
  assume "py_in (epoch_mark a) (epoch_mark b)"
  then obtain x y where e: "epoch_mark b = x @ epoch_mark a @ y" by (auto simp: py_in_iff)
  have nh: "CHR ''h'' \<notin> set (show_int i)" "CHR ''!'' \<notin> set (show_int i)" for i
    using show_nat_digits[of "nat i"] show_nat_digits[of "nat (- i)"]
    by (auto simp: show_int_def is_digit_def code_def)
  have "''epoc'' @ CHR ''h'' # ('' '' @ show_int b @ '' passed!'') =
      (x @ ''epoc'') @ CHR ''h'' # ('' '' @ show_int a @ '' passed!'' @ y)"
    using e by (simp add: epoch_mark_def)
  then have "'' '' @ show_int b @ '' passed!'' = '' '' @ show_int a @ '' passed!'' @ y"
    using nh by (subst (asm) append_Cons_eq_iff) auto
  then have "(show_int b @ '' passed'') @ CHR ''!'' # [] = (show_int a @ '' passed'') @ CHR ''!'' # y"
    by simp
  then have "show_int b @ '' passed'' = show_int a @ '' passed''"
    using nh by (subst (asm) append_Cons_eq_iff) auto
  then show "a = b" by simp
qed simp

lemma keyword_not_in_mark: "k \<in> set log_keywords \<Longrightarrow> \<not> py_in k (epoch_mark e)"
proof -
  have d: "c \<in> set (show_int e) \<Longrightarrow> is_digit c \<or> c = CHR ''-''" for c
    using show_nat_digits[of "nat e"] show_nat_digits[of "nat (- e)"]
    by (auto simp: show_int_def split: if_splits)
  have "CHR ''r'' \<notin> set (epoch_mark e)"
    using d[of "CHR ''r''"] by (auto simp: epoch_mark_def is_digit_def code_def)
  moreover have "CHR ''l'' \<notin> set (epoch_mark e)"
    using d[of "CHR ''l''"] by (auto simp: epoch_mark_def is_digit_def code_def)
  moreover assume "k \<in> set log_keywords"
  then have "CHR ''r'' \<in> set k \<or> CHR ''l'' \<in> set k" by (auto simp: log_keywords_def)
  ultimately show ?thesis using py_in_missing by blast
qed

lemma keyword_last:
  "k \<in> set log_keywords \<Longrightarrow> k \<noteq> [] \<and> last k \<notin> set (''0123456789.-na'' @ '' Mops'')"
proof -
  have "\<forall>k \<in> set log_keywords. k \<noteq> [] \<and> last k \<notin> set (''0123456789.-na'' @ '' Mops'')"
    by code_simp
  then show "k \<in> set log_keywords \<Longrightarrow> ?thesis" by blast
qed

lemma keyword_in_rate:
  assumes "token t" and "k \<in> set log_keywords"
  shows "py_in k (fld s t) \<longleftrightarrow> py_in k s"
proof (rule py_in_fld)
  show "k \<noteq> []" using keyword_last[OF assms(2)] by blast
  show "last k \<notin> set t"
    using keyword_last[OF assms(2)] token_last[OF assms(1)] unfolding set_append by blast
qed

lemma keyword_in_tpt:
  assumes "token t" and "k \<in> set log_keywords"
  shows "py_in k (fld ''cluster throughput '' (t @ '' Mops'')) \<longleftrightarrow> k = ''cluster throughput''"
proof -
  have "last k \<notin> set (t @ '' Mops'')"
    using keyword_last[OF assms(2)] assms(1) unfolding token_def set_append by blast
  then have "py_in k (fld ''cluster throughput '' (t @ '' Mops'')) = py_in k ''cluster throughput ''"
    using keyword_last[OF assms(2)] by (intro py_in_fld) blast+
  moreover have "\<forall>k \<in> set log_keywords. py_in k ''cluster throughput '' = (k = ''cluster throughput'')"
    by code_simp
  ultimately show ?thesis using assms(2) by blast
qed

section \<open>The averaging loop on a block\<close>

lemma no_bang: "token t \<Longrightarrow> CHR ''!'' \<notin> set t"
  by (rule token_last) simp_all

lemma avg_step_mark:
  "avg_step g (flag, st, c) (epoch_mark e) = Inr ((flag \<or> e = start_epoch g, st, c), False)"
proof -
  have "k \<in> set log_keywords \<Longrightarrow> \<not> py_in k (epoch_mark e)" for k
    by (rule keyword_not_in_mark)
  then show ?thesis unfolding log_keywords_def by (auto simp: avg_step_def mark_in_mark)
qed

lemma avg_step_blank: "avg_step g (flag, st, c) [] = Inr ((flag, st, c), False)"
  by (simp add: avg_step_def epoch_mark_def)

lemma avg_step_noise:
  assumes "\<forall>k \<in> set log_keywords. \<not> py_in k l" and "\<not> py_in (epoch_mark (start_epoch g)) l"
  shows "avg_step g s l = Inr (s, False)"
  using assms by (cases s) (simp add: avg_step_def log_keywords_def)

lemma avg_step_off:
  "\<not> py_in (epoch_mark (start_epoch g)) l \<Longrightarrow> avg_step g (False, st, c) l = Inr ((False, st, c), False)"
  by (simp add: avg_step_def)

lemma avg_step_tpt:
  assumes "num_token t"
  shows "avg_step g (True, st, c) (fld ''cluster throughput '' (t @ '' Mops'')) =
    Inr ((True, st\<lparr>a_tpt := a_tpt st @ [tok_val t]\<rparr>, c), False)"
proof -
  have tok: "token t" and v: "py_float t = Inr (tok_val t)"
    using assms by (auto simp: num_token_def tok_val_def)
  have "\<not> py_in (epoch_mark e) (fld ''cluster throughput '' (t @ '' Mops''))" for e
    using no_bang[OF tok] by (intro mark_not_in_fld) auto
  then show ?thesis
    using keyword_in_tpt[OF tok, of "''cluster throughput''"] v field_tpt[OF tok]
    by (simp add: avg_step_def log_keywords_def)
qed

definition rate_branch :: "string \<Rightarrow> string list" where
  "rate_branch s = filter (\<lambda>k. py_in k s) log_keywords"

lemma rate_branch_iff: "k \<in> set log_keywords \<Longrightarrow> py_in k s \<longleftrightarrow> k \<in> set (rate_branch s)"
  by (simp add: rate_branch_def)

lemma rate_branches:
  "rate_branch ''cache hit rate: '' = [''cache hit rate'']"
  "rate_branch ''avg. lock/cas fail cnt: '' = [''avg. lock/cas fail cnt'']"
  "rate_branch ''write combining rate: '' = []"
  "rate_branch ''read delegation rate: '' = []"
  "rate_branch ''read leaf retry rate: '' = []"
  "rate_branch ''read invalid leaf rate: '' = [''read invalid leaf rate'']"
  "rate_branch ''read sibling leaf rate: '' = []"
  "rate_branch ''speculative read rate: '' = [''speculative read rate'']"
  "rate_branch ''correct ratio of speculative read: '' = [''correct ratio of speculative read'']"
  "rate_branch ''read two hopscotch-segments rate: '' = []"
  "rate_branch ''write two hopscotch-segments rate: '' = []"
  "rate_branch ''node split rate: '' = []"
  "rate_branch ''avg. leaf load factor: '' = [''avg. leaf load factor'']"
  by code_simp+

lemma rate_name_props:
  "s \<in> set rate_names \<Longrightarrow>
   CHR ''!'' \<notin> set s \<and> s \<noteq> [] \<and> \<not> py_space (hd s) \<and> last (split_on (CHR '' '') s) = []"
proof -
  have "\<forall>s \<in> set rate_names.
      CHR ''!'' \<notin> set s \<and> s \<noteq> [] \<and> \<not> py_space (hd s) \<and> last (split_on (CHR '' '') s) = []"
    by code_simp
  then show "s \<in> set rate_names \<Longrightarrow> ?thesis" by blast
qed

lemma num_field_at:
  assumes "rate_token t" and "s \<in> set rate_names" and "length (split_on (CHR '' '') s) = Suc i"
  shows "num_field (fld s t) i k = Inr (rate_val t k)"
proof (rule num_field_rate[OF assms(1)])
  have "token t" using assms(1) by (simp add: rate_token_def)
  then show "field (fld s t) i = Inr t"
    using rate_name_props[OF assms(2)] assms(3) by (simp add: field_fld py_index_def nth_append)
qed

text \<open>The effect of a rate line, by the keyword it contains.\<close>

lemma avg_step_rate:
  assumes "rate_token t" and "s \<in> set rate_names"
  shows
    "rate_branch s = [] \<Longrightarrow> avg_step g (True, st, c) (fld s t) = Inr ((True, st, c), False)"
    "rate_branch s = [''cache hit rate''] \<Longrightarrow> length (split_on (CHR '' '') s) = 4 \<Longrightarrow>
       avg_step g (True, st, c) (fld s t) =
         Inr ((True, st\<lparr>a_cache_hit_rate := push_if (rate_val t 1) (a_cache_hit_rate st)\<rparr>, c), False)"
    "rate_branch s = [''avg. lock/cas fail cnt''] \<Longrightarrow> length (split_on (CHR '' '') s) = 5 \<Longrightarrow>
       avg_step g (True, st, c) (fld s t) =
         Inr ((True, st\<lparr>a_lock_fail_cnt := push_if (rate_val t 1) (a_lock_fail_cnt st)\<rparr>, c), False)"
    "rate_branch s = [''read invalid leaf rate''] \<Longrightarrow> length (split_on (CHR '' '') s) = 5 \<Longrightarrow>
       avg_step g (True, st, c) (fld s t) =
         Inr ((True, st\<lparr>a_leaf_invalid_rate := push_if (rate_val t 100) (a_leaf_invalid_rate st)\<rparr>, c), False)"
    "rate_branch s = [''speculative read rate''] \<Longrightarrow> length (split_on (CHR '' '') s) = 4 \<Longrightarrow>
       avg_step g (True, st, c) (fld s t) =
         Inr ((True, st\<lparr>a_speculative_ratio := push_if (rate_val t 100) (a_speculative_ratio st)\<rparr>, c), False)"
    "rate_branch s = [''correct ratio of speculative read''] \<Longrightarrow> length (split_on (CHR '' '') s) = 6 \<Longrightarrow>
       avg_step g (True, st, c) (fld s t) =
         Inr ((True, st\<lparr>a_speculative_accuracy := push_if (rate_val t 100) (a_speculative_accuracy st)\<rparr>, c), False)"
    "rate_branch s = [''avg. leaf load factor''] \<Longrightarrow> length (split_on (CHR '' '') s) = 5 \<Longrightarrow>
       avg_step g (True, st, c) (fld s t) =
         Inr ((True, st\<lparr>a_load_factor := push_if (rate_val t 100) (a_load_factor st)\<rparr>, c + 1), c + 1 = g)"
proof -
  have tok: "token t" using assms(1) by (simp add: rate_token_def)
  have m: "\<not> py_in (epoch_mark (start_epoch g)) (fld s t)"
    using no_bang[OF tok] rate_name_props[OF assms(2)] by (intro mark_not_in_fld) auto
  have kw: "k \<in> set log_keywords \<Longrightarrow> py_in k (fld s t) \<longleftrightarrow> k \<in> set (rate_branch s)" for k
    using keyword_in_rate[OF tok, of k s] rate_branch_iff[of k s] by simp
  note a = avg_step_def m kw log_keywords_def
  { assume "rate_branch s = []"
    then show "avg_step g (True, st, c) (fld s t) = Inr ((True, st, c), False)"
      by (simp add: a) }
  { assume "rate_branch s = [''cache hit rate'']" "length (split_on (CHR '' '') s) = 4"
    then show "avg_step g (True, st, c) (fld s t) =
        Inr ((True, st\<lparr>a_cache_hit_rate := push_if (rate_val t 1) (a_cache_hit_rate st)\<rparr>, c), False)"
      by (simp add: a num_field_at[OF assms]) }
  { assume "rate_branch s = [''avg. lock/cas fail cnt'']" "length (split_on (CHR '' '') s) = 5"
    then show "avg_step g (True, st, c) (fld s t) =
        Inr ((True, st\<lparr>a_lock_fail_cnt := push_if (rate_val t 1) (a_lock_fail_cnt st)\<rparr>, c), False)"
      by (simp add: a num_field_at[OF assms]) }
  { assume "rate_branch s = [''read invalid leaf rate'']" "length (split_on (CHR '' '') s) = 5"
    then show "avg_step g (True, st, c) (fld s t) =
        Inr ((True, st\<lparr>a_leaf_invalid_rate := push_if (rate_val t 100) (a_leaf_invalid_rate st)\<rparr>, c), False)"
      by (simp add: a num_field_at[OF assms]) }
  { assume "rate_branch s = [''speculative read rate'']" "length (split_on (CHR '' '') s) = 4"
    then show "avg_step g (True, st, c) (fld s t) =
        Inr ((True, st\<lparr>a_speculative_ratio := push_if (rate_val t 100) (a_speculative_ratio st)\<rparr>, c), False)"
      by (simp add: a num_field_at[OF assms]) }
  { assume "rate_branch s = [''correct ratio of speculative read'']"
      "length (split_on (CHR '' '') s) = 6"
    then show "avg_step g (True, st, c) (fld s t) =
        Inr ((True, st\<lparr>a_speculative_accuracy := push_if (rate_val t 100) (a_speculative_accuracy st)\<rparr>, c), False)"
      by (simp add: a num_field_at[OF assms]) }
  { assume "rate_branch s = [''avg. leaf load factor'']" "length (split_on (CHR '' '') s) = 5"
    then show "avg_step g (True, st, c) (fld s t) =
        Inr ((True, st\<lparr>a_load_factor := push_if (rate_val t 100) (a_load_factor st)\<rparr>, c + 1), c + 1 = g)"
      by (simp add: a num_field_at[OF assms]) }
qed

lemma rate_lines:
  assumes "rate_token t"
  shows
    "avg_step g (True, st, c) (fld ''cache hit rate: '' t) =
       Inr ((True, st\<lparr>a_cache_hit_rate := push_if (rate_val t 1) (a_cache_hit_rate st)\<rparr>, c), False)"
    "avg_step g (True, st, c) (fld ''avg. lock/cas fail cnt: '' t) =
       Inr ((True, st\<lparr>a_lock_fail_cnt := push_if (rate_val t 1) (a_lock_fail_cnt st)\<rparr>, c), False)"
    "avg_step g (True, st, c) (fld ''read invalid leaf rate: '' t) =
       Inr ((True, st\<lparr>a_leaf_invalid_rate := push_if (rate_val t 100) (a_leaf_invalid_rate st)\<rparr>, c), False)"
    "avg_step g (True, st, c) (fld ''speculative read rate: '' t) =
       Inr ((True, st\<lparr>a_speculative_ratio := push_if (rate_val t 100) (a_speculative_ratio st)\<rparr>, c), False)"
    "avg_step g (True, st, c) (fld ''correct ratio of speculative read: '' t) =
       Inr ((True, st\<lparr>a_speculative_accuracy := push_if (rate_val t 100) (a_speculative_accuracy st)\<rparr>, c), False)"
    "avg_step g (True, st, c) (fld ''avg. leaf load factor: '' t) =
       Inr ((True, st\<lparr>a_load_factor := push_if (rate_val t 100) (a_load_factor st)\<rparr>, c + 1), c + 1 = g)"
    "avg_step g (True, st, c) (fld ''write combining rate: '' t) = Inr ((True, st, c), False)"
    "avg_step g (True, st, c) (fld ''read delegation rate: '' t) = Inr ((True, st, c), False)"
    "avg_step g (True, st, c) (fld ''read leaf retry rate: '' t) = Inr ((True, st, c), False)"
    "avg_step g (True, st, c) (fld ''read sibling leaf rate: '' t) = Inr ((True, st, c), False)"
    "avg_step g (True, st, c) (fld ''read two hopscotch-segments rate: '' t) = Inr ((True, st, c), False)"
    "avg_step g (True, st, c) (fld ''write two hopscotch-segments rate: '' t) = Inr ((True, st, c), False)"
    "avg_step g (True, st, c) (fld ''node split rate: '' t) = Inr ((True, st, c), False)"
  by (rule avg_step_rate[OF assms]; code_simp)+

text \<open>What one block adds to the collected lists.\<close>

definition push_block :: "avg_stats \<Rightarrow> epoch_out \<Rightarrow> avg_stats" where
  "push_block st b =
     st\<lparr>a_tpt := a_tpt st @ [tok_val (eo_tpt b)],
        a_cache_hit_rate := push_if (rate_val (eo_rates b ! 0) 1) (a_cache_hit_rate st),
        a_lock_fail_cnt := push_if (rate_val (eo_rates b ! 1) 1) (a_lock_fail_cnt st),
        a_leaf_invalid_rate := push_if (rate_val (eo_rates b ! 5) 100) (a_leaf_invalid_rate st),
        a_speculative_ratio := push_if (rate_val (eo_rates b ! 7) 100) (a_speculative_ratio st),
        a_speculative_accuracy := push_if (rate_val (eo_rates b ! 8) 100) (a_speculative_accuracy st),
        a_load_factor := push_if (rate_val (eo_rates b ! 12) 100) (a_load_factor st)\<rparr>"

lemma avg_block:
  assumes "epoch_ok b" and "flag \<or> e = start_epoch g"
  shows "py_for_break (avg_step g) (flag, st, c) (epoch_lines e b) =
    Inr ((True, push_block st b, c + 1), c + 1 = g)"
proof -
  have nt: "num_token (eo_tpt b)" and len: "length (eo_rates b) = 13"
    and rt: "\<forall>t \<in> set (eo_rates b). rate_token t" using assms(1) by (auto simp: epoch_ok_def)
  obtain t0 t1 t2 t3 t4 t5 t6 t7 t8 t9 t10 t11 t12 where
    ts: "eo_rates b = [t0, t1, t2, t3, t4, t5, t6, t7, t8, t9, t10, t11, t12]"
    using len by (auto simp: numeral_eq_Suc length_Suc_conv)
  have fl: "(flag \<or> e = start_epoch g) = True" using assms(2) by simp
  show ?thesis
    using rt
    by (simp add: epoch_lines_def ts rate_names_def avg_step_mark fl avg_step_tpt[OF nt] rate_lines
        avg_step_blank push_block_def split: if_splits)
qed

lemma avg_noise:
  assumes "\<forall>l \<in> set ls. (\<forall>k \<in> set log_keywords. \<not> py_in k l) \<and> \<not> py_in (epoch_mark (start_epoch g)) l"
  shows "py_for_break (avg_step g) s ls = Inr (s, False)"
  using assms by (intro py_for_break_skip) (auto intro: avg_step_noise)

section \<open>The window of epochs that is averaged\<close>

text \<open>
  A log from epoch \<open>e\<close> on: consecutive statistics blocks, each after some unrelated output.
\<close>

fun log_blocks :: "int \<Rightarrow> (string list \<times> epoch_out) list \<Rightarrow> string list" where
  "log_blocks e [] = []"
| "log_blocks e ((noise, b) # bs) = noise @ epoch_lines e b @ log_blocks (e + 1) bs"

definition noise_ok :: "int \<Rightarrow> string list \<Rightarrow> bool" where
  "noise_ok e ls \<longleftrightarrow>
     list_all (\<lambda>l. list_all (\<lambda>k. \<not> py_in k l) log_keywords \<and> \<not> py_in (epoch_mark e) l) ls"

definition blocks_ok :: "int \<Rightarrow> (string list \<times> epoch_out) list \<Rightarrow> bool" where
  "blocks_ok e bs \<longleftrightarrow> (\<forall>(noise, b) \<in> set bs. noise_ok e noise \<and> epoch_ok b)"

text \<open>The statistics a list of epochs should yield: the mean of the numbers that are numbers.\<close>

definition mean_rate :: "nat \<Rightarrow> rat \<Rightarrow> epoch_out list \<Rightarrow> rat" where
  "mean_rate i k bs = get_avg (List.map_filter (\<lambda>b. rate_val (eo_rates b ! i) k) bs)"

definition mean_stats :: "epoch_out list \<Rightarrow> log_stats" where
  "mean_stats bs =
     \<lparr>tpt = Some (get_avg (map (tok_val \<circ> eo_tpt) bs)),
      cache_hit_rate = mean_rate 0 1 bs, lock_fail_cnt = mean_rate 1 1 bs,
      leaf_invalid_rate = mean_rate 5 100 bs, speculative_ratio = mean_rate 7 100 bs,
      speculative_accuracy = mean_rate 8 100 bs, load_factor = mean_rate 12 100 bs\<rparr>"

lemma push_if_filter: "push_if (f b) l @ List.map_filter f bs = l @ List.map_filter f (b # bs)"
  by (simp add: push_if_def map_filter_simps split: option.splits)

lemma push_blocks:
  "foldl push_block st bs =
     st\<lparr>a_tpt := a_tpt st @ map (tok_val \<circ> eo_tpt) bs,
        a_cache_hit_rate := a_cache_hit_rate st @ List.map_filter (\<lambda>b. rate_val (eo_rates b ! 0) 1) bs,
        a_lock_fail_cnt := a_lock_fail_cnt st @ List.map_filter (\<lambda>b. rate_val (eo_rates b ! 1) 1) bs,
        a_leaf_invalid_rate := a_leaf_invalid_rate st @ List.map_filter (\<lambda>b. rate_val (eo_rates b ! 5) 100) bs,
        a_speculative_ratio := a_speculative_ratio st @ List.map_filter (\<lambda>b. rate_val (eo_rates b ! 7) 100) bs,
        a_speculative_accuracy := a_speculative_accuracy st @ List.map_filter (\<lambda>b. rate_val (eo_rates b ! 8) 100) bs,
        a_load_factor := a_load_factor st @ List.map_filter (\<lambda>b. rate_val (eo_rates b ! 12) 100) bs\<rparr>"
proof (induction bs arbitrary: st)
  case Nil
  then show ?case by (simp add: map_filter_simps)
next
  case (Cons b bs)
  then show ?case
    by (simp add: push_block_def push_if_filter[of "\<lambda>b. rate_val (eo_rates b ! _) _"])
qed

lemma avg_result_blocks:
  "bs \<noteq> [] \<Longrightarrow> avg_result (foldl push_block no_avg bs) = mean_stats bs"
  by (simp add: push_blocks avg_result_def no_avg_def mean_stats_def mean_rate_def)

lemma avg_blocks:
  assumes "blocks_ok (start_epoch g) bs" and "flag \<or> e = start_epoch g"
    and "int n = g - c" and "0 < n" and "n \<le> length bs"
  shows "py_for_break (avg_step g) (flag, st, c) (log_blocks e bs @ post) =
    Inr ((True, foldl push_block st (map snd (take n bs)), g), True)"
  using assms
proof (induction bs arbitrary: flag e st c n)
  case (Cons nb bs)
  obtain noise b where nb: "nb = (noise, b)" by (cases nb)
  obtain m where n: "n = Suc m" using Cons.prems(4) gr0_conv_Suc by blast
  have ok: "noise_ok (start_epoch g) noise" "epoch_ok b" "blocks_ok (start_epoch g) bs"
    using Cons.prems(1) nb by (auto simp: blocks_ok_def)
  have sk: "py_for_break (avg_step g) (flag, st, c) noise = Inr ((flag, st, c), False)"
    using ok(1) by (intro avg_noise) (auto simp: noise_ok_def list_all_iff)
  have blk: "py_for_break (avg_step g) (flag, st, c) (epoch_lines e b) =
      Inr ((True, push_block st b, c + 1), m = 0)"
    using avg_block[OF ok(2) Cons.prems(2), of st c] Cons.prems(3) n by auto
  show ?case
  proof (cases "m = 0")
    case True
    then have "c + 1 = g" using Cons.prems(3) n by simp
    with True blk sk nb n show ?thesis by (simp add: py_for_break_append)
  next
    case False
    have "py_for_break (avg_step g) (True, push_block st b, c + 1) (log_blocks (e + 1) bs @ post) =
        Inr ((True, foldl push_block (push_block st b) (map snd (take m bs)), g), True)"
      using False Cons.prems(3,5) n by (intro Cons.IH ok(3)) auto
    with False blk sk nb n show ?thesis by (simp add: py_for_break_append)
  qed
qed simp

lemma start_epoch_window: "0 < g \<Longrightarrow> g - start_epoch g = min (g - g div 2) 4 \<and> 0 < g - start_epoch g"
  unfolding start_epoch_def by linarith

text \<open>Lines before the mark of the first averaged epoch are ignored whatever they are.\<close>

lemma avg_before_mark:
  "\<forall>l \<in> set ls. \<not> py_in (epoch_mark (start_epoch g)) l \<Longrightarrow>
   py_for_break (avg_step g) (False, st, c) ls = Inr ((False, st, c), False)"
  by (intro py_for_break_skip) (auto simp: avg_step_def)

section \<open>Properties\<close>

text \<open>
  C20: On a log whose epochs from \<^verbatim>\<open>start_epoch = max(target // 2, target - 4)\<close> on are printed as the
  benchmark prints them, with any output before the first mark, unrelated output between the
  blocks and anything after the last needed block, the averaging parser succeeds and returns for
  each statistic the mean over the \<^verbatim>\<open>min(target - target // 2, 4)\<close> epochs \<^verbatim>\<open>start_epoch\<close> to
  \<^verbatim>\<open>target - 1\<close>; the target epoch itself is not read.\<close>

theorem parse_log_avg_window:
  assumes "0 < target_epoch"
    and "\<forall>l \<in> set before. \<not> py_in (epoch_mark (start_epoch target_epoch)) l"
    and "blocks_ok (start_epoch target_epoch) bs"
    and "nat (min (target_epoch - target_epoch div 2) 4) \<le> length bs"
  shows "parse_log_avg (before @ log_blocks (start_epoch target_epoch) bs @ after) target_epoch =
    Inr (mean_stats (map snd (take (nat (min (target_epoch - target_epoch div 2) 4)) bs)))"
proof -
  define n where "n = nat (min (target_epoch - target_epoch div 2) 4)"
  have n: "int n = target_epoch - start_epoch target_epoch" "0 < n" "n \<le> length bs"
    using start_epoch_window[OF assms(1)] assms(4) unfolding n_def by linarith+
  have "bs \<noteq> []" using n by auto
  with n have ne: "map snd (take n bs) \<noteq> []" by simp
  have "py_for_break (avg_step target_epoch) (False, no_avg, start_epoch target_epoch)
      (before @ log_blocks (start_epoch target_epoch) bs @ after) =
      Inr ((True, foldl push_block no_avg (map snd (take n bs)), target_epoch), True)"
    using avg_before_mark[OF assms(2)] avg_blocks[OF assms(3) _ n] by (simp add: py_for_break_append)
  then show ?thesis
    unfolding n_def[symmetric] using avg_result_blocks[OF ne] by (simp add: parse_log_avg_def)
qed

definition sample_epoch :: "string \<Rightarrow> epoch_out" where
  "sample_epoch t = \<lparr>eo_tpt = t, eo_rates = ''-nan'' # replicate 12 ''0.5''\<rparr>"

definition sample_log :: "string list" where
  "sample_log = [''epoch 1 passed!'', ''warmup''] @
     log_blocks 2 [([''time used''], sample_epoch ''10.5''), ([], sample_epoch ''20.5'')] @
     [''epoch 4 passed!'']"

theorem parse_log_avg_window_witness:
  "parse_log_avg sample_log 4 = Inr (mean_stats [sample_epoch ''10.5'', sample_epoch ''20.5'']) \<and>
   tpt (mean_stats [sample_epoch ''10.5'', sample_epoch ''20.5'']) = Some (31 / 2)"
proof
  let ?bs = "[([''time used''], sample_epoch ''10.5''), ([], sample_epoch ''20.5'')]"
  have s: "start_epoch 4 = 2" by (simp add: start_epoch_def)
  have 1: "\<forall>l \<in> set [''epoch 1 passed!'', ''warmup'']. \<not> py_in (epoch_mark (start_epoch 4)) l"
    by code_simp
  have 2: "blocks_ok (start_epoch 4) ?bs" by code_simp
  show "parse_log_avg sample_log 4 = Inr (mean_stats [sample_epoch ''10.5'', sample_epoch ''20.5''])"
    using parse_log_avg_window[OF _ 1 2, of "[''epoch 4 passed!'']"] by (simp add: sample_log_def s)
  show "tpt (mean_stats [sample_epoch ''10.5'', sample_epoch ''20.5'']) = Some (31 / 2)"
    by code_simp
qed

definition silent_log :: "(string list \<Rightarrow> log_stats py) \<Rightarrow> string \<times> string list \<Rightarrow> bool" where
  "silent_log parse = (\<lambda>(ip, lg). case parse lg of Inr st \<Rightarrow> tpt st = None | Inl e \<Rightarrow> False)"

lemma pick_log_find:
  "pick_log parse prev logs =
     (case find (\<lambda>l. \<not> silent_log parse l) logs of
        Some (ip, lg) \<Rightarrow> parse lg
      | None \<Rightarrow> if logs = [] then pick_log parse prev [] else Inl AssertionError)"
proof (induction logs arbitrary: prev)
  case (Cons l logs)
  obtain ip lg where l: "l = (ip, lg)" by (cases l)
  show ?case
  proof (cases "parse lg")
    case (Inr st)
    with l Cons show ?thesis
      by (cases "tpt st"; cases logs) (auto simp: silent_log_def)
  qed (simp add: l silent_log_def)
qed simp

text \<open>
  \<^verbatim>\<open>get_statistics\<close> returns what the first log parses to that has a throughput or cannot be
  parsed, all logs before it having no throughput; if there is none it fails with
  \<^verbatim>\<open>AssertionError\<close>, and without any log with \<^verbatim>\<open>UnboundLocalError\<close>.\<close>

theorem get_statistics_first:
  "get_statistics logs target_epoch avg =
     (let parse = (\<lambda>lg. if avg then parse_log_avg lg target_epoch else parse_log lg target_epoch) in
      case find (\<lambda>l. \<not> silent_log parse l) logs of
        Some (ip, lg) \<Rightarrow> parse lg
      | None \<Rightarrow> Inl (if logs = [] then UnboundLocalError else AssertionError))"
  unfolding get_statistics_def Let_def by (subst pick_log_find) (simp split: option.split)

end
