(* ===== verification/Cmd_Manager.thy ===== *)
theory Cmd_Manager
  imports Lat_Parser Log_Parser
begin

text \<open>
  \<^verbatim>\<open>exp/utils/cmd_manager.py\<close> (class \<^verbatim>\<open>CMDManager\<close>): commands on the nodes of the cluster.  What
  the nodes do is input: each interactive shell has the list of what its \<^verbatim>\<open>recv\<close> calls will give
  (a chunk, or nothing yet, which the code sees as \<^verbatim>\<open>socket.timeout\<close>) and each SSH client the
  list of the results of its \<^verbatim>\<open>exec_command\<close> calls.  A wait that the remaining input never ends is
  the \<^verbatim>\<open>FunctionTimedOut\<close> of the \<^verbatim>\<open>func_set_timeout\<close> decorator.  Console output is not modelled.

  Shown: a long command that returns has shown its end prompt on every node and no fault prompt,
  a fault prompt always raises, and the latency average covers one epoch more than the
  throughput average of \<open>Log_Parser\<close>.
\<close>

section \<open>Definitions\<close>

definition END_PROMPT :: string where "END_PROMPT = ''[END]''"
definition JOINED_PROMPT :: string where "JOINED_PROMPT = ''joined.''"
definition TPT_PROMPT :: string where "TPT_PROMPT = ''cluster throughput''"

definition fault_prompts :: "string list" where
  "fault_prompts = [''shared memory space run out'', ''Deadlock'', ''Aborted'',
     ''Segmentation fault'', ''Floating point exception'']"

datatype recv_event = Silent | Msg string

text \<open>The result of a remote command: what \<^verbatim>\<open>readlines\<close> gives on its two streams.\<close>

type_synonym reply = "string list py \<times> string list py"

record cluster =
  cluster_ips :: "string list"
  master_idx :: nat
  shells :: "recv_event list list"
  replies :: "reply py list list"
  sftps :: "sftp list"
  sent :: "(nat \<times> string) list"

definition set_shell :: "nat \<Rightarrow> recv_event list \<Rightarrow> cluster \<Rightarrow> cluster" where
  "set_shell i es c = c\<lparr>shells := (shells c)[i := es]\<rparr>"

definition shell_send :: "nat \<Rightarrow> string \<Rightarrow> (cluster, unit) act" where
  "shell_send i s c =
     (if i < length (shells c) then (Inr (), c\<lparr>sent := sent c @ [(i, s)]\<rparr>) else (Inl IndexError, c))"

fun await_msg :: "recv_event list \<Rightarrow> recv_event list" where
  "await_msg [] = []"
| "await_msg (Silent # es) = await_msg es"
| "await_msg (Msg m # es) = Msg m # es"

definition clear_shell :: "nat \<Rightarrow> (cluster, unit) act" where
  "clear_shell i = act_seq (shell_send i [CHR 0x0A]) (\<lambda>c.
     case await_msg (shells c ! i) of
       [] \<Rightarrow> (Inl FunctionTimedOut, set_shell i [] c)
     | m # es \<Rightarrow> (Inr (), set_shell i es c))"

definition wait_ready :: "nat \<Rightarrow> (cluster, unit) act" where
  "wait_ready i c =
     (let es = await_msg (shells c ! i) in
      (if es = [] then Inl FunctionTimedOut else Inr (), set_shell i es c))"

text \<open>\<^verbatim>\<open>self.__CNs[i].exec_command(command)\<close>.\<close>

definition exec_command :: "nat \<Rightarrow> string \<Rightarrow> (cluster, reply) act" where
  "exec_command i command c =
     (if length (replies c) \<le> i then (Inl IndexError, c)
      else
        let c' = c\<lparr>sent := sent c @ [(i, command)]\<rparr> in
        case replies c ! i of
          [] \<Rightarrow> (Inl FunctionTimedOut, c')
        | r # rs \<Rightarrow> (r, c'\<lparr>replies := (replies c)[i := rs]\<rparr>))"

definition CN_range :: "int \<Rightarrow> (cluster, nat list) act" where
  "CN_range CN_num = act_get (\<lambda>c. [0..<if CN_num < 0 then length (cluster_ips c) else nat CN_num])"

definition cli_ip :: "nat \<Rightarrow> (cluster, string) act" where
  "cli_ip i = act_bind (act_get cluster_ips) (\<lambda>ips. act_lift (py_index ips i))"

definition all_execute :: "string \<Rightarrow> int \<Rightarrow> (cluster, logs) act" where
  "all_execute command CN_num =
     act_bind (CN_range CN_num) (\<lambda>is.
     act_bind (act_fold (\<lambda>streams i.
         act_bind (cli_ip i) (\<lambda>ip.
         act_bind (exec_command i command) (\<lambda>r.
         act_return (AList.update ip r streams)))) [] is) (\<lambda>streams.
     act_fold (\<lambda>outs i.
         act_bind (cli_ip i) (\<lambda>ip.
         act_bind (act_lift (dict_get streams ip)) (\<lambda>r.
         act_bind (act_lift (fst r)) (\<lambda>out.
         act_bind (act_lift (snd r)) (\<lambda>err.
         act_return (AList.update ip out outs)))))) [] is))"

text \<open>
  \<^verbatim>\<open>one_execute\<close>: the bare \<^verbatim>\<open>except\<close> turns every exception into the output read so far (\<open>None\<close>
  for the initial empty string); the time limit is outside it.
\<close>

definition one_execute :: "string \<Rightarrow> (cluster, string list option) act" where
  "one_execute command =
     act_bind (act_get master_idx) (\<lambda>m.
     act_bind (cli_ip m) (\<lambda>_ c.
       case exec_command m command c of
         (Inl e, c') \<Rightarrow> (if e = FunctionTimedOut then Inl e else Inr None, c')
       | (Inr (Inl e, _), c') \<Rightarrow> (if e = FunctionTimedOut then Inl e else Inr None, c')
       | (Inr (Inr out, err), c') \<Rightarrow>
           (if err = Inl FunctionTimedOut then Inl FunctionTimedOut else Inr (Some out), c')))"

definition match_prompt :: "string \<Rightarrow> string \<Rightarrow> bool" where
  "match_prompt content end = py_in end content"

fun read_until :: "string \<Rightarrow> string \<Rightarrow> recv_event list \<Rightarrow> string py \<times> recv_event list" where
  "read_until end out es =
     (if match_prompt out end then (Inr out, es)
      else case es of
        [] \<Rightarrow> (Inl FunctionTimedOut, [])
      | Silent # es \<Rightarrow> read_until end out es
      | Msg msg # es \<Rightarrow>
          let out = out @ msg in
          (case find (match_prompt out) fault_prompts of
             Some prompt \<Rightarrow> (Inl (Exception prompt), es)
           | None \<Rightarrow> read_until end out es))"

declare read_until.simps [simp del]

text \<open>The loop over the nodes; it stops early when only a throughput is needed and seen.\<close>

fun long_read :: "bool \<Rightarrow> (string \<times> string) list \<Rightarrow> nat list \<Rightarrow> (cluster, (string \<times> string) list) act" where
  "long_read only_need_tpt outs [] = act_return outs"
| "long_read only_need_tpt outs (i # is) =
     act_bind (cli_ip i) (\<lambda>ip.
     act_bind (act_lift (dict_get outs ip)) (\<lambda>out.
     act_bind (\<lambda>c. case read_until (if only_need_tpt then JOINED_PROMPT else END_PROMPT) out (shells c ! i) of
                (r, es) \<Rightarrow> (r, set_shell i es c)) (\<lambda>out.
     let outs = AList.update ip out outs in
     if only_need_tpt \<and> match_prompt out TPT_PROMPT then act_return outs
     else long_read only_need_tpt outs is)))"

definition all_long_execute :: "string \<Rightarrow> int \<Rightarrow> bool \<Rightarrow> (cluster, logs) act" where
  "all_long_execute command CN_num only_need_tpt =
     (let command = (if py_endswith command [CHR 0x0A] then command else command @ [CHR 0x0A]) in
      act_bind (CN_range CN_num) (\<lambda>is.
      act_seq (act_for is (\<lambda>i. act_seq (clear_shell i) (shell_send i command)))
     (act_seq (act_for is wait_ready)
     (act_bind (act_fold (\<lambda>outs i. act_bind (cli_ip i) (\<lambda>ip. act_return (AList.update ip [] outs))) [] is) (\<lambda>outs.
      act_bind (long_read only_need_tpt outs is) (\<lambda>outs.
      act_return (map (\<lambda>(ip, out). (ip, split_on (CHR 0x0A) (py_strip out))) outs)))))))"

definition mean2 :: "(rat \<times> rat) list \<Rightarrow> rat \<times> rat" where
  "mean2 l = (sum_list (map fst l) / of_nat (length l), sum_list (map snd l) / of_nat (length l))"

definition get_cluster_lats :: "string \<Rightarrow> int \<Rightarrow> int \<Rightarrow> bool \<Rightarrow> cluster \<Rightarrow> (rat \<times> rat) py" where
  "get_cluster_lats lat_dir_path CN_num target_epoch avg c =
     (if avg then
        let start_epoch = max (target_epoch div 2) (target_epoch - 4) in
        py_bind (load_remote_lats (sftps c) lat_dir_path CN_num start_epoch
                   (target_epoch - start_epoch + 1)) (\<lambda>lats.
        py_bind (py_assert (lats \<noteq> [])) (\<lambda>_. Inr (mean2 (map snd lats))))
      else
        py_bind (load_remote_lats (sftps c) lat_dir_path CN_num target_epoch 1) (\<lambda>lats.
        case map_of lats target_epoch of
          None \<Rightarrow> Inl (KeyError (show_int target_epoch))
        | Some pp \<Rightarrow> Inr pp))"

text \<open>
  The constructor, after the SSH connections are there: \<^verbatim>\<open>cluster_ips.index\<close>, one round of
  \<^verbatim>\<open>__clear_shell\<close>, and the huge-page command on all nodes.
\<close>

fun list_index :: "'a \<Rightarrow> 'a list \<Rightarrow> nat py" where
  "list_index x [] = Inl ValueError"
| "list_index x (y # ys) = (if x = y then Inr 0 else py_bind (list_index x ys) (\<lambda>n. Inr (Suc n)))"

definition CMDManager_init ::
  "string list \<Rightarrow> string \<Rightarrow> recv_event list list \<Rightarrow> reply py list list \<Rightarrow> sftp list \<Rightarrow> unit py \<times> cluster" where
  "CMDManager_init ips master_ip evs rs fts =
     (let c = \<lparr>cluster_ips = ips, master_idx = 0, shells = evs, replies = rs, sftps = fts, sent = []\<rparr> in
      act_bind (act_lift (list_index master_ip ips)) (\<lambda>m.
      act_seq (act_modify (\<lambda>c. c\<lparr>master_idx := m\<rparr>))
     (act_seq (act_for [0..<length ips] clear_shell)
     (act_bind (all_execute ''echo 36864 > /proc/sys/vm/nr_hugepages'' (-1)) (\<lambda>_. act_return ())))) c)"

section \<open>Reading one shell\<close>

definition faultless :: "string \<Rightarrow> bool" where
  "faultless s \<longleftrightarrow> list_all (\<lambda>q. \<not> py_in q s) fault_prompts"

lemma find_fault_None: "find (match_prompt s) fault_prompts = None \<longleftrightarrow> faultless s"
  by (auto simp: find_None_iff faultless_def list_all_iff match_prompt_def)

lemma faultless_Nil [simp]: "faultless []"
  by (simp add: faultless_def fault_prompts_def)

fun chunks :: "recv_event list \<Rightarrow> string list" where
  "chunks [] = []"
| "chunks (Silent # es) = chunks es"
| "chunks (Msg m # es) = m # chunks es"

lemma chunks_append [simp]: "chunks (es @ fs) = chunks es @ chunks fs"
  by (induction es rule: chunks.induct) auto

text \<open>What a finished wait has seen: the text it consumed, its end prompt and no fault.\<close>

lemma read_until_ok:
  "read_until p out es = (Inr out', es') \<Longrightarrow> faultless out \<Longrightarrow>
   faultless out' \<and> py_in p out' \<and> (\<exists>used. es = used @ es' \<and> out' = out @ concat (chunks used))"
proof (induction p out es rule: read_until.induct)
  case (1 p out es)
  show ?case
  proof (cases "match_prompt out p")
    case True
    with 1 show ?thesis by (auto simp: read_until.simps match_prompt_def)
  next
    case False
    show ?thesis
    proof (cases es)
      case Nil
      with False 1 show ?thesis by (simp add: read_until.simps)
    next
      case (Cons e fs)
      show ?thesis
      proof (cases e)
        case Silent
        with 1 False Cons obtain used where "faultless out' \<and> py_in p out'"
            "fs = used @ es' \<and> out' = out @ concat (chunks used)"
          by (auto simp: read_until.simps[of p out "Silent # fs"])
        with Cons Silent show ?thesis by (intro conjI exI[of _ "Silent # used"]) auto
      next
        case (Msg m)
        have r: "find (match_prompt (out @ m)) fault_prompts = None"
          "read_until p (out @ m) fs = (Inr out', es')"
          using 1(3) False Cons Msg by (auto simp: read_until.simps[of p out "Msg m # fs"] Let_def split: option.splits)
        then have "faultless (out @ m)" using find_fault_None by simp
        with 1(2)[OF False Cons Msg refl r(1) r(2)] obtain used where "faultless out' \<and> py_in p out'"
            "fs = used @ es' \<and> out' = (out @ m) @ concat (chunks used)" by auto
        with Cons Msg show ?thesis by (intro conjI exI[of _ "Msg m # used"]) auto
      qed
    qed
  qed
qed

text \<open>
  The wait ends at the first chunk that completes the end prompt or a fault prompt, and a fault
  in the text read so far wins.
\<close>

lemma read_until_quiet:
  assumes "\<forall>k \<le> length (chunks es). faultless (out @ concat (take k (chunks es)))"
    and "\<forall>k \<le> length (chunks es). \<not> py_in p (out @ concat (take k (chunks es)))"
  shows "read_until p out (es @ fs) = read_until p (out @ concat (chunks es)) fs"
  using assms
proof (induction es arbitrary: out rule: chunks.induct)
  case (2 es)
  have "\<not> match_prompt out p" using 2(3)[rule_format, of 0] by (simp add: match_prompt_def)
  with 2 show ?case by (simp add: read_until.simps[of p out "Silent # es @ fs"])
next
  case (3 m es)
  have "\<not> match_prompt out p" using 3(3)[rule_format, of 0] by (simp add: match_prompt_def)
  moreover have "faultless (out @ m)" using 3(2)[rule_format, of 1] by simp
  moreover have "read_until p (out @ m) (es @ fs) = read_until p ((out @ m) @ concat (chunks es)) fs"
  proof (rule "3.IH")
    show "\<forall>k \<le> length (chunks es). faultless ((out @ m) @ concat (take k (chunks es)))"
      using 3(2) by (metis (no_types, lifting) Suc_le_mono append.assoc chunks.simps(3) concat.simps(2)
          length_Cons take_Suc_Cons)
    show "\<forall>k \<le> length (chunks es). \<not> py_in p ((out @ m) @ concat (take k (chunks es)))"
      using 3(3) by (metis (no_types, lifting) Suc_le_mono append.assoc chunks.simps(3) concat.simps(2)
          length_Cons take_Suc_Cons)
  qed
  ultimately show ?case
    by (simp add: read_until.simps[of p out "Msg m # es @ fs"] find_fault_None[THEN iffD2] Let_def)
qed simp

lemma read_until_fault:
  assumes "\<not> py_in p out" and "\<not> faultless (out @ m)"
  shows "\<exists>q \<in> set fault_prompts. py_in q (out @ m) \<and> read_until p out (Msg m # es) = (Inl (Exception q), es)"
proof -
  obtain q where q: "find (match_prompt (out @ m)) fault_prompts = Some q"
    using assms(2) find_fault_None by (metis not_Some_eq)
  then have "q \<in> set fault_prompts" "py_in q (out @ m)"
    by (auto simp: find_Some_iff match_prompt_def)
  with q assms(1) show ?thesis
    by (auto simp: read_until.simps[of p out "Msg m # es"] match_prompt_def)
qed

lemma read_until_done:
  "py_in p out \<Longrightarrow> read_until p out es = (Inr out, es)"
  by (simp add: read_until.simps[of p out es] match_prompt_def)

section \<open>Reading all shells\<close>

definition seen :: "string \<Rightarrow> (string \<times> string) list \<Rightarrow> string \<Rightarrow> bool" where
  "seen p outs ip \<longleftrightarrow> (\<exists>out. map_of outs ip = Some out \<and> py_in p out)"

definition all_faultless :: "(string \<times> string) list \<Rightarrow> bool" where
  "all_faultless outs \<longleftrightarrow> (\<forall>ip out. map_of outs ip = Some out \<longrightarrow> faultless out)"

lemma set_shell_ips [simp]: "cluster_ips (set_shell i es c) = cluster_ips c"
  by (simp add: set_shell_def)

lemma cli_ip_iff: "cli_ip i c = (Inr ip, c') \<longleftrightarrow> i < length (cluster_ips c) \<and> ip = cluster_ips c ! i \<and> c' = c"
  by (auto simp: cli_ip_def act_bind_def act_get_def act_lift_def py_index_def)

lemma long_read_seen:
  assumes "long_read False outs is c = (Inr outs', c')" and "all_faultless outs"
    and "\<forall>ip \<in> D. seen END_PROMPT outs ip"
  shows "all_faultless outs' \<and> (\<forall>ip \<in> D \<union> (\<lambda>i. cluster_ips c ! i) ` set is. seen END_PROMPT outs' ip)"
  using assms
proof (induction "is" arbitrary: outs c D)
  case Nil
  then show ?case by (simp add: act_return_def)
next
  case (Cons i js)
  let ?ip = "cluster_ips c ! i"
  from Cons.prems(1) obtain out0 out where
    l: "map_of outs ?ip = Some out0"
    and r: "fst (read_until END_PROMPT out0 (shells c ! i)) = Inr out"
    and rest: "long_read False (AList.update ?ip out outs) js
      (set_shell i (snd (read_until END_PROMPT out0 (shells c ! i))) c) = (Inr outs', c')"
    by (auto simp: act_bind_Inr_iff cli_ip_iff act_lift_def dict_get_Inr_iff case_prod_beta)
  have ok: "faultless out" "py_in END_PROMPT out"
    using read_until_ok[of END_PROMPT out0 "shells c ! i" out] r l Cons.prems(2)
    by (auto simp: all_faultless_def prod_eq_iff)
  have "all_faultless (AList.update ?ip out outs)"
    using ok(1) Cons.prems(2) by (auto simp: all_faultless_def update_conv)
  moreover have "\<forall>ip \<in> insert ?ip D. seen END_PROMPT (AList.update ?ip out outs) ip"
    using ok(2) Cons.prems(3) by (auto simp: seen_def update_conv)
  ultimately show ?case using Cons.IH[OF rest] by auto
qed

text \<open>No operation changes the list of nodes.\<close>

abbreviation ips_are :: "string list \<Rightarrow> cluster \<Rightarrow> bool" where
  "ips_are ips c \<equiv> cluster_ips c = ips"

lemma keeps_ips:
  "act_keeps (ips_are ips) (shell_send i s)" "act_keeps (ips_are ips) (clear_shell i)"
  "act_keeps (ips_are ips) (wait_ready i)" "act_keeps (ips_are ips) (exec_command i s)"
proof -
  show 1: "act_keeps (ips_are ips) (shell_send i s)" by (auto simp: shell_send_def)
  show "act_keeps (ips_are ips) (clear_shell i)"
    unfolding clear_shell_def by (rule act_keeps_seq) (auto simp: shell_send_def split: list.splits)
  show "act_keeps (ips_are ips) (wait_ready i)" by (auto simp: wait_ready_def Let_def)
  show "act_keeps (ips_are ips) (exec_command i s)"
    by (auto simp: exec_command_def Let_def split: list.splits)
qed

lemma init_outs:
  "act_fold (\<lambda>outs i. act_bind (cli_ip i) (\<lambda>ip. act_return (AList.update ip [] outs))) outs is c = (Inr outs', c') \<Longrightarrow>
   all_faultless outs \<Longrightarrow> all_faultless outs' \<and> c' = c"
proof (induction "is" arbitrary: outs)
  case Nil
  then show ?case by (simp add: act_return_def)
next
  case (Cons i js)
  then have "act_fold (\<lambda>outs i. act_bind (cli_ip i) (\<lambda>ip. act_return (AList.update ip [] outs)))
      (AList.update (cluster_ips c ! i) [] outs) js c = (Inr outs', c')"
    by (auto simp: act_bind_Inr_iff cli_ip_iff act_return_iff)
  moreover have "all_faultless (AList.update (cluster_ips c ! i) [] outs)"
    using Cons.prems(2) by (auto simp: all_faultless_def update_conv)
  ultimately show ?case by (rule Cons.IH)
qed

definition CN_count :: "int \<Rightarrow> cluster \<Rightarrow> nat" where
  "CN_count CN_num c = (if CN_num < 0 then length (cluster_ips c) else nat CN_num)"

lemma CN_range_eq: "CN_range n c = (Inr [0..<CN_count n c], c)"
  by (simp add: CN_range_def act_get_def CN_count_def)

definition with_newline :: "string \<Rightarrow> string" where
  "with_newline command = (if py_endswith command [CHR 0x0A] then command else command @ [CHR 0x0A])"

text \<open>The four phases of a long command that succeeds.\<close>

lemma all_long_execute_phases:
  assumes "all_long_execute command CN_num only_need_tpt c = (Inr outs, c')"
  obtains c1 c2 outs0 outs1 where
    "act_for [0..<CN_count CN_num c]
       (\<lambda>i. act_seq (clear_shell i) (shell_send i (with_newline command))) c = (Inr (), c1)"
    "act_for [0..<CN_count CN_num c] wait_ready c1 = (Inr (), c2)"
    "cluster_ips c2 = cluster_ips c" "all_faultless outs0"
    "long_read only_need_tpt outs0 [0..<CN_count CN_num c] c2 = (Inr outs1, c')"
    "outs = map (\<lambda>(ip, out). (ip, split_on (CHR 0x0A) (py_strip out))) outs1"
proof -
  from assms obtain c1 c2 c3 outs0 outs1 where
    a: "act_for [0..<CN_count CN_num c]
       (\<lambda>i. act_seq (clear_shell i) (shell_send i (with_newline command))) c = (Inr (), c1)"
    and b: "act_for [0..<CN_count CN_num c] wait_ready c1 = (Inr (), c2)"
    and d: "act_fold (\<lambda>outs i. act_bind (cli_ip i) (\<lambda>ip. act_return (AList.update ip [] outs))) []
        [0..<CN_count CN_num c] c2 = (Inr outs0, c3)"
    and e: "long_read only_need_tpt outs0 [0..<CN_count CN_num c] c3 = (Inr outs1, c')"
    and f: "outs = map (\<lambda>(ip, out). (ip, split_on (CHR 0x0A) (py_strip out))) outs1"
    unfolding all_long_execute_def Let_def with_newline_def
    by (auto simp: act_bind_Inr_iff act_seq_Inr_iff CN_range_eq act_return_def)
  have k1: "act_keeps (ips_are (cluster_ips c)) (act_for [0..<CN_count CN_num c]
      (\<lambda>i. act_seq (clear_shell i) (shell_send i (with_newline command))))"
    and k2: "act_keeps (ips_are (cluster_ips c)) (act_for [0..<CN_count CN_num c] wait_ready)"
    by (intro act_keeps_for act_keeps_seq keeps_ips)+
  have "cluster_ips c2 = cluster_ips c"
    using act_keepsD[OF k1] act_keepsD[OF k2] a b by blast
  moreover have "all_faultless outs0 \<and> c3 = c2" by (rule init_outs[OF d]) (simp add: all_faultless_def)
  ultimately show ?thesis using that a b e f by blast
qed

text \<open>The prompts contain no white space that stripping or splitting could break.\<close>

lemma end_prompt_chars: "END_PROMPT \<noteq> []" "\<forall>c \<in> set END_PROMPT. \<not> py_space c"
  by (simp add: END_PROMPT_def) code_simp

lemma out_lines_seen:
  assumes "py_in END_PROMPT out" and "faultless out"
  shows "(\<exists>l \<in> set (split_on (CHR 0x0A) (py_strip out)). py_in END_PROMPT l) \<and>
    (\<forall>l \<in> set (split_on (CHR 0x0A) (py_strip out)). faultless l)"
proof
  have "CHR 0x0A \<notin> set END_PROMPT" using end_prompt_chars(2) space_chars(2) by blast
  moreover have "py_in END_PROMPT (py_strip out)" using assms(1) py_in_strip[OF end_prompt_chars] by simp
  ultimately show "\<exists>l \<in> set (split_on (CHR 0x0A) (py_strip out)). py_in END_PROMPT l"
    by (intro split_on_finds)
  show "\<forall>l \<in> set (split_on (CHR 0x0A) (py_strip out)). faultless l"
  proof
    fix l assume "l \<in> set (split_on (CHR 0x0A) (py_strip out))"
    then have "py_in l out" using split_on_in py_strip_in py_in_trans by blast
    then show "faultless l" using assms(2) py_in_trans by (auto simp: faultless_def list_all_iff)
  qed
qed

section \<open>Properties\<close>


definition sample_cluster :: cluster where
  "sample_cluster = \<lparr>cluster_ips = [''a'', ''b''], master_idx = 0,
     shells = [[Silent, Msg ''$ '', Silent, Msg ''x[EN'', Msg ''D]''], [Msg ''$ '', Msg ''y [END]'']],
     replies = [[], []], sftps = [], sent = []\<rparr>"

lemma sample_long:
  "all_long_execute ''run'' (-1) False sample_cluster =
     (Inr [(''a'', [''x[END]'']), (''b'', [''y [END]''])],
      snd (all_long_execute ''run'' (-1) False sample_cluster))"
proof (rule prod_eqI)
  show "fst (all_long_execute ''run'' (-1) False sample_cluster) =
    fst (Inr [(''a'', [''x[END]'']), (''b'', [''y [END]''])],
      snd (all_long_execute ''run'' (-1) False sample_cluster))"
    unfolding fst_conv by code_simp
qed simp


text \<open>
  While the text read so far shows neither the end prompt nor a fault prompt the wait goes on;
  at the first chunk that completes one of them it stops, raising the first fault prompt in the
  order of the list if there is one (even if the end prompt came with the same chunk), and
  returning all the text read otherwise.\<close>

theorem read_until_decisive:
  assumes "\<forall>k \<le> length (chunks es). faultless (concat (take k (chunks es)))"
    and "\<forall>k \<le> length (chunks es). \<not> py_in end (concat (take k (chunks es)))"
    and "text = concat (chunks es) @ m"
    and "\<not> faultless text \<or> py_in end text"
  shows "read_until end [] (es @ Msg m # rest) =
    (case find (match_prompt text) fault_prompts of
       Some q \<Rightarrow> Inl (Exception q) | None \<Rightarrow> Inr text, rest)"
proof -
  let ?o = "concat (chunks es)"
  have "\<not> match_prompt ?o end" using assms(2)[rule_format, of "length (chunks es)"] by (simp add: match_prompt_def)
  then have "read_until end ?o (Msg m # rest) =
      (case find (match_prompt text) fault_prompts of Some q \<Rightarrow> (Inl (Exception q), rest)
       | None \<Rightarrow> read_until end text rest)"
    unfolding assms(3) by (simp add: read_until.simps[of "end" ?o "Msg m # rest"] Let_def)
  moreover have "find (match_prompt text) fault_prompts = None \<Longrightarrow> read_until end text rest = (Inr text, rest)"
    using assms(4) by (auto simp: find_fault_None intro: read_until_done)
  ultimately show ?thesis
    using read_until_quiet[of es "[]" "end" "Msg m # rest"] assms(1,2) by (auto split: option.splits)
qed

theorem read_until_decisive_witness:
  "read_until END_PROMPT [] ([Silent, Msg ''Abor''] @ Msg ''ted [END]'' # []) =
    (Inl (Exception ''Aborted''), [])"
proof -
  have f: "faultless ''Abor''" "\<not> py_in END_PROMPT ''Abor''" "\<not> py_in END_PROMPT []"
    "\<not> faultless ''Aborted [END]''"
    "find (match_prompt ''Aborted [END]'') fault_prompts = Some ''Aborted''"
    by code_simp+
  have "read_until END_PROMPT [] ([Silent, Msg ''Abor''] @ Msg ''ted [END]'' # []) =
    (case find (match_prompt ''Aborted [END]'') fault_prompts of
       Some q \<Rightarrow> Inl (Exception q) | None \<Rightarrow> Inr ''Aborted [END]'', [])"
    by (rule read_until_decisive) (use f in \<open>auto simp: le_Suc_eq\<close>)
  then show ?thesis by (simp add: f)
qed

text \<open>Loading a range of epochs of which each has samples.\<close>

definition epoch_lat :: "sftp list \<Rightarrow> string \<Rightarrow> int \<Rightarrow> (rat \<times> rat) py" where
  "epoch_lat fts dir e = py_bind (load_epoch fts (epoch_file dir e)) cal_lat"

lemma load_lats_fold:
  assumes "\<forall>e \<in> set es. (\<exists>d. d \<noteq> [] \<and> load_epoch fts (epoch_file dir e) = Inr d \<and> cal_lat d = Inr (f e))"
    and "distinct (map fst res @ es)"
  shows "py_foldM (\<lambda>res e.
         py_bind (load_epoch fts (epoch_file dir e)) (\<lambda>d.
         if d = [] then Inr res
         else py_bind (cal_lat d) (\<lambda>pp. Inr (AList.update e pp res)))) res es =
    Inr (res @ map (\<lambda>e. (e, f e)) es)"
  using assms
proof (induction es arbitrary: res)
  case (Cons e es)
  have u: "AList.update e (f e) res = res @ [(e, f e)]"
    using Cons.prems(2) by (induction res) auto
  have "py_foldM (\<lambda>res e.
         py_bind (load_epoch fts (epoch_file dir e)) (\<lambda>d.
         if d = [] then Inr res
         else py_bind (cal_lat d) (\<lambda>pp. Inr (AList.update e pp res)))) (res @ [(e, f e)]) es =
    Inr ((res @ [(e, f e)]) @ map (\<lambda>e. (e, f e)) es)"
    by (rule Cons.IH) (use Cons.prems in auto)
  moreover obtain d where "d \<noteq> []" "load_epoch fts (epoch_file dir e) = Inr d" "cal_lat d = Inr (f e)"
    using Cons.prems(1) by auto
  ultimately show ?case using u by (simp del: py_bind_Inr_iff)
qed simp

lemma load_lats_range:
  assumes "\<forall>e \<in> {s..t}. (\<exists>d. d \<noteq> [] \<and> load_epoch (py_slice fts 0 n) (epoch_file dir e) = Inr d \<and> cal_lat d = Inr (f e))"
  shows "load_remote_lats fts dir n s (t - s + 1) = Inr (map (\<lambda>e. (e, f e)) [s..t])"
proof -
  have "s + (t - s + 1) - 1 = t" by simp
  then show ?thesis
    using load_lats_fold[of "[s..t]" "py_slice fts 0 n" dir f "[]"] assms
    unfolding load_remote_lats_def by simp
qed

text \<open>
  C37: When every epoch from \<^verbatim>\<open>start_epoch\<close> to \<^verbatim>\<open>target_epoch\<close> has latency samples, the averaged
  cluster latency is the mean of the per-epoch percentiles over the epochs \<^verbatim>\<open>start_epoch\<close> to
  \<^verbatim>\<open>target_epoch\<close>, the target included: one epoch more than the throughput average, which
  uses the same first epoch.\<close>

theorem get_cluster_lats_window:
  assumes "0 < target_epoch"
    and "\<forall>e \<in> {start_epoch target_epoch..target_epoch}.
      \<exists>d. d \<noteq> [] \<and> load_epoch (py_slice (sftps c) 0 CN_num) (epoch_file dir e) = Inr d \<and>
          cal_lat d = Inr (f e)"
  shows "get_cluster_lats dir CN_num target_epoch True c =
    Inr (mean2 (map f [start_epoch target_epoch..target_epoch]))"
proof -
  have ne: "[start_epoch target_epoch..target_epoch] \<noteq> []"
    using start_epoch_window[OF assms(1)] by (simp add: upto_rec1)
  have "load_remote_lats (sftps c) dir CN_num (start_epoch target_epoch)
      (target_epoch - start_epoch target_epoch + 1) =
      Inr (map (\<lambda>e. (e, f e)) [start_epoch target_epoch..target_epoch])"
    by (rule load_lats_range[OF assms(2)])
  with ne show ?thesis
    by (simp add: get_cluster_lats_def start_epoch_def[symmetric] comp_def)
qed

definition sample_sftp :: sftp where
  "sample_sftp p = (if p = ''lat/epoch_1.lat'' then Some [''1.5'' @ [CHR 0x09] @ ''4'']
     else if p = ''lat/epoch_2.lat'' then Some [''2.5'' @ [CHR 0x09] @ ''4''] else None)"

theorem get_cluster_lats_window_witness:
  "get_cluster_lats ''lat'' 1 2 True (sample_cluster\<lparr>sftps := [sample_sftp]\<rparr>) = Inr (2, 2)"
proof -
  let ?c = "sample_cluster\<lparr>sftps := [sample_sftp]\<rparr>" and ?f = "\<lambda>e::int. if e = 1 then (3/2, 3/2) else (5/2, 5/2) :: rat \<times> rat"
  have s: "start_epoch 2 = 1" by (simp add: start_epoch_def)
  have l: "load_epoch (py_slice (sftps ?c) 0 1) (epoch_file ''lat'' 1) = Inr [(''1.5'', 4)]"
    "load_epoch (py_slice (sftps ?c) 0 1) (epoch_file ''lat'' 2) = Inr [(''2.5'', 4)]"
    "cal_lat [(''1.5'', 4)] = Inr (3/2, 3/2)" "cal_lat [(''2.5'', 4)] = Inr (5/2, 5/2)"
    by code_simp+
  have "{1..2::int} = {1, 2}" by auto
  then have "get_cluster_lats ''lat'' 1 2 True ?c = Inr (mean2 (map ?f [start_epoch 2..2]))"
    using l by (intro get_cluster_lats_window) (auto simp: s)
  moreover have "mean2 (map ?f [start_epoch 2..2]) = (2, 2)" unfolding s by code_simp
  ultimately show ?thesis by simp
qed

end
