(* ===== verification/Sed_Generator.thy ===== *)
theory Sed_Generator
  imports Py_Prelude
begin

text \<open>
  \<^verbatim>\<open>exp/utils/sed_generator.py\<close>: the shell command that rewrites the constants of the C++
  headers before a build.  Shown: the command is the \<^verbatim>\<open>&&\<close>-chain of exactly the edits a method
  needs, a missing parameter is an assertion error, and the command determines every parameter it
  sets, so two configurations that differ in one of them are never built alike.
\<close>

section \<open>Definitions\<close>

definition sed_workloads_dir :: "string \<Rightarrow> string \<Rightarrow> string" where
  "sed_workloads_dir config_path workloads_dir =
     ''sed -i 's#.*#'' @ workloads_dir @ ''#g' '' @ config_path"

definition sed_s :: "string \<Rightarrow> string \<Rightarrow> string \<Rightarrow> string" where
  "sed_s config_path old_code new_code =
     ''sed -i 's/'' @ old_code @ ''/'' @ new_code @ ''/g' '' @ config_path"

definition sed_key_len :: "string \<Rightarrow> int \<Rightarrow> string" where
  "sed_key_len config_path key_size = sed_s config_path
     ''^constexpr uint32_t keyLen .*'' (''constexpr uint32_t keyLen = '' @ show_int key_size @ '';'')"

definition sed_val_len :: "string \<Rightarrow> int \<Rightarrow> string" where
  "sed_val_len config_path value_size = sed_s config_path
     ''^constexpr uint32_t simulatedValLen .*''
     (''constexpr uint32_t simulatedValLen = '' @ show_int value_size @ '';'')"

definition sed_cache_size :: "string \<Rightarrow> int \<Rightarrow> string" where
  "sed_cache_size config_path cache_size = sed_s config_path
     ''^constexpr int kIndexCacheSize .*''
     (''constexpr int kIndexCacheSize = '' @ show_int cache_size @ '';'')"

definition sed_MN_num :: "string \<Rightarrow> int \<Rightarrow> string" where
  "sed_MN_num config_path MN_num = sed_s config_path
     ''^#define MEMORY_NODE_NUM .*'' (''#define MEMORY_NODE_NUM '' @ show_int MN_num)"

definition sed_span_size :: "string \<Rightarrow> int \<Rightarrow> string" where
  "sed_span_size config_path span_size = sed_s config_path
     ''^constexpr uint32_t leafSpanSize .*''
     (''constexpr uint32_t leafSpanSize = '' @ show_int span_size @ '';'')"

definition sed_epsilon :: "string \<Rightarrow> int \<Rightarrow> string" where
  "sed_epsilon config_path epsilon = sed_s config_path
     ''^constexpr uint64_t epsilon .*'' (''constexpr uint64_t epsilon = '' @ show_int epsilon @ '';'')"

definition sed_neighbor_size :: "string \<Rightarrow> int \<Rightarrow> string" where
  "sed_neighbor_size config_path neighbor_size = sed_s config_path
     ''^constexpr uint32_t neighborSize .*''
     (''constexpr uint32_t neighborSize = '' @ show_int neighbor_size @ '';'')"

definition sed_hotspot_buffer_size :: "string \<Rightarrow> int \<Rightarrow> string" where
  "sed_hotspot_buffer_size config_path buffer_size = sed_s config_path
     ''^constexpr int kHotspotBufSize .*''
     (''constexpr int kHotspotBufSize = '' @ show_int buffer_size @ '';'')"

definition sed_greedy_IO_size :: "string \<Rightarrow> int \<Rightarrow> string" where
  "sed_greedy_IO_size config_path IO_size = sed_s config_path
     ''^constexpr uint64_t greedySizePerIO .*''
     (''constexpr uint64_t greedySizePerIO = '' @ show_int IO_size @ '';'')"

text \<open>\<^verbatim>\<open>assert(k in other_params)\<close> followed by the use of \<^verbatim>\<open>other_params[k]\<close>.\<close>

definition need_param :: "(string \<times> int) list \<Rightarrow> string \<Rightarrow> int py" where
  "need_param other_params k =
     py_bind (py_assert (map_of other_params k \<noteq> None)) (\<lambda>_. dict_get other_params k)"

definition generate_sed_cmd ::
  "string \<Rightarrow> string \<Rightarrow> int \<Rightarrow> int \<Rightarrow> int \<Rightarrow> int \<Rightarrow> int option \<Rightarrow> (string \<times> int) list \<Rightarrow> string py" where
  "generate_sed_cmd config_path method key_size value_size cache_size MN_num span_size other_params =
     (let cmd = sed_key_len config_path key_size @ '' && '' @ sed_val_len config_path value_size @
          '' && '' @ sed_cache_size config_path cache_size @ '' && '' @ sed_MN_num config_path MN_num in
      py_bind (if method \<noteq> ''SMART'' then
                 py_bind (py_assert (span_size \<noteq> None)) (\<lambda>_.
                 Inr (cmd @ '' && '' @ sed_span_size config_path (the span_size)))
               else Inr cmd) (\<lambda>cmd.
      py_bind (if method = ''ROLEX'' then
                 py_bind (need_param other_params ''epsilon'') (\<lambda>v.
                 Inr (cmd @ '' && '' @ sed_epsilon config_path v))
               else Inr cmd) (\<lambda>cmd.
      if method \<in> {''CHIME'', ''ROLEX''} then
        py_bind (need_param other_params ''neighbor_size'') (\<lambda>n.
        py_bind (need_param other_params ''hotspot_buffer_size'') (\<lambda>h.
        let cmd = cmd @ '' && '' @ sed_neighbor_size config_path n @
              '' && '' @ sed_hotspot_buffer_size config_path h in
        case map_of other_params ''greedy_IO_size'' of
          Some g \<Rightarrow> Inr (cmd @ '' && '' @ sed_greedy_IO_size config_path g)
        | None \<Rightarrow> Inr cmd))
      else Inr cmd)))"

section \<open>The edits a configuration asks for\<close>

text \<open>One edit: the constant it sets, the text before and after the value, the value.\<close>

datatype hdr_const = KeyLen | ValLen | CacheSize | MNNum | SpanSize | Epsilon | NeighborSize
  | HotspotBufSize | GreedyIO

fun edit :: "string \<Rightarrow> hdr_const \<times> int \<Rightarrow> string" where
  "edit p (KeyLen, v) = sed_key_len p v"
| "edit p (ValLen, v) = sed_val_len p v"
| "edit p (CacheSize, v) = sed_cache_size p v"
| "edit p (MNNum, v) = sed_MN_num p v"
| "edit p (SpanSize, v) = sed_span_size p v"
| "edit p (Epsilon, v) = sed_epsilon p v"
| "edit p (NeighborSize, v) = sed_neighbor_size p v"
| "edit p (HotspotBufSize, v) = sed_hotspot_buffer_size p v"
| "edit p (GreedyIO, v) = sed_greedy_IO_size p v"

definition opt_edit :: "hdr_const \<Rightarrow> int option \<Rightarrow> (hdr_const \<times> int) list" where
  "opt_edit c v = (case v of None \<Rightarrow> [] | Some x \<Rightarrow> [(c, x)])"

definition edits ::
  "string \<Rightarrow> int \<Rightarrow> int \<Rightarrow> int \<Rightarrow> int \<Rightarrow> int option \<Rightarrow> (string \<times> int) list \<Rightarrow> (hdr_const \<times> int) list" where
  "edits method key_size value_size cache_size MN_num span_size other_params =
     [(KeyLen, key_size), (ValLen, value_size), (CacheSize, cache_size), (MNNum, MN_num)] @
     (if method = ''SMART'' then [] else opt_edit SpanSize span_size) @
     (if method = ''ROLEX'' then opt_edit Epsilon (map_of other_params ''epsilon'') else []) @
     (if method \<in> {''CHIME'', ''ROLEX''} then
        opt_edit NeighborSize (map_of other_params ''neighbor_size'') @
        opt_edit HotspotBufSize (map_of other_params ''hotspot_buffer_size'') @
        opt_edit GreedyIO (map_of other_params ''greedy_IO_size'')
      else [])"

definition params_ok :: "string \<Rightarrow> int option \<Rightarrow> (string \<times> int) list \<Rightarrow> bool" where
  "params_ok method span_size other_params \<longleftrightarrow>
     (method \<noteq> ''SMART'' \<longrightarrow> span_size \<noteq> None) \<and>
     (method = ''ROLEX'' \<longrightarrow> map_of other_params ''epsilon'' \<noteq> None) \<and>
     (method \<in> {''CHIME'', ''ROLEX''} \<longrightarrow>
        map_of other_params ''neighbor_size'' \<noteq> None \<and>
        map_of other_params ''hotspot_buffer_size'' \<noteq> None)"

lemma need_param_eq:
  "need_param ps k = (case map_of ps k of None \<Rightarrow> Inl AssertionError | Some v \<Rightarrow> Inr v)"
  by (simp add: need_param_def dict_get_def split: option.splits)

text \<open>Every edit names its constant and is otherwise fixed text around the value.\<close>

definition edit_head :: "hdr_const \<Rightarrow> string" where
  "edit_head c = (let
     ce = (\<lambda>ty nm. ''sed -i 's/^constexpr '' @ ty @ '' '' @ nm @ '' .*/constexpr '' @ ty @ '' '' @ nm @ '' = '') in
     case c of
       KeyLen \<Rightarrow> ce ''uint32_t'' ''keyLen''
     | ValLen \<Rightarrow> ce ''uint32_t'' ''simulatedValLen''
     | CacheSize \<Rightarrow> ce ''int'' ''kIndexCacheSize''
     | MNNum \<Rightarrow> ''sed -i 's/^#define MEMORY_NODE_NUM .*/#define MEMORY_NODE_NUM ''
     | SpanSize \<Rightarrow> ce ''uint32_t'' ''leafSpanSize''
     | Epsilon \<Rightarrow> ce ''uint64_t'' ''epsilon''
     | NeighborSize \<Rightarrow> ce ''uint32_t'' ''neighborSize''
     | HotspotBufSize \<Rightarrow> ce ''int'' ''kHotspotBufSize''
     | GreedyIO \<Rightarrow> ce ''uint64_t'' ''greedySizePerIO'')"

definition edit_tail :: "hdr_const \<Rightarrow> string" where
  "edit_tail c = (if c = MNNum then ''/g' '' else '';/g' '')"

lemma edit_parts: "edit p (c, v) = edit_head c @ show_int v @ edit_tail c @ p"
  by (cases c) (simp_all add: edit_head_def edit_tail_def sed_s_def sed_key_len_def sed_val_len_def
      sed_cache_size_def sed_MN_num_def sed_span_size_def sed_epsilon_def sed_neighbor_size_def
      sed_hotspot_buffer_size_def sed_greedy_IO_size_def Let_def)

lemma edit_head_inj: "edit_head c @ x = edit_head d @ y \<Longrightarrow> c = d \<and> x = y"
  by (cases c; cases d) (simp_all add: edit_head_def Let_def)

lemma show_int_cancel:
  assumes "show_int a @ c # x = show_int b @ c # y" and "\<not> is_digit c" and "c \<noteq> CHR ''-''"
  shows "a = b \<and> x = y"
proof -
  have in_show: "\<forall>d \<in> set (show_int i). d \<noteq> c" for i
    using assms(2,3) show_nat_digits by (auto simp: show_int_def)
  have "takeWhile (\<lambda>d. d \<noteq> c) (show_int a @ c # x) = show_int a"
       "takeWhile (\<lambda>d. d \<noteq> c) (show_int b @ c # y) = show_int b"
    using in_show by (simp_all add: takeWhile_append2)
  with assms(1) show ?thesis by simp
qed

lemma edit_cancel: "edit p (c, a) @ x = edit p (d, b) @ y \<Longrightarrow> (c, a) = (d, b) \<and> x = y"
proof -
  assume "edit p (c, a) @ x = edit p (d, b) @ y"
  then have cd: "c = d" and e: "show_int a @ edit_tail c @ p @ x = show_int b @ edit_tail d @ p @ y"
    using edit_head_inj[of c "show_int a @ edit_tail c @ p @ x" d] by (auto simp: edit_parts)
  obtain t ts where t: "edit_tail c = t # ts" "\<not> is_digit t" "t \<noteq> CHR ''-''"
    by (cases "c = MNNum") (auto simp: edit_tail_def is_digit_def code_def)
  show ?thesis using cd e t show_int_cancel[of a t "ts @ p @ x" b "ts @ p @ y"] by auto
qed

text \<open>A chain of edits can be read back.\<close>

lemma join_Cons: "py_join sep (x # xs) = x @ concat (map (\<lambda>y. sep @ y) xs)"
  by (induction xs arbitrary: x) auto

lemma tail_inj:
  "concat (map (\<lambda>y. '' && '' @ edit p y) xs) = concat (map (\<lambda>y. '' && '' @ edit p y) ys) \<Longrightarrow> xs = ys"
proof (induction xs arbitrary: ys)
  case Nil
  then show ?case by (cases ys) auto
next
  case (Cons x xs)
  then obtain y zs where ys: "ys = y # zs" by (cases ys) auto
  obtain c a d b where "x = (c, a)" "y = (d, b)" by (cases x; cases y) auto
  with Cons ys show ?case using edit_cancel[of p c a _ d b] by auto
qed

definition chain :: "string \<Rightarrow> (hdr_const \<times> int) list \<Rightarrow> string" where
  "chain p es = py_join '' && '' (map (edit p) es)"

lemma chain_inj: "xs \<noteq> [] \<Longrightarrow> ys \<noteq> [] \<Longrightarrow> chain p xs = chain p ys \<Longrightarrow> xs = ys"
proof -
  assume "xs \<noteq> []" "ys \<noteq> []" and e: "chain p xs = chain p ys"
  then obtain c a xs' d b ys' where xy: "xs = (c, a) # xs'" "ys = (d, b) # ys'"
    by (metis neq_Nil_conv surj_pair)
  with e show ?thesis
    using edit_cancel[of p c a _ d b] tail_inj[of p xs' ys']
    by (auto simp: chain_def join_Cons comp_def)
qed

lemma edits_nonempty: "edits m k v c n s ps \<noteq> []"
  by (simp add: edits_def)

lemma generate_sed_cmd_eq:
  "generate_sed_cmd p m k v c n s ps =
     (if params_ok m s ps then Inr (chain p (edits m k v c n s ps)) else Inl AssertionError)"
  by (cases s)
     (auto simp: generate_sed_cmd_def params_ok_def chain_def edits_def opt_edit_def need_param_eq
        Let_def split: option.splits)

section \<open>Properties\<close>


text \<open>
  The command determines the edits: two configurations for the same header, of whatever
  methods, that yield the same command set the same constants to the same values.\<close>

theorem generate_sed_cmd_injective:
  assumes "generate_sed_cmd p m1 k1 v1 c1 n1 s1 ps1 = Inr cmd"
    and "generate_sed_cmd p m2 k2 v2 c2 n2 s2 ps2 = Inr cmd"
  shows "edits m1 k1 v1 c1 n1 s1 ps1 = edits m2 k2 v2 c2 n2 s2 ps2"
  using assms
  by (intro chain_inj[of _ _ p] edits_nonempty) (auto simp: generate_sed_cmd_eq split: if_splits)

theorem generate_sed_cmd_injective_witness:
  "(\<exists>cmd. generate_sed_cmd ''Common.h'' ''SMART'' 8 8 100 1 None [] = Inr cmd \<and>
     generate_sed_cmd ''Common.h'' ''SMART'' 8 8 100 1 (Some 64) [(''epsilon'', 4)] = Inr cmd) \<and>
   edits ''SMART'' 8 8 100 1 None [] = edits ''SMART'' 8 8 100 1 (Some 64) [(''epsilon'', 4)]"
proof
  let ?cmd = "chain ''Common.h'' [(KeyLen, 8), (ValLen, 8), (CacheSize, 100), (MNNum, 1)]"
  have g: "generate_sed_cmd ''Common.h'' ''SMART'' 8 8 100 1 None [] = Inr ?cmd"
      "generate_sed_cmd ''Common.h'' ''SMART'' 8 8 100 1 (Some 64) [(''epsilon'', 4)] = Inr ?cmd"
    by (simp_all add: generate_sed_cmd_eq params_ok_def edits_def)
  then show "\<exists>cmd. generate_sed_cmd ''Common.h'' ''SMART'' 8 8 100 1 None [] = Inr cmd \<and>
     generate_sed_cmd ''Common.h'' ''SMART'' 8 8 100 1 (Some 64) [(''epsilon'', 4)] = Inr cmd"
    by blast
  show "edits ''SMART'' 8 8 100 1 None [] = edits ''SMART'' 8 8 100 1 (Some 64) [(''epsilon'', 4)]"
    by (rule generate_sed_cmd_injective[OF g])
qed

end
