(* ===== verification/Fig_Common.thy ===== *)
theory Fig_Common
  imports Cmd_Manager Sed_Generator
begin

text \<open>
  What the experiment scripts \<^verbatim>\<open>exp/fig_*.py\<close> share: the parameters read from \<^verbatim>\<open>params/common.json\<close>
  and \<^verbatim>\<open>params/fig_<n>.json\<close> as records, the shell commands they build, the \<^verbatim>\<open>while True\<close> retry
  loop around one measurement, the series of measured values and the result files.  A result file
  holds the JSON value handed to \<^verbatim>\<open>json.dump\<close>.

  The retry loop has fuel: it gives up with \<open>OutOfFuel\<close>, an exception of the model that no
  script catches.  Enough fuel exists exactly when some attempt of the real loop succeeds or
  raises something the loop does not catch (\<open>retry_enough\<close>, \<open>retry_stable\<close>).
\<close>

section \<open>State\<close>

datatype json = JNull | JBool bool | JNum rat | JStr string | JList "json list" | JDict "(string \<times> json) list"

text \<open>The truth value of a decoded value, and the error of calling a dictionary's methods on another value.\<close>

fun truthy :: "json \<Rightarrow> bool" where
  "truthy JNull = False"
| "truthy (JBool b) = b"
| "truthy (JNum r) = (r \<noteq> 0)"
| "truthy (JStr s) = (s \<noteq> [])"
| "truthy (JList xs) = (xs \<noteq> [])"
| "truthy (JDict d) = (d \<noteq> [])"

definition AttributeError :: py_exc where
  "AttributeError = Exception ''AttributeError''"

definition as_object :: "json \<Rightarrow> (string \<times> json) list py" where
  "as_object j = (case j of JDict d \<Rightarrow> Inr d | _ \<Rightarrow> Inl AttributeError)"

text \<open>A number in a comparison; \<^verbatim>\<open>True\<close> and \<^verbatim>\<open>False\<close> are the numbers 1 and 0.\<close>

fun py_num :: "json \<Rightarrow> rat py" where
  "py_num (JNum q) = Inr q"
| "py_num (JBool b) = Inr (if b then 1 else 0)"
| "py_num _ = Inl TypeError"

record fig_state =
  cl :: cluster
  saved :: "(string \<times> json) list"

definition on_cluster :: "(cluster, 'a) act \<Rightarrow> (fig_state, 'a) act" where
  "on_cluster m s = (case m (cl s) of (r, c) \<Rightarrow> (r, s\<lparr>cl := c\<rparr>))"

definition save_json :: "string \<Rightarrow> json \<Rightarrow> (fig_state, unit) act" where
  "save_json file data = act_modify (\<lambda>s. s\<lparr>saved := AList.update file data (saved s)\<rparr>)"

record common_params =
  home_dir :: string
  workloads_dir :: string
  common_options :: string
  cmake_options :: "(string \<times> string) list"

record exp_params =
  exp_methods :: "string list"
  workload_name :: string
  target_epoch :: int
  client_num :: "int \<times> int"
  MN_num :: int
  key_type :: string
  value_size :: int
  cache_size :: int
  span_sizes :: "(string \<times> int) list"
  epsilon :: int
  neighbor_size :: int
  hotspot_buffer_size :: int

text \<open>\<^verbatim>\<open>str(Path(workloads_dir).parent)\<close> of a path without redundant slashes.\<close>

definition ycsb_dir :: "common_params \<Rightarrow> string" where
  "ycsb_dir C = py_join ''/'' (butlast (split_on (CHR ''/'') (workloads_dir C)))"

section \<open>Commands\<close>

definition project_of :: "string \<Rightarrow> string" where
  "project_of method = (if method = ''Sherman'' then ''CHIME'' else method)"

definition project_dir :: "common_params \<Rightarrow> string \<Rightarrow> string" where
  "project_dir C project = home_dir C @ ''/'' @ project"

definition env_cmd :: "string \<Rightarrow> string" where
  "env_cmd proj = ''cd '' @ proj @ ''/build''"

definition key_bytes :: "string \<Rightarrow> int" where
  "key_bytes kt = (if kt = ''randint'' then 8 else 32)"

definition other_params :: "int \<Rightarrow> int \<Rightarrow> int \<Rightarrow> (string \<times> int) list" where
  "other_params e n h = [(''epsilon'', e), (''neighbor_size'', n), (''hotspot_buffer_size'', h)]"

definition sed_config ::
  "common_params \<Rightarrow> string \<Rightarrow> int \<Rightarrow> int \<Rightarrow> int \<Rightarrow> int \<Rightarrow> int option \<Rightarrow> (string \<times> int) list \<Rightarrow> string py" where
  "sed_config C method key_len val_len cache MN spn others =
     py_bind (generate_sed_cmd ''./include/Common.h'' method key_len val_len cache MN spn others)
       (\<lambda>cmd. Inr (sed_workloads_dir ''./workloads.conf'' (workloads_dir C) @ '' && '' @ cmd))"

text \<open>The usual configuration: the span of the method, everything else from the parameters.\<close>

definition std_sed :: "common_params \<Rightarrow> exp_params \<Rightarrow> string \<Rightarrow> string \<Rightarrow> int \<Rightarrow> int \<Rightarrow> string py" where
  "std_sed C P method project val_len cache =
     py_bind (dict_get (span_sizes P) method) (\<lambda>spn.
     sed_config C project (key_bytes (key_type P)) val_len cache (MN_num P) (Some spn)
       (other_params (epsilon P) (neighbor_size P) (hotspot_buffer_size P)))"

definition cmake_option :: "common_params \<Rightarrow> string \<Rightarrow> string py" where
  "cmake_option C method = py_bind (dict_get (cmake_options C) method) (\<lambda>opt. Inr (common_options C @ '' '' @ opt))"

definition switch_on :: "string \<Rightarrow> string \<Rightarrow> string" where
  "switch_on flag opts = py_replace (''-D'' @ flag @ ''=off'') (''-D'' @ flag @ ''=on'') opts"

definition BUILD_PROJECT :: "string \<Rightarrow> string \<Rightarrow> string \<Rightarrow> string" where
  "BUILD_PROJECT proj sed_cmd opts =
     ''cd '' @ proj @ '' && '' @ sed_cmd @ '' && mkdir -p build && cd build && cmake '' @ opts @
     '' .. && make clean && make -j''"

definition CLEAR_MEMC :: "string \<Rightarrow> string" where
  "CLEAR_MEMC proj = env_cmd proj @ '' && /bin/bash ../script/restartMemc.sh''"

definition SPLIT_WORKLOADS :: "common_params \<Rightarrow> string \<Rightarrow> string \<Rightarrow> string \<Rightarrow> int \<times> int \<Rightarrow> string" where
  "SPLIT_WORKLOADS C proj wl kt = (\<lambda>(CN_num, client_num_per_CN).
     env_cmd proj @ '' && python3 '' @ ycsb_dir C @ ''/split_workload.py '' @ wl @ '' '' @ kt @ '' '' @
     show_int CN_num @ '' '' @ show_int client_num_per_CN)"

definition YCSB_TEST :: "string \<Rightarrow> string \<Rightarrow> string \<Rightarrow> int \<times> int \<Rightarrow> string" where
  "YCSB_TEST proj wl kt = (\<lambda>(CN_num, client_num_per_CN).
     env_cmd proj @ '' && ./ycsb_test '' @ show_int CN_num @ '' '' @ show_int client_num_per_CN @ '' 2 '' @
     kt @ '' '' @ wl)"

definition KILL_PROCESS :: "string \<Rightarrow> string \<Rightarrow> string" where
  "KILL_PROCESS proj exe = env_cmd proj @ '' && killall -9 '' @ exe"

definition sh_all :: "string \<Rightarrow> int \<Rightarrow> (fig_state, unit) act" where
  "sh_all command CN = act_bind (on_cluster (all_execute command CN)) (\<lambda>_. act_return ())"

definition sh_one :: "string \<Rightarrow> (fig_state, string list option) act" where
  "sh_one command = on_cluster (one_execute command)"

section \<open>One measurement and its retry loop\<close>

text \<open>\<^verbatim>\<open>except (FunctionTimedOut, Exception)\<close>.\<close>

definition retried :: "py_exc \<Rightarrow> bool" where
  "retried e = (case e of SystemExit n \<Rightarrow> False | OutOfFuel \<Rightarrow> False | NonFinite \<Rightarrow> False | IllTyped \<Rightarrow> False | _ \<Rightarrow> True)"

fun retry :: "nat \<Rightarrow> ('s, 'a) act \<Rightarrow> ('s, 'a) act" where
  "retry 0 m = act_raise OutOfFuel"
| "retry (Suc n) m = act_catch m (\<lambda>e. if retried e then retry n m else act_raise e)"

definition run_test :: "string \<Rightarrow> string \<Rightarrow> string \<Rightarrow> int \<Rightarrow> bool \<Rightarrow> (fig_state, logs) act" where
  "run_test proj exe test CN only_need_tpt =
     act_seq (sh_all (KILL_PROCESS proj exe) CN)
    (act_bind (sh_one (CLEAR_MEMC proj)) (\<lambda>_.
     on_cluster (all_long_execute test CN only_need_tpt)))"

definition statistics :: "int \<Rightarrow> bool \<Rightarrow> logs \<Rightarrow> (fig_state, log_stats) act" where
  "statistics epoch avg lgs = act_lift (get_statistics lgs epoch avg)"

definition cluster_lats :: "string \<Rightarrow> int \<Rightarrow> int \<Rightarrow> (fig_state, rat \<times> rat) act" where
  "cluster_lats proj CN epoch =
     act_bind (act_get cl) (\<lambda>c. act_lift (get_cluster_lats (proj @ ''/us_lat'') CN epoch True c))"

text \<open>A throughput is never \<^verbatim>\<open>None\<close> after \<^verbatim>\<open>get_statistics\<close>; the dump would write \<^verbatim>\<open>null\<close>.\<close>

definition jtpt :: "log_stats \<Rightarrow> json" where
  "jtpt st = (case tpt st of None \<Rightarrow> JNull | Some r \<Rightarrow> JNum r)"

definition jint :: "int \<Rightarrow> json" where
  "jint i = JNum (of_int i)"

section \<open>Series\<close>

type_synonym series = "(string \<times> json list) list"

definition series_init :: "json list \<Rightarrow> string list \<Rightarrow> series" where
  "series_init v ms = foldl (\<lambda>d m. AList.update m v d) [] ms"

definition append_to :: "series \<Rightarrow> string \<Rightarrow> json \<Rightarrow> series py" where
  "append_to Y m v = (case map_of Y m of None \<Rightarrow> Inl (KeyError m) | Some l \<Rightarrow> Inr (AList.update m (l @ [v]) Y))"

definition jseries :: "series \<Rightarrow> json" where
  "jseries Y = JDict (map (\<lambda>(m, l). (m, JList l)) Y)"

definition jstrs :: "string list \<Rightarrow> json" where
  "jstrs xs = JList (map JStr xs)"

definition plot_xy :: "string list \<Rightarrow> json \<Rightarrow> series \<Rightarrow> json" where
  "plot_xy ms X Y = JDict [(''methods'', jstrs ms), (''X_data'', X), (''Y_data'', jseries Y)]"

definition fig_file :: "string \<Rightarrow> string" where
  "fig_file n = ''fig_'' @ n @ ''.json''"

section \<open>The retry loop\<close>

text \<open>\<open>fails m s k t\<close>: from \<open>s\<close>, \<open>k\<close> attempts in a row end in exceptions the loop catches, leaving \<open>t\<close>.\<close>

inductive fails :: "('s, 'a) act \<Rightarrow> 's \<Rightarrow> nat \<Rightarrow> 's \<Rightarrow> bool" for m where
  fails_0: "fails m s 0 s"
| fails_Suc: "m s = (Inl e, s1) \<Longrightarrow> retried e \<Longrightarrow> fails m s1 k t \<Longrightarrow> fails m s (Suc k) t"

inductive_cases fails_SucE: "fails m s (Suc k) t"
inductive_simps fails_0_iff [simp]: "fails m s 0 t"

lemma retry_enough:
  assumes "fails m s k t" and "m t = (r, u)" and "\<forall>e. r = Inl e \<longrightarrow> \<not> retried e" and "k < n"
  shows "retry n m s = (r, u)"
  using assms
proof (induction arbitrary: n rule: fails.induct)
  case (fails_0 s)
  then obtain n' where "n = Suc n'" using gr0_conv_Suc by blast
  with fails_0 show ?case by (cases r) (auto simp: act_catch_def act_raise_def)
next
  case (fails_Suc s e s1 k t)
  then obtain n' where n: "n = Suc n'" "k < n'" by (metis Suc_lessE)
  with fails_Suc show ?case by (simp add: act_catch_def)
qed

lemma retry_result:
  "retry n m s = (r, u) \<Longrightarrow> r \<noteq> Inl OutOfFuel \<Longrightarrow>
   \<exists>k<n. \<exists>t. fails m s k t \<and> m t = (r, u) \<and> (\<forall>e. r = Inl e \<longrightarrow> \<not> retried e)"
proof (induction n arbitrary: s)
  case 0
  then show ?case by (simp add: act_raise_def)
next
  case (Suc n)
  obtain q s1 where q: "m s = (q, s1)" by (metis prod.exhaust)
  show ?case
  proof (cases "\<exists>e. q = Inl e \<and> retried e")
    case True
    then obtain e where e: "q = Inl e" "retried e" by blast
    then have "retry n m s1 = (r, u)" using Suc.prems(1) q by (simp add: act_catch_def)
    from Suc.IH[OF this Suc.prems(2)] obtain k t where
      "k < n" "fails m s1 k t" "m t = (r, u)" "\<forall>e. r = Inl e \<longrightarrow> \<not> retried e" by blast
    then show ?thesis using fails_Suc[of m s e s1 k t] q e by (intro exI[of _ "Suc k"]) auto
  next
    case False
    then have "m s = (r, u)" using Suc.prems(1) q by (cases q) (auto simp: act_catch_def act_raise_def)
    then show ?thesis using False q by (intro exI[of _ 0]) auto
  qed
qed

lemma retry_stable:
  "retry n m s = (r, u) \<Longrightarrow> r \<noteq> Inl OutOfFuel \<Longrightarrow> n \<le> n' \<Longrightarrow> retry n' m s = (r, u)"
  using retry_result[of n m s r u] retry_enough[of m s _ _ r u n'] by (meson order_less_le_trans)

definition measure :: "string \<Rightarrow> string \<Rightarrow> string \<Rightarrow> int \<Rightarrow> bool \<Rightarrow> int \<Rightarrow> bool \<Rightarrow> (fig_state, log_stats) act" where
  "measure proj exe test CN only_need_tpt epoch avg =
     act_bind (run_test proj exe test CN only_need_tpt) (statistics epoch avg)"

definition measure_cache :: "string \<Rightarrow> string \<Rightarrow> string \<Rightarrow> int \<Rightarrow> (fig_state, rat \<times> rat) act" where
  "measure_cache proj exe test CN =
     act_bind (run_test proj exe test CN False) (\<lambda>lgs. act_lift (get_cache_statistics lgs))"

section \<open>Complete series\<close>

text \<open>
  The interface between the scripts and the generic sweep: a step that returns has appended one
  value to the series of its legend and left the other series alone.
\<close>

definition grows :: "('b \<Rightarrow> series) \<Rightarrow> string \<Rightarrow> nat \<Rightarrow> 'b \<Rightarrow> 'b \<Rightarrow> bool" where
  "grows get leg n b b' \<longleftrightarrow>
     (\<exists>l l'. map_of (get b) leg = Some l \<and> map_of (get b') leg = Some l' \<and> length l' = length l + n) \<and>
     (\<forall>m. m \<noteq> leg \<longrightarrow> map_of (get b') m = map_of (get b) m)"

lemma grows_trans: "grows get leg i a b \<Longrightarrow> grows get leg j b c \<Longrightarrow> grows get leg (i + j) a c"
  unfolding grows_def by auto

lemma append_to_grows: "append_to Y m v = Inr Y' \<Longrightarrow> grows id m 1 Y Y'"
  by (auto simp: append_to_def grows_def update_conv split: option.splits)

lemma append_to_fst: "append_to X m v = Inr X' \<Longrightarrow> grows fst m 1 (X, Y) (X', Y')"
  and append_to_snd: "append_to X m v = Inr X' \<Longrightarrow> grows snd m 1 (Y, X) (Y', X')"
  using append_to_grows[of X m v X'] by (simp_all add: grows_def)

lemmas append_grows = append_to_grows append_to_fst append_to_snd

locale sweep =
  fixes get :: "'b \<Rightarrow> series" and leg :: string and step :: "'b \<Rightarrow> 'p \<Rightarrow> (fig_state, 'b) act"
  assumes step_grows: "step b p s = (Inr b', s') \<Longrightarrow> grows get leg 1 b b'"
begin

lemma sweep_grows:
  "act_fold step b ps s = (Inr b', s') \<Longrightarrow> map_of (get b) leg \<noteq> None \<Longrightarrow> grows get leg (length ps) b b'"
proof (induction ps arbitrary: b s)
  case Nil
  then show ?case by (auto simp: act_return_iff grows_def)
next
  case (Cons p ps)
  then obtain c t where c: "step b p s = (Inr c, t)" "act_fold step c ps t = (Inr b', s')"
    by (auto simp: act_bind_Inr_iff)
  have g: "grows get leg 1 b c" by (rule step_grows[OF c(1)])
  then have "map_of (get c) leg \<noteq> None" by (auto simp: grows_def)
  from grows_trans[OF g Cons.IH[OF c(2) this]] show ?case by simp
qed

end

locale method_sweep =
  fixes get :: "'b \<Rightarrow> series" and leg :: "'m \<Rightarrow> string" and num :: "'m \<Rightarrow> nat"
    and run :: "'b \<Rightarrow> 'm \<Rightarrow> (fig_state, 'b) act"
  assumes run_grows:
    "run b m s = (Inr b', s') \<Longrightarrow> map_of (get b) (leg m) \<noteq> None \<Longrightarrow> grows get (leg m) (num m) b b'"
begin

lemma all_grow_len:
  "act_fold run b ms s = (Inr b', s') \<Longrightarrow> distinct (map leg ms) \<Longrightarrow>
   \<forall>m \<in> set ms. \<exists>l. map_of (get b) (leg m) = Some l \<and> length l = n \<Longrightarrow>
   (\<forall>m \<in> set ms. \<exists>l. map_of (get b') (leg m) = Some l \<and> length l = n + num m) \<and>
   (\<forall>x. x \<notin> leg ` set ms \<longrightarrow> map_of (get b') x = map_of (get b) x)"
proof (induction ms arbitrary: b s)
  case Nil
  then show ?case by (simp add: act_return_iff)
next
  case (Cons m ms)
  then obtain c t where c: "run b m s = (Inr c, t)" "act_fold run c ms t = (Inr b', s')"
    by (auto simp: act_bind_Inr_iff)
  have g: "grows get (leg m) (num m) b c" using run_grows[OF c(1)] Cons.prems(3) by auto
  have new: "\<forall>x \<in> set ms. leg x \<noteq> leg m" using Cons.prems(2) by (metis distinct.simps(2) image_eqI list.set_map list.simps(9))
  then have keep: "\<forall>x \<in> set ms. \<exists>l. map_of (get c) (leg x) = Some l \<and> length l = n"
    using g Cons.prems(3) by (simp add: grows_def)
  have IH: "(\<forall>m \<in> set ms. \<exists>l. map_of (get b') (leg m) = Some l \<and> length l = n + num m) \<and>
    (\<forall>x. x \<notin> leg ` set ms \<longrightarrow> map_of (get b') x = map_of (get c) x)"
    using Cons.prems(2) keep by (intro Cons.IH[OF c(2)]) simp_all
  moreover have "leg m \<notin> leg ` set ms" using new by auto
  ultimately show ?case using g Cons.prems(3) by (auto simp: grows_def)
qed

lemma all_grow:
  "act_fold run b ms s = (Inr b', s') \<Longrightarrow> distinct (map leg ms) \<Longrightarrow>
   \<forall>m \<in> set ms. map_of (get b) (leg m) = Some l0 \<Longrightarrow>
   (\<forall>m \<in> set ms. \<exists>l. map_of (get b') (leg m) = Some l \<and> length l = length l0 + num m) \<and>
   (\<forall>x. x \<notin> leg ` set ms \<longrightarrow> map_of (get b') x = map_of (get b) x)"
  using all_grow_len[of b ms s b' s' "length l0"] by auto

end

lemma series_init_get: "map_of (series_init v ms) m = (if m \<in> set ms then Some v else None)"
proof -
  have "map_of (foldl (\<lambda>d m. AList.update m v d) d ms) m = (if m \<in> set ms then Some v else map_of d m)" for d
    by (induction ms arbitrary: d) (auto simp: update_conv)
  then show ?thesis by (simp add: series_init_def)
qed

lemma save_json_Inr:
  "save_json file data s = (r, s') \<longleftrightarrow> r = Inr () \<and> s' = s\<lparr>saved := AList.update file data (saved s)\<rparr>"
  by (auto simp: save_json_def act_modify_def)

lemma saved_update [simp]: "map_of (saved (s\<lparr>saved := AList.update f d x\<rparr>)) f = Some d"
  by (simp add: update_conv)

definition full_series :: "series \<Rightarrow> string list \<Rightarrow> (string \<Rightarrow> nat) \<Rightarrow> bool" where
  "full_series Y ms num \<longleftrightarrow>
     list_all (\<lambda>m. case map_of Y m of None \<Rightarrow> False | Some l \<Rightarrow> length l = num m) ms"

text \<open>The shape of most of the proofs about a script.\<close>

lemmas act_dest = act_bind_Inr_iff act_seq_Inr_iff act_return_iff save_json_Inr

lemma act_lift_Inr [simp]: "act_lift m s = (Inr x, t) \<longleftrightarrow> m = Inr x \<and> t = s"
  by (auto simp: act_lift_def)

lemma completeI:
  "\<forall>m \<in> set ms. \<exists>l. map_of Y m = Some l \<and> length l = num m \<Longrightarrow> full_series Y ms num"
  by (auto simp: full_series_def list_all_iff split: option.splits)

text \<open>A main function that sweeps over its methods and saves the series has saved complete series.\<close>

lemma main_complete:
  assumes "method_sweep id id num run" and "distinct ms"
    and "act_bind (act_fold run (series_init v ms) ms) (\<lambda>Y. save_json f (plot_xy ms X Y)) s = (Inr (), s')"
  shows "\<exists>Y. map_of (saved s') f = Some (plot_xy ms X Y) \<and> full_series Y ms (\<lambda>m. length v + num m)"
proof -
  obtain Y t where Y: "act_fold run (series_init v ms) ms s = (Inr Y, t)"
    and s': "map_of (saved s') f = Some (plot_xy ms X Y)"
    using assms(3) by (auto simp: act_dest update_conv)
  have "\<forall>m \<in> set ms. \<exists>l. map_of Y m = Some l \<and> length l = length v + num m"
    using method_sweep.all_grow[OF assms(1) Y, of v] assms(2) by (simp add: series_init_get)
  then have "full_series Y ms (\<lambda>m. length v + num m)" by (rule completeI)
  then show ?thesis using s' by blast
qed

lemma main_complete_pair:
  assumes "method_sweep fst id num run" and "method_sweep snd id num run" and "distinct ms"
    and "act_bind (act_fold run (series_init [] ms, series_init [] ms) ms)
      (\<lambda>(X, Y). save_json f (plot_xy ms (jseries X) Y)) s = (Inr (), s')"
  shows "\<exists>X Y. map_of (saved s') f = Some (plot_xy ms (jseries X) Y) \<and> full_series X ms num \<and> full_series Y ms num"
proof -
  obtain X Y t where XY: "act_fold run (series_init [] ms, series_init [] ms) ms s = (Inr (X, Y), t)"
    and s': "map_of (saved s') f = Some (plot_xy ms (jseries X) Y)"
    using assms(4) by (auto simp: act_dest update_conv)
  have "full_series X ms num"
    using method_sweep.all_grow[OF assms(1) XY, of "[]"] assms(3) by (intro completeI) (simp add: series_init_get)
  moreover have "full_series Y ms num"
    using method_sweep.all_grow[OF assms(2) XY, of "[]"] assms(3) by (intro completeI) (simp add: series_init_get)
  ultimately show ?thesis using s' by blast
qed

section \<open>Sample inputs\<close>

definition sample_common :: common_params where
  "sample_common = \<lparr>home_dir = ''/h'', workloads_dir = ''/w/y'', common_options = ''-DMIDDLE_TEST_EPOCH=off'',
     cmake_options = [(''SMART'', ''-DS=on''), (''ROLEX'', ''-DR=on''), (''CHIME'', ''-DC=on'')]\<rparr>"

definition sample_exp :: "string list \<Rightarrow> exp_params" where
  "sample_exp ms = \<lparr>exp_methods = ms, workload_name = ''c'', target_epoch = 1, client_num = (1, 1), MN_num = 1,
     key_type = ''randint'', value_size = 8, cache_size = 9, span_sizes = [(''SMART'', 4), (''ROLEX'', 4), (''CHIME'', 4)],
     epsilon = 4, neighbor_size = 8, hotspot_buffer_size = 3\<rparr>"

definition sample_state :: "nat \<Rightarrow> string list \<Rightarrow> fig_state" where
  "sample_state n outs = \<lparr>cl = \<lparr>cluster_ips = [''a''], master_idx = 0,
       shells = [concat (map (\<lambda>t. [Msg ''$'', Msg t]) outs)],
       replies = [replicate n (Inr (Inr [], Inr []))], sftps = [], sent = []\<rparr>, saved = []\<rparr>"

definition sample_out :: string where
  "sample_out = py_join [CHR 0x0A] [''epoch 1 passed!'', ''cluster throughput 5 Mops'', ''consumed cache size = 7 MB'', ''[END]'']"

end
