(* ===== verification/Fig_Sweeps.thy ===== *)
theory Fig_Sweeps
  imports Fig_Common
begin

text \<open>
  The scripts that measure a throughput per method along one axis: \<^verbatim>\<open>fig_03a\<close>, \<^verbatim>\<open>fig_03b\<close>,
  \<^verbatim>\<open>fig_03c\<close>, \<^verbatim>\<open>fig_04a\<close>, \<^verbatim>\<open>fig_04b\<close>, \<^verbatim>\<open>fig_17\<close> and \<^verbatim>\<open>fig_18a\<close> to \<^verbatim>\<open>fig_18e\<close>.  Each has the body of
  the inner loop (\<open>_point\<close>), of the loop over the methods (\<open>_method\<close>) and \<^verbatim>\<open>main\<close>.  The body of the
  inner loop meets the \<open>sweep\<close> contract and the outer one the \<open>method_sweep\<close> contract, which
  gives that a script that ends has written a complete series for every method.
\<close>

section \<open>fig_03a\<close>

definition fig_03a_span :: "string \<Rightarrow> int \<Rightarrow> int" where
  "fig_03a_span method ampl_size =
     (if method \<in> {''Sherman'', ''SMART''} then ampl_size
      else if method = ''ROLEX'' then ampl_size div 2 else 64)"

definition fig_03a_point ::
  "nat \<Rightarrow> common_params \<Rightarrow> exp_params \<Rightarrow> string \<Rightarrow> series \<times> series \<Rightarrow> int \<Rightarrow> (fig_state, series \<times> series) act" where
  "fig_03a_point fuel C P method = (\<lambda>(X, Y) ampl_size.
     let proj = project_dir C (project_of method); cn = client_num P in
     act_bind (act_lift (sed_config C method (key_bytes (key_type P)) (value_size P) (cache_size P) (MN_num P)
         (Some (fig_03a_span method ampl_size))
         (other_params (ampl_size div 2) (neighbor_size P) (hotspot_buffer_size P)))) (\<lambda>sed_cmd.
     act_bind (act_lift (cmake_option C method)) (\<lambda>opt.
     act_seq (sh_all (BUILD_PROJECT proj sed_cmd opt) (-1))
    (act_seq (sh_all (SPLIT_WORKLOADS C proj (workload_name P) (key_type P) cn) (fst cn))
    (act_bind (retry fuel (measure_cache proj ''ycsb_test'' (YCSB_TEST proj (workload_name P) (key_type P) cn) (fst cn)))
       (\<lambda>(consumed_cache_size, _).
     act_bind (act_lift (append_to X method (jint ampl_size))) (\<lambda>X.
     act_bind (act_lift (append_to Y method (JNum consumed_cache_size))) (\<lambda>Y.
     act_return (X, Y)))))))))"

definition fig_03a_main ::
  "nat \<Rightarrow> common_params \<Rightarrow> exp_params \<Rightarrow> (string \<times> int list) list \<Rightarrow> (fig_state, unit) act" where
  "fig_03a_main fuel C P ampl_sizes =
     act_bind (act_fold (\<lambda>XY method.
         act_bind (act_lift (dict_get ampl_sizes method)) (\<lambda>sizes.
         act_fold (fig_03a_point fuel C P method) XY sizes))
       (series_init [] (exp_methods P), series_init [] (exp_methods P)) (exp_methods P)) (\<lambda>(X, Y).
     save_json (fig_file ''03a'') (plot_xy (exp_methods P) (jseries X) Y))"

section \<open>fig_03b, fig_03c and fig_17\<close>

text \<open>Throughput against the number of clients; the body of the loop over them is the same.\<close>

definition clients_point ::
  "nat \<Rightarrow> common_params \<Rightarrow> exp_params \<Rightarrow> string \<Rightarrow> bool \<Rightarrow> string \<Rightarrow> series \<Rightarrow> int \<times> int \<Rightarrow> (fig_state, series) act" where
  "clients_point fuel C P proj avg method Y cn =
     act_seq (sh_all (SPLIT_WORKLOADS C proj (workload_name P) (key_type P) cn) (fst cn))
    (act_bind (retry fuel (measure proj ''ycsb_test'' (YCSB_TEST proj (workload_name P) (key_type P) cn) (fst cn)
        False (target_epoch P) avg)) (\<lambda>st.
     act_lift (append_to Y method (jtpt st))))"

definition fig_03b_method ::
  "nat \<Rightarrow> common_params \<Rightarrow> exp_params \<Rightarrow> (int \<times> int) list \<Rightarrow> series \<Rightarrow> string \<Rightarrow> (fig_state, series) act" where
  "fig_03b_method fuel C P client_nums Y method =
     (let proj = project_dir C (project_of method) in
      act_bind (act_lift (std_sed C P method method (value_size P) (cache_size P))) (\<lambda>sed_cmd.
      act_bind (act_lift (cmake_option C method)) (\<lambda>opt.
      act_seq (sh_all (BUILD_PROJECT proj sed_cmd opt) (-1))
     (act_fold (clients_point fuel C P proj False method) Y client_nums))))"

definition client_axis :: "(int \<times> int) list \<Rightarrow> json list" where
  "client_axis client_nums = map (\<lambda>(a, b). jint (a * b)) client_nums"

definition fig_03b_main ::
  "nat \<Rightarrow> common_params \<Rightarrow> exp_params \<Rightarrow> (int \<times> int) list \<Rightarrow> (fig_state, unit) act" where
  "fig_03b_main fuel C P client_nums =
     act_bind (act_fold (fig_03b_method fuel C P client_nums) (series_init [JNum 0] (exp_methods P)) (exp_methods P))
       (\<lambda>Y. save_json (fig_file ''03b'') (plot_xy (exp_methods P) (JList (JNum 0 # client_axis client_nums)) Y))"

definition fig_03c_method ::
  "nat \<Rightarrow> common_params \<Rightarrow> exp_params \<Rightarrow> (int \<times> int) list \<Rightarrow> series \<Rightarrow> string \<Rightarrow> (fig_state, series) act" where
  "fig_03c_method fuel C P client_nums Y method =
     (let proj = project_dir C (project_of method) in
      act_bind (act_lift (std_sed C P method method (value_size P) (cache_size P))) (\<lambda>sed_cmd.
      act_bind (act_lift (cmake_option C method)) (\<lambda>opt.
      let opt = (if method = ''Sherman'' \<and> cache_size P < 80 then switch_on ''ENABLE_CACHE_EVICTION'' opt else opt) in
      act_seq (sh_all (BUILD_PROJECT proj sed_cmd opt) (-1))
     (act_fold (clients_point fuel C P proj False method) Y client_nums))))"

definition fig_03c_main ::
  "nat \<Rightarrow> common_params \<Rightarrow> exp_params \<Rightarrow> (int \<times> int) list \<Rightarrow> (fig_state, unit) act" where
  "fig_03c_main fuel C P client_nums =
     act_bind (act_fold (fig_03c_method fuel C P client_nums) (series_init [JNum 0] (exp_methods P)) (exp_methods P))
       (\<lambda>Y. save_json (fig_file ''03c'') (plot_xy (exp_methods P) (JList (JNum 0 # client_axis client_nums)) Y))"

definition fig_17_method ::
  "nat \<Rightarrow> common_params \<Rightarrow> exp_params \<Rightarrow> int \<Rightarrow> (int \<times> int) list \<Rightarrow> series \<Rightarrow> string \<Rightarrow> (fig_state, series) act" where
  "fig_17_method fuel C P span_size client_nums Y method =
     (let project = (if method = ''SMART'' then ''SMART'' else ''CHIME''); proj = project_dir C project in
      act_bind (act_lift (sed_config C project (key_bytes (key_type P)) (value_size P) (cache_size P) (MN_num P)
         (Some span_size) [(''neighbor_size'', neighbor_size P), (''hotspot_buffer_size'', hotspot_buffer_size P)])) (\<lambda>sed_cmd.
      act_bind (act_lift (cmake_option C method)) (\<lambda>opt.
      act_seq (sh_all (BUILD_PROJECT proj sed_cmd (switch_on ''MIDDLE_TEST_EPOCH'' opt)) (-1))
     (act_fold (clients_point fuel C P proj True method) Y client_nums))))"

definition fig_17_main ::
  "nat \<Rightarrow> common_params \<Rightarrow> exp_params \<Rightarrow> int \<Rightarrow> (int \<times> int) list \<Rightarrow> (fig_state, unit) act" where
  "fig_17_main fuel C P span_size client_nums =
     act_bind (act_fold (fig_17_method fuel C P span_size client_nums) (series_init [] (exp_methods P)) (exp_methods P))
       (\<lambda>Y. save_json (fig_file ''17'') (plot_xy (exp_methods P) (JList (client_axis client_nums)) Y))"

section \<open>fig_04a, fig_04b and fig_04c\<close>

text \<open>Raw RDMA reads by \<^verbatim>\<open>zipf_rdma_test\<close>.\<close>

definition rdma_opts :: string where
  "rdma_opts = ''-DENABLE_CORO=on -DREAD_DELEGATION=on -DWRITE_COMBINING=on''"

definition plain_build :: "string \<Rightarrow> string \<Rightarrow> string" where
  "plain_build proj opts =
     ''cd '' @ proj @ '' && mkdir -p build && cd build && cmake '' @ opts @ '' .. && make clean && make -j''"

definition RDMA_TEST :: "string \<Rightarrow> int \<times> int \<Rightarrow> int list \<Rightarrow> string" where
  "RDMA_TEST proj = (\<lambda>(CN_num, client_num_per_CN) args.
     env_cmd proj @ '' && ./zipf_rdma_test '' @ py_join '' '' (map show_int (CN_num # client_num_per_CN # args)))"

definition measure_rdma :: "nat \<Rightarrow> string \<Rightarrow> exp_params \<Rightarrow> int list \<Rightarrow> (fig_state, log_stats) act" where
  "measure_rdma fuel proj P args =
     retry fuel (measure proj ''zipf_rdma_test'' (RDMA_TEST proj (client_num P) args) (fst (client_num P))
       False (target_epoch P) True)"

definition test_type_idx_04a :: "(string \<times> int) list" where
  "test_type_idx_04a = [(''Segment'', 2), (''Metadata before Segment'', 1), (''Node with Metadata'', 0)]"

definition fig_04a_point ::
  "nat \<Rightarrow> common_params \<Rightarrow> exp_params \<Rightarrow> int \<Rightarrow> string \<Rightarrow> series \<times> series \<Rightarrow> int \<Rightarrow> (fig_state, series \<times> series) act" where
  "fig_04a_point fuel C P span_size method = (\<lambda>(X, Y) segment_size.
     let proj = project_dir C ''CHIME'' in
     act_seq (sh_all (plain_build proj rdma_opts) (-1))
    (act_bind (act_lift (dict_get test_type_idx_04a method)) (\<lambda>idx.
     act_bind (measure_rdma fuel proj P [2, key_bytes (key_type P), value_size P, span_size, segment_size, 8, idx]) (\<lambda>st.
     act_bind (act_lift (append_to X method (jint segment_size))) (\<lambda>X.
     act_bind (act_lift (append_to Y method (jtpt st))) (\<lambda>Y.
     act_return (X, Y)))))))"

definition fig_04a_main ::
  "nat \<Rightarrow> common_params \<Rightarrow> exp_params \<Rightarrow> int \<Rightarrow> int list \<Rightarrow> (fig_state, unit) act" where
  "fig_04a_main fuel C P span_size segment_sizes =
     act_bind (act_fold (\<lambda>XY method. act_fold (fig_04a_point fuel C P span_size method) XY segment_sizes)
       (series_init [] (exp_methods P), series_init [] (exp_methods P)) (exp_methods P)) (\<lambda>(X, Y).
     save_json (fig_file ''04a'') (plot_xy (exp_methods P) (jseries X) Y))"

definition test_type_idx_04b :: "(string \<times> int) list" where
  "test_type_idx_04b = [(''Segment'', 2), (''Segment with Metadata'', 3),
     (''Segment and Metadata (2-I/O)'', 4), (''Node with Metadata'', 0)]"

definition fig_04b_point ::
  "nat \<Rightarrow> common_params \<Rightarrow> exp_params \<Rightarrow> int \<Rightarrow> int \<Rightarrow> string \<Rightarrow> series \<times> series \<Rightarrow> int \<Rightarrow> (fig_state, series \<times> series) act" where
  "fig_04b_point fuel C P span_size segment_size method = (\<lambda>(X, Y) key_size.
     let proj = project_dir C ''CHIME''; metadata_len = 8 + 2 * key_size in
     act_seq (sh_all (plain_build proj rdma_opts) (-1))
    (act_bind (act_lift (dict_get test_type_idx_04b method)) (\<lambda>idx.
     act_bind (measure_rdma fuel proj P [2, key_size, value_size P, span_size, segment_size, metadata_len, idx]) (\<lambda>st.
     act_bind (act_lift (append_to X method (jint key_size))) (\<lambda>X.
     act_bind (act_lift (append_to Y method (jtpt st))) (\<lambda>Y.
     act_return (X, Y)))))))"

definition fig_04b_main ::
  "nat \<Rightarrow> common_params \<Rightarrow> exp_params \<Rightarrow> int \<Rightarrow> int \<Rightarrow> int list \<Rightarrow> (fig_state, unit) act" where
  "fig_04b_main fuel C P span_size segment_size key_sizes =
     act_bind (act_fold (\<lambda>XY method. act_fold (fig_04b_point fuel C P span_size segment_size method) XY key_sizes)
       (series_init [] (exp_methods P), series_init [] (exp_methods P)) (exp_methods P)) (\<lambda>(X, Y).
     save_json (fig_file ''04b'') (plot_xy (exp_methods P) (jseries X) Y))"

definition get_legend :: "string \<Rightarrow> int option \<Rightarrow> string" where
  "get_legend method n = (case n of None \<Rightarrow> method | Some k \<Rightarrow> method @ '' ('' @ show_int k @ ''-entry)'')"

definition fig_04c_point ::
  "nat \<Rightarrow> common_params \<Rightarrow> exp_params \<Rightarrow> string \<Rightarrow> int \<Rightarrow> series \<Rightarrow> int \<Rightarrow> (fig_state, series) act" where
  "fig_04c_point fuel C P method nb Y key_size =
     act_bind (measure_rdma fuel (project_dir C ''CHIME'') P [6, key_size, value_size P, 64, nb, 8, 2]) (\<lambda>st.
     act_lift (append_to Y (get_legend method (Some nb)) (jtpt st)))"

definition fig_04c_main ::
  "nat \<Rightarrow> common_params \<Rightarrow> exp_params \<Rightarrow> int list \<Rightarrow> int list \<Rightarrow> (fig_state, unit) act" where
  "fig_04c_main fuel C P neighbor_sizes key_sizes =
     act_bind (act_lift (py_index (exp_methods P) 0)) (\<lambda>method.
     let legends = map (\<lambda>nb. get_legend method (Some nb)) neighbor_sizes in
     act_bind (act_fold (\<lambda>Y nb.
         act_seq (sh_all (plain_build (project_dir C ''CHIME'') rdma_opts) (-1))
         (act_fold (fig_04c_point fuel C P method nb) Y key_sizes)) (series_init [] legends) neighbor_sizes) (\<lambda>Y.
     save_json (fig_file ''04c'') (plot_xy legends (JList (map jint key_sizes)) Y)))"

section \<open>fig_18a\<close>

text \<open>The skew values come with their printed form.\<close>

definition ZIPFIAN_TEST :: "string \<Rightarrow> int \<times> int \<Rightarrow> int \<Rightarrow> string \<Rightarrow> string" where
  "ZIPFIAN_TEST proj = (\<lambda>(CN_num, client_num_per_CN) read_ratio zipfian.
     env_cmd proj @ '' && ./zipfian_test '' @ show_int CN_num @ '' '' @ show_int read_ratio @ '' '' @
     show_int client_num_per_CN @ '' '' @ zipfian @ '' 2'')"

definition fig_18a_point ::
  "nat \<Rightarrow> common_params \<Rightarrow> exp_params \<Rightarrow> int \<Rightarrow> string \<Rightarrow> series \<Rightarrow> string \<times> rat \<Rightarrow> (fig_state, series) act" where
  "fig_18a_point fuel C P read_ratio method Y zipfian =
     (let proj = project_dir C (project_of method) in
      act_bind (retry fuel (measure proj ''zipfian_test''
          (ZIPFIAN_TEST proj (client_num P) read_ratio (fst zipfian)) (fst (client_num P))
          False (target_epoch P) True)) (\<lambda>st.
      act_lift (append_to Y method (jtpt st))))"

definition fig_18a_method ::
  "nat \<Rightarrow> common_params \<Rightarrow> exp_params \<Rightarrow> int \<Rightarrow> (string \<times> rat) list \<Rightarrow> series \<Rightarrow> string \<Rightarrow> (fig_state, series) act" where
  "fig_18a_method fuel C P read_ratio zipfians Y method =
     act_bind (act_lift (std_sed C P method method (value_size P) (cache_size P))) (\<lambda>sed_cmd.
     act_bind (act_lift (cmake_option C method)) (\<lambda>opt.
     act_seq (sh_all (BUILD_PROJECT (project_dir C (project_of method)) sed_cmd opt) (-1))
     (act_fold (fig_18a_point fuel C P read_ratio method) Y zipfians)))"

definition fig_18a_main ::
  "nat \<Rightarrow> common_params \<Rightarrow> exp_params \<Rightarrow> int \<Rightarrow> (string \<times> rat) list \<Rightarrow> (fig_state, unit) act" where
  "fig_18a_main fuel C P read_ratio zipfians =
     act_bind (act_fold (fig_18a_method fuel C P read_ratio zipfians) (series_init [] (exp_methods P)) (exp_methods P)) (\<lambda>Y.
     save_json (fig_file ''18a'') (plot_xy (exp_methods P) (JList (map (JNum \<circ> snd) zipfians)) Y))"

section \<open>fig_18b to fig_18e\<close>

text \<open>
  One build per point, the workload split once per method.  \<open>ycsb_point\<close> is the part of the bodies
  from \<^verbatim>\<open>cmd.all_execute(BUILD_PROJECT)\<close> on.
\<close>

definition ycsb_point ::
  "nat \<Rightarrow> exp_params \<Rightarrow> string \<Rightarrow> string \<Rightarrow> string \<Rightarrow> int \<Rightarrow> series \<Rightarrow> string \<Rightarrow> (fig_state, series) act" where
  "ycsb_point fuel P proj sed_cmd opt epoch Y method =
     act_seq (sh_all (BUILD_PROJECT proj sed_cmd opt) (-1))
    (act_bind (retry fuel (measure proj ''ycsb_test''
        (YCSB_TEST proj (workload_name P) (key_type P) (client_num P)) (fst (client_num P)) False epoch True)) (\<lambda>st.
     act_lift (append_to Y method (jtpt st))))"

definition split_first ::
  "common_params \<Rightarrow> exp_params \<Rightarrow> string \<Rightarrow> (series \<Rightarrow> 'p \<Rightarrow> (fig_state, series) act) \<Rightarrow> series \<Rightarrow> 'p list \<Rightarrow> (fig_state, series) act" where
  "split_first C P proj point Y ps =
     act_seq (sh_all (SPLIT_WORKLOADS C proj (workload_name P) (key_type P) (client_num P)) (fst (client_num P)))
       (act_fold point Y ps)"

definition fig_18b_opts :: "string \<Rightarrow> int \<Rightarrow> string \<Rightarrow> string" where
  "fig_18b_opts method cache opt =
     (let opt = (if cache = 0 then py_replace ''-DENABLE_CACHE=on'' ''-DENABLE_CACHE=off'' opt
                 else switch_on ''ENABLE_CACHE_EVICTION'' opt) in
      switch_on (if method = ''SMART'' then ''LONG_TEST_EPOCH'' else ''MIDDLE_TEST_EPOCH'') opt)"

definition fig_18b_point ::
  "nat \<Rightarrow> common_params \<Rightarrow> exp_params \<Rightarrow> (string \<times> int) list \<Rightarrow> string \<Rightarrow> series \<Rightarrow> int \<Rightarrow> (fig_state, series) act" where
  "fig_18b_point fuel C P target_epochs method Y cache =
     (if method = ''ROLEX'' \<and> cache < 50 then act_lift (append_to Y method (JNum 0))
      else
        act_bind (act_lift (std_sed C P method method (value_size P) cache)) (\<lambda>sed_cmd.
        act_bind (act_lift (cmake_option C method)) (\<lambda>opt.
        let proj = project_dir C (project_of method) in
        act_seq (sh_all (BUILD_PROJECT proj sed_cmd (fig_18b_opts method cache opt)) (-1))
       (act_bind (retry fuel (act_bind (run_test proj ''ycsb_test''
             (YCSB_TEST proj (workload_name P) (key_type P) (client_num P)) (fst (client_num P)) False) (\<lambda>lgs.
           act_bind (act_lift (dict_get target_epochs method)) (\<lambda>epoch. statistics epoch True lgs)))) (\<lambda>st.
        act_lift (append_to Y method (jtpt st)))))))"

definition fig_18b_method ::
  "nat \<Rightarrow> common_params \<Rightarrow> exp_params \<Rightarrow> (string \<times> int) list \<Rightarrow> int list \<Rightarrow> series \<Rightarrow> string \<Rightarrow> (fig_state, series) act" where
  "fig_18b_method fuel C P target_epochs cache_sizes Y method =
     split_first C P (project_dir C (project_of method)) (fig_18b_point fuel C P target_epochs method) Y cache_sizes"

definition fig_18b_main ::
  "nat \<Rightarrow> common_params \<Rightarrow> exp_params \<Rightarrow> (string \<times> int) list \<Rightarrow> int list \<Rightarrow> (fig_state, unit) act" where
  "fig_18b_main fuel C P target_epochs cache_sizes =
     act_bind (act_fold (fig_18b_method fuel C P target_epochs cache_sizes) (series_init [] (exp_methods P)) (exp_methods P)) (\<lambda>Y.
     save_json (fig_file ''18b'') (plot_xy (exp_methods P) (JList (map jint cache_sizes)) Y))"

definition fig_18c_point ::
  "nat \<Rightarrow> common_params \<Rightarrow> exp_params \<Rightarrow> string \<Rightarrow> series \<Rightarrow> int \<Rightarrow> (fig_state, series) act" where
  "fig_18c_point fuel C P method Y val_len =
     act_bind (act_lift (std_sed C P method method val_len (cache_size P))) (\<lambda>sed_cmd.
     act_bind (act_lift (cmake_option C method)) (\<lambda>opt.
     ycsb_point fuel P (project_dir C (project_of method)) sed_cmd opt (target_epoch P) Y method))"

definition fig_18c_method ::
  "nat \<Rightarrow> common_params \<Rightarrow> exp_params \<Rightarrow> int list \<Rightarrow> series \<Rightarrow> string \<Rightarrow> (fig_state, series) act" where
  "fig_18c_method fuel C P value_sizes Y method =
     split_first C P (project_dir C (project_of method)) (fig_18c_point fuel C P method) Y value_sizes"

definition fig_18c_main ::
  "nat \<Rightarrow> common_params \<Rightarrow> exp_params \<Rightarrow> int list \<Rightarrow> (fig_state, unit) act" where
  "fig_18c_main fuel C P value_sizes =
     act_bind (act_fold (fig_18c_method fuel C P value_sizes) (series_init [] (exp_methods P)) (exp_methods P)) (\<lambda>Y.
     save_json (fig_file ''18c'') (plot_xy (exp_methods P) (JList (map jint value_sizes)) Y))"

definition method_maps :: "(string \<times> string) list" where
  "method_maps = [(''CHIME-indirect'', ''CHIME''), (''SMART-RCU'', ''SMART''), (''Marlin'', ''Marlin''),
     (''ROLEX-indirect'', ''ROLEX'')]"

definition fig_18d_point ::
  "nat \<Rightarrow> common_params \<Rightarrow> exp_params \<Rightarrow> string \<Rightarrow> string \<Rightarrow> series \<Rightarrow> int \<Rightarrow> (fig_state, series) act" where
  "fig_18d_point fuel C P method project Y val_len =
     act_bind (act_lift (std_sed C P method project val_len (cache_size P))) (\<lambda>sed_cmd.
     act_bind (act_lift (cmake_option C method)) (\<lambda>opt.
     ycsb_point fuel P (project_dir C project) sed_cmd opt (target_epoch P) Y method))"

definition fig_18d_method ::
  "nat \<Rightarrow> common_params \<Rightarrow> exp_params \<Rightarrow> int list \<Rightarrow> series \<Rightarrow> string \<Rightarrow> (fig_state, series) act" where
  "fig_18d_method fuel C P value_sizes Y method =
     act_bind (act_lift (dict_get method_maps method)) (\<lambda>project.
     split_first C P (project_dir C project) (fig_18d_point fuel C P method project) Y value_sizes)"

definition fig_18d_main ::
  "nat \<Rightarrow> common_params \<Rightarrow> exp_params \<Rightarrow> int list \<Rightarrow> (fig_state, unit) act" where
  "fig_18d_main fuel C P value_sizes =
     act_bind (act_fold (fig_18d_method fuel C P value_sizes) (series_init [] (exp_methods P)) (exp_methods P)) (\<lambda>Y.
     save_json (fig_file ''18d'') (plot_xy (exp_methods P) (JList (map jint value_sizes)) Y))"

definition fig_18e_point ::
  "nat \<Rightarrow> common_params \<Rightarrow> exp_params \<Rightarrow> string \<Rightarrow> series \<Rightarrow> int \<Rightarrow> (fig_state, series) act" where
  "fig_18e_point fuel C P method Y span_size =
     act_bind (act_lift (sed_config C method (key_bytes (key_type P)) (value_size P) (cache_size P) (MN_num P)
         (Some span_size) (other_params (epsilon P) (neighbor_size P) (hotspot_buffer_size P)))) (\<lambda>sed_cmd.
     act_bind (act_lift (cmake_option C method)) (\<lambda>opt.
     ycsb_point fuel P (project_dir C (project_of method)) sed_cmd opt (target_epoch P) Y method))"

definition fig_18e_method ::
  "nat \<Rightarrow> common_params \<Rightarrow> exp_params \<Rightarrow> int list \<Rightarrow> series \<Rightarrow> string \<Rightarrow> (fig_state, series) act" where
  "fig_18e_method fuel C P spans Y method =
     split_first C P (project_dir C (project_of method)) (fig_18e_point fuel C P method) Y spans"

definition fig_18e_main ::
  "nat \<Rightarrow> common_params \<Rightarrow> exp_params \<Rightarrow> int list \<Rightarrow> (fig_state, unit) act" where
  "fig_18e_main fuel C P spans =
     act_bind (act_fold (fig_18e_method fuel C P spans) (series_init [] (exp_methods P)) (exp_methods P)) (\<lambda>Y.
     save_json (fig_file ''18e'') (plot_xy (exp_methods P) (JList (map jint spans)) Y))"

section \<open>Contracts\<close>

lemma sweep_idI:
  "(\<And>b p s b' s'. step b p s = (Inr b', s') \<Longrightarrow> \<exists>v. append_to b leg v = Inr b') \<Longrightarrow> sweep id leg step"
  by unfold_locales (blast intro: append_to_grows)

lemma sweep_pairI:
  assumes "\<And>b p s b' s'. step b p s = (Inr b', s') \<Longrightarrow>
    \<exists>u v. append_to (fst b) leg u = Inr (fst b') \<and> append_to (snd b) leg v = Inr (snd b')"
  shows "sweep fst leg step" and "sweep snd leg step"
  by (unfold_locales; metis assms append_to_fst append_to_snd prod.collapse)+

interpretation fig_03a_X: sweep fst mt "fig_03a_point fuel C P mt" for fuel C P mt
  by (rule sweep_pairI) (auto simp: fig_03a_point_def act_dest Let_def split: prod.splits)

interpretation fig_03a_Y: sweep snd mt "fig_03a_point fuel C P mt" for fuel C P mt
  by (rule sweep_pairI) (auto simp: fig_03a_point_def act_dest Let_def split: prod.splits)

interpretation fig_04a_X: sweep fst mt "fig_04a_point fuel C P span_size mt" for fuel C P span_size mt
  by (rule sweep_pairI) (auto simp: fig_04a_point_def act_dest Let_def split: prod.splits)

interpretation fig_04a_Y: sweep snd mt "fig_04a_point fuel C P span_size mt" for fuel C P span_size mt
  by (rule sweep_pairI) (auto simp: fig_04a_point_def act_dest Let_def split: prod.splits)

interpretation clients: sweep id mt "clients_point fuel C P proj avg mt" for fuel C P proj avg mt
  by (rule sweep_idI) (auto simp: clients_point_def act_dest)

interpretation fig_18b_pt: sweep id mt "fig_18b_point fuel C P target_epochs mt" for fuel C P target_epochs mt
  by (rule sweep_idI) (auto simp: fig_18b_point_def act_dest Let_def split: if_splits)

interpretation fig_04b_X: sweep fst mt "fig_04b_point fuel C P sp seg mt" for fuel C P sp seg mt
  by (rule sweep_pairI) (auto simp: fig_04b_point_def act_dest Let_def split: prod.splits)

interpretation fig_04b_Y: sweep snd mt "fig_04b_point fuel C P sp seg mt" for fuel C P sp seg mt
  by (rule sweep_pairI) (auto simp: fig_04b_point_def act_dest Let_def split: prod.splits)

interpretation fig_04c_pt: sweep id "get_legend mt (Some nb)" "fig_04c_point fuel C P mt nb" for fuel C P mt nb
  by (rule sweep_idI) (auto simp: fig_04c_point_def act_dest)

interpretation fig_18a_pt: sweep id mt "fig_18a_point fuel C P rr mt" for fuel C P rr mt
  by (rule sweep_idI) (auto simp: fig_18a_point_def act_dest Let_def)

interpretation fig_18c_pt: sweep id mt "fig_18c_point fuel C P mt" for fuel C P mt
  by (rule sweep_idI) (auto simp: fig_18c_point_def ycsb_point_def act_dest)

interpretation fig_18d_pt: sweep id mt "fig_18d_point fuel C P mt project" for fuel C P mt project
  by (rule sweep_idI) (auto simp: fig_18d_point_def ycsb_point_def act_dest)

interpretation fig_18e_pt: sweep id mt "fig_18e_point fuel C P mt" for fuel C P mt
  by (rule sweep_idI) (auto simp: fig_18e_point_def ycsb_point_def act_dest)

lemmas point_sweeps =
  clients.sweep_grows fig_18a_pt.sweep_grows fig_18b_pt.sweep_grows fig_18c_pt.sweep_grows
  fig_18d_pt.sweep_grows fig_18e_pt.sweep_grows

interpretation fig_03b: method_sweep id id "\<lambda>_. length cs" "fig_03b_method fuel C P cs" for fuel C P cs
  by unfold_locales (auto simp: fig_03b_method_def act_dest Let_def intro: point_sweeps)

interpretation fig_03c: method_sweep id id "\<lambda>_. length cs" "fig_03c_method fuel C P cs" for fuel C P cs
  by unfold_locales (auto simp: fig_03c_method_def act_dest Let_def intro: point_sweeps)

interpretation fig_17: method_sweep id id "\<lambda>_. length cs" "fig_17_method fuel C P sp cs" for fuel C P sp cs
  by unfold_locales (auto simp: fig_17_method_def act_dest Let_def intro: point_sweeps)

interpretation fig_18a: method_sweep id id "\<lambda>_. length zs" "fig_18a_method fuel C P rr zs" for fuel C P rr zs
  by unfold_locales (auto simp: fig_18a_method_def act_dest intro: point_sweeps)

interpretation fig_18b: method_sweep id id "\<lambda>_. length cs" "fig_18b_method fuel C P es cs" for fuel C P es cs
  by unfold_locales (auto simp: fig_18b_method_def split_first_def act_dest intro: point_sweeps)

interpretation fig_18c: method_sweep id id "\<lambda>_. length vs" "fig_18c_method fuel C P vs" for fuel C P vs
  by unfold_locales (auto simp: fig_18c_method_def split_first_def act_dest intro: point_sweeps)

interpretation fig_18d: method_sweep id id "\<lambda>_. length vs" "fig_18d_method fuel C P vs" for fuel C P vs
  by unfold_locales (auto simp: fig_18d_method_def split_first_def act_dest intro: point_sweeps)

interpretation fig_18e: method_sweep id id "\<lambda>_. length sps" "fig_18e_method fuel C P sps" for fuel C P sps
  by unfold_locales (auto simp: fig_18e_method_def split_first_def act_dest intro: point_sweeps)

text \<open>The scripts with a horizontal axis per method.\<close>

definition fig_03a_method ::
  "nat \<Rightarrow> common_params \<Rightarrow> exp_params \<Rightarrow> (string \<times> int list) list \<Rightarrow> series \<times> series \<Rightarrow> string \<Rightarrow> (fig_state, series \<times> series) act" where
  "fig_03a_method fuel C P ampl_sizes XY method =
     act_bind (act_lift (dict_get ampl_sizes method)) (\<lambda>sizes. act_fold (fig_03a_point fuel C P method) XY sizes)"

definition sizes_of :: "(string \<times> int list) list \<Rightarrow> string \<Rightarrow> nat" where
  "sizes_of d m = (case map_of d m of None \<Rightarrow> 0 | Some l \<Rightarrow> length l)"

interpretation fig_03a_mX: method_sweep fst id "sizes_of d" "fig_03a_method fuel C P d" for fuel C P d
  by unfold_locales (auto simp: fig_03a_method_def act_dest dict_get_Inr_iff sizes_of_def;
    rule fig_03a_X.sweep_grows; auto)

interpretation fig_03a_mY: method_sweep snd id "sizes_of d" "fig_03a_method fuel C P d" for fuel C P d
  by unfold_locales (auto simp: fig_03a_method_def act_dest dict_get_Inr_iff sizes_of_def;
    rule fig_03a_Y.sweep_grows; auto)

interpretation fig_04a_mX: method_sweep fst id "\<lambda>_. length ss"
    "\<lambda>XY method. act_fold (fig_04a_point fuel C P sp method) XY ss" for fuel C P sp ss
  by unfold_locales (auto intro: fig_04a_X.sweep_grows)

interpretation fig_04a_mY: method_sweep snd id "\<lambda>_. length ss"
    "\<lambda>XY method. act_fold (fig_04a_point fuel C P sp method) XY ss" for fuel C P sp ss
  by unfold_locales (auto intro: fig_04a_Y.sweep_grows)

interpretation fig_04b_mX: method_sweep fst id "\<lambda>_. length ks"
    "\<lambda>XY method. act_fold (fig_04b_point fuel C P sp seg method) XY ks" for fuel C P sp seg ks
  by unfold_locales (auto intro: fig_04b_X.sweep_grows)

interpretation fig_04b_mY: method_sweep snd id "\<lambda>_. length ks"
    "\<lambda>XY method. act_fold (fig_04b_point fuel C P sp seg method) XY ks" for fuel C P sp seg ks
  by unfold_locales (auto intro: fig_04b_Y.sweep_grows)

section \<open>Complete result files\<close>

lemma fig_03c_complete:
  "fig_03c_main fuel C P cs s = (Inr (), s') \<Longrightarrow> distinct (exp_methods P) \<Longrightarrow>
   \<exists>Y. map_of (saved s') (fig_file ''03c'') =
       Some (plot_xy (exp_methods P) (JList (JNum 0 # client_axis cs)) Y) \<and>
     full_series Y (exp_methods P) (\<lambda>_. Suc (length cs))"
  using main_complete[OF fig_03c.method_sweep_axioms, of "exp_methods P" fuel C P cs "[JNum 0]"]
  by (simp add: fig_03c_main_def)

lemma fig_17_complete:
  "fig_17_main fuel C P sp cs s = (Inr (), s') \<Longrightarrow> distinct (exp_methods P) \<Longrightarrow>
   \<exists>Y. map_of (saved s') (fig_file ''17'') = Some (plot_xy (exp_methods P) (JList (client_axis cs)) Y) \<and>
     full_series Y (exp_methods P) (\<lambda>_. length cs)"
  using main_complete[OF fig_17.method_sweep_axioms, of "exp_methods P" fuel C P sp cs "[]"]
  by (simp add: fig_17_main_def)

lemma fig_18a_complete:
  "fig_18a_main fuel C P rr zs s = (Inr (), s') \<Longrightarrow> distinct (exp_methods P) \<Longrightarrow>
   \<exists>Y. map_of (saved s') (fig_file ''18a'') = Some (plot_xy (exp_methods P) (JList (map (JNum \<circ> snd) zs)) Y) \<and>
     full_series Y (exp_methods P) (\<lambda>_. length zs)"
  using main_complete[OF fig_18a.method_sweep_axioms, of "exp_methods P" fuel C P rr zs "[]"]
  by (simp add: fig_18a_main_def)

lemma fig_18c_complete:
  "fig_18c_main fuel C P vs s = (Inr (), s') \<Longrightarrow> distinct (exp_methods P) \<Longrightarrow>
   \<exists>Y. map_of (saved s') (fig_file ''18c'') = Some (plot_xy (exp_methods P) (JList (map jint vs)) Y) \<and>
     full_series Y (exp_methods P) (\<lambda>_. length vs)"
  using main_complete[OF fig_18c.method_sweep_axioms, of "exp_methods P" fuel C P vs "[]"]
  by (simp add: fig_18c_main_def)

lemma fig_18d_complete:
  "fig_18d_main fuel C P vs s = (Inr (), s') \<Longrightarrow> distinct (exp_methods P) \<Longrightarrow>
   \<exists>Y. map_of (saved s') (fig_file ''18d'') = Some (plot_xy (exp_methods P) (JList (map jint vs)) Y) \<and>
     full_series Y (exp_methods P) (\<lambda>_. length vs)"
  using main_complete[OF fig_18d.method_sweep_axioms, of "exp_methods P" fuel C P vs "[]"]
  by (simp add: fig_18d_main_def)

lemma fig_18e_complete:
  "fig_18e_main fuel C P sps s = (Inr (), s') \<Longrightarrow> distinct (exp_methods P) \<Longrightarrow>
   \<exists>Y. map_of (saved s') (fig_file ''18e'') = Some (plot_xy (exp_methods P) (JList (map jint sps)) Y) \<and>
     full_series Y (exp_methods P) (\<lambda>_. length sps)"
  using main_complete[OF fig_18e.method_sweep_axioms, of "exp_methods P" fuel C P sps "[]"]
  by (simp add: fig_18e_main_def)

lemma fig_04a_complete:
  "fig_04a_main fuel C P sp ss s = (Inr (), s') \<Longrightarrow> distinct (exp_methods P) \<Longrightarrow>
   \<exists>X Y. map_of (saved s') (fig_file ''04a'') = Some (plot_xy (exp_methods P) (jseries X) Y) \<and>
     full_series X (exp_methods P) (\<lambda>_. length ss) \<and> full_series Y (exp_methods P) (\<lambda>_. length ss)"
  using main_complete_pair[OF fig_04a_mX.method_sweep_axioms fig_04a_mY.method_sweep_axioms, of "exp_methods P" fuel C P sp ss]
  by (simp add: fig_04a_main_def)

lemma fig_04b_complete:
  "fig_04b_main fuel C P sp seg ks s = (Inr (), s') \<Longrightarrow> distinct (exp_methods P) \<Longrightarrow>
   \<exists>X Y. map_of (saved s') (fig_file ''04b'') = Some (plot_xy (exp_methods P) (jseries X) Y) \<and>
     full_series X (exp_methods P) (\<lambda>_. length ks) \<and> full_series Y (exp_methods P) (\<lambda>_. length ks)"
  using main_complete_pair[OF fig_04b_mX.method_sweep_axioms fig_04b_mY.method_sweep_axioms, of "exp_methods P" fuel C P sp seg ks]
  by (simp add: fig_04b_main_def)

section \<open>Properties\<close>

text \<open>
  When \<^verbatim>\<open>fig_03b.py\<close> ends, its result file holds for every method the leading 0 and one throughput
  per client configuration, so each series is as long as the axis saved with it.\<close>

theorem fig_03b_complete:
  assumes "fig_03b_main fuel C P client_nums s = (Inr (), s')" and "distinct (exp_methods P)"
  shows "\<exists>Y. map_of (saved s') (fig_file ''03b'') =
      Some (plot_xy (exp_methods P) (JList (JNum 0 # client_axis client_nums)) Y) \<and>
    full_series Y (exp_methods P) (\<lambda>_. length (JNum 0 # client_axis client_nums))"
  using main_complete[OF fig_03b.method_sweep_axioms, of "exp_methods P" fuel C P client_nums "[JNum 0]"] assms
  by (simp add: fig_03b_main_def client_axis_def)

text \<open>
  When \<^verbatim>\<open>fig_03a.py\<close> ends, the saved horizontal and vertical series of every method both have one
  entry per amplification size configured for that method.\<close>

theorem fig_03a_complete:
  assumes "fig_03a_main fuel C P ampl_sizes s = (Inr (), s')" and "distinct (exp_methods P)"
  shows "\<exists>X Y. map_of (saved s') (fig_file ''03a'') = Some (plot_xy (exp_methods P) (jseries X) Y) \<and>
    full_series X (exp_methods P) (sizes_of ampl_sizes) \<and> full_series Y (exp_methods P) (sizes_of ampl_sizes)"
  using main_complete_pair[OF fig_03a_mX.method_sweep_axioms fig_03a_mY.method_sweep_axioms,
      of "exp_methods P" fuel C P ampl_sizes] assms
  by (simp add: fig_03a_main_def fig_03a_method_def[abs_def])

text \<open>
  When \<^verbatim>\<open>fig_18b.py\<close> ends, every method has one value per cache size, ROLEX below 50 MB included,
  for which the script records a value without running the benchmark.\<close>

theorem fig_18b_complete:
  assumes "fig_18b_main fuel C P target_epochs cache_sizes s = (Inr (), s')" and "distinct (exp_methods P)"
  shows "\<exists>Y. map_of (saved s') (fig_file ''18b'') =
      Some (plot_xy (exp_methods P) (JList (map jint cache_sizes)) Y) \<and>
    full_series Y (exp_methods P) (\<lambda>_. length cache_sizes)"
  using main_complete[OF fig_18b.method_sweep_axioms, of "exp_methods P" fuel C P target_epochs cache_sizes "[]"] assms
  by (simp add: fig_18b_main_def)

lemma returns_pair: "fst (m s) = Inr () \<Longrightarrow> m s = (Inr (), snd (m s))"
  by (simp add: prod_eq_iff)

theorem fig_03b_complete_witness:
  "\<exists>Y. map_of (saved (snd (fig_03b_main 1 sample_common (sample_exp [''SMART'']) [(1, 1)] (sample_state 4 [sample_out]))))
      (fig_file ''03b'') = Some (plot_xy (exp_methods (sample_exp [''SMART''])) (JList (JNum 0 # client_axis [(1, 1)])) Y) \<and>
    full_series Y (exp_methods (sample_exp [''SMART''])) (\<lambda>_. length (JNum 0 # client_axis [(1, 1)]))"
proof (rule fig_03b_complete)
  have "fst (fig_03b_main 1 sample_common (sample_exp [''SMART'']) [(1, 1)] (sample_state 4 [sample_out])) = Inr ()"
    by code_simp
  then show "fig_03b_main 1 sample_common (sample_exp [''SMART'']) [(1, 1)] (sample_state 4 [sample_out]) =
    (Inr (), snd (fig_03b_main 1 sample_common (sample_exp [''SMART'']) [(1, 1)] (sample_state 4 [sample_out])))"
    by (rule returns_pair)
  show "distinct (exp_methods (sample_exp [''SMART'']))" by (simp add: sample_exp_def)
qed

theorem fig_03a_complete_witness:
  "\<exists>X Y. map_of (saved (snd (fig_03a_main 1 sample_common (sample_exp [''SMART'']) [(''SMART'', [4])] (sample_state 4 [sample_out]))))
      (fig_file ''03a'') = Some (plot_xy (exp_methods (sample_exp [''SMART''])) (jseries X) Y) \<and>
    full_series X (exp_methods (sample_exp [''SMART''])) (sizes_of [(''SMART'', [4])]) \<and>
    full_series Y (exp_methods (sample_exp [''SMART''])) (sizes_of [(''SMART'', [4])])"
proof (rule fig_03a_complete)
  have "fst (fig_03a_main 1 sample_common (sample_exp [''SMART'']) [(''SMART'', [4])] (sample_state 4 [sample_out])) = Inr ()"
    by code_simp
  then show "fig_03a_main 1 sample_common (sample_exp [''SMART'']) [(''SMART'', [4])] (sample_state 4 [sample_out]) =
    (Inr (), snd (fig_03a_main 1 sample_common (sample_exp [''SMART'']) [(''SMART'', [4])] (sample_state 4 [sample_out])))"
    by (rule returns_pair)
  show "distinct (exp_methods (sample_exp [''SMART'']))" by (simp add: sample_exp_def)
qed

theorem fig_18b_complete_witness:
  "\<exists>Y. map_of (saved (snd (fig_18b_main 1 sample_common (sample_exp [''ROLEX'']) [] [10, 20] (sample_state 1 []))))
      (fig_file ''18b'') = Some (plot_xy (exp_methods (sample_exp [''ROLEX''])) (JList (map jint [10, 20])) Y) \<and>
    full_series Y (exp_methods (sample_exp [''ROLEX''])) (\<lambda>_. length [10, 20 :: int])"
proof (rule fig_18b_complete)
  have "fst (fig_18b_main 1 sample_common (sample_exp [''ROLEX'']) [] [10, 20] (sample_state 1 [])) = Inr ()"
    by code_simp
  then show "fig_18b_main 1 sample_common (sample_exp [''ROLEX'']) [] [10, 20] (sample_state 1 []) =
    (Inr (), snd (fig_18b_main 1 sample_common (sample_exp [''ROLEX'']) [] [10, 20] (sample_state 1 [])))"
    by (rule returns_pair)
  show "distinct (exp_methods (sample_exp [''ROLEX'']))" by (simp add: sample_exp_def)
qed

end
