(* ===== verification/Fig_Bars.thy ===== *)
theory Fig_Bars
  imports Fig_Sweeps
begin

text \<open>
  The scripts that fill a table of methods and workloads (\<^verbatim>\<open>fig_13\<close>, \<^verbatim>\<open>fig_14\<close>, \<^verbatim>\<open>fig_15a\<close>,
  \<^verbatim>\<open>fig_15b\<close>) and the main experiment \<^verbatim>\<open>fig_12\<close> with its incremental result files.
\<close>

section \<open>Tables\<close>

type_synonym table = "(string \<times> (string \<times> json) list) list"

definition table_init :: "string list \<Rightarrow> (string \<times> json) list \<Rightarrow> table" where
  "table_init ms row = foldl (\<lambda>t m. AList.update m row t) [] ms"

definition row_init :: "string list \<Rightarrow> (string \<times> json) list" where
  "row_init ws = foldl (\<lambda>r w. AList.update w (JDict []) r) [] ws"

text \<open>\<^verbatim>\<open>t[m][w] = v\<close>.\<close>

definition set_cell :: "table \<Rightarrow> string \<Rightarrow> string \<Rightarrow> json \<Rightarrow> table py" where
  "set_cell t m w v = py_bind (dict_get t m) (\<lambda>row. Inr (AList.update m (AList.update w v row) t))"

definition jtable :: "table \<Rightarrow> json" where
  "jtable t = JDict (map (\<lambda>(m, row). (m, JDict row)) t)"

definition tri_metrics :: "string list" where
  "tri_metrics = [''Throughput'', ''P50 Latency'', ''P99 Latency'']"

definition metrics_cell :: "json \<Rightarrow> json \<Rightarrow> json \<Rightarrow> json" where
  "metrics_cell a b c = JDict [(''Throughput'', a), (''P50 Latency'', b), (''P99 Latency'', c)]"

definition plot_table :: "string list \<Rightarrow> string list \<Rightarrow> table \<Rightarrow> json" where
  "plot_table ms ws t = JDict [(''methods'', jstrs ms), (''bar_groups'', jstrs ws),
     (''metrics'', jstrs tri_metrics), (''Y_data'', jtable t)]"

section \<open>fig_13\<close>

definition fig_13_opt :: "string \<Rightarrow> string \<Rightarrow> string \<Rightarrow> string" where
  "fig_13_opt method workload opt =
     (if workload \<in> {''YCSB A'', ''YCSB D''} \<and> method = ''ROLEX-indirect''
      then switch_on ''SHORT_TEST_EPOCH'' opt else switch_on ''MIDDLE_TEST_EPOCH'' opt)"

definition use_long_target_epoch :: "string \<Rightarrow> bool" where
  "use_long_target_epoch opt = (\<not> py_in ''-DSHORT_TEST_EPOCH=on'' opt)"

definition fig_13_epoch :: "exp_params \<Rightarrow> int \<Rightarrow> string \<Rightarrow> int" where
  "fig_13_epoch P long_target_epoch opt =
     (if use_long_target_epoch opt then long_target_epoch else target_epoch P)"

text \<open>The local \<^verbatim>\<open>cmake_option\<close> is carried from one workload to the next.\<close>

definition fig_13_point ::
  "nat \<Rightarrow> common_params \<Rightarrow> exp_params \<Rightarrow> int \<Rightarrow> string \<Rightarrow> string \<Rightarrow> string \<Rightarrow> string \<times> table \<Rightarrow> string \<times> string \<Rightarrow>
   (fig_state, string \<times> table) act" where
  "fig_13_point fuel C P long_target_epoch method project sed_cmd = (\<lambda>(opt, t) (workload, wl).
     if method = ''ROLEX-indirect'' \<and> workload = ''YCSB LOAD'' then
       act_bind (act_lift (set_cell t method workload (metrics_cell (JNum 0) (JNum 0) (JNum 0)))) (\<lambda>t. act_return (opt, t))
     else
       let opt = fig_13_opt method workload opt; epoch = fig_13_epoch P long_target_epoch opt;
           proj = project_dir C project; cn = client_num P in
       act_seq (sh_all (BUILD_PROJECT proj sed_cmd opt) (-1))
      (act_seq (sh_all (SPLIT_WORKLOADS C proj wl (key_type P) cn) (fst cn))
      (act_bind (retry fuel (act_bind (measure proj ''ycsb_test'' (YCSB_TEST proj wl (key_type P) cn) (fst cn) True epoch True)
         (\<lambda>st. act_bind (cluster_lats proj (fst cn) epoch) (\<lambda>lats. act_return (st, lats))))) (\<lambda>(st, p50, p99).
       act_bind (act_lift (set_cell t method workload (metrics_cell (jtpt st) (JNum p50) (JNum p99)))) (\<lambda>t.
       act_return (opt, t))))))"

definition fig_13_method ::
  "nat \<Rightarrow> common_params \<Rightarrow> exp_params \<Rightarrow> int \<Rightarrow> (string \<times> string) list \<Rightarrow> table \<Rightarrow> string \<Rightarrow> (fig_state, table) act" where
  "fig_13_method fuel C P long_target_epoch workloads t method =
     act_bind (act_lift (dict_get method_maps method)) (\<lambda>project.
     act_bind (act_lift (std_sed C P method project (value_size P) (cache_size P))) (\<lambda>sed_cmd.
     act_bind (act_lift (cmake_option C method)) (\<lambda>opt.
     act_bind (act_fold (fig_13_point fuel C P long_target_epoch method project sed_cmd) (opt, t) workloads) (\<lambda>(opt, t).
     act_return t))))"

definition fig_13_main ::
  "nat \<Rightarrow> common_params \<Rightarrow> exp_params \<Rightarrow> int \<Rightarrow> (string \<times> string) list \<Rightarrow> (fig_state, unit) act" where
  "fig_13_main fuel C P long_target_epoch workloads =
     act_bind (act_fold (fig_13_method fuel C P long_target_epoch workloads)
       (table_init (exp_methods P) (row_init (map fst workloads))) (exp_methods P)) (\<lambda>t.
     save_json (fig_file ''13'') (plot_table (exp_methods P) (map fst workloads) t))"

section \<open>fig_14\<close>

definition plot_14 :: "string list \<Rightarrow> string list \<Rightarrow> table \<Rightarrow> table \<Rightarrow> json" where
  "plot_14 ms wls Y B = JDict [(''methods'', jstrs ms), (''bar_groups'', jstrs (map butlast wls)),
     (''Y_data'', jtable Y), (''BACKUP_data'', jtable B)]"

definition fig_14_point ::
  "nat \<Rightarrow> common_params \<Rightarrow> exp_params \<Rightarrow> string list \<Rightarrow> string \<Rightarrow> table \<times> table \<Rightarrow> string \<Rightarrow> (fig_state, table \<times> table) act" where
  "fig_14_point fuel C P wls method = (\<lambda>(Y, B) wl.
     let proj = project_dir C (project_of method); cn = client_num P in
     act_seq (sh_all (SPLIT_WORKLOADS C proj wl (key_type P) cn) (fst cn))
    (act_bind (retry fuel (measure_cache proj ''ycsb_test'' (YCSB_TEST proj wl (key_type P) cn) (fst cn)))
       (\<lambda>(consumed_cache_size, consumed_hot_buffer_size).
     act_bind (act_lift (set_cell Y method (butlast wl) (JNum consumed_cache_size))) (\<lambda>Y.
     act_bind (act_lift (set_cell B method (butlast wl) (JNum consumed_hot_buffer_size))) (\<lambda>B.
     act_seq (save_json ''fig_14_partial.json'' (plot_14 (exp_methods P) wls Y B))
     (act_return (Y, B)))))))"

definition fig_14_method ::
  "nat \<Rightarrow> common_params \<Rightarrow> exp_params \<Rightarrow> string list \<Rightarrow> table \<times> table \<Rightarrow> string \<Rightarrow> (fig_state, table \<times> table) act" where
  "fig_14_method fuel C P wls YB method =
     act_bind (act_lift (std_sed C P method method (value_size P) (cache_size P))) (\<lambda>sed_cmd.
     act_bind (act_lift (cmake_option C method)) (\<lambda>opt.
     act_seq (sh_all (BUILD_PROJECT (project_dir C (project_of method)) sed_cmd (switch_on ''MIDDLE_TEST_EPOCH'' opt)) (-1))
     (act_fold (fig_14_point fuel C P wls method) YB wls)))"

definition fig_14_main ::
  "nat \<Rightarrow> common_params \<Rightarrow> exp_params \<Rightarrow> string list \<Rightarrow> (fig_state, unit) act" where
  "fig_14_main fuel C P wls =
     act_bind (act_fold (fig_14_method fuel C P wls)
       (table_init (exp_methods P) [], table_init (exp_methods P) []) (exp_methods P)) (\<lambda>(Y, B).
     save_json (fig_file ''14'') (plot_14 (exp_methods P) wls Y B))"

section \<open>fig_15a and fig_15b\<close>

definition method_maps_15a :: "(string \<times> string) list" where
  "method_maps_15a = [(''Sherman'', ''Baseline (Sherman)''), (''S +Hopscotch Leaf Node'', ''+Hopscotch Leaf Node''),
     (''S +Vacancy-Aware Lock'', ''+Vacancy-Aware Lock''), (''S +Metadata Replication'', ''+Metadata Replication''),
     (''S +Sibling-Based Validation'', ''+Sibling-Based Validation''),
     (''S +Speculative Leaf Read'', ''+Speculative Leaf Read (CHIME)'')]"

definition method_maps_15b :: "(string \<times> string) list" where
  "method_maps_15b = [(''ROLEX'', ''Baseline (ROLEX)''), (''R +Hopscotch Leaf Node'', ''+Hopscotch Leaf Node''),
     (''R +Vacancy-Aware Lock'', ''+Vacancy-Aware Lock''), (''R +Metadata Replication'', ''+Metadata Replication''),
     (''R +Speculative Leaf Read'', ''+Speculative Leaf Read'')]"

text \<open>
  The body of the two loops is the same up to the project and the partial file; here the latencies
  are read before the throughput.
\<close>

definition factor_point ::
  "nat \<Rightarrow> common_params \<Rightarrow> exp_params \<Rightarrow> string \<Rightarrow> string \<Rightarrow> (string \<times> string) list \<Rightarrow> (table \<Rightarrow> json) \<Rightarrow> string \<Rightarrow>
   string \<times> string \<Rightarrow> table \<Rightarrow> string \<Rightarrow> (fig_state, table) act" where
  "factor_point fuel C P proj sed_cmd maps plot partial_file = (\<lambda>(workload, wl) t method.
     let cn = client_num P in
     act_bind (act_lift (cmake_option C method)) (\<lambda>opt.
     act_seq (sh_all (BUILD_PROJECT proj sed_cmd opt) (-1))
    (act_bind (retry fuel (act_bind (run_test proj ''ycsb_test'' (YCSB_TEST proj wl (key_type P) cn) (fst cn) False) (\<lambda>lgs.
         act_bind (cluster_lats proj (fst cn) (target_epoch P)) (\<lambda>lats.
         act_bind (statistics (target_epoch P) True lgs) (\<lambda>st. act_return (st, lats)))))) (\<lambda>(st, p50, p99).
     act_bind (act_lift (dict_get maps method)) (\<lambda>legend.
     act_bind (act_lift (set_cell t legend workload (metrics_cell (jtpt st) (JNum p50) (JNum p99)))) (\<lambda>t.
     act_seq (save_json partial_file (plot t)) (act_return t)))))))"

definition fig_15a_workload ::
  "nat \<Rightarrow> common_params \<Rightarrow> exp_params \<Rightarrow> int \<Rightarrow> (table \<Rightarrow> json) \<Rightarrow> table \<Rightarrow> string \<times> string \<Rightarrow> (fig_state, table) act" where
  "fig_15a_workload fuel C P span_size plot t w =
     (let proj = project_dir C ''CHIME'' in
      act_bind (act_lift (sed_config C ''CHIME'' (key_bytes (key_type P)) (value_size P) (cache_size P) (MN_num P)
          (Some span_size) [(''neighbor_size'', neighbor_size P), (''hotspot_buffer_size'', hotspot_buffer_size P)])) (\<lambda>sed_cmd.
      act_seq (sh_all (SPLIT_WORKLOADS C proj (snd w) (key_type P) (client_num P)) (fst (client_num P)))
     (act_fold (factor_point fuel C P proj sed_cmd method_maps_15a plot ''fig_15a_partial.json'' w) t (exp_methods P))))"

definition fig_15a_main ::
  "nat \<Rightarrow> common_params \<Rightarrow> exp_params \<Rightarrow> int \<Rightarrow> (string \<times> string) list \<Rightarrow> (fig_state, unit) act" where
  "fig_15a_main fuel C P span_size workloads =
     (let legends = map snd method_maps_15a; plot = plot_table legends (map fst workloads) in
      act_bind (act_fold (fig_15a_workload fuel C P span_size plot)
        (table_init legends (row_init (map fst workloads))) workloads) (\<lambda>t.
      save_json (fig_file ''15a'') (plot t)))"

definition fig_15b_workload ::
  "nat \<Rightarrow> common_params \<Rightarrow> exp_params \<Rightarrow> int \<Rightarrow> (table \<Rightarrow> json) \<Rightarrow> table \<Rightarrow> string \<times> string \<Rightarrow> (fig_state, table) act" where
  "fig_15b_workload fuel C P span_size plot t w =
     (let proj = project_dir C ''ROLEX'' in
      act_bind (act_lift (sed_config C ''ROLEX'' (key_bytes (key_type P)) (value_size P) (cache_size P) (MN_num P)
          (Some span_size) (other_params (epsilon P) (neighbor_size P) (hotspot_buffer_size P)))) (\<lambda>sed_cmd.
      act_seq (sh_all (SPLIT_WORKLOADS C proj (snd w) (key_type P) (client_num P)) (fst (client_num P)))
     (act_fold (factor_point fuel C P proj sed_cmd method_maps_15b plot ''fig_15b_partial.json'' w) t (exp_methods P))))"

definition fig_15b_main ::
  "nat \<Rightarrow> common_params \<Rightarrow> exp_params \<Rightarrow> int \<Rightarrow> (string \<times> string) list \<Rightarrow> (fig_state, unit) act" where
  "fig_15b_main fuel C P span_size workloads =
     (let legends = map snd method_maps_15b; plot = plot_table legends (map fst workloads) in
      act_bind (act_fold (fig_15b_workload fuel C P span_size plot)
        (table_init legends (row_init (map fst workloads))) workloads) (\<lambda>t.
      save_json (fig_file ''15b'') (plot t)))"

section \<open>fig_12\<close>

definition plot_12 :: "string list \<Rightarrow> series \<Rightarrow> series \<Rightarrow> series \<Rightarrow> json" where
  "plot_12 ms X Y B = JDict [(''methods'', jstrs ms), (''X_data'', jseries X), (''Y_data'', jseries Y),
     (''BACKUP_data'', jseries B)]"

type_synonym xyb = "series \<times> series \<times> series"

definition fig_12_file :: "string \<Rightarrow> string" where
  "fig_12_file wl = ''fig_12_'' @ wl @ ''.json''"

definition fig_12_partial :: "string \<Rightarrow> string" where
  "fig_12_partial wl = ''fig_12_'' @ wl @ ''_partial.json''"

text \<open>\<^verbatim>\<open>SMART-SC\<close> is run as SMART with a large cache and recorded under its own name.\<close>

definition fig_12_measure ::
  "exp_params \<Rightarrow> (string \<times> int) list \<Rightarrow> string \<Rightarrow> string \<Rightarrow> string \<Rightarrow> int \<times> int \<Rightarrow> (fig_state, log_stats \<times> rat \<times> rat) act" where
  "fig_12_measure P target_epochs proj workload wl cn =
     act_bind (run_test proj ''ycsb_test'' (YCSB_TEST proj wl (key_type P) cn) (fst cn) True) (\<lambda>lgs.
     act_bind (act_lift (dict_get target_epochs workload)) (\<lambda>epoch.
     act_bind (statistics epoch True lgs) (\<lambda>st.
     act_bind (cluster_lats proj (fst cn) epoch) (\<lambda>lats.
     act_return (st, lats)))))"

definition fig_12_point ::
  "nat \<Rightarrow> common_params \<Rightarrow> exp_params \<Rightarrow> (string \<times> int) list \<Rightarrow> string list \<Rightarrow> string \<Rightarrow> string \<Rightarrow> string \<Rightarrow> xyb \<Rightarrow>
   int \<times> int \<Rightarrow> (fig_state, xyb) act" where
  "fig_12_point fuel C P target_epochs plot_methods workload wl method = (\<lambda>(X, Y, B) cn.
     let sufficient_cache = (method = ''SMART-SC'');
         m = (if sufficient_cache then ''SMART'' else method);
         proj = project_dir C (project_of m) in
     act_bind (act_lift (std_sed C P m m (value_size P) (if sufficient_cache then 1000 else cache_size P))) (\<lambda>sed_cmd.
     act_bind (act_lift (cmake_option C m)) (\<lambda>opt.
     let opt = (if workload = ''YCSB C'' then switch_on ''MIDDLE_TEST_EPOCH'' opt else opt) in
     act_seq (sh_all (BUILD_PROJECT proj sed_cmd opt) (-1))
    (act_seq (sh_all (SPLIT_WORKLOADS C proj wl (key_type P) cn) (fst cn))
    (act_bind (retry fuel (fig_12_measure P target_epochs proj workload wl cn)) (\<lambda>(st, p50, p99).
     act_bind (act_lift (append_to X method (jtpt st))) (\<lambda>X.
     act_bind (act_lift (append_to Y method (JNum p99))) (\<lambda>Y.
     act_bind (act_lift (append_to B method (JNum p50))) (\<lambda>B.
     act_seq (save_json (fig_12_partial wl) (plot_12 plot_methods X Y B))
     (act_return (X, Y, B)))))))))))"

type_synonym client_table = "(string \<times> (string \<times> (int \<times> int) list) list) list"

definition fig_12_method ::
  "nat \<Rightarrow> common_params \<Rightarrow> exp_params \<Rightarrow> (string \<times> int) list \<Rightarrow> client_table \<Rightarrow> string list \<Rightarrow> string \<Rightarrow> string \<Rightarrow> xyb \<Rightarrow>
   string \<Rightarrow> (fig_state, xyb) act" where
  "fig_12_method fuel C P target_epochs clients plot_methods workload wl XYB method =
     act_bind (act_lift (py_bind (dict_get clients workload) (\<lambda>d. dict_get d method))) (\<lambda>cns.
     act_fold (fig_12_point fuel C P target_epochs plot_methods workload wl method) XYB cns)"

definition fig_12_methods :: "exp_params \<Rightarrow> string \<Rightarrow> string list" where
  "fig_12_methods P wl = (if wl \<noteq> ''la'' then exp_methods P else filter (\<lambda>m. m \<noteq> ''ROLEX'') (exp_methods P))"

definition fig_12_workload ::
  "nat \<Rightarrow> common_params \<Rightarrow> exp_params \<Rightarrow> (string \<times> int) list \<Rightarrow> client_table \<Rightarrow> string \<times> string \<Rightarrow> (fig_state, unit) act" where
  "fig_12_workload fuel C P target_epochs clients = (\<lambda>(workload, wl).
     let ms = fig_12_methods P wl in
     act_bind (act_fold (fig_12_method fuel C P target_epochs clients ms workload wl)
       (series_init [] ms, series_init [] ms, series_init [] ms) ms) (\<lambda>(X, Y, B).
     save_json (fig_12_file wl) (plot_12 ms X Y B)))"

definition fig_12_main ::
  "nat \<Rightarrow> common_params \<Rightarrow> exp_params \<Rightarrow> (string \<times> int) list \<Rightarrow> client_table \<Rightarrow> (string \<times> string) list \<Rightarrow> (fig_state, unit) act" where
  "fig_12_main fuel C P target_epochs clients workloads =
     act_for workloads (fig_12_workload fuel C P target_epochs clients)"

section \<open>fig_12: complete series and checkpoints\<close>

lemma fig_12_point_appends:
  assumes "fig_12_point fuel C P es ms workload wl method b cn s = (Inr b', s')"
  shows "(\<exists>u. append_to (fst b) method u = Inr (fst b')) \<and>
    (\<exists>u. append_to (fst (snd b)) method u = Inr (fst (snd b'))) \<and>
    (\<exists>u. append_to (snd (snd b)) method u = Inr (snd (snd b'))) \<and>
    map_of (saved s') (fig_12_partial wl) = Some (plot_12 ms (fst b') (fst (snd b')) (snd (snd b')))"
  using assms
  by (auto simp: fig_12_point_def act_dest Let_def update_conv split: prod.splits)

lemma append_to_get:
  "append_to (get b) m v = Inr (get b') \<Longrightarrow> grows get m 1 b b'"
  using append_to_grows[of "get b" m v "get b'"] by (simp add: grows_def)

interpretation fig_12_X: sweep fst mt "fig_12_point fuel C P es ms w wl mt" for fuel C P es ms w wl mt
  by unfold_locales (metis append_to_get[of fst] fig_12_point_appends)

interpretation fig_12_Y: sweep "fst \<circ> snd" mt "fig_12_point fuel C P es ms w wl mt" for fuel C P es ms w wl mt
  by unfold_locales (metis append_to_get[of "fst \<circ> snd"] comp_apply fig_12_point_appends)

interpretation fig_12_B: sweep "snd \<circ> snd" mt "fig_12_point fuel C P es ms w wl mt" for fuel C P es ms w wl mt
  by unfold_locales (metis append_to_get[of "snd \<circ> snd"] comp_apply fig_12_point_appends)

definition clients_of :: "client_table \<Rightarrow> string \<Rightarrow> string \<Rightarrow> (int \<times> int) list" where
  "clients_of clients w m =
     (case map_of clients w of None \<Rightarrow> [] | Some d \<Rightarrow> (case map_of d m of None \<Rightarrow> [] | Some cns \<Rightarrow> cns))"

lemma fig_12_method_fold:
  "fig_12_method fuel C P es clients ms w wl b method s = (Inr b', s') \<Longrightarrow>
   act_fold (fig_12_point fuel C P es ms w wl method) b (clients_of clients w method) s = (Inr b', s')"
  by (auto simp: fig_12_method_def act_dest dict_get_Inr_iff clients_of_def)

interpretation fig_12_mX: method_sweep fst id "\<lambda>m. length (clients_of clients w m)"
    "fig_12_method fuel C P es clients ms w wl" for fuel C P es clients ms w wl
  by unfold_locales (auto dest!: fig_12_method_fold intro: fig_12_X.sweep_grows)

interpretation fig_12_mY: method_sweep "fst \<circ> snd" id "\<lambda>m. length (clients_of clients w m)"
    "fig_12_method fuel C P es clients ms w wl" for fuel C P es clients ms w wl
  by unfold_locales (drule fig_12_method_fold, rule fig_12_Y.sweep_grows, auto)

interpretation fig_12_mB: method_sweep "snd \<circ> snd" id "\<lambda>m. length (clients_of clients w m)"
    "fig_12_method fuel C P es clients ms w wl" for fuel C P es clients ms w wl
  by unfold_locales (drule fig_12_method_fold, rule fig_12_B.sweep_grows, auto)

text \<open>The partial file shows the state of the series.\<close>

definition checkpointed :: "string list \<Rightarrow> string \<Rightarrow> xyb \<Rightarrow> fig_state \<Rightarrow> bool" where
  "checkpointed ms wl b s \<longleftrightarrow>
     map_of (saved s) (fig_12_partial wl) = Some (plot_12 ms (fst b) (fst (snd b)) (snd (snd b)))"

lemma points_checkpoint:
  "act_fold (fig_12_point fuel C P es ms w wl method) b cns s = (Inr b', s') \<Longrightarrow>
   cns \<noteq> [] \<or> checkpointed ms wl b s \<Longrightarrow> checkpointed ms wl b' s'"
proof (induction cns arbitrary: b s)
  case Nil
  then show ?case by (simp add: act_return_iff)
next
  case (Cons cn cns)
  then obtain c t where c: "fig_12_point fuel C P es ms w wl method b cn s = (Inr c, t)"
    "act_fold (fig_12_point fuel C P es ms w wl method) c cns t = (Inr b', s')"
    by (auto simp: act_bind_Inr_iff)
  from fig_12_point_appends[OF c(1)] have "checkpointed ms wl c t" by (simp add: checkpointed_def)
  with Cons.IH[OF c(2)] show ?case by blast
qed

lemma methods_checkpoint:
  "act_fold (fig_12_method fuel C P es clients ms w wl) b ns s = (Inr b', s') \<Longrightarrow>
   (\<exists>n \<in> set ns. clients_of clients w n \<noteq> []) \<or> checkpointed ms wl b s \<Longrightarrow> checkpointed ms wl b' s'"
proof (induction ns arbitrary: b s)
  case Nil
  then show ?case by (simp add: act_return_iff)
next
  case (Cons n ns)
  then obtain c t where c: "fig_12_method fuel C P es clients ms w wl b n s = (Inr c, t)"
    "act_fold (fig_12_method fuel C P es clients ms w wl) c ns t = (Inr b', s')"
    by (auto simp: act_bind_Inr_iff)
  have "clients_of clients w n \<noteq> [] \<or> checkpointed ms wl b s \<Longrightarrow> checkpointed ms wl c t"
    using points_checkpoint[OF fig_12_method_fold[OF c(1)]] .
  with Cons.IH[OF c(2)] Cons.prems(2) show ?case by auto
qed

lemma fig_12_partial_not_file: "fig_12_file wl \<noteq> fig_12_partial wl"
  by (simp add: fig_12_file_def fig_12_partial_def)

lemma fig_12_workload_ok:
  assumes "fig_12_workload fuel C P es clients (w, wl) s = (Inr (), s')"
    and "ms = fig_12_methods P wl" and "distinct ms"
  obtains X Y B where
    "map_of (saved s') (fig_12_file wl) = Some (plot_12 ms X Y B)"
    "full_series X ms (\<lambda>m. length (clients_of clients w m))"
    "full_series Y ms (\<lambda>m. length (clients_of clients w m))"
    "full_series B ms (\<lambda>m. length (clients_of clients w m))"
    "(\<exists>m \<in> set ms. clients_of clients w m \<noteq> []) \<Longrightarrow>
       map_of (saved s') (fig_12_partial wl) = Some (plot_12 ms X Y B)"
proof -
  from assms(1,2) obtain X Y B t where
    r: "act_fold (fig_12_method fuel C P es clients ms w wl) (series_init [] ms, series_init [] ms, series_init [] ms) ms s =
      (Inr (X, Y, B), t)"
    and s': "s' = t\<lparr>saved := AList.update (fig_12_file wl) (plot_12 ms X Y B) (saved t)\<rparr>"
    by (auto simp: fig_12_workload_def act_dest Let_def)
  have f: "full_series X ms (\<lambda>m. length (clients_of clients w m))"
    "full_series Y ms (\<lambda>m. length (clients_of clients w m))"
    "full_series B ms (\<lambda>m. length (clients_of clients w m))"
    using fig_12_mX.all_grow[OF r, of "[]"] fig_12_mY.all_grow[OF r, of "[]"] fig_12_mB.all_grow[OF r, of "[]"] assms(3)
    by (auto intro!: completeI simp: series_init_get)
  have "(\<exists>m \<in> set ms. clients_of clients w m \<noteq> []) \<Longrightarrow> checkpointed ms wl (X, Y, B) t"
    using methods_checkpoint[OF r] by blast
  then show ?thesis
    using that[of X Y B] f s' fig_12_partial_not_file[of wl] by (auto simp: checkpointed_def update_conv)
qed

section \<open>fig_13: sticky options\<close>

text \<open>A replacement keeps a pattern that cannot overlap with what is replaced.\<close>

lemma replace_skip: "c \<notin> set a \<Longrightarrow> py_replace (c # o') new (a @ r) = a @ py_replace (c # o') new r"
proof (induction a)
  case (Cons x a)
  then have "\<not> py_startswith (x # a @ r) (c # o')" by (auto simp: py_startswith_def)
  with Cons show ?case by simp
qed simp

lemma startswith_iff: "py_startswith s p \<longleftrightarrow> (\<exists>r. s = p @ r)"
  unfolding py_startswith_def by (metis append_eq_conv_conj append_take_drop_id)

lemma replace_keeps:
  assumes "c \<notin> set p'" and "c \<notin> set o'" and "\<not> prefix (c # p') (c # o')" and "\<not> prefix (c # o') (c # p')"
  shows "py_in (c # p') s \<Longrightarrow> py_in (c # p') (py_replace (c # o') new s)"
proof (induction "c # o'" new s rule: py_replace.induct)
  case (1 new)
  then show ?case by simp
next
  case (2 new x xs)
  let ?p = "c # p'" and ?o = "c # o'"
  show ?case
  proof (cases "py_startswith (x # xs) ?o")
    case True
    then obtain r where r: "x # xs = ?o @ r" using startswith_iff by blast
    then have "\<not> py_startswith (x # xs) ?p"
      using assms(3,4) prefix_same_cases[of ?o "x # xs" ?p] unfolding startswith_iff by (auto simp: prefix_def)
    then have "py_in ?p (o' @ r)" using 2(3) r by auto
    then have "py_in ?p r" using py_in_drop_prefix[of ?p o' r] assms(2) by simp
    moreover have "drop (length ?o) (x # xs) = r" using r by (metis append_eq_conv_conj)
    ultimately show ?thesis using True 2(1) by (auto intro: py_in_append2)
  next
    case False
    show ?thesis
    proof (cases "py_startswith (x # xs) ?p")
      case True
      then obtain r where r: "xs = p' @ r" "x = c" using startswith_iff by auto
      then have "py_replace ?o new (x # xs) = ?p @ py_replace ?o new r"
        using False replace_skip[OF assms(1), of o' new r] by simp
      then show ?thesis by (metis py_in_append1 py_in_self)
    next
      case f: False
      then have "py_in ?p xs" using 2(3) by simp
      then show ?thesis using False 2(2) by simp
    qed
  qed
qed

section \<open>Filled tables\<close>

definition filled :: "table \<Rightarrow> string \<Rightarrow> string \<Rightarrow> bool" where
  "filled t m w \<longleftrightarrow>
     (case map_of t m of None \<Rightarrow> False | Some row \<Rightarrow>
      (case map_of row w of None \<Rightarrow> False | Some v \<Rightarrow> v \<noteq> JDict []))"

lemma set_cell_filled:
  assumes "set_cell t m w v = Inr t'" and "v \<noteq> JDict []"
  shows "filled t' m w" and "filled t n x \<Longrightarrow> filled t' n x"
  using assms by (auto simp: set_cell_def filled_def dict_get_Inr_iff update_conv split: option.splits if_splits)

lemma cell_not_empty [simp]: "metrics_cell a b c \<noteq> JDict []" "JNum r \<noteq> JDict []"
  by (simp_all add: metrics_cell_def)

lemma fig_13_point_fills:
  assumes "fig_13_point fuel C P le method project sed_cmd b w s = (Inr b', s')"
  shows "filled (snd b') method (fst w)" and "filled (snd b) n x \<Longrightarrow> filled (snd b') n x"
  using assms
  by (auto simp: fig_13_point_def act_dest Let_def split: prod.splits if_splits dest: set_cell_filled)

lemma fig_13_method_fills:
  assumes "fig_13_method fuel C P le ws t method s = (Inr t', s')"
  shows "\<forall>w \<in> set ws. filled t' method (fst w)" and "filled t n x \<Longrightarrow> filled t' n x"
proof -
  from assms obtain project sed_cmd opt opt' s1 s2 where
    r: "act_fold (fig_13_point fuel C P le method project sed_cmd) (opt, t) ws s1 = (Inr (opt', t'), s2)"
    by (auto simp: fig_13_method_def act_dest)
  show "\<forall>w \<in> set ws. filled t' method (fst w)"
    using act_fold_all[where Q = "\<lambda>w b. filled (snd b) method (fst w)", OF _ _ r] fig_13_point_fills by simp
  show "filled t n x \<Longrightarrow> filled t' n x"
    using act_fold_keeps[where Q = "\<lambda>b. filled (snd b) n x", OF _ r] fig_13_point_fills(2) by simp
qed

lemma factor_point_fills:
  assumes "factor_point fuel C P proj sed maps plot pf w t method s = (Inr t', s')"
  shows "\<exists>legend. map_of maps method = Some legend \<and> filled t' legend (fst w)" and "filled t n x \<Longrightarrow> filled t' n x"
  using assms
  by (auto simp: factor_point_def act_dest Let_def dict_get_Inr_iff split: prod.splits dest: set_cell_filled)

definition legend_filled :: "(string \<times> string) list \<Rightarrow> table \<Rightarrow> string \<Rightarrow> string \<Rightarrow> bool" where
  "legend_filled maps t method w \<longleftrightarrow>
     (case map_of maps method of None \<Rightarrow> False | Some legend \<Rightarrow> filled t legend w)"

lemma factor_points_fill:
  assumes "act_fold (factor_point fuel C P proj sed maps plot pf w) t ms s = (Inr t', s')"
  shows "\<forall>m \<in> set ms. legend_filled maps t' m (fst w)" and "legend_filled maps t n x \<Longrightarrow> legend_filled maps t' n x"
proof -
  have k: "factor_point fuel C P proj sed maps plot pf w t mt s = (Inr t', s') \<Longrightarrow>
      legend_filled maps t n x \<Longrightarrow> legend_filled maps t' n x" for t mt s t' s' n x
    using factor_point_fills(2) by (auto simp: legend_filled_def split: option.splits)
  have e: "factor_point fuel C P proj sed maps plot pf w t mt s = (Inr t', s') \<Longrightarrow>
      legend_filled maps t' mt (fst w)" for t mt s t' s'
    using factor_point_fills(1) by (fastforce simp: legend_filled_def)
  show "\<forall>m \<in> set ms. legend_filled maps t' m (fst w)"
    using act_fold_all[where Q = "\<lambda>m t. legend_filled maps t m (fst w)", OF _ _ assms] e k by blast
  show "legend_filled maps t n x \<Longrightarrow> legend_filled maps t' n x"
    using act_fold_keeps[where Q = "\<lambda>t. legend_filled maps t n x", OF _ assms] k by blast
qed

text \<open>The loop over the workloads, for whatever the two scripts configure before it.\<close>

lemma factor_workloads_fill:
  assumes "act_fold step t ws s = (Inr t', s')"
    and st: "\<And>t w s t' s'. step t w s = (Inr t', s') \<Longrightarrow>
      \<exists>sed s1. act_fold (factor_point fuel C P proj sed maps plot pf w) t ms s1 = (Inr t', s')"
  shows "\<forall>w \<in> set ws. \<forall>m \<in> set ms. legend_filled maps t' m (fst w)"
proof (rule act_fold_each[where Q = "\<lambda>w t. \<forall>m \<in> set ms. legend_filled maps t m (fst w)", OF assms(1)])
  show "\<forall>m \<in> set ms. legend_filled maps b' m (fst p)" if "step b p s = (Inr b', s')" for b p s b' s'
    using st[OF that] factor_points_fill(1) by blast
  show "\<forall>m \<in> set ms. legend_filled maps b' m (fst q)"
    if "step b p s = (Inr b', s')" "\<forall>m \<in> set ms. legend_filled maps b m (fst q)" for b p s b' s' q
    using st[OF that(1)] that(2) factor_points_fill(2) by blast
qed

lemma fig_15b_filled:
  assumes "fig_15b_main fuel C P sp ws s = (Inr (), s')"
  shows "\<exists>t. map_of (saved s') (fig_file ''15b'') = Some (plot_table (map snd method_maps_15b) (map fst ws) t) \<and>
    (\<forall>w \<in> set ws. \<forall>m \<in> set (exp_methods P). legend_filled method_maps_15b t m (fst w))"
proof -
  from assms obtain t s1 where
    r: "act_fold (fig_15b_workload fuel C P sp (plot_table (map snd method_maps_15b) (map fst ws)))
      (table_init (map snd method_maps_15b) (row_init (map fst ws))) ws s = (Inr t, s1)"
    and s': "map_of (saved s') (fig_file ''15b'') = Some (plot_table (map snd method_maps_15b) (map fst ws) t)"
    by (auto simp: fig_15b_main_def act_dest Let_def update_conv)
  have "\<forall>w \<in> set ws. \<forall>m \<in> set (exp_methods P). legend_filled method_maps_15b t m (fst w)"
    by (rule factor_workloads_fill[OF r]) (auto simp: fig_15b_workload_def act_dest Let_def)
  with s' show ?thesis by blast
qed

section \<open>Properties\<close>


text \<open>
  In \<^verbatim>\<open>fig_13.py\<close> the option string is carried from workload to workload and a switch is never
  turned back: once the short test epoch is on for a method, no later workload of that method uses
  the long target epoch, although the code chooses the short one for YCSB A and D only.\<close>

theorem fig_13_short_epoch_sticks:
  assumes "\<not> use_long_target_epoch opt"
  shows "\<not> use_long_target_epoch (foldl (\<lambda>o' w. fig_13_opt method w o') opt ws)"
  using assms
proof (induction ws arbitrary: opt)
  case (Cons w ws)
  have p: "\<not> prefix ''-DSHORT_TEST_EPOCH=on'' ''-DMIDDLE_TEST_EPOCH=off''"
    "\<not> prefix ''-DMIDDLE_TEST_EPOCH=off'' ''-DSHORT_TEST_EPOCH=on''"
    "\<not> prefix ''-DSHORT_TEST_EPOCH=on'' ''-DSHORT_TEST_EPOCH=off''"
    "\<not> prefix ''-DSHORT_TEST_EPOCH=off'' ''-DSHORT_TEST_EPOCH=on''" by simp_all
  have "py_in ''-DSHORT_TEST_EPOCH=on'' (switch_on f opt)" if "f \<in> {''SHORT_TEST_EPOCH'', ''MIDDLE_TEST_EPOCH''}" for f
    using that Cons.prems p
      replace_keeps[of "CHR ''-''" "''DSHORT_TEST_EPOCH=on''" "''DMIDDLE_TEST_EPOCH=off''" opt "''-DMIDDLE_TEST_EPOCH=on''"]
      replace_keeps[of "CHR ''-''" "''DSHORT_TEST_EPOCH=on''" "''DSHORT_TEST_EPOCH=off''" opt "''-DSHORT_TEST_EPOCH=on''"]
    by (auto simp: switch_on_def use_long_target_epoch_def)
  then have "\<not> use_long_target_epoch (fig_13_opt method w opt)"
    by (auto simp: fig_13_opt_def use_long_target_epoch_def)
  then show ?case using Cons.IH by simp
qed simp

text \<open>
  When \<^verbatim>\<open>fig_13.py\<close> ends, every cell of the saved table, for each method and each workload, has
  been filled, with zeros for the combination that is skipped.\<close>

theorem fig_13_filled:
  assumes "fig_13_main fuel C P long_target_epoch workloads s = (Inr (), s')"
  shows "\<exists>t. map_of (saved s') (fig_file ''13'') = Some (plot_table (exp_methods P) (map fst workloads) t) \<and>
    list_all (\<lambda>m. list_all (filled t m) (map fst workloads)) (exp_methods P)"
proof -
  from assms obtain t s1 where
    r: "act_fold (fig_13_method fuel C P long_target_epoch workloads)
      (table_init (exp_methods P) (row_init (map fst workloads))) (exp_methods P) s = (Inr t, s1)"
    and s': "map_of (saved s') (fig_file ''13'') = Some (plot_table (exp_methods P) (map fst workloads) t)"
    by (auto simp: fig_13_main_def act_dest update_conv)
  have "\<forall>m \<in> set (exp_methods P). \<forall>w \<in> set workloads. filled t m (fst w)"
    by (rule act_fold_each[where Q = "\<lambda>m t. \<forall>w \<in> set workloads. filled t m (fst w)", OF r])
      (auto dest: fig_13_method_fills(1) intro: fig_13_method_fills(2))
  with s' show ?thesis by (auto simp: list_all_iff)
qed

text \<open>
  When \<^verbatim>\<open>fig_15a.py\<close> ends, the saved table has a filled cell for the legend of every measured
  method and every workload.\<close>

theorem fig_15a_filled:
  assumes "fig_15a_main fuel C P span_size workloads s = (Inr (), s')"
  shows "\<exists>t. map_of (saved s') (fig_file ''15a'') =
      Some (plot_table (map snd method_maps_15a) (map fst workloads) t) \<and>
    list_all (\<lambda>w. list_all (\<lambda>m. legend_filled method_maps_15a t m (fst w)) (exp_methods P)) workloads"
proof -
  from assms obtain t s1 where
    r: "act_fold (fig_15a_workload fuel C P span_size (plot_table (map snd method_maps_15a) (map fst workloads)))
      (table_init (map snd method_maps_15a) (row_init (map fst workloads))) workloads s = (Inr t, s1)"
    and s': "map_of (saved s') (fig_file ''15a'') = Some (plot_table (map snd method_maps_15a) (map fst workloads) t)"
    by (auto simp: fig_15a_main_def act_dest Let_def update_conv)
  have "\<forall>w \<in> set workloads. \<forall>m \<in> set (exp_methods P). legend_filled method_maps_15a t m (fst w)"
    by (rule factor_workloads_fill[OF r]) (auto simp: fig_15a_workload_def act_dest Let_def)
  with s' show ?thesis by (auto simp: list_all_iff)
qed

definition sample_lat_state :: "string \<Rightarrow> fig_state" where
  "sample_lat_state out = (let s = sample_state 4 [out] in
     s\<lparr>cl := (cl s)\<lparr>sftps := [\<lambda>_. Some [''2'' @ [CHR 0x09] @ ''4'']]\<rparr>\<rparr>)"

definition sample_avg_out :: "string \<Rightarrow> string" where
  "sample_avg_out prompt = py_join [CHR 0x0A] [''epoch 0 passed!'', ''cluster throughput 5 Mops'', prompt]"

definition sample_options :: common_params where
  "sample_options = sample_common\<lparr>cmake_options :=
     [(''SMART'', ''-DS=on''), (''Sherman'', ''-DT=on''), (''ROLEX-indirect'', ''-DR=on'')]\<rparr>"


theorem fig_13_short_epoch_sticks_witness:
  "\<not> use_long_target_epoch (foldl (\<lambda>o' w. fig_13_opt ''ROLEX-indirect'' w o')
     (fig_13_opt ''ROLEX-indirect'' ''YCSB A'' ''-DSHORT_TEST_EPOCH=off -DMIDDLE_TEST_EPOCH=off'') [''YCSB B'', ''YCSB C''])"
proof (rule fig_13_short_epoch_sticks)
  show "\<not> use_long_target_epoch (fig_13_opt ''ROLEX-indirect'' ''YCSB A'' ''-DSHORT_TEST_EPOCH=off -DMIDDLE_TEST_EPOCH=off'')"
    by code_simp
qed

theorem fig_13_filled_witness:
  "\<exists>t. map_of (saved (snd (fig_13_main 1 sample_options ((sample_exp [''ROLEX-indirect''])\<lparr>span_sizes := [(''ROLEX-indirect'', 4)]\<rparr>) 9
      [(''YCSB LOAD'', ''la'')] (sample_state 0 [])))) (fig_file ''13'') =
    Some (plot_table (exp_methods ((sample_exp [''ROLEX-indirect''])\<lparr>span_sizes := [(''ROLEX-indirect'', 4)]\<rparr>)) (map fst [(''YCSB LOAD'', ''la'')]) t) \<and>
    list_all (\<lambda>m. list_all (filled t m) (map fst [(''YCSB LOAD'', ''la'')]))
      (exp_methods ((sample_exp [''ROLEX-indirect''])\<lparr>span_sizes := [(''ROLEX-indirect'', 4)]\<rparr>))"
proof (rule fig_13_filled)
  have "fst (fig_13_main 1 sample_options ((sample_exp [''ROLEX-indirect''])\<lparr>span_sizes := [(''ROLEX-indirect'', 4)]\<rparr>) 9
      [(''YCSB LOAD'', ''la'')] (sample_state 0 [])) = Inr ()"
    by code_simp
  then show "fig_13_main 1 sample_options ((sample_exp [''ROLEX-indirect''])\<lparr>span_sizes := [(''ROLEX-indirect'', 4)]\<rparr>) 9
      [(''YCSB LOAD'', ''la'')] (sample_state 0 []) =
    (Inr (), snd (fig_13_main 1 sample_options ((sample_exp [''ROLEX-indirect''])\<lparr>span_sizes := [(''ROLEX-indirect'', 4)]\<rparr>) 9
      [(''YCSB LOAD'', ''la'')] (sample_state 0 [])))"
    by (rule returns_pair)
qed

theorem fig_15a_filled_witness:
  "\<exists>t. map_of (saved (snd (fig_15a_main 1 sample_options (sample_exp [''Sherman'']) 4 [(''W'', ''c'')]
      (sample_lat_state (sample_avg_out ''[END]''))))) (fig_file ''15a'') =
    Some (plot_table (map snd method_maps_15a) (map fst [(''W'', ''c'')]) t) \<and>
    list_all (\<lambda>w. list_all (\<lambda>m. legend_filled method_maps_15a t m (fst w)) (exp_methods (sample_exp [''Sherman'']))) [(''W'', ''c'')]"
proof (rule fig_15a_filled)
  have "fst (fig_15a_main 1 sample_options (sample_exp [''Sherman'']) 4 [(''W'', ''c'')]
      (sample_lat_state (sample_avg_out ''[END]''))) = Inr ()"
    by code_simp
  then show "fig_15a_main 1 sample_options (sample_exp [''Sherman'']) 4 [(''W'', ''c'')] (sample_lat_state (sample_avg_out ''[END]'')) =
    (Inr (), snd (fig_15a_main 1 sample_options (sample_exp [''Sherman'']) 4 [(''W'', ''c'')] (sample_lat_state (sample_avg_out ''[END]''))))"
    by (rule returns_pair)
qed

end
