(* ===== verification/Resilient_Runner.thy ===== *)
theory Resilient_Runner
  imports Py_State
begin

text \<open>
  \<^verbatim>\<open>exp/resilient_runner.py\<close>: runs the experiments of a list, each with a limited number of
  attempts, a watchdog on the long ones and the exclusion of dead nodes.  The state holds the
  result files as \<^verbatim>\<open>fig_12.py\<close> writes them, the text of the healthy-node file and the commands
  started so far; how a command ends is a parameter that may depend on when it is started.  The
  watchdog thread only runs while the main thread waits for the experiment, so its polls are a
  list of what it finds at each of them, ending when it is stopped.  Logging, sleeping and the
  ten-second limit on joining the thread are left out.

  Shown: the watchdog kills exactly after three polls in a row without progress; excluding a node
  never leaves fewer than five compute nodes and the file reads back as the remaining nodes; an
  experiment is started at most twice; the exit code.
\<close>

section \<open>State and commands\<close>

record partial_json =
  methods :: "string list"
  X_data :: "(string \<times> rat list) list"

datatype outcome = Done int string | TimedOut | NotFound

type_synonym result_files = "(string \<times> partial_json option) list"

record runner =
  result_dir :: result_files
  healthy_file :: "string option"
  calls :: "string list list"

type_synonym subproc = "nat \<Rightarrow> string list \<Rightarrow> outcome"

definition run_sub :: "subproc \<Rightarrow> string list \<Rightarrow> (runner, outcome) act" where
  "run_sub sub cmd s = (Inr (sub (length (calls s)) cmd), s\<lparr>calls := calls s @ [cmd]\<rparr>)"

section \<open>Checkpoints\<close>

definition glob_partial :: "string \<Rightarrow> string \<Rightarrow> bool" where
  "glob_partial exp_name file =
     (let pre = ''fig_'' @ py_replace ''fig_'' [] exp_name @ ''_''; suf = ''_partial.json'' in
      py_startswith file pre \<and> py_endswith file suf \<and> length pre + length suf \<le> length file)"

definition stem :: "string \<Rightarrow> string" where
  "stem file = take (length file - length ''.json'') file"

definition wl_name :: "string \<Rightarrow> string" where
  "wl_name file = (let parts = split_on (CHR ''_'') (stem file) in
     py_join ''_'' (butlast (drop 2 parts)))"

definition method_counts :: "partial_json \<Rightarrow> (string \<times> nat) list" where
  "method_counts data = foldl (\<lambda>d m.
     AList.update m (case map_of (X_data data) m of None \<Rightarrow> 0 | Some xs \<Rightarrow> length xs) d) [] (methods data)"

definition count_partial_points :: "result_files \<Rightarrow> string \<Rightarrow> (string \<times> (string \<times> nat) list) list" where
  "count_partial_points files exp_name = foldl (\<lambda>completed (file, data).
     case data of None \<Rightarrow> completed
     | Some d \<Rightarrow> AList.update (wl_name file) (method_counts d) completed)
     [] (filter (\<lambda>(file, data). glob_partial exp_name file) files)"

definition total_completed_points :: "result_files \<Rightarrow> string \<Rightarrow> nat" where
  "total_completed_points files exp_name =
     sum_list (map (\<lambda>(wl, ms). sum_list (map snd ms)) (count_partial_points files exp_name))"

section \<open>Cluster management\<close>

definition nodes_of_text :: "string \<Rightarrow> string list" where
  "nodes_of_text t = filter (\<lambda>l. l \<noteq> []) (map py_strip (splitlines t))"

definition get_healthy_nodes :: "runner \<Rightarrow> string list" where
  "get_healthy_nodes s = (case healthy_file s of None \<Rightarrow> [] | Some t \<Rightarrow> nodes_of_text t)"

definition get_healthy_csv :: "runner \<Rightarrow> string" where
  "get_healthy_csv s = py_join '','' (get_healthy_nodes s)"

definition cleanup_cluster :: "subproc \<Rightarrow> string \<Rightarrow> (runner, unit) act" where
  "cleanup_cluster sub chime_root =
     act_bind (act_get get_healthy_csv) (\<lambda>nodes.
     if nodes = [] then act_return ()
     else act_bind (run_sub sub [''bash'', chime_root @ ''/script/run-on-nodes.sh'', nodes,
            ''killall -9 ycsb_test 2>/dev/null || true'']) (\<lambda>_. act_return ()))"

definition check_node_health :: "subproc \<Rightarrow> string \<Rightarrow> (runner, bool) act" where
  "check_node_health sub node =
     act_bind (run_sub sub [''ssh'', ''-o'', ''ConnectTimeout=5'', ''-o'', ''StrictHostKeyChecking=no'',
       node, ''echo ok'']) (\<lambda>r.
     act_return (case r of Done rc out \<Rightarrow> rc = 0 \<and> py_in ''ok'' out | _ \<Rightarrow> False))"

text \<open>
  The patch command runs with \<^verbatim>\<open>check=True\<close>: a failure or a time-out of it is only logged, a missing
  interpreter is not caught.
\<close>

definition reconfigure_cluster :: "subproc \<Rightarrow> string \<Rightarrow> string \<Rightarrow> (runner, bool) act" where
  "reconfigure_cluster sub chime_root failed_node =
     act_bind (act_get get_healthy_nodes) (\<lambda>nodes.
     let nodes = remove1 failed_node nodes; cn_count = int (length nodes) - 1 in
     if cn_count < 5 then act_return False
     else
       act_seq (act_modify (\<lambda>s. s\<lparr>healthy_file := Some (py_join [CHR 0x0A] nodes @ [CHR 0x0A])\<rparr>))
      (act_bind (run_sub sub [''python3'', chime_root @ ''/construction/scripts/patch-cn-count.py'', show_int cn_count]) (\<lambda>r.
       if r = NotFound then act_raise (FileNotFoundError ''python3'')
       else act_bind (run_sub sub [''ssh'', ''-o'', ''ConnectTimeout=10'', hd nodes,
              ''cd ~/CHIME/build && /bin/bash ../script/restartMemc.sh'']) (\<lambda>_.
       act_return True))))"

definition rsync_results :: "subproc \<Rightarrow> string \<Rightarrow> (runner, unit) act" where
  "rsync_results sub target =
     (if target = [] then act_return ()
      else act_bind (run_sub sub [''rsync'', ''-az'', ''results/'', target]) (\<lambda>_. act_return ()))"

section \<open>Watchdog\<close>

record watchdog =
  last_point_count :: nat
  stall_count :: nat
  failed_node :: "string option"
  killed :: bool

record tick =
  finished :: bool
  t_results :: result_files

definition WATCHDOG_STALL_FACTOR :: nat where "WATCHDOG_STALL_FACTOR = 3"

definition detected_stall :: "watchdog \<Rightarrow> bool" where
  "detected_stall w \<longleftrightarrow> WATCHDOG_STALL_FACTOR \<le> stall_count w"

fun first_down :: "subproc \<Rightarrow> string list \<Rightarrow> (runner, string option) act" where
  "first_down sub [] = act_return None"
| "first_down sub (node # nodes) =
     act_bind (check_node_health sub node) (\<lambda>ok.
     if ok then first_down sub nodes else act_return (Some node))"

definition watchdog_init :: "string \<Rightarrow> runner \<Rightarrow> watchdog" where
  "watchdog_init exp_name s =
     \<lparr>last_point_count = total_completed_points (result_dir s) exp_name, stall_count = 0,
      failed_node = None, killed = False\<rparr>"

fun watchdog_run :: "subproc \<Rightarrow> string \<Rightarrow> watchdog \<Rightarrow> tick list \<Rightarrow> (runner, watchdog) act" where
  "watchdog_run sub exp_name w [] = act_return w"
| "watchdog_run sub exp_name w (t # ts) =
     act_seq (act_modify (\<lambda>s. s\<lparr>result_dir := t_results t\<rparr>))
     (if finished t then act_return w
      else
        let current = total_completed_points (t_results t) exp_name in
        if last_point_count w < current
        then watchdog_run sub exp_name (w\<lparr>last_point_count := current, stall_count := 0\<rparr>) ts
        else
          let w = w\<lparr>stall_count := stall_count w + 1\<rparr> in
          if detected_stall w then
            act_bind (act_get get_healthy_nodes) (\<lambda>nodes.
            act_bind (first_down sub nodes) (\<lambda>down.
            act_return (w\<lparr>failed_node := down, killed := True\<rparr>)))
          else watchdog_run sub exp_name w ts)"

section \<open>Experiments\<close>

text \<open>What one attempt meets: the polls, how \<^verbatim>\<open>communicate\<close> ends (\<open>None\<close>: time limit), the files left.\<close>

record attempt =
  at_popen :: "py_exc option"
  at_ticks :: "tick list"
  at_comm :: "int option"
  at_results :: result_files

text \<open>\<open>Some b\<close> when the attempt makes \<^verbatim>\<open>run_experiment\<close> return \<open>b\<close>, also from its \<^verbatim>\<open>finally\<close>.\<close>

definition run_attempt ::
  "subproc \<Rightarrow> string \<Rightarrow> string \<Rightarrow> string \<Rightarrow> bool \<Rightarrow> attempt \<Rightarrow> (runner, bool option) act" where
  "run_attempt sub chime_root target name is_long_running env =
     act_seq (run_sub sub [''python3'', name @ ''.py''])
     (case at_popen env of Some e \<Rightarrow> act_raise e
      | None \<Rightarrow>
        act_bind (if is_long_running
                  then act_bind (act_get (watchdog_init name)) (\<lambda>w.
                       act_bind (watchdog_run sub name w (at_ticks env)) (\<lambda>w. act_return (failed_node w)))
                  else act_return None) (\<lambda>down.
        act_seq (act_modify (\<lambda>s. s\<lparr>result_dir := at_results env\<rparr>))
       (act_bind (if at_comm env = Some 0
                  then act_seq (rsync_results sub target) (act_return (Some True))
                  else act_return None) (\<lambda>ret.
        case down of None \<Rightarrow> act_return ret
        | Some node \<Rightarrow>
            act_bind (reconfigure_cluster sub chime_root node) (\<lambda>ok.
            act_return (if ok then ret else Some False))))))"

definition MAX_RETRIES :: nat where "MAX_RETRIES = 2"

fun attempts ::
  "subproc \<Rightarrow> string \<Rightarrow> string \<Rightarrow> string \<Rightarrow> bool \<Rightarrow> attempt list \<Rightarrow> (runner, bool) act" where
  "attempts sub chime_root target name is_long_running [] = act_return False"
| "attempts sub chime_root target name is_long_running (env # envs) =
     act_bind (run_attempt sub chime_root target name is_long_running env) (\<lambda>ret.
     case ret of Some b \<Rightarrow> act_return b
     | None \<Rightarrow> act_seq (cleanup_cluster sub chime_root)
         (attempts sub chime_root target name is_long_running envs))"

text \<open>\<open>world k\<close> is what the \<open>k\<close>-th attempt meets.\<close>

definition run_experiment ::
  "subproc \<Rightarrow> string \<Rightarrow> string \<Rightarrow> string \<Rightarrow> bool \<Rightarrow> (nat \<Rightarrow> attempt) \<Rightarrow> (runner, bool) act" where
  "run_experiment sub chime_root target name is_long_running world =
     attempts sub chime_root target name is_long_running (map world [1..<MAX_RETRIES + 1])"

definition EXPERIMENTS :: "(string \<times> bool) list" where
  "EXPERIMENTS = [(''fig_12'', True), (''fig_15b'', False), (''fig_15a'', False), (''fig_14'', False),
     (''extra_cache_sensitivity'', False), (''extra_value_size'', False),
     (''extra_uniform_dist'', False), (''fig_03a'', False)]"

definition run_one ::
  "subproc \<Rightarrow> string \<Rightarrow> string \<Rightarrow> (string \<Rightarrow> bool) \<Rightarrow> (string \<Rightarrow> nat \<Rightarrow> attempt) \<Rightarrow>
   (string \<times> bool option) list \<Rightarrow> string \<times> bool \<Rightarrow> (runner, (string \<times> bool option) list) act" where
  "run_one sub chime_root target script_exists world results = (\<lambda>(name, is_long).
     if \<not> script_exists name then act_return (AList.update name None results)
     else act_bind (run_experiment sub chime_root target name is_long (world name)) (\<lambda>ok.
          act_return (AList.update name (Some ok) results)))"

definition run_all ::
  "subproc \<Rightarrow> string \<Rightarrow> string \<Rightarrow> (string \<Rightarrow> bool) \<Rightarrow> (string \<Rightarrow> nat \<Rightarrow> attempt) \<Rightarrow> (string \<times> bool) list \<Rightarrow>
   (runner, (string \<times> bool option) list) act" where
  "run_all sub chime_root target script_exists world exps =
     act_fold (run_one sub chime_root target script_exists world) [] exps"

definition runner_main ::
  "subproc \<Rightarrow> string \<Rightarrow> string \<Rightarrow> (string \<Rightarrow> bool) \<Rightarrow> (string \<Rightarrow> nat \<Rightarrow> attempt) \<Rightarrow> (runner, int) act" where
  "runner_main sub chime_root target script_exists world =
     act_bind (run_all sub chime_root target script_exists world EXPERIMENTS) (\<lambda>results.
     act_seq (rsync_results sub target)
     (act_return (if filter (\<lambda>(n, ok). ok = Some False) results \<noteq> [] then 1 else 0)))"

section \<open>The watchdog as a function of what it sees\<close>

definition points :: "string \<Rightarrow> tick \<Rightarrow> nat option" where
  "points exp_name t = (if finished t then None else Some (total_completed_points (t_results t) exp_name))"

fun kill_run :: "nat \<Rightarrow> nat \<Rightarrow> nat option list \<Rightarrow> bool" where
  "kill_run m k [] = False"
| "kill_run m k (None # os) = False"
| "kill_run m k (Some p # os) =
     (if m < p then kill_run p 0 os
      else if WATCHDOG_STALL_FACTOR \<le> Suc k then True
      else kill_run m (Suc k) os)"

lemma first_down_returns: "\<exists>r s'. first_down sub nodes s = (Inr r, s') \<and> result_dir s' = result_dir s \<and> healthy_file s' = healthy_file s"
proof (induction nodes arbitrary: s)
  case Nil
  then show ?case by (simp add: act_return_def)
next
  case (Cons n ns)
  have "\<exists>r s'. first_down sub ns (s\<lparr>calls := c\<rparr>) = (Inr r, s') \<and> result_dir s' = result_dir s \<and>
      healthy_file s' = healthy_file s" for c
    using Cons.IH[of "s\<lparr>calls := c\<rparr>"] by simp
  then show ?case
    by (auto simp: check_node_health_def run_sub_def act_bind_def act_return_def split: outcome.splits prod.splits)
qed

lemma watchdog_run_kill:
  "\<exists>w' s'. watchdog_run sub nm w ts s = (Inr w', s') \<and>
     killed w' = (killed w \<or> kill_run (last_point_count w) (stall_count w) (map (points nm) ts))"
proof (induction ts arbitrary: w s)
  case Nil
  then show ?case by (simp add: act_return_def)
next
  case (Cons t ts)
  show ?case
  proof (cases "finished t \<or> last_point_count w < total_completed_points (t_results t) nm \<or>
      stall_count w + 1 < WATCHDOG_STALL_FACTOR")
    case True
    then show ?thesis
      using Cons.IH[of "w\<lparr>last_point_count := total_completed_points (t_results t) nm, stall_count := 0\<rparr>"
          "s\<lparr>result_dir := t_results t\<rparr>"]
        Cons.IH[of "w\<lparr>stall_count := stall_count w + 1\<rparr>" "s\<lparr>result_dir := t_results t\<rparr>"]
      by (auto simp: act_seq_def act_modify_def act_return_def points_def detected_stall_def Let_def)
  next
    case False
    then show ?thesis
      using first_down_returns[of sub "get_healthy_nodes (s\<lparr>result_dir := t_results t\<rparr>)" "s\<lparr>result_dir := t_results t\<rparr>"]
      by (auto simp: act_seq_def act_modify_def act_get_def act_return_def points_def detected_stall_def Let_def)
  qed
qed

text \<open>Three polls in a row none of which exceeds the best count seen before them.\<close>

definition three_stalls :: "nat \<Rightarrow> nat option list \<Rightarrow> bool" where
  "three_stalls m os \<longleftrightarrow>
     (\<exists>ps a b c rest. os = map Some (ps @ [a, b, c]) @ rest \<and>
        (\<forall>q \<in> {a, b, c}. q \<le> Max (insert m (set ps))))"

definition some_stalls :: "nat \<Rightarrow> nat \<Rightarrow> nat option list \<Rightarrow> bool" where
  "some_stalls n m os \<longleftrightarrow> (\<exists>qs rest. os = map Some qs @ rest \<and> length qs = n \<and> (\<forall>q \<in> set qs. q \<le> m))"

lemma some_stalls_Suc:
  "some_stalls (Suc n) m os \<longleftrightarrow> (\<exists>p os'. os = Some p # os' \<and> p \<le> m \<and> some_stalls n m os')"
proof
  assume "some_stalls (Suc n) m os"
  then obtain qs' rest where "os = map Some qs' @ rest" "length qs' = Suc n" "\<forall>x \<in> set qs'. x \<le> m"
    unfolding some_stalls_def by blast
  moreover from this obtain q qs where "qs' = q # qs" by (cases qs') auto
  ultimately have "os = Some q # map Some qs @ rest" "length qs = n" "\<forall>x \<in> set (q # qs). x \<le> m" by auto
  then show "\<exists>p os'. os = Some p # os' \<and> p \<le> m \<and> some_stalls n m os'"
    unfolding some_stalls_def by auto
next
  assume "\<exists>p os'. os = Some p # os' \<and> p \<le> m \<and> some_stalls n m os'"
  then obtain p qs rest where "os = Some p # map Some qs @ rest" "p \<le> m" "length qs = n" "\<forall>x \<in> set qs. x \<le> m"
    unfolding some_stalls_def by blast
  then show "some_stalls (Suc n) m os"
    unfolding some_stalls_def by (intro exI[of _ "p # qs"] exI[of _ rest]) auto
qed

lemma some_stalls_0 [simp]: "some_stalls 0 m os"
  by (simp add: some_stalls_def)

lemma some_stalls_mono: "some_stalls n m os \<Longrightarrow> k \<le> n \<Longrightarrow> some_stalls k m os"
proof (induction n arbitrary: k os)
  case (Suc n)
  then show ?case by (cases k) (auto simp: some_stalls_Suc)
qed simp

lemma three_stalls_rec:
  "three_stalls m os \<longleftrightarrow>
     some_stalls 3 m os \<or> (\<exists>p os'. os = Some p # os' \<and> three_stalls (max m p) os')"
proof
  assume "three_stalls m os"
  then obtain ps a b c rest where o: "os = map Some (ps @ [a, b, c]) @ rest"
    and le: "\<forall>q \<in> {a, b, c}. q \<le> Max (insert m (set ps))" unfolding three_stalls_def by blast
  show "some_stalls 3 m os \<or> (\<exists>p os'. os = Some p # os' \<and> three_stalls (max m p) os')"
  proof (cases ps)
    case Nil
    with o le show ?thesis unfolding some_stalls_def by (intro disjI1 exI[of _ "[a, b, c]"]) auto
  next
    case (Cons p ps')
    have "Max (insert m (set ps)) = Max (insert (max m p) (set ps'))"
      unfolding Cons by (cases "ps' = []") (simp_all add: max.assoc)
    then have "three_stalls (max m p) (map Some (ps' @ [a, b, c]) @ rest)"
      unfolding three_stalls_def using le by (intro exI[of _ ps'] exI[of _ a] exI[of _ b] exI[of _ c] exI[of _ rest]) simp
    with Cons o show ?thesis by simp
  qed
next
  assume "some_stalls 3 m os \<or> (\<exists>p os'. os = Some p # os' \<and> three_stalls (max m p) os')"
  then show "three_stalls m os"
  proof
    assume "some_stalls 3 m os"
    then obtain a b c rest where "os = map Some ([] @ [a, b, c]) @ rest" "\<forall>q \<in> {a, b, c}. q \<le> m"
      by (auto simp: numeral_3_eq_3 some_stalls_Suc)
    then show ?thesis unfolding three_stalls_def by (intro exI[of _ "[]"]) auto
  next
    assume "\<exists>p os'. os = Some p # os' \<and> three_stalls (max m p) os'"
    then obtain p ps a b c rest where o: "os = Some p # map Some (ps @ [a, b, c]) @ rest"
      and le: "\<forall>q \<in> {a, b, c}. q \<le> Max (insert (max m p) (set ps))" unfolding three_stalls_def by blast
    have "Max (insert m (set (p # ps))) = Max (insert (max m p) (set ps))"
      by (cases "ps = []") (simp_all add: max.assoc)
    with o le show ?thesis unfolding three_stalls_def by (intro exI[of _ "p # ps"]) auto
  qed
qed

lemma kill_run_iff:
  "k < 3 \<Longrightarrow> kill_run m k os \<longleftrightarrow> three_stalls m os \<or> some_stalls (3 - k) m os"
proof (induction m k os rule: kill_run.induct)
  case (1 m k)
  then show ?case using three_stalls_rec[of m "[]"]
    by (auto simp: some_stalls_def numeral_3_eq_3)
next
  case (2 m k os)
  then show ?case using three_stalls_rec[of m "None # os"] some_stalls_Suc[of "2 - k" m "None # os"]
    by (auto simp: some_stalls_Suc numeral_3_eq_3 Suc_diff_le)
next
  case (3 m k p os)
  have s: "some_stalls (3 - k) m (Some p # os) \<longleftrightarrow> p \<le> m \<and> some_stalls (2 - k) m os"
    using 3(3) some_stalls_Suc[of "2 - k" m "Some p # os"] by (simp add: Suc_diff_le numeral_3_eq_3 numeral_2_eq_2)
  have s3: "some_stalls 3 m (Some p # os) \<longleftrightarrow> p \<le> m \<and> some_stalls 2 m os"
    using some_stalls_Suc[of 2 m "Some p # os"] by (simp add: numeral_3_eq_3 numeral_2_eq_2)
  have t: "three_stalls m (Some p # os) \<longleftrightarrow> p \<le> m \<and> some_stalls 2 m os \<or> three_stalls (max m p) os"
    using three_stalls_rec[of m "Some p # os"] s3 by simp
  show ?case
  proof (cases "m < p")
    case True
    have "some_stalls 3 p os \<Longrightarrow> three_stalls p os" using three_stalls_rec[of p os] by blast
    with True 3(1)[OF True] s t show ?thesis by (auto simp: max_def)
  next
    case False
    then have mx: "max m p = m" by simp
    show ?thesis
    proof (cases "k = 2")
      case True
      with False s show ?thesis by (simp add: WATCHDOG_STALL_FACTOR_def)
    next
      case k: False
      have IH: "kill_run m (Suc k) os \<longleftrightarrow> three_stalls m os \<or> some_stalls (2 - k) m os"
        using 3(2)[OF False] 3(3) k by (simp add: WATCHDOG_STALL_FACTOR_def)
      have "some_stalls 2 m os \<Longrightarrow> some_stalls (2 - k) m os" by (rule some_stalls_mono) auto
      with IH False s t mx k 3(3) show ?thesis by (auto simp: WATCHDOG_STALL_FACTOR_def)
    qed
  qed
qed

section \<open>The healthy-node file\<close>

definition node_name :: "string \<Rightarrow> bool" where
  "node_name n \<longleftrightarrow> n \<noteq> [] \<and> py_strip n = n \<and> (\<forall>c \<in> set n. \<not> line_break c)"

lemma splitlines_no_break: "l \<in> set (splitlines t) \<Longrightarrow> \<forall>c \<in> set l. \<not> line_break c"
proof (induction t arbitrary: l rule: splitlines.induct)
  case (3 c d cs)
  show ?case
  proof (cases "code c = 13 \<and> code d = 10 \<or> line_break c")
    case True
    with 3 show ?thesis by (auto simp del: splitlines.simps simp: splitlines.simps(3) split: if_splits)
  next
    case False
    obtain k ks where k: "splitlines (d # cs) = k # ks \<or> splitlines (d # cs) = [] \<and> k = [] \<and> ks = []"
      by (cases "splitlines (d # cs)") auto
    then have "l = c # k \<or> l \<in> set ks" using False 3(4) by (auto simp del: splitlines.simps simp: splitlines.simps(3))
    moreover have "\<forall>x \<in> set k. \<not> line_break x" "\<forall>l \<in> set ks. \<forall>x \<in> set l. \<not> line_break x"
      using k 3(3)[of k] 3(3) False by (auto simp del: splitlines.simps) blast+
    ultimately show ?thesis using False by auto
  qed
qed (auto split: if_splits)

lemma strip_strip [simp]: "py_strip (py_strip s) = py_strip s"
proof (cases "py_strip s = []")
  case True
  show ?thesis unfolding True by (simp add: py_strip_def py_lstrip_def py_rstrip_def)
next
  case False
  define t where "t = dropWhile py_space s"
  have st: "py_strip s = rev (dropWhile py_space (rev t))"
    by (simp add: py_strip_def py_lstrip_def py_rstrip_def t_def)
  have l: "\<not> py_space (last (py_strip s))"
    using False hd_dropWhile[of py_space "rev t"] by (simp add: st last_rev)
  have "t \<noteq> []" using False st by auto
  then have "\<not> py_space (hd t)" unfolding t_def by (rule hd_dropWhile)
  moreover obtain b where "t = py_strip s @ b"
    unfolding st by (metis append_eq_rev_conv takeWhile_dropWhile_id)
  then have "hd t = hd (py_strip s)" using False by simp
  ultimately show ?thesis using l False by (intro strip_ends(1)) simp_all
qed

lemma strip_subset: "set (py_strip s) \<subseteq> set s"
  using py_strip_in py_in_set by blast

lemma nodes_of_text_names: "\<forall>n \<in> set (nodes_of_text t). node_name n"
  using splitlines_no_break strip_subset by (fastforce simp: nodes_of_text_def node_name_def)

lemma splitlines_nodes:
  "ns \<noteq> [] \<Longrightarrow> \<forall>n \<in> set ns. node_name n \<Longrightarrow> splitlines (py_join [CHR 0x0A] ns @ [CHR 0x0A]) = ns"
proof (induction "[CHR 0x0A]" ns rule: py_join.induct)
  case (2 x)
  then show ?case using splitlines_line[of x "[]"] by (simp add: node_name_def)
next
  case (3 x y zs)
  then show ?case
    using splitlines_line[of x "py_join [CHR 0x0A] (y # zs) @ [CHR 0x0A]"] by (simp add: node_name_def)
qed simp

lemma nodes_of_text_join:
  assumes "ns \<noteq> []" and "\<forall>n \<in> set ns. node_name n"
  shows "nodes_of_text (py_join [CHR 0x0A] ns @ [CHR 0x0A]) = ns"
proof -
  have "map py_strip ns = ns" "filter (\<lambda>l. l \<noteq> []) ns = ns"
    using assms(2) by (auto simp: node_name_def intro: map_idI filter_id_conv[THEN iffD2])
  then show ?thesis using splitlines_nodes[OF assms] by (simp add: nodes_of_text_def)
qed

lemma healthy_names: "\<forall>n \<in> set (get_healthy_nodes s). node_name n"
  using nodes_of_text_names by (auto simp: get_healthy_nodes_def split: option.splits)

lemma reconfigure_eq:
  "reconfigure_cluster sub chime_root n s =
     (let ns = remove1 n (get_healthy_nodes s) in
      if length ns < 6 then (Inr False, s)
      else
        let s' = s\<lparr>healthy_file := Some (py_join [CHR 0x0A] ns @ [CHR 0x0A])\<rparr>;
            patch = [''python3'', chime_root @ ''/construction/scripts/patch-cn-count.py'', show_int (int (length ns) - 1)];
            memc = [''ssh'', ''-o'', ''ConnectTimeout=10'', hd ns, ''cd ~/CHIME/build && /bin/bash ../script/restartMemc.sh''] in
        if sub (length (calls s)) patch = NotFound
        then (Inl (FileNotFoundError ''python3''), s'\<lparr>calls := calls s @ [patch]\<rparr>)
        else (Inr True, s'\<lparr>calls := calls s @ [patch, memc]\<rparr>))"
proof -
  have "(int (length ns) - 1 < 5) = (length ns < 6)" for ns :: "string list" by auto
  then show ?thesis
    unfolding reconfigure_cluster_def Let_def
    by (simp add: act_bind_def act_seq_def act_get_def act_modify_def act_return_def act_raise_def run_sub_def)
qed

section \<open>Properties\<close>

text \<open>
  Excluding a node either leaves everything as it was and reports failure, exactly when fewer
  than six nodes would remain (one memory and five compute nodes), or the healthy-node file then
  reads back as the old list without that node; in particular no exclusion leaves fewer than six
  nodes in the file.\<close>

theorem reconfigure_cluster_nodes:
  "case reconfigure_cluster sub chime_root n s of (r, s') \<Rightarrow>
     (let ns = remove1 n (get_healthy_nodes s) in
      if length ns < 6 then r = Inr False \<and> s' = s
      else r \<in> {Inr True, Inl (FileNotFoundError ''python3'')} \<and>
        get_healthy_nodes s' = ns \<and> result_dir s' = result_dir s)"
proof -
  let ?ns = "remove1 n (get_healthy_nodes s)"
  have "\<forall>m \<in> set ?ns. node_name m" using healthy_names notin_set_remove1 by metis
  then have "6 \<le> length ?ns \<Longrightarrow> nodes_of_text (py_join [CHR 0x0A] ?ns @ [CHR 0x0A]) = ?ns"
    by (intro nodes_of_text_join) auto
  moreover have "get_healthy_nodes (s\<lparr>healthy_file := Some t, calls := c\<rparr>) = nodes_of_text t" for t c
    by (simp add: get_healthy_nodes_def)
  ultimately show ?thesis
    unfolding reconfigure_eq Let_def by (auto simp: not_less)
qed

text \<open>
  C22: The watchdog kills the experiment exactly when some three polls in a row, up to which the
  process had not finished, each see no more points than the best count known before them (the
  count at the start of the attempt included).\<close>

theorem watchdog_kills_iff:
  "\<exists>w s'. watchdog_run sub nm (watchdog_init nm s) ts s = (Inr w, s') \<and>
     (killed w \<longleftrightarrow>
       (\<exists>ps a b c rest. map (points nm) ts = map Some (ps @ [a, b, c]) @ rest \<and>
          a \<le> Max (insert (total_completed_points (result_dir s) nm) (set ps)) \<and>
          b \<le> Max (insert (total_completed_points (result_dir s) nm) (set ps)) \<and>
          c \<le> Max (insert (total_completed_points (result_dir s) nm) (set ps))))"
proof -
  let ?m = "total_completed_points (result_dir s) nm"
  obtain w s' where "watchdog_run sub nm (watchdog_init nm s) ts s = (Inr w, s')"
    "killed w = kill_run ?m 0 (map (points nm) ts)"
    using watchdog_run_kill[of sub nm "watchdog_init nm s" ts s] by (auto simp: watchdog_init_def)
  moreover have "kill_run ?m 0 os \<longleftrightarrow> three_stalls ?m os" for os
    using kill_run_iff[of 0 ?m os] three_stalls_rec[of ?m os] by auto
  ultimately show ?thesis unfolding three_stalls_def by auto
qed


definition sample_partial :: "nat \<Rightarrow> result_files" where
  "sample_partial n = [(''fig_12_c_partial.json'', Some \<lparr>methods = [''CHIME''], X_data = [(''CHIME'', replicate n 1)]\<rparr>)]"


section \<open>Attempts\<close>

definition launches :: "string \<Rightarrow> runner \<Rightarrow> nat" where
  "launches name s = length (filter (\<lambda>c. c = [''python3'', name @ ''.py'']) (calls s))"

text \<open>Every other command has more than two words.\<close>

lemma run_sub_launches:
  "length cmd \<noteq> 2 \<Longrightarrow> act_keeps (\<lambda>s. launches name s = n) (run_sub sub cmd)"
  by (auto simp: act_keeps_def run_sub_def launches_def)

lemma act_keeps_modify: "(\<And>s. P s \<Longrightarrow> P (f s)) \<Longrightarrow> act_keeps P (act_modify f)"
  by (simp add: act_keeps_def act_modify_def)

lemma launches_update [simp]:
  "launches name (s\<lparr>result_dir := r\<rparr>) = launches name s"
  "launches name (s\<lparr>healthy_file := h\<rparr>) = launches name s"
  by (simp_all add: launches_def)

lemma keeps_launches:
  "act_keeps (\<lambda>s. launches name s = n) (cleanup_cluster sub chime_root)"
  "act_keeps (\<lambda>s. launches name s = n) (check_node_health sub node)"
  "act_keeps (\<lambda>s. launches name s = n) (reconfigure_cluster sub chime_root node)"
  "act_keeps (\<lambda>s. launches name s = n) (rsync_results sub target)"
  unfolding cleanup_cluster_def check_node_health_def reconfigure_cluster_def rsync_results_def Let_def
  by (auto intro!: act_keeps_bind act_keeps_seq run_sub_launches act_keeps_modify)

lemma first_down_launches: "act_keeps (\<lambda>s. launches name s = n) (first_down sub nodes)"
  by (induction nodes) (auto intro!: act_keeps_bind keeps_launches)

lemma watchdog_run_launches: "act_keeps (\<lambda>s. launches name s = n) (watchdog_run sub nm w ts)"
proof (induction ts arbitrary: w)
  case (Cons t ts)
  then show ?case
    by (auto simp: Let_def intro!: act_keeps_bind act_keeps_seq act_keeps_modify first_down_launches)
qed simp

lemma run_attempt_launches:
  "launches name (snd (run_attempt sub chime_root target name long env s)) = launches name s + 1"
proof -
  let ?P = "\<lambda>t. launches name t = launches name s + 1"
  define rest where "rest = (case at_popen env of Some e \<Rightarrow> act_raise e
      | None \<Rightarrow>
        act_bind (if long
                  then act_bind (act_get (watchdog_init name)) (\<lambda>w.
                       act_bind (watchdog_run sub name w (at_ticks env)) (\<lambda>w. act_return (failed_node w)))
                  else act_return None) (\<lambda>down.
        act_seq (act_modify (\<lambda>s. s\<lparr>result_dir := at_results env\<rparr>))
       (act_bind (if at_comm env = Some 0
                  then act_seq (rsync_results sub target) (act_return (Some True))
                  else act_return None) (\<lambda>ret.
        case down of None \<Rightarrow> act_return ret
        | Some node \<Rightarrow>
            act_bind (reconfigure_cluster sub chime_root node) (\<lambda>ok.
            act_return (if ok then ret else Some False))))))"
  have k: "act_keeps ?P rest"
    unfolding rest_def
    by (auto split: option.split intro!: act_keeps_bind act_keeps_seq act_keeps_modify keeps_launches
        watchdog_run_launches)
  obtain r s1 where s1: "run_sub sub [''python3'', name @ ''.py''] s = (Inr r, s1)" "?P s1"
    by (simp add: run_sub_def launches_def)
  have "run_attempt sub chime_root target name long env = act_seq (run_sub sub [''python3'', name @ ''.py'']) rest"
    by (simp only: run_attempt_def rest_def)
  then have "run_attempt sub chime_root target name long env s = rest s1"
    using act_seq_ok[of "run_sub sub [''python3'', name @ ''.py'']" s r s1 rest] s1(1) by simp
  with k s1(2) show ?thesis by (auto simp: act_keeps_def)
qed

lemma attempts_launches:
  "launches name (snd (attempts sub chime_root target name long envs s)) \<le> launches name s + length envs"
proof (induction envs arbitrary: s)
  case (Cons env envs)
  obtain r s1 where s1: "run_attempt sub chime_root target name long env s = (r, s1)"
    and l1: "launches name s1 = launches name s + 1"
    using run_attempt_launches[of name sub chime_root target long env s] by (metis prod.collapse)
  obtain u s2 where s2: "cleanup_cluster sub chime_root s1 = (u, s2)" by (metis prod.collapse)
  have l2: "launches name s2 = launches name s1" using act_keepsD[OF keeps_launches(1) refl s2] .
  show ?case
    using Cons.IH[of s2] s1 l1 s2 l2
    by (auto simp: act_bind_def act_seq_def act_return_def split: sum.splits option.splits)
qed (simp add: act_return_def)


text \<open>An attempt that makes the experiment succeed has ended with exit code 0.\<close>

lemma run_attempt_True:
  "run_attempt sub chime_root target name long env s = (Inr (Some True), s') \<Longrightarrow> at_comm env = Some 0"
  by (auto simp: run_attempt_def act_bind_Inr_iff act_seq_Inr_iff act_return_iff act_raise_def
      split: option.splits if_splits)

lemma attempts_True:
  "attempts sub chime_root target name long envs s = (Inr True, s') \<Longrightarrow> \<exists>env \<in> set envs. at_comm env = Some 0"
proof (induction envs arbitrary: s)
  case (Cons env envs)
  from Cons.prems obtain ret s1 where r: "run_attempt sub chime_root target name long env s = (Inr ret, s1)"
    and rest: "(case ret of Some b \<Rightarrow> act_return b
      | None \<Rightarrow> act_seq (cleanup_cluster sub chime_root) (attempts sub chime_root target name long envs)) s1 = (Inr True, s')"
    by (auto simp: act_bind_Inr_iff)
  show ?case
  proof (cases ret)
    case None
    then show ?thesis using rest Cons.IH by (auto simp: act_seq_Inr_iff)
  next
    case (Some b)
    then show ?thesis using rest r run_attempt_True by (auto simp: act_return_iff)
  qed
qed (simp add: act_return_iff)

lemma run_experiment_True:
  "run_experiment sub chime_root target name long world s = (Inr True, s') \<Longrightarrow>
   at_comm (world 1) = Some 0 \<or> at_comm (world 2) = Some 0"
  unfolding run_experiment_def MAX_RETRIES_def
  using attempts_True[of sub chime_root target name long "map world [1..<2 + 1]" s s']
  by (auto simp: less_Suc_eq numeral_3_eq_3 numeral_2_eq_2)

text \<open>Helpers that never fail.\<close>

lemma total_helpers:
  "\<exists>t. cleanup_cluster sub chime_root s = (Inr (), t)" "\<exists>t. rsync_results sub target s = (Inr (), t)"
  by (auto simp: cleanup_cluster_def rsync_results_def act_bind_def act_get_def act_return_def run_sub_def)

lemma short_attempt:
  assumes "at_popen env = None"
  shows "\<exists>t. run_attempt sub chime_root target name False env s =
    (Inr (if at_comm env = Some 0 then Some True else None), t)"
  using assms total_helpers(2)[of sub target]
  by (auto simp: run_attempt_def act_seq_def act_bind_def act_modify_def act_return_def run_sub_def
      split: prod.splits sum.splits) (metis Pair_inject sum.inject(2) sum.distinct(1))+

lemma short_attempts:
  assumes "\<forall>env \<in> set envs. at_popen env = None"
  shows "\<exists>t. attempts sub chime_root target name False envs s =
    (Inr (\<exists>env \<in> set envs. at_comm env = Some 0), t)"
  using assms
proof (induction envs arbitrary: s)
  case (Cons env envs)
  obtain t where t: "run_attempt sub chime_root target name False env s =
    (Inr (if at_comm env = Some 0 then Some True else None), t)"
    using short_attempt Cons.prems by (metis list.set_intros(1))
  obtain u where u: "cleanup_cluster sub chime_root t = (Inr (), u)" using total_helpers(1) by blast
  show ?case using Cons.IH[of u] Cons.prems t u
    by (auto simp: act_bind_def act_seq_def act_return_def)
qed (simp add: act_return_def)

text \<open>
  An experiment without watchdog whose script can be started always gets a result: true exactly
  when one of its two attempts ends with exit code 0, whatever the clean-up and backup commands
  do.\<close>

theorem run_experiment_short:
  assumes "at_popen (world 1) = None" and "at_popen (world 2) = None"
  shows "\<exists>t. run_experiment sub chime_root target name False world s =
    (Inr (at_comm (world 1) = Some 0 \<or> at_comm (world 2) = Some 0), t)"
  using short_attempts[of "map world [1..<3]" sub chime_root target name s] assms
  by (simp add: run_experiment_def MAX_RETRIES_def numeral_3_eq_3 numeral_2_eq_2)

definition sample_attempt :: "int option \<Rightarrow> attempt" where
  "sample_attempt rc = \<lparr>at_popen = None, at_ticks = [], at_comm = rc, at_results = []\<rparr>"

theorem run_experiment_short_witness:
  "\<exists>t. run_experiment (\<lambda>_ _. NotFound) ''..'' [] ''fig_14'' False
     (\<lambda>k. sample_attempt (if k = 1 then None else Some 0)) \<lparr>result_dir = [], healthy_file = None, calls = []\<rparr> =
     (Inr True, t)"
  using run_experiment_short[of "\<lambda>k. sample_attempt (if k = 1 then None else Some 0)" "\<lambda>_ _. NotFound" "''..''" "[]" "''fig_14''"]
  by (simp add: sample_attempt_def)

text \<open>
  C40: The \<^verbatim>\<open>return False\<close> in the \<^verbatim>\<open>finally\<close> block overrides a success: when the first attempt of a
  long experiment ends with exit code 0 but its watchdog had found a dead node and fewer than six
  nodes would remain, the experiment is reported as failed.\<close>

theorem run_experiment_finally_overrides:
  assumes "at_popen (world 1) = None" and "at_comm (world 1) = Some 0"
    and "watchdog_run sub name (watchdog_init name s1) (at_ticks (world 1)) s1 = (Inr w, s2)"
    and "s1 = s\<lparr>calls := calls s @ [[''python3'', name @ ''.py'']]\<rparr>"
    and "failed_node w = Some node" and "length (remove1 node (get_healthy_nodes s2)) < 6"
    and "target = []"
  shows "fst (run_experiment sub chime_root target name True world s) = Inr False"
proof -
  have "get_healthy_nodes (s2\<lparr>result_dir := at_results (world 1)\<rparr>) = get_healthy_nodes s2"
    by (simp add: get_healthy_nodes_def)
  then have rc: "reconfigure_cluster sub chime_root node (s2\<lparr>result_dir := at_results (world 1)\<rparr>) =
      (Inr False, s2\<lparr>result_dir := at_results (world 1)\<rparr>)"
    using assms(6) by (simp add: reconfigure_eq)
  have "run_attempt sub chime_root target name True (world 1) s =
      (Inr (Some False), s2\<lparr>result_dir := at_results (world 1)\<rparr>)"
    using assms(1-5,7) rc
    by (simp add: run_attempt_def act_seq_def act_bind_def act_get_def act_modify_def act_return_def
        run_sub_def rsync_results_def)
  then show ?thesis
    by (simp add: run_experiment_def MAX_RETRIES_def upt_conv_Cons act_bind_def act_return_def)
qed

definition sample_runner :: runner where
  "sample_runner = \<lparr>result_dir = [], healthy_file = Some (py_join [CHR 0x0A] [''a'', ''b'', ''c'', ''d'', ''e'', ''f'']), calls = []\<rparr>"

definition sample_sub :: subproc where
  "sample_sub n cmd = (if py_in ''b'' (cmd ! 5) then TimedOut else Done 0 ''ok'')"

definition sample_long :: attempt where
  "sample_long = \<lparr>at_popen = None, at_ticks = replicate 3 \<lparr>finished = False, t_results = []\<rparr>,
     at_comm = Some 0, at_results = []\<rparr>"

theorem run_experiment_finally_overrides_witness:
  "fst (run_experiment sample_sub ''..'' [] ''fig_12'' True (\<lambda>_. sample_long) sample_runner) = Inr False"
proof -
  let ?s1 = "sample_runner\<lparr>calls := calls sample_runner @ [[''python3'', ''fig_12'' @ ''.py'']]\<rparr>"
  let ?w = "\<lparr>last_point_count = 0, stall_count = 3, failed_node = Some ''b'', killed = True\<rparr>"
  let ?r = "watchdog_run sample_sub ''fig_12'' (watchdog_init ''fig_12'' ?s1) (at_ticks sample_long) ?s1"
  have f: "fst ?r = Inr ?w" and l: "length (remove1 ''b'' (get_healthy_nodes (snd ?r))) < 6" by code_simp+
  have r: "?r = (Inr ?w, snd ?r)" using f by (simp add: prod_eq_iff)
  show ?thesis
    by (rule run_experiment_finally_overrides[OF _ _ r refl _ l]) (simp_all add: sample_long_def)
qed

text \<open>What the results dictionary says about the experiments run so far.\<close>

definition entry_ok :: "(string \<Rightarrow> bool) \<Rightarrow> (string \<Rightarrow> nat \<Rightarrow> attempt) \<Rightarrow> string \<Rightarrow> bool option \<Rightarrow> bool" where
  "entry_ok script_exists world n v \<longleftrightarrow> (v = None \<longrightarrow> \<not> script_exists n) \<and>
     (v = Some True \<longrightarrow> at_comm (world n 1) = Some 0 \<or> at_comm (world n 2) = Some 0)"

lemma run_one_ok:
  assumes "run_one sub chime_root target script_exists world res (n, l) s = (Inr r, t)"
  shows "\<exists>v. r = AList.update n v res \<and> entry_ok script_exists world n v"
proof (cases "script_exists n")
  case True
  with assms obtain ok u where ok: "run_experiment sub chime_root target n l (world n) s = (Inr ok, u)"
    "r = AList.update n (Some ok) res"
    by (auto simp: run_one_def act_bind_Inr_iff act_return_iff)
  have "entry_ok script_exists world n (Some ok)"
    using run_experiment_True[of sub chime_root target n l "world n" s u] ok(1) by (auto simp: entry_ok_def)
  with ok(2) show ?thesis by blast
next
  case False
  with assms show ?thesis by (auto simp: run_one_def act_return_iff entry_ok_def)
qed

lemma run_all_fold:
  assumes "act_fold (run_one sub chime_root target script_exists world) res exps s = (Inr res', s')"
    and "\<forall>n \<in> D. \<exists>v. map_of res n = Some v"
    and "\<forall>n v. map_of res n = Some v \<longrightarrow> entry_ok script_exists world n v"
  shows "(\<forall>n \<in> D \<union> fst ` set exps. \<exists>v. map_of res' n = Some v) \<and>
    (\<forall>n v. map_of res' n = Some v \<longrightarrow> entry_ok script_exists world n v)"
  using assms
proof (induction exps arbitrary: res s D)
  case Nil
  then show ?case by (simp add: act_return_iff)
next
  case (Cons e exps)
  obtain n l where e: "e = (n, l)" by (cases e)
  obtain r1 s1 where r1: "run_one sub chime_root target script_exists world res (n, l) s = (Inr r1, s1)"
    and rest: "act_fold (run_one sub chime_root target script_exists world) r1 exps s1 = (Inr res', s')"
    using Cons.prems(1) e by (auto simp: act_bind_Inr_iff)
  obtain v where v: "r1 = AList.update n v res" "entry_ok script_exists world n v"
    using run_one_ok[OF r1] by blast
  have "\<forall>m \<in> insert n D. \<exists>v'. map_of r1 m = Some v'"
    "\<forall>m v'. map_of r1 m = Some v' \<longrightarrow> entry_ok script_exists world m v'"
    using Cons.prems(2,3) v by (auto simp: update_conv)
  from Cons.IH[OF rest this] show ?case using e by auto
qed

text \<open>
  Exit code 0 of the runner means that every experiment of the list whose script exists has had
  an attempt that ended with exit code 0, and it only ever exits with 0 or 1.\<close>

theorem runner_main_exit_code:
  assumes "runner_main sub chime_root target script_exists world s = (Inr rc, s')"
  shows "rc \<in> {0, 1} \<and>
    (rc = 0 \<longrightarrow> (\<forall>(name, is_long) \<in> set EXPERIMENTS. script_exists name \<longrightarrow>
       at_comm (world name 1) = Some 0 \<or> at_comm (world name 2) = Some 0))"
proof -
  from assms obtain res s1 where
    r: "run_all sub chime_root target script_exists world EXPERIMENTS s = (Inr res, s1)"
    and rc: "rc = (if filter (\<lambda>(n, ok). ok = Some False) res \<noteq> [] then 1 else 0)"
    by (auto simp: runner_main_def act_bind_Inr_iff act_seq_Inr_iff act_return_iff)
  have inv: "(\<forall>n \<in> {} \<union> fst ` set EXPERIMENTS. \<exists>v. map_of res n = Some v) \<and> (\<forall>n v. map_of res n = Some v \<longrightarrow> entry_ok script_exists world n v)"
    using r unfolding run_all_def by (rule run_all_fold) auto
  have "at_comm (world n 1) = Some 0 \<or> at_comm (world n 2) = Some 0"
    if h: "rc = 0" "n \<in> fst ` set EXPERIMENTS" "script_exists n" for n
  proof -
    obtain v where v: "map_of res n = Some v" using inv h(2) by blast
    then have "(n, v) \<in> set res" by (rule map_of_SomeD)
    then have "v \<noteq> Some False" using h(1) rc by (auto simp: filter_empty_conv split: if_splits)
    moreover have "entry_ok script_exists world n v" using inv v by blast
    ultimately show ?thesis using h(3) unfolding entry_ok_def by (metis (full_types) option.exhaust)
  qed
  then show ?thesis using rc by force
qed

theorem runner_main_exit_code_witness:
  "fst (runner_main (\<lambda>_ _. NotFound) ''..'' [] (\<lambda>n. n = ''fig_14'') (\<lambda>_ _. sample_attempt (Some 0))
     \<lparr>result_dir = [], healthy_file = None, calls = []\<rparr>) = Inr 0 \<and>
   (''fig_14'', False) \<in> set EXPERIMENTS \<and> at_comm (sample_attempt (Some 0)) = Some 0"
proof -
  let ?r = "runner_main (\<lambda>_ _. NotFound) ''..'' [] (\<lambda>n. n = ''fig_14'') (\<lambda>_ _. sample_attempt (Some 0))
    \<lparr>result_dir = [], healthy_file = None, calls = []\<rparr>"
  have r: "fst ?r = Inr 0" by code_simp
  then have "?r = (Inr 0, snd ?r)" by (simp add: prod_eq_iff)
  note all = runner_main_exit_code[OF this]
  have m: "(''fig_14'', False) \<in> set EXPERIMENTS" by code_simp
  with all have "at_comm (sample_attempt (Some 0)) = Some 0" by blast
  with r m show ?thesis by blast
qed

end
