(* ===== verification/Checkpoints.thy ===== *)
theory Checkpoints
  imports Fig_Bars Resilient_Runner
begin

text \<open>
  The contract between \<^verbatim>\<open>fig_12.py\<close>, which writes a partial result file after every measured point,
  and \<^verbatim>\<open>resilient_runner.py\<close>, whose watchdog counts the points of the partial files to tell progress
  from a stall.  \<open>seen_results\<close> is what the runner reads of the files a script has saved.
\<close>

section \<open>Files as the runner reads them\<close>

fun str_of :: "json \<Rightarrow> string list" where
  "str_of (JStr s) = [s]"
| "str_of _ = []"

fun strs_of :: "json \<Rightarrow> string list" where
  "strs_of (JList xs) = concat (map str_of xs)"
| "strs_of _ = []"

text \<open>Only the number of entries matters to the runner.\<close>

fun num_of :: "json \<Rightarrow> rat" where
  "num_of (JNum r) = r"
| "num_of _ = 0"

fun nums_of :: "json \<Rightarrow> rat list" where
  "nums_of (JList xs) = map num_of xs"
| "nums_of _ = []"

fun series_of :: "json \<Rightarrow> (string \<times> rat list) list" where
  "series_of (JDict d) = map (\<lambda>(m, v). (m, nums_of v)) d"
| "series_of _ = []"

definition field_of :: "json \<Rightarrow> string \<Rightarrow> json" where
  "field_of j k = (case j of JDict d \<Rightarrow> (case map_of d k of None \<Rightarrow> JNull | Some v \<Rightarrow> v) | _ \<Rightarrow> JNull)"

definition partial_of :: "json \<Rightarrow> partial_json" where
  "partial_of j = \<lparr>methods = strs_of (field_of j ''methods''), X_data = series_of (field_of j ''X_data'')\<rparr>"

definition seen_results :: "fig_state \<Rightarrow> result_files" where
  "seen_results s = map (\<lambda>(f, j). (f, Some (partial_of j))) (saved s)"

section \<open>Names of partial files\<close>

lemma endswith_iff: "py_endswith s p \<longleftrightarrow> (\<exists>q. s = q @ p)"
proof
  assume "py_endswith s p"
  then have "rev s = rev p @ drop (length p) (rev s)" by (metis append_take_drop_id py_endswith_def)
  then have "s = rev (drop (length p) (rev s)) @ p" by (metis rev_append rev_rev_ident)
  then show "\<exists>q. s = q @ p" by blast
next
  assume "\<exists>q. s = q @ p"
  then show "py_endswith s p" by (auto simp: py_endswith_def)
qed

lemma fig_12_glob: "glob_partial ''fig_12'' file \<longleftrightarrow> (\<exists>wl. file = fig_12_partial wl)"
proof -
  define pre suf where "pre = ''fig_12_''" and "suf = ''_partial.json''"
  have "py_replace ''fig_'' [] ''fig_12'' = ''12''" by code_simp
  then have g: "glob_partial ''fig_12'' file \<longleftrightarrow> (\<exists>r. file = pre @ r) \<and> (\<exists>q. file = q @ suf) \<and> length pre + length suf \<le> length file"
    by (simp add: glob_partial_def Let_def startswith_iff endswith_iff pre_def suf_def)
  show ?thesis
  proof
    assume "glob_partial ''fig_12'' file"
    then obtain r q where rq: "file = pre @ r" "file = q @ suf" "length pre + length suf \<le> length file" using g by blast
    then have "length pre \<le> length q" by (metis add_le_cancel_right length_append)
    then obtain z where "q = pre @ z" using rq(1,2) by (metis append_eq_append_conv_if append_take_drop_id)
    with rq(2) show "\<exists>wl. file = fig_12_partial wl" by (auto simp: fig_12_partial_def pre_def suf_def)
  next
    assume "\<exists>wl. file = fig_12_partial wl"
    then obtain wl where "file = pre @ wl @ suf" by (auto simp: fig_12_partial_def pre_def suf_def)
    then show "glob_partial ''fig_12'' file" unfolding g by (metis append.assoc le_add2 add.assoc add.commute add_le_cancel_left length_append)
  qed
qed

lemma wl_name_partial [simp]: "wl_name (fig_12_partial wl) = wl"
proof -
  have st: "stem (fig_12_partial wl) = ''fig'' @ CHR ''_'' # ''12'' @ CHR ''_'' # wl @ ''_partial''"
    by (simp add: stem_def fig_12_partial_def)
  have "split_on (CHR ''_'') (wl @ ''_partial'') = split_on (CHR ''_'') wl @ [''partial'']"
    using split_on_append2[of "CHR ''_''" wl "''_partial''"] split_on_nonempty[of "CHR ''_''" wl] by simp
  then have "split_on (CHR ''_'') (stem (fig_12_partial wl)) = ''fig'' # ''12'' # split_on (CHR ''_'') wl @ [''partial'']"
    by (simp add: st split_on_append)
  then show ?thesis by (simp add: wl_name_def)
qed

lemma fig_12_partial_inject [simp]: "fig_12_partial a = fig_12_partial b \<longleftrightarrow> a = b"
  by (simp add: fig_12_partial_def)

section \<open>Counting\<close>

definition points_in :: "json \<Rightarrow> nat" where
  "points_in j = sum_list (map snd (method_counts (partial_of j)))"

lemma foldl_update_fresh:
  "distinct (map fst d @ map k xs) \<Longrightarrow>
   foldl (\<lambda>d x. AList.update (k x) (v x) d) d xs = d @ map (\<lambda>x. (k x, v x)) xs"
proof (induction xs arbitrary: d)
  case (Cons x xs)
  then have "k x \<notin> fst ` set d" by auto
  then have u: "AList.update (k x) (v x) d = d @ [(k x, v x)]" by (induction d) auto
  from Cons.IH[of "d @ [(k x, v x)]"] Cons.prems show ?case by (simp add: u)
qed simp

lemma glob_names_distinct:
  assumes "distinct (map fst fs)"
  shows "distinct (map (wl_name \<circ> fst) (filter (\<lambda>(f, j). glob_partial ''fig_12'' f) fs))"
  using assms
proof (induction fs)
  case (Cons x fs)
  obtain f j where x: "x = (f, j)" by (cases x)
  have "wl_name f \<notin> (wl_name \<circ> fst) ` set (filter (\<lambda>(f, j). glob_partial ''fig_12'' f) fs)" if "glob_partial ''fig_12'' f"
  proof
    assume "wl_name f \<in> (wl_name \<circ> fst) ` set (filter (\<lambda>(f, j). glob_partial ''fig_12'' f) fs)"
    then obtain g i where g: "(g, i) \<in> set fs" "glob_partial ''fig_12'' g" "wl_name f = wl_name g" by auto
    with that have "f = g" unfolding fig_12_glob by auto
    with g(1) Cons.prems x show False by force
  qed
  with Cons x show ?case by auto
qed simp

lemma total_points:
  assumes "distinct (map fst (saved s))"
  shows "total_completed_points (seen_results s) ''fig_12'' =
    sum_list (map (\<lambda>(f, j). if glob_partial ''fig_12'' f then points_in j else 0) (saved s))"
proof -
  let ?fs = "filter (\<lambda>(f, j). glob_partial ''fig_12'' f) (saved s)"
  have filtered: "sum_list (map (\<lambda>(f, j). points_in j) (filter (\<lambda>(f, j). glob_partial ''fig_12'' f) fs)) =
      sum_list (map (\<lambda>(f, j). if glob_partial ''fig_12'' f then points_in j else 0) fs)" for fs
    by (induction fs) auto
  have fl: "filter (\<lambda>(f, d). glob_partial ''fig_12'' f) (seen_results s) = map (\<lambda>(f, j). (f, Some (partial_of j))) ?fs"
    unfolding seen_results_def by (induction "saved s") (auto simp: seen_results_def filter_map o_def case_prod_unfold)
  have "count_partial_points (seen_results s) ''fig_12'' =
      foldl (\<lambda>d x. AList.update ((wl_name \<circ> fst) x) (method_counts (partial_of (snd x))) d) [] ?fs"
    unfolding count_partial_points_def fl by (simp add: foldl_map case_prod_unfold)
  also have "\<dots> = map (\<lambda>x. (wl_name (fst x), method_counts (partial_of (snd x)))) ?fs"
    using foldl_update_fresh[of "[]" "wl_name \<circ> fst" ?fs] glob_names_distinct[OF assms] by simp
  finally have "total_completed_points (seen_results s) ''fig_12'' = sum_list (map (\<lambda>(f, j). points_in j) ?fs)"
    by (simp add: total_completed_points_def points_in_def o_def case_prod_unfold)
  also have "\<dots> = sum_list (map (\<lambda>(f, j). if glob_partial ''fig_12'' f then points_in j else 0) (saved s))"
    using filtered by blast
  finally show ?thesis .
qed

lemma sum_update:
  assumes "distinct (map fst fs)"
  shows "sum_list (map (\<lambda>(f, j). g f j) (AList.update k v fs)) + (case map_of fs k of None \<Rightarrow> 0 | Some w \<Rightarrow> g k w) =
    sum_list (map (\<lambda>(f, j). g f j) fs) + (g k v :: nat)"
  using assms
proof (induction fs)
  case (Cons x fs)
  obtain f j where x: "x = (f, j)" by (cases x)
  show ?case
  proof (cases "f = k")
    case True
    then have "map_of fs k = None" using Cons.prems x by (simp add: map_of_eq_None_iff)
    with True x show ?thesis by simp
  next
    case False
    with Cons x show ?thesis by (simp add: algebra_simps)
  qed
qed simp

definition series_points :: "series \<Rightarrow> string list \<Rightarrow> nat" where
  "series_points X ms = sum_list (map (\<lambda>m. case map_of X m of None \<Rightarrow> 0 | Some l \<Rightarrow> length l) ms)"

lemma strs_of_jstrs [simp]: "strs_of (jstrs ms) = ms"
  by (induction ms) (auto simp: jstrs_def)

lemma series_of_jseries: "map_of (series_of (jseries X)) m = map_option (map num_of) (map_of X m)"
  by (induction X) (auto simp: jseries_def)

lemma points_in_plot:
  assumes "distinct ms"
  shows "points_in (plot_12 ms X Y B) = series_points X ms"
proof -
  let ?n = "\<lambda>m. case map_of X m of None \<Rightarrow> 0 | Some l \<Rightarrow> length l"
  have p: "partial_of (plot_12 ms X Y B) = \<lparr>methods = ms, X_data = series_of (jseries X)\<rparr>"
    by (simp add: partial_of_def plot_12_def field_of_def)
  have "(case map_of (series_of (jseries X)) m of None \<Rightarrow> 0 | Some xs \<Rightarrow> length xs) = ?n m" for m
    by (simp add: series_of_jseries split: option.splits)
  then have "method_counts (partial_of (plot_12 ms X Y B)) = foldl (\<lambda>d m. AList.update m (?n m) d) [] ms"
    unfolding p method_counts_def by simp
  also have "\<dots> = map (\<lambda>m. (m, ?n m)) ms" using foldl_update_fresh[of "[]" "\<lambda>m. m" ms ?n] assms by simp
  finally show ?thesis by (simp add: points_in_def series_points_def o_def)
qed

lemma series_points_append:
  assumes "append_to X m v = Inr X'" and "m \<in> set ms" and "distinct ms"
  shows "series_points X' ms = Suc (series_points X ms)"
proof -
  obtain l where l: "map_of X m = Some l" "X' = AList.update m (l @ [v]) X"
    using assms(1) by (auto simp: append_to_def split: option.splits)
  have same: "m \<notin> set ns \<Longrightarrow> series_points X' ns = series_points X ns" for ns
    by (induction ns) (auto simp: series_points_def l update_conv)
  from assms(2,3) show ?thesis
  proof (induction ms)
    case (Cons n ns)
    show ?case
    proof (cases "n = m")
      case True
      with Cons.prems same[of ns] show ?thesis by (simp add: series_points_def l update_conv)
    next
      case False
      with Cons show ?thesis by (simp add: series_points_def l(2) update_conv)
    qed
  qed simp
qed

section \<open>Only the checkpoint changes the files\<close>

definition keeps_saved :: "(fig_state, 'a) act \<Rightarrow> bool" where
  "keeps_saved m \<longleftrightarrow> (\<forall>s r s'. m s = (r, s') \<longrightarrow> saved s' = saved s)"

lemma keeps_savedD: "keeps_saved m \<Longrightarrow> m s = (r, s') \<Longrightarrow> saved s' = saved s"
  by (simp add: keeps_saved_def)

lemma keeps_saved_basic [simp]:
  "keeps_saved (act_return x)" "keeps_saved (act_raise e)" "keeps_saved (act_lift r)" "keeps_saved (act_get g)"
  "keeps_saved (on_cluster n)"
  by (auto simp: keeps_saved_def act_defs on_cluster_def split: prod.splits)

lemma keeps_saved_bind: "keeps_saved m \<Longrightarrow> (\<And>x. keeps_saved (f x)) \<Longrightarrow> keeps_saved (act_bind m f)"
  unfolding keeps_saved_def act_bind_def by (auto split: prod.splits sum.splits)

lemma keeps_saved_seq: "keeps_saved m \<Longrightarrow> keeps_saved n \<Longrightarrow> keeps_saved (act_seq m n)"
  unfolding act_seq_def by (rule keeps_saved_bind)

lemma keeps_saved_retry: "keeps_saved m \<Longrightarrow> keeps_saved (retry n m)"
proof (induction n)
  case (Suc n)
  then show ?case unfolding keeps_saved_def by (auto simp: act_catch_def act_raise_def split: prod.splits sum.splits if_splits)
qed simp

lemmas keeps_saved_intros = keeps_saved_basic keeps_saved_bind keeps_saved_seq keeps_saved_retry

lemma keeps_saved_ops [simp]:
  "keeps_saved (sh_all c n)" "keeps_saved (sh_one c)" "keeps_saved (run_test p e t n b)"
  "keeps_saved (statistics ep a lgs)" "keeps_saved (cluster_lats p n ep)" "keeps_saved (fig_12_measure P es p w wl cn)"
  unfolding fig_12_measure_def run_test_def sh_all_def sh_one_def statistics_def cluster_lats_def
  by (intro keeps_saved_intros)+

lemma fig_12_point_saved:
  assumes "fig_12_point fuel C P es ms w wl method b cn s = (Inr b', s')"
  shows "saved s' = AList.update (fig_12_partial wl) (plot_12 ms (fst b') (fst (snd b')) (snd (snd b'))) (saved s)"
proof -
  obtain X Y B where b: "b = (X, Y, B)" by (cases b)
  define m where "m = (if method = ''SMART-SC'' then ''SMART'' else method)"
  define proj where "proj = project_dir C (project_of m)"
  from assms[unfolded fig_12_point_def b Let_def] obtain bp sp c1 t1 t2 t3 r X' Y' B' where
    t: "sh_all bp (-1) s = (Inr c1, t1)"
      "sh_all sp (fst cn) t1 = (Inr c1, t2)"
      "retry fuel (fig_12_measure P es proj w wl cn) t2 = (Inr r, t3)"
      "b' = (X', Y', B')" "s' = t3\<lparr>saved := AList.update (fig_12_partial wl) (plot_12 ms X' Y' B') (saved t3)\<rparr>"
    unfolding m_def proj_def by (auto simp: act_dest split: prod.splits)
  have "saved t3 = saved s"
    using keeps_savedD[OF keeps_saved_ops(1) t(1)] keeps_savedD[OF keeps_saved_ops(1) t(2)]
      keeps_savedD[OF keeps_saved_retry[OF keeps_saved_ops(6)] t(3)] by simp
  with t(4,5) show ?thesis by simp
qed

section \<open>Every point counts once\<close>

definition shown :: "string list \<Rightarrow> string \<Rightarrow> xyb \<Rightarrow> fig_state \<Rightarrow> bool" where
  "shown ms wl b s \<longleftrightarrow> distinct (map fst (saved s)) \<and>
     (case map_of (saved s) (fig_12_partial wl) of None \<Rightarrow> 0 | Some j \<Rightarrow> points_in j) = series_points (fst b) ms"

abbreviation runner_count :: "fig_state \<Rightarrow> nat" where
  "runner_count s \<equiv> total_completed_points (seen_results s) ''fig_12''"

lemma point_counts:
  assumes "fig_12_point fuel C P es ms w wl method b cn s = (Inr b', s')"
    and "shown ms wl b s" and "method \<in> set ms" and "distinct ms"
  shows "runner_count s' = Suc (runner_count s)" and "shown ms wl b' s'"
proof -
  obtain u where "append_to (fst b) method u = Inr (fst b')" using fig_12_point_appends[OF assms(1)] by blast
  note more = series_points_append[OF this assms(3,4)]
  have d: "distinct (map fst (saved s))" using assms(2) by (simp add: shown_def)
  note sv = fig_12_point_saved[OF assms(1)]
  have d': "distinct (map fst (saved s'))" unfolding sv by (rule distinct_update[OF d])
  have p: "points_in (plot_12 ms (fst b') (fst (snd b')) (snd (snd b'))) = series_points (fst b') ms"
    by (rule points_in_plot[OF assms(4)])
  show "shown ms wl b' s'" using d' p by (simp add: shown_def sv update_conv)
  let ?g = "\<lambda>f j. if glob_partial ''fig_12'' f then points_in j else 0"
  have gp: "glob_partial ''fig_12'' (fig_12_partial wl)" unfolding fig_12_glob by blast
  show "runner_count s' = Suc (runner_count s)"
    using sum_update[OF d, of ?g "fig_12_partial wl" "plot_12 ms (fst b') (fst (snd b')) (snd (snd b'))"]
      assms(2) more p gp
    by (cases "map_of (saved s) (fig_12_partial wl)") (simp_all add: total_points[OF d] total_points[OF d'] sv shown_def)
qed

lemma points_count:
  "act_fold (fig_12_point fuel C P es ms w wl method) b cns s = (Inr b', s') \<Longrightarrow> shown ms wl b s \<Longrightarrow>
   method \<in> set ms \<Longrightarrow> distinct ms \<Longrightarrow> runner_count s' = runner_count s + length cns \<and> shown ms wl b' s'"
proof (induction cns arbitrary: b s)
  case (Cons cn cns)
  then obtain c t where c: "fig_12_point fuel C P es ms w wl method b cn s = (Inr c, t)"
    "act_fold (fig_12_point fuel C P es ms w wl method) c cns t = (Inr b', s')"
    by (auto simp: act_bind_Inr_iff)
  note p = point_counts[OF c(1) Cons.prems(2-4)]
  from Cons.IH[OF c(2) p(2) Cons.prems(3,4)] p(1) show ?case by simp
qed (simp add: act_return_iff)

lemma methods_count:
  "act_fold (fig_12_method fuel C P es clients ms w wl) b ns s = (Inr b', s') \<Longrightarrow> shown ms wl b s \<Longrightarrow>
   set ns \<subseteq> set ms \<Longrightarrow> distinct ms \<Longrightarrow>
   runner_count s' = runner_count s + sum_list (map (\<lambda>m. length (clients_of clients w m)) ns) \<and> shown ms wl b' s'"
proof (induction ns arbitrary: b s)
  case (Cons n ns)
  then obtain c t where c: "fig_12_method fuel C P es clients ms w wl b n s = (Inr c, t)"
    "act_fold (fig_12_method fuel C P es clients ms w wl) c ns t = (Inr b', s')"
    by (auto simp: act_bind_Inr_iff)
  have n: "n \<in> set ms" "set ns \<subseteq> set ms" using Cons.prems(3) by auto
  note p = points_count[OF fig_12_method_fold[OF c(1)] Cons.prems(2) n(1) Cons.prems(4)]
  from Cons.IH[OF c(2) conjunct2[OF p] n(2) Cons.prems(4)] p show ?case by simp
qed (simp add: act_return_iff)

lemma init_no_points: "series_points (series_init [] ms) ms = 0"
proof -
  have "\<forall>m \<in> set ns. (case map_of (series_init [] ms) m of None \<Rightarrow> 0 | Some l \<Rightarrow> length l) = 0" for ns
    by (simp add: series_init_get)
  then show ?thesis by (simp add: series_points_def sum_list_eq_0_iff)
qed

lemma workload_counts:
  assumes "fig_12_workload fuel C P es clients (w, wl) s = (Inr (), s')" and "distinct (exp_methods P)"
    and "distinct (map fst (saved s))" and "map_of (saved s) (fig_12_partial wl) = None"
    and "\<not> glob_partial ''fig_12'' (fig_12_file wl)"
  shows "runner_count s' = runner_count s + sum_list (map (\<lambda>m. length (clients_of clients w m)) (fig_12_methods P wl))"
proof -
  let ?ms = "fig_12_methods P wl"
  let ?b = "(series_init [] ?ms, series_init [] ?ms, series_init [] ?ms)"
  have d: "distinct ?ms" using assms(2) by (simp add: fig_12_methods_def)
  from assms(1) obtain b t where r: "act_fold (fig_12_method fuel C P es clients ?ms w wl) ?b ?ms s = (Inr b, t)"
    and s': "saved s' = AList.update (fig_12_file wl) (plot_12 ?ms (fst b) (fst (snd b)) (snd (snd b))) (saved t)"
    by (auto simp: fig_12_workload_def act_dest Let_def split: prod.splits)
  have "shown ?ms wl ?b s" using assms(3,4) by (simp add: shown_def init_no_points)
  note m = methods_count[OF r this subset_refl d]
  then have dt: "distinct (map fst (saved t))" by (simp add: shown_def)
  have d': "distinct (map fst (saved s'))" unfolding s' by (rule distinct_update[OF dt])
  let ?g = "\<lambda>f j. if glob_partial ''fig_12'' f then points_in j else 0"
  have "runner_count s' = runner_count t"
    using sum_update[OF dt, of ?g "fig_12_file wl" "plot_12 ?ms (fst b) (fst (snd b)) (snd (snd b))"] assms(5)
    by (simp add: total_points[OF d'] total_points[OF dt] s' split: option.splits)
  with m show ?thesis by simp
qed

end
