(* ===== verification/Patch_CN.thy ===== *)
theory Patch_CN
  imports Py_State
begin

text \<open>
  \<^verbatim>\<open>construction/scripts/patch-cn-count.py\<close>: the number of compute nodes in the parameter files
  of the figures is changed by regular expressions, so that the rest of the file keeps its
  formatting.  The two patterns are modelled by their matchers: no branch of them can match the
  same text in two ways, so a greedy scan is what the backtracking engine does.

  A parameter file is compared through the \<open>[CN, threads]\<close> pairs after its \<^verbatim>\<open>"client_num"\<close> key:
  the text is cut into tokens, a patch acts on the tokens, and the tokens of a patched text are
  the patched tokens.
\<close>

section \<open>The patterns\<close>

text \<open>\<^verbatim>\<open>PAIR_PATTERN\<close> at the start of a text: the two groups, the rest of the match and what follows.\<close>

definition match_pair :: "string \<Rightarrow> (string \<times> string \<times> string \<times> string) option" where
  "match_pair s = (case s of [] \<Rightarrow> None | c # r \<Rightarrow>
     if c \<noteq> CHR ''['' then None else
     let cn = takeWhile is_digit r in
     if cn = [] then None else
     case dropWhile is_digit r of [] \<Rightarrow> None | c1 # r1 \<Rightarrow>
       if c1 \<noteq> CHR '','' then None else
       let sp = takeWhile py_space r1; r2 = dropWhile py_space r1;
           threads = takeWhile is_digit r2; r3 = dropWhile is_digit r2; sp2 = takeWhile py_space r3 in
       if threads = [] then None else
       case dropWhile py_space r3 of [] \<Rightarrow> None | c2 # rest \<Rightarrow>
         if c2 = CHR '']'' then Some (cn, threads, '','' @ sp @ threads @ sp2 @ '']'', rest) else None)"

lemma pattern_chars [simp]:
  "\<not> is_digit (CHR ''['')" "\<not> is_digit (CHR '','')" "\<not> is_digit (CHR '']'')"
  "\<not> py_space (CHR ''['')" "\<not> py_space (CHR '','')" "\<not> py_space (CHR '']'')"
  by (simp_all add: is_digit_def py_space_def code_def)

lemma match_pair_split:
  assumes "match_pair s = Some (cn, threads, tail, rest)"
  shows "\<exists>sp sp2. s = CHR ''['' # cn @ tail @ rest \<and> tail = '','' @ sp @ threads @ sp2 @ '']'' \<and>
    cn \<noteq> [] \<and> threads \<noteq> [] \<and> list_all is_digit (cn @ threads) \<and> list_all py_space (sp @ sp2)"
proof -
  have tw: "list_all P (takeWhile P xs)" for P :: "char \<Rightarrow> bool" and xs
    by (induction xs) auto
  from assms obtain r r1 where s: "s = CHR ''['' # r" and cn: "cn = takeWhile is_digit r" "cn \<noteq> []"
    and r1: "dropWhile is_digit r = CHR '','' # r1"
    and th: "threads = takeWhile is_digit (dropWhile py_space r1)" "threads \<noteq> []"
    and r4: "dropWhile py_space (dropWhile is_digit (dropWhile py_space r1)) = CHR '']'' # rest"
    and tl: "tail = '','' @ takeWhile py_space r1 @ threads @ takeWhile py_space (dropWhile is_digit (dropWhile py_space r1)) @ '']''"
    unfolding match_pair_def by (auto simp: Let_def split: list.splits if_splits)
  let ?sp = "takeWhile py_space r1" and ?sp2 = "takeWhile py_space (dropWhile is_digit (dropWhile py_space r1))"
  have "r1 = ?sp @ threads @ ?sp2 @ CHR '']'' # rest"
    by (metis r4 takeWhile_dropWhile_id th(1))
  with r1 tl have "dropWhile is_digit r = tail @ rest" by simp
  with s cn(1) have "s = CHR ''['' # cn @ tail @ rest" by (metis takeWhile_dropWhile_id)
  with cn th tl tw show ?thesis by (intro exI[of _ ?sp] exI[of _ ?sp2]) simp
qed

lemma match_pairI:
  assumes "cn \<noteq> []" "threads \<noteq> []" "list_all is_digit (cn @ threads)" "list_all py_space (sp @ sp2)"
  shows "match_pair (CHR ''['' # cn @ '','' @ sp @ threads @ sp2 @ '']'' @ rest) =
    Some (cn, threads, '','' @ sp @ threads @ sp2 @ '']'', rest)"
proof -
  have d: "is_digit (hd threads)" using assms by (cases threads) auto
  have 1: "takeWhile is_digit (cn @ '','' @ z) = cn" "dropWhile is_digit (cn @ '','' @ z) = '','' @ z" for z
    using assms(3) by (auto intro: scan_while)
  have 2: "takeWhile py_space (sp @ threads @ z) = sp" "dropWhile py_space (sp @ threads @ z) = threads @ z" for z
    using assms d by (auto intro: scan_while)
  have sp2: "sp2 = [] \<or> py_space (hd sp2)" using assms(4) by (cases sp2) auto
  then have 3: "takeWhile is_digit (threads @ sp2 @ '']'' @ z) = threads"
      "dropWhile is_digit (threads @ sp2 @ '']'' @ z) = sp2 @ '']'' @ z" for z
    using assms(3) by (intro scan_while; cases sp2; auto)+
  have 4: "takeWhile py_space (sp2 @ '']'' @ z) = sp2" "dropWhile py_space (sp2 @ '']'' @ z) = '']'' @ z" for z
    using assms(4) by (auto intro: scan_while)
  from 1 2 3 4 assms(1,2) show ?thesis by (simp add: match_pair_def Let_def)
qed

lemma match_pair_shorter: "match_pair s = Some (cn, threads, tail, rest) \<Longrightarrow> length rest < length s"
  by (drule match_pair_split) auto

text \<open>\<^verbatim>\<open>PAIR_PATTERN.sub(repl, s)\<close>, where \<open>repl\<close> gets the first group and the whole match.\<close>

function pair_sub :: "(string \<Rightarrow> string \<Rightarrow> string) \<Rightarrow> string \<Rightarrow> string" where
  "pair_sub repl [] = []"
| "pair_sub repl (c # cs) =
     (case match_pair (c # cs) of
        Some (cn, threads, tail, rest) \<Rightarrow> repl cn (CHR ''['' # cn @ tail) @ pair_sub repl rest
      | None \<Rightarrow> c # pair_sub repl cs)"
  by pat_completeness auto
termination
  by (relation "measure (\<lambda>(repl, s). length s)") (auto dest: match_pair_shorter)

text \<open>\<^verbatim>\<open>PAIR_PATTERN.search(s)\<close>: the first group of the first match.\<close>

fun pair_search :: "string \<Rightarrow> string option" where
  "pair_search [] = None"
| "pair_search (c # cs) =
     (case match_pair (c # cs) of Some (cn, _) \<Rightarrow> Some cn | None \<Rightarrow> pair_search cs)"

text \<open>\<^verbatim>\<open>re.search(r'"client_num"\s*:', text)\<close>: the text before, in and after the first match.\<close>

definition client_num_key :: string where
  "client_num_key = CHR 0x22 # ''client_num'' @ [CHR 0x22]"

definition match_key :: "string \<Rightarrow> (string \<times> string) option" where
  "match_key s =
     (if py_startswith s client_num_key then
        let r = drop (length client_num_key) s; sp = takeWhile py_space r in
        case dropWhile py_space r of [] \<Rightarrow> None
        | c # rest \<Rightarrow> if c = CHR '':'' then Some (client_num_key @ sp @ '':'', rest) else None
      else None)"

fun find_key :: "string \<Rightarrow> (string \<times> string \<times> string) option" where
  "find_key [] = None"
| "find_key (c # cs) =
     (case match_key (c # cs) of
        Some (key, rest) \<Rightarrow> Some ([], key, rest)
      | None \<Rightarrow> (case find_key cs of None \<Rightarrow> None | Some (before, key, rest) \<Rightarrow> Some (c # before, key, rest)))"

section \<open>The program\<close>

definition replacer :: "int \<Rightarrow> int \<Rightarrow> string \<Rightarrow> string \<Rightarrow> string" where
  "replacer old_cn new_cn cn original =
     (if int (digits_val cn) = old_cn then py_replace1 (show_int old_cn) (show_int new_cn) original else original)"

definition patch_text :: "int \<Rightarrow> int \<Rightarrow> string \<Rightarrow> string" where
  "patch_text old_cn new_cn text =
     (case find_key text of None \<Rightarrow> text
      | Some (before, key, rest) \<Rightarrow> before @ pair_sub (replacer old_cn new_cn) (key @ rest))"

text \<open>\<^verbatim>\<open>patch_file\<close> returns without writing when the key is missing.\<close>

definition patch_file :: "string \<Rightarrow> int \<Rightarrow> int \<Rightarrow> (fs, unit) act" where
  "patch_file path old_cn new_cn =
     act_bind (read_file path) (\<lambda>text.
     if find_key text = None then act_return () else write_file path (patch_text old_cn new_cn text))"

definition detect_text :: "string \<Rightarrow> int option" where
  "detect_text text =
     (case find_key text of None \<Rightarrow> None
      | Some (before, key, rest) \<Rightarrow> map_option (\<lambda>d. int (digits_val d)) (pair_search rest))"

definition detect_current_cn :: "string \<Rightarrow> (fs, int option) act" where
  "detect_current_cn path = act_bind (read_file path) (\<lambda>text. act_return (detect_text text))"

definition TARGET_FILES :: "string list" where
  "TARGET_FILES = [''fig_12.json'', ''fig_14.json'', ''fig_15a.json'', ''fig_15b.json'']"

definition patch_target :: "string \<Rightarrow> int \<Rightarrow> string \<Rightarrow> (fs, unit) act" where
  "patch_target params_dir new_cn fname =
     (let path = params_dir @ ''/'' @ fname in
      act_bind (act_get (\<lambda>f. f path \<noteq> None)) (\<lambda>exists.
      if \<not> exists then act_return ()
      else act_bind (detect_current_cn path) (\<lambda>old_cn.
        case old_cn of None \<Rightarrow> act_return ()
        | Some old \<Rightarrow> if old = new_cn then act_return () else patch_file path old new_cn)))"

definition patch_main :: "string \<Rightarrow> string list \<Rightarrow> (fs, unit) act" where
  "patch_main params_dir argv =
     (if length argv \<noteq> 2 then act_raise (SystemExit 1)
      else act_bind (act_lift (py_int (argv ! 1))) (\<lambda>new_cn.
        act_for TARGET_FILES (patch_target params_dir new_cn)))"

section \<open>Tokens\<close>

datatype tok = Chr char | Pair string string

function tokens :: "string \<Rightarrow> tok list" where
  "tokens [] = []"
| "tokens (c # cs) =
     (case match_pair (c # cs) of
        Some (cn, threads, tail, rest) \<Rightarrow> Pair cn tail # tokens rest
      | None \<Rightarrow> Chr c # tokens cs)"
  by pat_completeness auto
termination
  by (relation "measure length") (auto dest: match_pair_shorter)

fun tok_text :: "tok \<Rightarrow> string" where
  "tok_text (Chr c) = [c]"
| "tok_text (Pair cn tail) = CHR ''['' # cn @ tail"

definition render :: "tok list \<Rightarrow> string" where
  "render ts = concat (map tok_text ts)"

lemma render_simps [simp]:
  "render [] = []" "render (t # ts) = tok_text t @ render ts" "render (xs @ ys) = render xs @ render ys"
  by (simp_all add: render_def)

lemma render_tokens [simp]: "render (tokens s) = s"
proof (induction s rule: tokens.induct)
  case (2 c cs)
  show ?case
  proof (cases "match_pair (c # cs)")
    case None
    with 2 show ?thesis by simp
  next
    case (Some m)
    then obtain cn threads tail rest where m: "match_pair (c # cs) = Some (cn, threads, tail, rest)"
      by (metis prod.exhaust)
    with match_pair_split[OF m] 2(2)[OF m] show ?thesis by auto
  qed
qed simp

definition tail_ok :: "string \<Rightarrow> bool" where
  "tail_ok tail \<longleftrightarrow> (\<exists>sp threads sp2. tail = '','' @ sp @ threads @ sp2 @ '']'' \<and> threads \<noteq> [] \<and>
     list_all is_digit threads \<and> list_all py_space (sp @ sp2))"

text \<open>A match is a number and a tail, and it never reaches past the next bracket.\<close>

lemma match_pair_iff:
  "(\<exists>threads. match_pair s = Some (cn, threads, tail, rest)) \<longleftrightarrow>
   s = CHR ''['' # cn @ tail @ rest \<and> number cn \<and> tail_ok tail"
proof
  assume "\<exists>threads. match_pair s = Some (cn, threads, tail, rest)"
  then show "s = CHR ''['' # cn @ tail @ rest \<and> number cn \<and> tail_ok tail"
    using match_pair_split unfolding number_def tail_ok_def by fastforce
next
  assume a: "s = CHR ''['' # cn @ tail @ rest \<and> number cn \<and> tail_ok tail"
  then obtain sp threads sp2 where t: "tail = '','' @ sp @ threads @ sp2 @ '']''" "threads \<noteq> []"
    "list_all is_digit threads" "list_all py_space (sp @ sp2)" unfolding tail_ok_def by blast
  with a have "match_pair s = Some (cn, threads, tail, rest)"
    using match_pairI[of cn threads sp sp2 rest] by (simp add: number_def)
  then show "\<exists>threads. match_pair s = Some (cn, threads, tail, rest)" ..
qed

lemma digits_no_bracket: "list_all is_digit s \<Longrightarrow> CHR ''['' \<notin> set s"
  by (metis list_all_iff pattern_chars(1))

lemma spaces_no_bracket: "list_all py_space s \<Longrightarrow> CHR ''['' \<notin> set s"
  by (metis list_all_iff pattern_chars(4))

lemma tail_no_bracket: "tail_ok tail \<Longrightarrow> CHR ''['' \<notin> set tail"
  unfolding tail_ok_def by (auto dest: digits_no_bracket spaces_no_bracket)

lemma tokens_Pair:
  "number cn \<Longrightarrow> tail_ok tail \<Longrightarrow> tokens (CHR ''['' # cn @ tail @ rest) = Pair cn tail # tokens rest"
  using match_pair_iff[of "CHR ''['' # cn @ tail @ rest" cn tail rest] by auto

lemma match_pair_bracket: "c \<noteq> CHR ''['' \<Longrightarrow> match_pair (c # cs) = None"
  by (simp add: match_pair_def)

lemma tokens_plain: "CHR ''['' \<notin> set k \<Longrightarrow> tokens (k @ r) = map Chr k @ tokens r"
  by (induction k) (auto simp: match_pair_bracket)

lemma match_pair_parts:
  assumes "match_pair s = Some (cn, threads, tail, rest)"
  shows "s = CHR ''['' # cn @ tail @ rest" "number cn" "tail_ok tail"
  using assms match_pair_iff by blast+

definition tok_ok :: "tok \<Rightarrow> bool" where
  "tok_ok t = (case t of Chr c \<Rightarrow> True | Pair cn tail \<Rightarrow> number cn \<and> tail_ok tail)"

lemma tokens_ok: "list_all tok_ok (tokens s)"
proof (induction s rule: tokens.induct)
  case (2 c cs)
  show ?case
    using 2 match_pair_parts[of "c # cs"] by (auto simp: tok_ok_def split: option.splits)
qed simp

lemma pair_sub_tokens:
  "pair_sub repl s = concat (map (\<lambda>t. case t of Chr c \<Rightarrow> [c] | Pair cn tail \<Rightarrow> repl cn (CHR ''['' # cn @ tail)) (tokens s))"
  by (induction s rule: tokens.induct) (auto split: option.splits)

fun first_cn :: "tok list \<Rightarrow> string option" where
  "first_cn [] = None"
| "first_cn (Chr c # ts) = first_cn ts"
| "first_cn (Pair cn tail # ts) = Some cn"

lemma pair_search_tokens: "pair_search s = first_cn (tokens s)"
  by (induction s rule: tokens.induct) (auto split: option.splits)

text \<open>Changing the numbers of a text changes no other token.\<close>

fun map_cn :: "(string \<Rightarrow> string) \<Rightarrow> tok \<Rightarrow> tok" where
  "map_cn f (Chr c) = Chr c"
| "map_cn f (Pair cn tail) = Pair (f cn) tail"

lemma render_prefix:
  "render (map (map_cn f) ts) = w @ rest \<Longrightarrow> CHR ''['' \<notin> set w \<Longrightarrow> \<exists>rest'. render ts = w @ rest'"
proof (induction w arbitrary: ts)
  case (Cons c w)
  then obtain t ts' where ts: "ts = t # ts'" by (cases ts) auto
  show ?case
  proof (cases t)
    case (Chr d)
    with Cons ts show ?thesis by auto
  next
    case (Pair cn tail)
    with Cons ts show ?thesis by auto
  qed
qed simp

lemma match_pair_stable:
  assumes "match_pair (c # render ts) = None"
  shows "match_pair (c # render (map (map_cn f) ts)) = None"
proof (rule ccontr)
  assume "match_pair (c # render (map (map_cn f) ts)) \<noteq> None"
  then obtain cn threads tail rest where m: "match_pair (c # render (map (map_cn f) ts)) = Some (cn, threads, tail, rest)"
    by (metis not_None_eq prod.exhaust)
  note p = match_pair_parts[OF m]
  have "CHR ''['' \<notin> set (cn @ tail)"
    using p(2,3) digits_no_bracket tail_no_bracket by (auto simp: number_def)
  then obtain rest' where "render ts = (cn @ tail) @ rest'"
    using p(1) render_prefix[of f ts "cn @ tail" rest] by auto
  then show False using p assms match_pair_iff[of "c # render ts" cn tail rest'] by auto
qed

lemma tokens_map_cn:
  assumes f: "\<And>cn. number cn \<Longrightarrow> number (f cn)"
  shows "tokens (render (map (map_cn f) (tokens s))) = map (map_cn f) (tokens s)"
proof (induction s rule: tokens.induct)
  case (2 c cs)
  show ?case
  proof (cases "match_pair (c # cs)")
    case None
    with match_pair_stable[of c "tokens cs" f] 2(1)[OF None] show ?thesis by simp
  next
    case (Some m)
    then obtain cn threads tail rest where m: "match_pair (c # cs) = Some (cn, threads, tail, rest)"
      by (metis prod.exhaust)
    with 2(2)[OF m refl refl refl] match_pair_parts[OF m] f show ?thesis
      by (simp add: tokens_Pair del: tokens.simps(2))
  qed
qed simp

section \<open>Numbers\<close>

text \<open>JSON has no leading zeros: the CN numbers are written as they are printed.\<close>

definition canonical :: "string \<Rightarrow> bool" where
  "canonical s \<longleftrightarrow> list_all (\<lambda>t. case t of Chr c \<Rightarrow> True | Pair cn tail \<Rightarrow> cn = show_nat (digits_val cn)) (tokens s)"

definition swap_cn :: "nat \<Rightarrow> nat \<Rightarrow> string \<Rightarrow> string" where
  "swap_cn old new cn = (if digits_val cn = old then show_nat new else cn)"

lemma replacer_swap:
  assumes "cn = show_nat (digits_val cn)"
  shows "replacer (int old) (int new) cn (CHR ''['' # cn @ tail) = CHR ''['' # swap_cn old new cn @ tail"
proof (cases "digits_val cn = old")
  case True
  then have cn: "cn = show_nat old" using assms by simp
  have "\<not> py_startswith (CHR ''['' # z) (show_nat old)" for z
    using show_nat_nonempty[of old] show_nat_hd[of old "CHR ''[''"]
    by (cases "show_nat old") (auto simp: py_startswith_def)
  moreover have "py_startswith (show_nat old @ tail) (show_nat old)" by (simp add: py_startswith_def)
  moreover obtain c cs where "show_nat old = c # cs"
    using show_nat_nonempty[of old] by (cases "show_nat old") auto
  ultimately show ?thesis
    using True cn by (simp add: replacer_def swap_cn_def show_int_def)
qed (simp add: replacer_def swap_cn_def)

lemma pair_sub_swap:
  assumes "canonical s"
  shows "pair_sub (replacer (int old) (int new)) s = render (map (map_cn (swap_cn old new)) (tokens s))"
proof -
  have "(case t of Chr c \<Rightarrow> [c] | Pair cn tail \<Rightarrow> replacer (int old) (int new) cn (CHR ''['' # cn @ tail)) =
      tok_text (map_cn (swap_cn old new) t)" if "t \<in> set (tokens s)" for t
  proof (cases t)
    case (Pair cn tail)
    with assms that have "cn = show_nat (digits_val cn)" by (force simp: canonical_def list_all_iff)
    from replacer_swap[OF this] Pair show ?thesis by simp
  qed simp
  then show ?thesis unfolding pair_sub_tokens render_def map_map
    by (intro arg_cong[where f = concat] map_cong refl) simp
qed

section \<open>The key\<close>

lemma match_key_split:
  assumes "match_key s = Some (key, rest)"
  shows "\<exists>sp. s = key @ rest \<and> key = client_num_key @ sp @ '':'' \<and> list_all py_space sp"
proof -
  let ?r = "drop (length client_num_key) s"
  have p: "py_startswith s client_num_key" and d: "dropWhile py_space ?r = CHR '':'' # rest"
    and k: "key = client_num_key @ takeWhile py_space ?r @ '':''"
    using assms by (auto simp: match_key_def Let_def split: if_splits list.splits)
  have "?r = takeWhile py_space ?r @ CHR '':'' # rest" using d by (metis takeWhile_dropWhile_id)
  moreover have "s = client_num_key @ ?r" using p by (metis append_take_drop_id py_startswith_def)
  ultimately have "s = key @ rest" using k by (metis append.assoc append_Cons append_Nil)
  moreover have "list_all py_space (takeWhile py_space ?r)" by (auto simp: list_all_iff dest: set_takeWhileD)
  ultimately show ?thesis using k by blast
qed

lemma match_keyI:
  assumes "list_all py_space sp"
  shows "match_key (client_num_key @ sp @ '':'' @ rest) = Some (client_num_key @ sp @ '':'', rest)"
proof -
  have "takeWhile py_space (sp @ '':'' @ rest) = sp" "dropWhile py_space (sp @ '':'' @ rest) = '':'' @ rest"
    using assms by (auto intro!: scan_while simp: py_space_def code_def)
  then show ?thesis by (simp add: match_key_def py_startswith_def)
qed

lemma key_chars:
  assumes "list_all py_space sp"
  shows "CHR '':'' \<notin> set (client_num_key @ sp)" "CHR ''['' \<notin> set (client_num_key @ sp @ '':'')"
proof -
  have "\<not> py_space (CHR '':'')" by (simp add: py_space_def code_def)
  then have "CHR '':'' \<notin> set sp" using assms by (metis list_all_iff)
  then show "CHR '':'' \<notin> set (client_num_key @ sp)" by (simp add: client_num_key_def)
  show "CHR ''['' \<notin> set (client_num_key @ sp @ '':'')"
    using spaces_no_bracket[OF assms] by (simp add: client_num_key_def)
qed

text \<open>Whether the key starts somewhere is decided by the text up to the end of a key.\<close>

lemma match_key_stable:
  assumes "match_key (u @ key @ r) = None" and key: "key = k @ '':''"
  shows "match_key (u @ key @ r') = None"
proof (rule ccontr)
  assume "match_key (u @ key @ r') \<noteq> None"
  then obtain k' rest where "match_key (u @ key @ r') = Some (k', rest)" by auto
  then obtain sp where e: "u @ key @ r' = k' @ rest" and k': "k' = client_num_key @ sp @ '':''" "list_all py_space sp"
    using match_key_split by blast
  have "\<exists>z. u @ key = k' @ z"
  proof (rule ccontr)
    assume "\<nexists>z. u @ key = k' @ z"
    with e obtain z where "k' = (u @ key) @ z" "z \<noteq> []"
      by (metis append.assoc append_eq_append_conv2 append_Nil2)
    then have "client_num_key @ sp = (u @ key) @ butlast z" using k'(1)
      by (metis append.assoc butlast_append butlast_snoc)
    then show False using key key_chars(1)[OF k'(2)] by (auto simp del: append_assoc)
  qed
  then obtain z where "u @ key = k' @ z" by blast
  then have "u @ key @ r = client_num_key @ sp @ '':'' @ (z @ r)" using k'(1) by (metis append.assoc)
  with match_keyI[OF k'(2)] assms(1) show False by simp
qed

lemma find_key_split:
  "find_key s = Some (before, key, rest) \<Longrightarrow>
   s = before @ key @ rest \<and> (\<exists>sp. key = client_num_key @ sp @ '':'' \<and> list_all py_space sp)"
proof (induction s arbitrary: before)
  case (Cons c cs)
  then show ?case
    using match_key_split[of "c # cs" key rest] by (auto split: option.splits)
qed simp

lemma find_key_stable:
  "find_key s = Some (before, key, rest) \<Longrightarrow> find_key (before @ key @ rest') = Some (before, key, rest')"
proof (induction s arbitrary: before)
  case (Cons c cs)
  obtain sp where k: "key = client_num_key @ sp @ '':''" "list_all py_space sp" and s: "c # cs = before @ key @ rest"
    using find_key_split[OF Cons.prems] by blast
  show ?case
  proof (cases before)
    case Nil
    obtain d ds where "key @ rest' = d # ds" using k(1) by (cases "key @ rest'") (auto simp: client_num_key_def)
    with Nil k match_keyI[OF k(2), of rest'] show ?thesis by simp
  next
    case (Cons b bs)
    with Cons.prems s have n: "match_key (b # bs @ key @ rest) = None" and f: "find_key cs = Some (bs, key, rest)"
      by (auto split: option.splits)
    from match_key_stable[of "b # bs" key rest "client_num_key @ sp" rest'] n k(1)
    have "match_key (b # bs @ key @ rest') = None" by simp
    with Cons Cons.IH[OF f] show ?thesis by simp
  qed
qed simp

section \<open>What a patch does to a parameter file\<close>

definition cn_section :: "string \<Rightarrow> string" where
  "cn_section text = (case find_key text of None \<Rightarrow> [] | Some (before, key, rest) \<Rightarrow> rest)"

fun pairs_of :: "tok list \<Rightarrow> (nat \<times> string) list" where
  "pairs_of [] = []"
| "pairs_of (Chr c # ts) = pairs_of ts"
| "pairs_of (Pair cn tail # ts) = (digits_val cn, tail) # pairs_of ts"

definition cn_pairs :: "string \<Rightarrow> (nat \<times> string) list" where
  "cn_pairs text = pairs_of (tokens (cn_section text))"

lemma pairs_of_swap:
  "pairs_of (map (map_cn (swap_cn old new)) ts) =
   map (\<lambda>(cn, tail). (if cn = old then new else cn, tail)) (pairs_of ts)"
  by (induction ts rule: pairs_of.induct) (auto simp: swap_cn_def)

lemma detect_pairs: "detect_text text = (case cn_pairs text of [] \<Rightarrow> None | (cn, _) # _ \<Rightarrow> Some (int cn))"
proof (cases "find_key text")
  case (Some m)
  have "map_option digits_val (first_cn ts) = (case pairs_of ts of [] \<Rightarrow> None | (cn, _) # _ \<Rightarrow> Some cn)" for ts
    by (induction ts rule: pairs_of.induct) auto
  from this[of "tokens (cn_section text)"] Some show ?thesis
    by (cases m) (auto simp: detect_text_def cn_section_def cn_pairs_def pair_search_tokens
        map_option_case split: list.splits option.splits prod.splits)
qed (simp add: detect_text_def cn_pairs_def cn_section_def)

lemma swap_number: "number cn \<Longrightarrow> number (swap_cn old new cn)"
  by (simp add: swap_cn_def)

lemma patch_text_eq:
  assumes "find_key text = Some (before, key, rest)" "canonical rest"
  shows "patch_text (int old) (int new) text =
    before @ key @ render (map (map_cn (swap_cn old new)) (tokens rest))"
proof -
  obtain sp where k: "key = client_num_key @ sp @ '':''" "list_all py_space sp"
    using find_key_split[OF assms(1)] by blast
  have t: "tokens (key @ rest) = map Chr key @ tokens rest"
    using tokens_plain key_chars(2)[OF k(2)] k(1) by blast
  then have "canonical (key @ rest)" using assms(2) by (auto simp: canonical_def list_all_iff)
  moreover have "render (map Chr key) = key" by (induction key) auto
  moreover have "map_cn (swap_cn old new) \<circ> Chr = Chr" by (rule ext) simp
  ultimately show ?thesis using assms(1) t by (simp add: patch_text_def pair_sub_swap)
qed

lemma patch_text_section:
  assumes "find_key text = Some (before, key, rest)" "canonical rest"
  shows "find_key (patch_text (int old) (int new) text) =
      Some (before, key, render (map (map_cn (swap_cn old new)) (tokens rest)))"
    and "tokens (cn_section (patch_text (int old) (int new) text)) = map (map_cn (swap_cn old new)) (tokens rest)"
proof -
  show f: "find_key (patch_text (int old) (int new) text) =
      Some (before, key, render (map (map_cn (swap_cn old new)) (tokens rest)))"
    using patch_text_eq[OF assms] find_key_stable[OF assms(1)] by simp
  show "tokens (cn_section (patch_text (int old) (int new) text)) = map (map_cn (swap_cn old new)) (tokens rest)"
    using tokens_map_cn[OF swap_number] by (simp add: cn_section_def f)
qed

lemma swap_canonical:
  assumes "canonical rest"
  shows "canonical (render (map (map_cn (swap_cn old new)) (tokens rest)))"
proof -
  let ?P = "\<lambda>t. case t of Chr c \<Rightarrow> True | Pair cn tail \<Rightarrow> cn = show_nat (digits_val cn)"
  have P: "?P t \<Longrightarrow> ?P (map_cn (swap_cn old new) t)" for t
    by (cases t) (auto simp: swap_cn_def)
  have "list_all ?P ts \<Longrightarrow> list_all ?P (map (map_cn (swap_cn old new)) ts)" for ts
    using P by (induction ts) simp_all
  with assms show ?thesis by (simp only: canonical_def tokens_map_cn[OF swap_number])
qed

text \<open>
  In a parameter file without leading zeros, patching \<open>old\<close> to \<open>new\<close> turns every
  \<open>[old, threads]\<close> pair of the \<^verbatim>\<open>client_num\<close> section into \<open>[new, threads]\<close>, keeps all other
  pairs, and leaves the text before that section as it is.\<close>

theorem patch_text_pairs:
  assumes "canonical (cn_section text)"
  shows "cn_pairs (patch_text (int old) (int new) text) =
      map (\<lambda>(cn, tail). (if cn = old then new else cn, tail)) (cn_pairs text) \<and>
    map_option fst (find_key (patch_text (int old) (int new) text)) = map_option fst (find_key text)"
proof (cases "find_key text")
  case None
  then show ?thesis by (simp add: patch_text_def cn_pairs_def cn_section_def)
next
  case (Some m)
  obtain before key rest where m: "find_key text = Some (before, key, rest)" using Some by (metis prod.exhaust)
  with assms have "canonical rest" by (simp add: cn_section_def)
  note s = patch_text_section[OF m this, of old new]
  show ?thesis by (simp add: cn_pairs_def s m pairs_of_swap) (simp add: cn_section_def m)
qed

text \<open>
  C6: Patching the node count and patching it back gives the original file, character by
  character, when the new count was not in use before.\<close>

theorem patch_text_back:
  assumes "canonical (cn_section text)" and "new \<notin> fst ` set (cn_pairs text)"
  shows "patch_text (int new) (int old) (patch_text (int old) (int new) text) = text"
proof (cases "find_key text")
  case None
  then show ?thesis by (simp add: patch_text_def)
next
  case (Some m)
  obtain before key rest where m: "find_key text = Some (before, key, rest)" using Some by (metis prod.exhaust)
  with assms(1) have c: "canonical rest" by (simp add: cn_section_def)
  let ?r = "render (map (map_cn (swap_cn old new)) (tokens rest))"
  have "map_cn (swap_cn new old) (map_cn (swap_cn old new) t) = t" if t: "t \<in> set (tokens rest)" for t
  proof (cases t)
    case (Pair cn tail)
    have in_pairs: "Pair cn tail \<in> set ts \<Longrightarrow> digits_val cn \<in> fst ` set (pairs_of ts)" for ts
      by (induction ts rule: pairs_of.induct) auto
    have "digits_val cn \<noteq> new"
      using assms(2) in_pairs[of "tokens rest"] t Pair m by (auto simp: cn_pairs_def cn_section_def)
    moreover have "cn = show_nat (digits_val cn)" using c t Pair by (force simp: canonical_def list_all_iff)
    ultimately show ?thesis using Pair by (auto simp: swap_cn_def)
  qed simp
  then have "map (map_cn (swap_cn new old)) (map (map_cn (swap_cn old new)) (tokens rest)) = tokens rest"
    by (simp add: map_idI)
  then have "render (map (map_cn (swap_cn new old)) (tokens ?r)) = rest"
    by (simp only: tokens_map_cn[OF swap_number] render_tokens)
  moreover have "patch_text (int new) (int old) (patch_text (int old) (int new) text) =
      before @ key @ render (map (map_cn (swap_cn new old)) (tokens ?r))"
    by (rule patch_text_eq[OF patch_text_section(1)[OF m c] swap_canonical[OF c]])
  ultimately show ?thesis using find_key_split[OF m] by simp
qed

text \<open>A parameter file with a pair before the section and another node count in it.\<close>

definition sample_params :: string where
  "sample_params = ''{x: [10, 1], '' @ client_num_key @ '': [[10, 4], [10,  8 ], [2, 10]]}''"

theorem patch_text_pairs_witness:
  "cn_pairs (patch_text (int 10) (int 9) sample_params) =
      map (\<lambda>(cn, tail). (if cn = 10 then 9 else cn, tail)) (cn_pairs sample_params) \<and>
    map_option fst (find_key (patch_text (int 10) (int 9) sample_params)) = map_option fst (find_key sample_params)"
proof (rule patch_text_pairs)
  show "canonical (cn_section sample_params)" by code_simp
qed

theorem patch_text_back_witness:
  "patch_text (int 9) (int 10) (patch_text (int 10) (int 9) sample_params) = sample_params"
proof (rule patch_text_back)
  show "canonical (cn_section sample_params)" by code_simp
  show "9 \<notin> fst ` set (cn_pairs sample_params)" by code_simp
qed

section \<open>The whole run\<close>

definition patch_to :: "int \<Rightarrow> string \<Rightarrow> string" where
  "patch_to new_cn text =
     (case detect_text text of None \<Rightarrow> text
      | Some old \<Rightarrow> if old = new_cn then text else patch_text old new_cn text)"

lemma patch_target_eq:
  "patch_target dir n fname f =
     (Inr (), case f (dir @ ''/'' @ fname) of None \<Rightarrow> f | Some t \<Rightarrow> f(dir @ ''/'' @ fname \<mapsto> patch_to n t))"
  by (auto simp: patch_target_def Let_def act_bind_def act_get_def act_return_def detect_current_cn_def patch_file_def
      patch_to_def patch_text_def read_file_def detect_text_def fun_upd_idem split: option.splits)

lemma patch_all_eq:
  assumes "distinct fs"
  shows "\<exists>f'. act_for fs (patch_target dir n) f = (Inr (), f') \<and>
    (\<forall>p. f' p = (if p \<in> (\<lambda>x. dir @ ''/'' @ x) ` set fs then map_option (patch_to n) (f p) else f p))"
  using assms
proof (induction fs arbitrary: f)
  case Nil
  then show ?case by (simp add: act_return_def)
next
  case (Cons x fs)
  let ?f = "case f (dir @ ''/'' @ x) of None \<Rightarrow> f | Some t \<Rightarrow> f(dir @ ''/'' @ x \<mapsto> patch_to n t)"
  from Cons.prems have "distinct fs" by simp
  from Cons.IH[OF this, of ?f] obtain f' where f': "act_for fs (patch_target dir n) ?f = (Inr (), f')"
    "\<forall>p. f' p = (if p \<in> (\<lambda>x. dir @ ''/'' @ x) ` set fs then map_option (patch_to n) (?f p) else ?f p)"
    by blast
  have "act_for (x # fs) (patch_target dir n) f = (Inr (), f')"
    by (simp only: act_for.simps act_seq_ok[OF patch_target_eq] f'(1))
  with f'(2) Cons.prems show ?case by (auto split: option.splits)
qed

lemma detect_patched:
  assumes "canonical (cn_section text)" "detect_text text = Some old"
  shows "detect_text (patch_to (int n) text) = Some (int n)"
proof (cases "old = int n")
  case False
  obtain c tail ps where ps: "cn_pairs text = (c, tail) # ps" "old = int c"
    using assms(2) by (auto simp: detect_pairs split: list.splits)
  have "cn_pairs (patch_text (int c) (int n) text) =
      map (\<lambda>(cn, tail). (if cn = c then n else cn, tail)) (cn_pairs text)"
  proof (cases "find_key text")
    case (Some m)
    then obtain b k r where m: "find_key text = Some (b, k, r)" by (metis prod.exhaust)
    with assms(1) have "canonical r" by (simp add: cn_section_def)
    from patch_text_section(2)[OF m this] m show ?thesis by (simp add: cn_pairs_def pairs_of_swap cn_section_def)
  qed (use ps in \<open>simp add: cn_pairs_def cn_section_def\<close>)
  with ps False assms(2) show ?thesis by (simp add: patch_to_def) (simp add: detect_pairs)
qed (use assms in \<open>simp add: patch_to_def\<close>)

lemma patch_main_ok:
  "\<exists>f'. patch_main dir [prog, show_nat n] f = (Inr (), f') \<and>
    (\<forall>p. f' p = (if p \<in> (\<lambda>x. dir @ ''/'' @ x) ` set TARGET_FILES then map_option (patch_to (int n)) (f p) else f p))"
proof -
  have "distinct TARGET_FILES" by code_simp
  from patch_all_eq[OF this] obtain f' where f': "act_for TARGET_FILES (patch_target dir (int n)) f = (Inr (), f')"
    "\<forall>p. f' p = (if p \<in> (\<lambda>x. dir @ ''/'' @ x) ` set TARGET_FILES then map_option (patch_to (int n)) (f p) else f p)"
    by blast
  have "py_int (show_nat n) = Inr (int n)" using py_int_show_int[of "int n"] by (simp add: show_int_def)
  then have "patch_main dir [prog, show_nat n] f = (Inr (), f')"
    using f'(1) by (simp add: patch_main_def act_bind_def act_lift_def)
  with f'(2) show ?thesis by blast
qed

text \<open>
  C24: Running \<^verbatim>\<open>patch-cn-count.py n\<close> always ends normally; afterwards every target parameter file
  in which a node count can be detected shows \<open>n\<close>, the other targets are unchanged, and so is
  every file that is not a target.\<close>

theorem patch_main_targets:
  assumes "\<forall>fname \<in> set TARGET_FILES. \<forall>t. f (dir @ ''/'' @ fname) = Some t \<longrightarrow> canonical (cn_section t)"
  shows "\<exists>f'. patch_main dir [prog, show_nat n] f = (Inr (), f') \<and>
    (\<forall>fname \<in> set TARGET_FILES. \<forall>t. f (dir @ ''/'' @ fname) = Some t \<longrightarrow>
      (\<exists>t'. f' (dir @ ''/'' @ fname) = Some t' \<and>
        (if detect_text t = None then t' = t else detect_text t' = Some (int n)))) \<and>
    (\<forall>p. p \<notin> (\<lambda>x. dir @ ''/'' @ x) ` set TARGET_FILES \<longrightarrow> f' p = f p)"
proof -
  obtain f' where f': "patch_main dir [prog, show_nat n] f = (Inr (), f')"
    "\<forall>p. f' p = (if p \<in> (\<lambda>x. dir @ ''/'' @ x) ` set TARGET_FILES then map_option (patch_to (int n)) (f p) else f p)"
    using patch_main_ok by blast
  moreover have "if detect_text t = None then patch_to (int n) t = t else detect_text (patch_to (int n) t) = Some (int n)"
    if "fname \<in> set TARGET_FILES" "f (dir @ ''/'' @ fname) = Some t" for fname t
    using detect_patched[of t _ n] assms that by (auto simp: patch_to_def)
  ultimately show ?thesis by (intro exI[of _ f']) auto
qed

definition sample_fs :: fs where
  "sample_fs = [''d/fig_12.json'' \<mapsto> sample_params, ''d/common.json'' \<mapsto> sample_params]"

theorem patch_main_targets_witness:
  "\<exists>f'. patch_main ''d'' [''p'', show_nat 9] sample_fs = (Inr (), f') \<and>
    f' ''d/common.json'' = Some sample_params \<and>
    (\<exists>t'. f' ''d/fig_12.json'' = Some t' \<and> detect_text t' = Some 9)"
proof -
  have c: "canonical (cn_section sample_params)" by code_simp
  have d: "detect_text sample_params \<noteq> None" by code_simp
  have "\<forall>fname \<in> set TARGET_FILES. \<forall>t. sample_fs (''d'' @ ''/'' @ fname) = Some t \<longrightarrow> canonical (cn_section t)"
    using c by (simp add: sample_fs_def TARGET_FILES_def)
  from patch_main_targets[OF this, of "''p''" 9] obtain f' where
    f': "patch_main ''d'' [''p'', show_nat 9] sample_fs = (Inr (), f')"
    "\<And>fname t. fname \<in> set TARGET_FILES \<Longrightarrow> sample_fs (''d'' @ ''/'' @ fname) = Some t \<Longrightarrow>
      \<exists>t'. f' (''d'' @ ''/'' @ fname) = Some t' \<and> (if detect_text t = None then t' = t else detect_text t' = Some (int 9))"
    "\<And>p. p \<notin> (\<lambda>x. ''d'' @ ''/'' @ x) ` set TARGET_FILES \<Longrightarrow> f' p = sample_fs p"
    by blast
  have "\<exists>t'. f' ''d/fig_12.json'' = Some t' \<and> detect_text t' = Some 9"
    using f'(2)[of "''fig_12.json''" sample_params] d by (simp add: TARGET_FILES_def sample_fs_def)
  moreover have "f' ''d/common.json'' = Some sample_params"
    using f'(3)[of "''d/common.json''"] by (simp add: TARGET_FILES_def sample_fs_def)
  ultimately show ?thesis using f'(1) by blast
qed

end
