(* ===== verification/Fig_Others.thy ===== *)
theory Fig_Others
  imports Fig_Sweeps
begin

text \<open>
  The scripts that read one number from the output of a single command (\<^verbatim>\<open>fig_03d\<close>, \<^verbatim>\<open>fig_16\<close>) and
  the ones that record several quantities of CHIME along one axis (\<^verbatim>\<open>fig_18f_19b\<close>, \<^verbatim>\<open>fig_19a\<close>,
  \<^verbatim>\<open>fig_19c\<close>).
\<close>

section \<open>Reading one number\<close>

text \<open>
  The loop of \<^verbatim>\<open>fig_03d\<close> and \<^verbatim>\<open>fig_16\<close> is left only by a \<^verbatim>\<open>break\<close> under a condition: an attempt that ends
  without a number (\<open>None\<close>) is repeated as well.
\<close>

fun retry_some :: "nat \<Rightarrow> ('s, 'a option) act \<Rightarrow> ('s, 'a) act" where
  "retry_some 0 m s = (Inl OutOfFuel, s)"
| "retry_some (Suc n) m s =
     (case m s of
        (Inr (Some v), t) \<Rightarrow> (Inr v, t)
      | (Inr None, t) \<Rightarrow> retry_some n m t
      | (Inl e, t) \<Rightarrow> if retried e then retry_some n m t else (Inl e, t))"

text \<open>\<^verbatim>\<open>cmd.one_execute(test)[0]\<close> and the guarded conversion of its \<open>i\<close>-th word.\<close>

definition first_number :: "string \<Rightarrow> string \<Rightarrow> nat \<Rightarrow> rat \<Rightarrow> (fig_state, rat option) act" where
  "first_number kill test i k =
     act_bind (sh_one kill) (\<lambda>_.
     act_bind (sh_one test) (\<lambda>out.
     act_lift (py_bind (case out of None \<Rightarrow> Inl IndexError | Some ls \<Rightarrow> py_index ls 0) (\<lambda>line. num_field line i k))))"

section \<open>fig_03d\<close>

definition execution_names :: "(string \<times> string) list" where
  "execution_names = [(''Associativity'', ''hash_test''), (''RACE'', ''race_hash_test''),
     (''Hopscotch'', ''hopscotch_hash_test''), (''FaRM'', ''farm_hash_test'')]"

definition fig_03d_point ::
  "nat \<Rightarrow> common_params \<Rightarrow> int \<Rightarrow> string \<Rightarrow> series \<times> series \<Rightarrow> int \<Rightarrow> (fig_state, series \<times> series) act" where
  "fig_03d_point fuel C table_size method = (\<lambda>(X, Y) ampl_size.
     let proj = project_dir C ''CHIME'' in
     act_bind (sh_one (''cd '' @ proj @ '' && mkdir -p build && cd build && cmake .. && make clean && make -j'')) (\<lambda>_.
     act_bind (act_lift (dict_get execution_names method)) (\<lambda>exe.
     act_bind (retry_some fuel (first_number (KILL_PROCESS proj exe)
         (env_cmd proj @ '' && ./'' @ exe @ '' '' @ show_int table_size @ '' '' @ show_int ampl_size) 3 100)) (\<lambda>load_factor.
     act_bind (act_lift (append_to X method (jint ampl_size))) (\<lambda>X.
     act_bind (act_lift (append_to Y method (JNum load_factor))) (\<lambda>Y.
     act_return (X, Y)))))))"

definition fig_03d_main ::
  "nat \<Rightarrow> common_params \<Rightarrow> string list \<Rightarrow> int \<Rightarrow> int list \<Rightarrow> (fig_state, unit) act" where
  "fig_03d_main fuel C ms table_size ampl_sizes =
     act_bind (act_fold (\<lambda>XY method. act_fold (fig_03d_point fuel C table_size method) XY ampl_sizes)
       (series_init [] ms, series_init [] ms) ms) (\<lambda>(X, Y).
     save_json (fig_file ''03d'') (plot_xy ms (jseries X) Y))"

section \<open>fig_16\<close>

definition fig_16_point ::
  "nat \<Rightarrow> common_params \<Rightarrow> int \<Rightarrow> int \<Rightarrow> string \<Rightarrow> series \<Rightarrow> int \<Rightarrow> (fig_state, series) act" where
  "fig_16_point fuel C val_len span_size method Y key_size =
     (if method = ''SMART'' then act_lift (append_to Y method (JNum (8 + 8 + 1 + 1)))
      else
        let proj = project_dir C (if method = ''ROLEX'' then ''ROLEX'' else ''CHIME'') in
        act_bind (act_lift (generate_sed_cmd ''./include/Common.h'' ''CHIME'' key_size val_len 100 1
            (Some span_size) [(''neighbor_size'', 8), (''hotspot_buffer_size'', 30)])) (\<lambda>sed_cmd.
        act_bind (act_lift (cmake_option C method)) (\<lambda>opt.
        act_bind (sh_one (BUILD_PROJECT proj sed_cmd opt)) (\<lambda>_.
        act_bind (retry_some fuel (first_number (KILL_PROCESS proj ''metadata_size_test'')
            (env_cmd proj @ '' && ./metadata_size_test'') 5 1)) (\<lambda>metadata_size_per_kv.
        act_lift (append_to Y method (JNum metadata_size_per_kv)))))))"

definition fig_16_main ::
  "nat \<Rightarrow> common_params \<Rightarrow> string list \<Rightarrow> int \<Rightarrow> int \<Rightarrow> int list \<Rightarrow> (fig_state, unit) act" where
  "fig_16_main fuel C ms val_len span_size key_sizes =
     act_bind (act_fold (\<lambda>Y method. act_fold (fig_16_point fuel C val_len span_size method) Y key_sizes)
       (series_init [] ms) ms) (\<lambda>Y.
     save_json (fig_file ''16'') (plot_xy ms (JList (map jint key_sizes)) Y))"

section \<open>fig_18f_19b, fig_19a and fig_19c\<close>

text \<open>
  The build and measurement of one configuration of CHIME; the logs give all the numbers.  The
  series are the lists under the literal keys of \<^verbatim>\<open>Y_data\<close>.
\<close>

definition chime_build ::
  "common_params \<Rightarrow> exp_params \<Rightarrow> string \<Rightarrow> int \<Rightarrow> int \<Rightarrow> int \<Rightarrow> bool \<Rightarrow> (fig_state, unit) act" where
  "chime_build C P method span_size nb hb middle =
     act_bind (act_lift (sed_config C method (key_bytes (key_type P)) (value_size P) (cache_size P) (MN_num P)
         (Some span_size) [(''neighbor_size'', nb), (''hotspot_buffer_size'', hb)])) (\<lambda>sed_cmd.
     act_bind (act_lift (cmake_option C method)) (\<lambda>opt.
     sh_all (BUILD_PROJECT (project_dir C ''CHIME'') sed_cmd
       (if middle then switch_on ''MIDDLE_TEST_EPOCH'' opt else opt)) (-1)))"

definition chime_run :: "common_params \<Rightarrow> exp_params \<Rightarrow> (fig_state, logs) act" where
  "chime_run C P = (let proj = project_dir C ''CHIME'' in
     run_test proj ''ycsb_test'' (YCSB_TEST proj (workload_name P) (key_type P) (client_num P)) (fst (client_num P)) False)"

definition chime_split :: "common_params \<Rightarrow> exp_params \<Rightarrow> (fig_state, unit) act" where
  "chime_split C P = sh_all (SPLIT_WORKLOADS C (project_dir C ''CHIME'') (workload_name P) (key_type P) (client_num P))
     (fst (client_num P))"

definition tpt_load_cache :: "exp_params \<Rightarrow> logs \<Rightarrow> (fig_state, log_stats \<times> rat) act" where
  "tpt_load_cache P lgs =
     act_bind (statistics (target_epoch P) True lgs) (\<lambda>st.
     act_bind (act_lift (get_cache_statistics lgs)) (\<lambda>(cs, _). act_return (st, cs)))"

type_synonym triple = "json list \<times> json list \<times> json list"

definition fig_18f_19b_point ::
  "nat \<Rightarrow> common_params \<Rightarrow> exp_params \<Rightarrow> string \<Rightarrow> int \<Rightarrow> triple \<Rightarrow> int \<Rightarrow> (fig_state, triple) act" where
  "fig_18f_19b_point fuel C P method span_size = (\<lambda>(tpts, caches, loads) nb.
     act_seq (chime_build C P method span_size nb (hotspot_buffer_size P) True)
    (act_bind (retry fuel (act_bind (chime_run C P) (tpt_load_cache P))) (\<lambda>(st, cs).
     act_return (tpts @ [jtpt st], caches @ [JNum cs], loads @ [JNum (load_factor st)]))))"

definition fig_18f_19b_main ::
  "nat \<Rightarrow> common_params \<Rightarrow> exp_params \<Rightarrow> int \<Rightarrow> int list \<Rightarrow> (fig_state, unit) act" where
  "fig_18f_19b_main fuel C P span_size nbs =
     act_bind (act_lift (py_index (exp_methods P) 0)) (\<lambda>method.
     act_seq (chime_split C P)
    (act_bind (act_fold (fig_18f_19b_point fuel C P method span_size) ([], [], []) nbs) (\<lambda>(tpts, caches, loads).
     act_seq (save_json (fig_file ''18f'') (plot_xy [method] (JList (map jint nbs)) [(method, tpts)]))
     (save_json (fig_file ''19b'') (plot_xy [''Cache Efficiency'', ''Load Factor''] (JList (map jint nbs))
        [(''Cache Efficiency'', caches), (''Load Factor'', loads)])))))"

definition fig_19a_point ::
  "nat \<Rightarrow> common_params \<Rightarrow> exp_params \<Rightarrow> string \<Rightarrow> triple \<Rightarrow> int \<Rightarrow> (fig_state, triple) act" where
  "fig_19a_point fuel C P method = (\<lambda>(tpts, caches, loads) span_size.
     act_seq (chime_build C P method span_size (neighbor_size P) (hotspot_buffer_size P) False)
    (act_bind (retry fuel (act_bind (chime_run C P) (tpt_load_cache P))) (\<lambda>(st, cs).
     act_return (tpts @ [jtpt st], caches @ [JNum cs], loads @ [JNum (load_factor st)]))))"

definition fig_19a_main ::
  "nat \<Rightarrow> common_params \<Rightarrow> exp_params \<Rightarrow> int list \<Rightarrow> (fig_state, unit) act" where
  "fig_19a_main fuel C P spans =
     act_bind (act_lift (py_index (exp_methods P) 0)) (\<lambda>method.
     act_seq (chime_split C P)
    (act_bind (act_fold (fig_19a_point fuel C P method) ([], [], []) spans) (\<lambda>(tpts, caches, loads).
     save_json (fig_file ''19a'') (plot_xy [''Cache Efficiency'', ''Load Factor''] (JList (map jint spans))
        [(''Cache Efficiency'', caches), (''Load Factor'', loads), (''Throughput'', tpts)]))))"

definition fig_19c_point ::
  "nat \<Rightarrow> common_params \<Rightarrow> exp_params \<Rightarrow> string \<Rightarrow> int \<Rightarrow> json list \<times> json list \<Rightarrow> int \<Rightarrow> (fig_state, json list \<times> json list) act" where
  "fig_19c_point fuel C P method span_size = (\<lambda>(tpts, hits) hb.
     act_seq (chime_build C P method span_size (neighbor_size P) hb True)
    (act_bind (retry fuel (act_bind (chime_run C P) (statistics (target_epoch P) True))) (\<lambda>st.
     act_return (tpts @ [jtpt st], hits @ [JNum (speculative_ratio st * speculative_accuracy st / 100)]))))"

definition fig_19c_main ::
  "nat \<Rightarrow> common_params \<Rightarrow> exp_params \<Rightarrow> int \<Rightarrow> int list \<Rightarrow> (fig_state, unit) act" where
  "fig_19c_main fuel C P span_size hbs =
     act_bind (act_lift (py_index (exp_methods P) 0)) (\<lambda>method.
     act_seq (chime_split C P)
    (act_bind (act_fold (fig_19c_point fuel C P method span_size) ([], []) hbs) (\<lambda>(tpts, hits).
     save_json (fig_file ''19c'') (plot_xy [''Throughput'', ''Buffer Hit Ratio''] (JList (map jint hbs))
        [(''Throughput'', tpts), (''Buffer Hit Ratio'', hits)]))))"

section \<open>The guarded retry loop\<close>

text \<open>\<open>no_number m s k t\<close>: \<open>k\<close> attempts in a row gave no number or an exception the loop catches.\<close>

inductive no_number :: "('s, 'a option) act \<Rightarrow> 's \<Rightarrow> nat \<Rightarrow> 's \<Rightarrow> bool" for m where
  no_number_0: "no_number m s 0 s"
| no_number_None: "m s = (Inr None, s1) \<Longrightarrow> no_number m s1 k t \<Longrightarrow> no_number m s (Suc k) t"
| no_number_exc: "m s = (Inl e, s1) \<Longrightarrow> retried e \<Longrightarrow> no_number m s1 k t \<Longrightarrow> no_number m s (Suc k) t"

inductive_simps no_number_0_iff [simp]: "no_number m s 0 t"

lemma retry_some_enough:
  assumes "no_number m s k t" and "m t = (Inr (Some v), u)" and "k < n"
  shows "retry_some n m s = (Inr v, u)"
  using assms
proof (induction arbitrary: n rule: no_number.induct)
  case (no_number_0 s)
  then show ?case by (cases n) auto
next
  case (no_number_None s s1 k t)
  then show ?case by (cases n) auto
next
  case (no_number_exc s e s1 k t)
  then show ?case by (cases n) auto
qed

lemma retry_some_result:
  "retry_some n m s = (Inr v, u) \<Longrightarrow> \<exists>k<n. \<exists>t. no_number m s k t \<and> m t = (Inr (Some v), u)"
proof (induction n arbitrary: s)
  case (Suc n)
  obtain q s1 where q: "m s = (q, s1)" by (metis prod.exhaust)
  consider (found) "q = Inr (Some v)" "s1 = u"
    | (none) "q = Inr None" "retry_some n m s1 = (Inr v, u)"
    | (exc) e where "q = Inl e" "retried e" "retry_some n m s1 = (Inr v, u)"
    using Suc.prems q by (cases q) (auto split: option.splits if_splits)
  then show ?case
  proof cases
    case found
    with q show ?thesis by (intro exI[of _ 0]) auto
  next
    case none
    with Suc.IH q show ?thesis by (metis Suc_less_eq no_number_None)
  next
    case exc
    with Suc.IH q show ?thesis by (metis Suc_less_eq no_number_exc)
  qed
qed simp

section \<open>Contracts and complete result files\<close>

interpretation fig_03d_X: sweep fst mt "fig_03d_point fuel C ts mt" for fuel C ts mt
  by (rule sweep_pairI) (auto simp: fig_03d_point_def act_dest Let_def split: prod.splits)

interpretation fig_03d_Y: sweep snd mt "fig_03d_point fuel C ts mt" for fuel C ts mt
  by (rule sweep_pairI) (auto simp: fig_03d_point_def act_dest Let_def split: prod.splits)

interpretation fig_03d_mX: method_sweep fst id "\<lambda>_. length as"
    "\<lambda>XY method. act_fold (fig_03d_point fuel C ts method) XY as" for fuel C ts as
  by unfold_locales (auto intro: fig_03d_X.sweep_grows)

interpretation fig_03d_mY: method_sweep snd id "\<lambda>_. length as"
    "\<lambda>XY method. act_fold (fig_03d_point fuel C ts method) XY as" for fuel C ts as
  by unfold_locales (auto intro: fig_03d_Y.sweep_grows)

interpretation fig_16_pt: sweep id mt "fig_16_point fuel C vl sp mt" for fuel C vl sp mt
  by (rule sweep_idI) (auto simp: fig_16_point_def act_dest Let_def split: if_splits)

interpretation fig_16: method_sweep id id "\<lambda>_. length ks"
    "\<lambda>Y method. act_fold (fig_16_point fuel C vl sp method) Y ks" for fuel C vl sp ks
  by unfold_locales (auto intro: fig_16_pt.sweep_grows)

lemma fig_03d_complete:
  "fig_03d_main fuel C ms ts as s = (Inr (), s') \<Longrightarrow> distinct ms \<Longrightarrow>
   \<exists>X Y. map_of (saved s') (fig_file ''03d'') = Some (plot_xy ms (jseries X) Y) \<and>
     full_series X ms (\<lambda>_. length as) \<and> full_series Y ms (\<lambda>_. length as)"
  using main_complete_pair[OF fig_03d_mX.method_sweep_axioms fig_03d_mY.method_sweep_axioms, of ms fuel C ts as]
  by (simp add: fig_03d_main_def)

lemma fig_16_complete:
  "fig_16_main fuel C ms vl sp ks s = (Inr (), s') \<Longrightarrow> distinct ms \<Longrightarrow>
   \<exists>Y. map_of (saved s') (fig_file ''16'') = Some (plot_xy ms (JList (map jint ks)) Y) \<and>
     full_series Y ms (\<lambda>_. length ks)"
  using main_complete[OF fig_16.method_sweep_axioms, of ms fuel C vl sp ks "[]"]
  by (simp add: fig_16_main_def)

lemma fold_triple:
  fixes step :: "triple \<Rightarrow> int \<Rightarrow> (fig_state, triple) act"
  assumes st: "\<And>x p s y s'. step x p s = (Inr y, s') \<Longrightarrow>
      length (fst y) = Suc (length (fst x)) \<and> length (fst (snd y)) = Suc (length (fst (snd x))) \<and>
      length (snd (snd y)) = Suc (length (snd (snd x)))"
    and r: "act_fold step ([], [], []) ps s = (Inr (a, b, c), s')"
  shows "length a = length ps \<and> length b = length ps \<and> length c = length ps"
  using act_fold_count[where f = "\<lambda>x. length (fst x)" and step = step, OF _ r]
    act_fold_count[where f = "\<lambda>x. length (fst (snd x))" and step = step, OF _ r]
    act_fold_count[where f = "\<lambda>x. length (snd (snd x))" and step = step, OF _ r] st by auto

lemma fig_18f_19b_counts:
  "act_fold (fig_18f_19b_point fuel C P method sp) ([], [], []) nbs s = (Inr (a, b, c), s') \<Longrightarrow>
   length a = length nbs \<and> length b = length nbs \<and> length c = length nbs"
  by (rule fold_triple[rotated]) (auto simp: fig_18f_19b_point_def act_dest split: prod.splits)

lemma fig_19a_counts:
  "act_fold (fig_19a_point fuel C P method) ([], [], []) sps s = (Inr (a, b, c), s') \<Longrightarrow>
   length a = length sps \<and> length b = length sps \<and> length c = length sps"
  by (rule fold_triple[rotated]) (auto simp: fig_19a_point_def act_dest split: prod.splits)

lemma fig_19c_counts:
  assumes r: "act_fold (fig_19c_point fuel C P method sp) ([], []) hbs s = (Inr (a, b), s')"
  shows "length a = length hbs \<and> length b = length hbs"
proof -
  have "fig_19c_point fuel C P method sp x p s = (Inr y, s') \<Longrightarrow>
      length (fst y) = Suc (length (fst x)) \<and> length (snd y) = Suc (length (snd x))" for x p s y s'
    by (auto simp: fig_19c_point_def act_dest split: prod.splits)
  then show ?thesis
    using act_fold_count[where f = "\<lambda>x. length (fst x)" and step = "fig_19c_point fuel C P method sp", OF _ r]
      act_fold_count[where f = "\<lambda>x. length (snd x)" and step = "fig_19c_point fuel C P method sp", OF _ r] by auto
qed

section \<open>Properties\<close>

text \<open>
  The loop that reads the load factor returns a value exactly when, after some number of attempts
  without a number, one attempt gives it, and every larger amount of fuel gives the same value:
  an output without a number is retried like a failed command and nothing else ends the loop
  normally.\<close>

theorem first_number_retried:
  "(\<exists>n. retry_some n (first_number kill test i k) s = (Inr v, u)) \<longleftrightarrow>
   (\<exists>j t. no_number (first_number kill test i k) s j t \<and> first_number kill test i k t = (Inr (Some v), u))"
  using retry_some_result[of _ "first_number kill test i k" s v u]
    retry_some_enough[of "first_number kill test i k" s _ _ v u] by (meson lessI)

text \<open>
  When \<^verbatim>\<open>fig_18f_19b.py\<close> ends it has written both result files, one with a throughput per
  neighbourhood size and one with a cache size and a load factor per neighbourhood size.\<close>

theorem fig_18f_19b_complete:
  assumes "fig_18f_19b_main fuel C P span_size nbs s = (Inr (), s')"
  shows "\<exists>method tpts caches loads.
    map_of (saved s') ''fig_18f.json'' = Some (plot_xy [method] (JList (map jint nbs)) [(method, tpts)]) \<and>
    map_of (saved s') ''fig_19b.json'' = Some (plot_xy [''Cache Efficiency'', ''Load Factor''] (JList (map jint nbs))
      [(''Cache Efficiency'', caches), (''Load Factor'', loads)]) \<and>
    length tpts = length nbs \<and> length caches = length nbs \<and> length loads = length nbs"
proof -
  from assms obtain mt tpts caches loads t1 t2 where
    f: "act_fold (fig_18f_19b_point fuel C P mt span_size) ([], [], []) nbs t1 = (Inr (tpts, caches, loads), t2)"
    and s': "s' = t2\<lparr>saved := AList.update (fig_file ''19b'')
        (plot_xy [''Cache Efficiency'', ''Load Factor''] (JList (map jint nbs))
          [(''Cache Efficiency'', caches), (''Load Factor'', loads)])
        (AList.update (fig_file ''18f'') (plot_xy [mt] (JList (map jint nbs)) [(mt, tpts)]) (saved t2))\<rparr>"
    by (auto simp: fig_18f_19b_main_def act_dest)
  show ?thesis
    using fig_18f_19b_counts[OF f]
    by (intro exI[of _ mt] exI[of _ tpts] exI[of _ caches] exI[of _ loads]) (simp add: s' update_conv fig_file_def)
qed

definition sample_both :: fig_state where
  "sample_both = sample_state 4 [''epoch 0 passed!'' @ [CHR 0x0A] @ sample_out]"

theorem fig_18f_19b_complete_witness:
  "\<exists>method tpts caches loads.
    map_of (saved (snd (fig_18f_19b_main 1 sample_common (sample_exp [''CHIME'']) 4 [8] sample_both)))
      ''fig_18f.json'' = Some (plot_xy [method] (JList (map jint [8])) [(method, tpts)]) \<and>
    map_of (saved (snd (fig_18f_19b_main 1 sample_common (sample_exp [''CHIME'']) 4 [8] sample_both)))
      ''fig_19b.json'' = Some (plot_xy [''Cache Efficiency'', ''Load Factor''] (JList (map jint [8]))
      [(''Cache Efficiency'', caches), (''Load Factor'', loads)]) \<and>
    length tpts = length [8 :: int] \<and> length caches = length [8 :: int] \<and> length loads = length [8 :: int]"
proof (rule fig_18f_19b_complete)
  have "fst (fig_18f_19b_main 1 sample_common (sample_exp [''CHIME'']) 4 [8] sample_both) = Inr ()"
    by code_simp
  then show "fig_18f_19b_main 1 sample_common (sample_exp [''CHIME'']) 4 [8] sample_both =
    (Inr (), snd (fig_18f_19b_main 1 sample_common (sample_exp [''CHIME'']) 4 [8] sample_both))"
    by (rule returns_pair)
qed

end
