(* ===== verification/Fig_Extra.thy ===== *)
theory Fig_Extra
  imports Fig_Bars
begin

text \<open>
  The three additional experiments \<^verbatim>\<open>exp/extra_cache_sensitivity.py\<close>,
  \<^verbatim>\<open>exp/extra_value_size.py\<close> and \<^verbatim>\<open>exp/extra_uniform_dist.py\<close>.  Their parameters are constants of the
  scripts.  Unlike the figures they loop over the axis outside and over the methods inside, so
  every round of the outer loop adds one value to the series of every method: the \<open>axis_sweep\<close>
  contract.
\<close>

section \<open>Measuring\<close>

definition extra_measure ::
  "exp_params \<Rightarrow> string \<Rightarrow> string \<Rightarrow> (fig_state, log_stats \<times> rat \<times> rat) act" where
  "extra_measure P proj wl =
     (let cn = client_num P in
      act_bind (run_test proj ''ycsb_test'' (YCSB_TEST proj wl (key_type P) cn) (fst cn) True) (\<lambda>lgs.
      act_bind (statistics (target_epoch P) True lgs) (\<lambda>st.
      act_bind (cluster_lats proj (fst cn) (target_epoch P)) (\<lambda>lats.
      act_return (st, lats)))))"

text \<open>Sources configured and built for one method on all nodes.\<close>

definition extra_build :: "common_params \<Rightarrow> exp_params \<Rightarrow> string \<Rightarrow> int \<Rightarrow> int \<Rightarrow> (fig_state, unit) act" where
  "extra_build C P method val cache =
     act_bind (act_lift (dict_get (span_sizes P) method)) (\<lambda>spn.
     act_bind (act_lift (sed_config C method 8 val cache (MN_num P) (Some spn)
       (other_params (epsilon P) (neighbor_size P) (hotspot_buffer_size P)))) (\<lambda>sed_cmd.
     act_bind (act_lift (cmake_option C method)) (\<lambda>opt.
     sh_all (BUILD_PROJECT (project_dir C (project_of method)) sed_cmd opt) (-1))))"

text \<open>Body of the inner loop, with the value size and the cache size of this round.\<close>

definition extra_point ::
  "nat \<Rightarrow> common_params \<Rightarrow> exp_params \<Rightarrow> int \<Rightarrow> int \<Rightarrow> int \<Rightarrow> xyb \<Rightarrow> string \<Rightarrow> (fig_state, xyb) act" where
  "extra_point fuel C P val cache x = (\<lambda>(X, Y, B) method.
     let proj = project_dir C (project_of method) in
     act_seq (extra_build C P method val cache)
    (act_seq (sh_all (SPLIT_WORKLOADS C proj (workload_name P) (key_type P) (client_num P)) (fst (client_num P)))
    (act_bind (retry fuel (extra_measure P proj (workload_name P))) (\<lambda>(st, p50, p99).
     act_bind (act_lift (append_to X method (jint x))) (\<lambda>X.
     act_bind (act_lift (append_to Y method (jtpt st))) (\<lambda>Y.
     act_bind (act_lift (append_to B method (JNum p99))) (\<lambda>B.
     act_return (X, Y, B))))))))"

definition plot_extra :: "string list \<Rightarrow> string \<Rightarrow> int list \<Rightarrow> xyb \<Rightarrow> json" where
  "plot_extra ms axis sizes = (\<lambda>(X, Y, B). JDict [(''methods'', jstrs ms), (axis, JList (map jint sizes)),
     (''X_data'', jseries X), (''Y_data'', jseries Y), (''BACKUP_data'', jseries B)])"

definition xyb_init :: "string list \<Rightarrow> xyb" where
  "xyb_init ms = (series_init [] ms, series_init [] ms, series_init [] ms)"

section \<open>Cache and value sizes\<close>

text \<open>The parameter an experiment varies is 0 in its record and never read.\<close>

definition cache_params :: exp_params where
  "cache_params = \<lparr>exp_methods = [''CHIME'', ''Sherman'', ''SMART''], workload_name = ''c'', target_epoch = 10,
     client_num = (9, 64), MN_num = 1, key_type = ''randint'', value_size = 8, cache_size = 0,
     span_sizes = [(''CHIME'', 64), (''Sherman'', 64), (''SMART'', 1)],
     epsilon = 16, neighbor_size = 8, hotspot_buffer_size = 30\<rparr>"

definition cache_sizes :: "int list" where "cache_sizes = [10, 100, 1000]"

definition cache_row :: "nat \<Rightarrow> common_params \<Rightarrow> exp_params \<Rightarrow> xyb \<Rightarrow> int \<Rightarrow> (fig_state, xyb) act" where
  "cache_row fuel C P b cache = act_fold (extra_point fuel C P (value_size P) cache cache) b (exp_methods P)"

definition extra_cache_main :: "nat \<Rightarrow> common_params \<Rightarrow> exp_params \<Rightarrow> int list \<Rightarrow> (fig_state, unit) act" where
  "extra_cache_main fuel C P sizes =
     act_bind (act_fold (cache_row fuel C P) (xyb_init (exp_methods P)) sizes) (\<lambda>b.
     save_json ''extra_cache_sensitivity.json'' (plot_extra (exp_methods P) ''cache_sizes'' sizes b))"

definition value_params :: exp_params where
  "value_params = \<lparr>exp_methods = [''CHIME'', ''Sherman'', ''SMART'', ''ROLEX''], workload_name = ''a'', target_epoch = 10,
     client_num = (9, 32), MN_num = 1, key_type = ''randint'', value_size = 0, cache_size = 100,
     span_sizes = [(''CHIME'', 64), (''Sherman'', 64), (''SMART'', 1), (''ROLEX'', 16)],
     epsilon = 16, neighbor_size = 8, hotspot_buffer_size = 30\<rparr>"

definition value_sizes :: "int list" where "value_sizes = [8, 64, 256]"

definition value_row :: "nat \<Rightarrow> common_params \<Rightarrow> exp_params \<Rightarrow> xyb \<Rightarrow> int \<Rightarrow> (fig_state, xyb) act" where
  "value_row fuel C P b val = act_fold (extra_point fuel C P val (cache_size P) val) b (exp_methods P)"

definition extra_value_main :: "nat \<Rightarrow> common_params \<Rightarrow> exp_params \<Rightarrow> int list \<Rightarrow> (fig_state, unit) act" where
  "extra_value_main fuel C P sizes =
     act_bind (act_fold (value_row fuel C P) (xyb_init (exp_methods P)) sizes) (\<lambda>b.
     save_json ''extra_value_size.json'' (plot_extra (exp_methods P) ''value_sizes'' sizes b))"

section \<open>Distributions\<close>

definition uniform_params :: exp_params where
  "uniform_params = cache_params\<lparr>cache_size := 100\<rparr>"

definition dist_wl_name :: "exp_params \<Rightarrow> string \<Rightarrow> string" where
  "dist_wl_name P dst = (if dst = ''zipfian'' then workload_name P else workload_name P @ ''_uniform'')"

definition GENERATE_UNIFORM :: "common_params \<Rightarrow> exp_params \<Rightarrow> string \<Rightarrow> string" where
  "GENERATE_UNIFORM C P wl =
     ''cd '' @ ycsb_dir C @ '' && if [ ! -f workloads/txn_randint_workload'' @ wl @ '' ]; then '' @
     ''  cp workloads/load_randint_workload'' @ workload_name P @ '' workloads/load_randint_workload'' @ wl @ '' && '' @
     ''  python3 -c '' @ [CHR 0x22] @ ''import random; random.seed(42); '' @
     ''ops = ['' @ [CHR 0x27] @ ''READ'' @ [CHR 0x27] @ ''] * 60000000; '' @
     ''keys = [random.randint(1, 60000000) for _ in range(60000000)]; '' @
     ''f = open('' @ [CHR 0x27] @ ''workloads/txn_randint_workload'' @ wl @ [CHR 0x27] @ '', '' @ [CHR 0x27] @ ''w'' @ [CHR 0x27] @ ''); '' @
     ''[f.write(f'' @ [CHR 0x27] @ ''{ops[i]} {keys[i]}'' @ [CHR 0x5C] @ ''n'' @ [CHR 0x27] @ '') for i in range(60000000)]; '' @
     ''f.close(); print('' @ [CHR 0x27] @ ''Generated uniform workload'' @ [CHR 0x27] @ '')'' @ [CHR 0x22] @ ''; '' @ ''fi''"

definition dist_point ::
  "nat \<Rightarrow> common_params \<Rightarrow> exp_params \<Rightarrow> string \<Rightarrow> table \<times> table \<Rightarrow> string \<Rightarrow> (fig_state, table \<times> table) act" where
  "dist_point fuel C P dst = (\<lambda>(Y, B) method.
     let proj = project_dir C (project_of method); wl = dist_wl_name P dst; CN = fst (client_num P) in
     act_seq (extra_build C P method (value_size P) (cache_size P))
    (act_seq (if dst = ''uniform'' then sh_all (GENERATE_UNIFORM C P wl) CN else act_return ())
    (act_seq (sh_all (SPLIT_WORKLOADS C proj wl (key_type P) (client_num P)) CN)
    (act_bind (retry fuel (extra_measure P proj wl)) (\<lambda>(st, p50, p99).
     act_bind (act_lift (set_cell Y dst method (jtpt st))) (\<lambda>Y.
     act_bind (act_lift (set_cell B dst method (JNum p99))) (\<lambda>B.
     act_return (Y, B))))))))"

definition zero_row :: "string list \<Rightarrow> (string \<times> json) list" where
  "zero_row ms = foldl (\<lambda>r m. AList.update m (JNum 0) r) [] ms"

definition distributions :: "string list" where "distributions = [''zipfian'', ''uniform'']"

definition plot_uniform :: "string list \<Rightarrow> string list \<Rightarrow> table \<times> table \<Rightarrow> json" where
  "plot_uniform ms ds = (\<lambda>(Y, B). JDict [(''methods'', jstrs ms), (''distributions'', jstrs ds),
     (''Y_data'', jtable Y), (''BACKUP_data'', jtable B)])"

definition extra_uniform_main :: "nat \<Rightarrow> common_params \<Rightarrow> exp_params \<Rightarrow> string list \<Rightarrow> (fig_state, unit) act" where
  "extra_uniform_main fuel C P dists =
     act_bind (act_fold (\<lambda>YB dst. act_fold (dist_point fuel C P dst) YB (exp_methods P))
       (table_init dists (zero_row (exp_methods P)), table_init dists (zero_row (exp_methods P))) dists) (\<lambda>YB.
     save_json ''extra_uniform_dist.json'' (plot_uniform (exp_methods P) dists YB))"

section \<open>One value per axis point\<close>

definition all_len :: "('b \<Rightarrow> series) \<Rightarrow> string list \<Rightarrow> nat \<Rightarrow> 'b \<Rightarrow> bool" where
  "all_len get ms n b \<longleftrightarrow> (\<forall>m \<in> set ms. \<exists>l. map_of (get b) m = Some l \<and> length l = n)"

locale axis_sweep =
  fixes get :: "'b \<Rightarrow> series" and ms :: "string list" and row :: "'b \<Rightarrow> 'p \<Rightarrow> (fig_state, 'b) act"
  assumes row_adds: "distinct ms \<Longrightarrow> row b p s = (Inr b', s') \<Longrightarrow> all_len get ms n b \<Longrightarrow> all_len get ms (Suc n) b'"
begin

lemma axis_full:
  "distinct ms \<Longrightarrow> act_fold row b ps s = (Inr b', s') \<Longrightarrow> all_len get ms n b \<Longrightarrow> all_len get ms (n + length ps) b'"
proof (induction ps arbitrary: b s n)
  case (Cons p ps)
  then obtain c t where c: "row b p s = (Inr c, t)" "act_fold row c ps t = (Inr b', s')"
    by (auto simp: act_bind_Inr_iff)
  from Cons.IH[OF Cons.prems(1) c(2) row_adds[OF Cons.prems(1) c(1) Cons.prems(3)]] show ?case by simp
qed (simp add: act_return_iff)

end

text \<open>A point adds one value to each of the three series of its method.\<close>

lemma extra_point_appends:
  assumes "extra_point fuel C P val cache x b m s = (Inr b', s')"
  shows "grows fst m 1 b b'" "grows (fst \<circ> snd) m 1 b b'" "grows (snd \<circ> snd) m 1 b b'"
proof -
  from assms have "(\<exists>u. append_to (fst b) m u = Inr (fst b')) \<and>
    (\<exists>u. append_to (fst (snd b)) m u = Inr (fst (snd b'))) \<and>
    (\<exists>u. append_to (snd (snd b)) m u = Inr (snd (snd b')))"
    by (auto simp: extra_point_def act_dest Let_def split: prod.splits)
  then show "grows fst m 1 b b'" "grows (fst \<circ> snd) m 1 b b'" "grows (snd \<circ> snd) m 1 b b'"
    using append_to_get[of fst b m _ b'] append_to_get[of "fst \<circ> snd" b m _ b']
      append_to_get[of "snd \<circ> snd" b m _ b'] by auto
qed

interpretation extra_X: method_sweep fst id "\<lambda>_. 1" "extra_point fuel C P val cache x" for fuel C P val cache x
  by unfold_locales (metis extra_point_appends id_apply)

interpretation extra_Y: method_sweep "fst \<circ> snd" id "\<lambda>_. 1" "extra_point fuel C P val cache x" for fuel C P val cache x
  by unfold_locales (metis extra_point_appends id_apply)

interpretation extra_B: method_sweep "snd \<circ> snd" id "\<lambda>_. 1" "extra_point fuel C P val cache x" for fuel C P val cache x
  by unfold_locales (metis extra_point_appends id_apply)

lemma axis_sweepI:
  assumes "\<And>p. method_sweep get id (\<lambda>_. 1) (point p)" and "\<And>b p. row b p = act_fold (point p) b ms"
  shows "axis_sweep get ms row"
proof
  fix b p s b' s' n
  assume d: "distinct ms" and r: "row b p s = (Inr b', s')" and a: "all_len get ms n b"
  show "all_len get ms (Suc n) b'"
    using method_sweep.all_grow_len[OF assms(1), of p b ms s b' s' n] d r a by (simp add: assms(2) all_len_def)
qed

interpretation cache_X: axis_sweep fst "exp_methods P" "cache_row fuel C P" for fuel C P
  by (rule axis_sweepI[OF extra_X.method_sweep_axioms cache_row_def])

interpretation cache_Y: axis_sweep "fst \<circ> snd" "exp_methods P" "cache_row fuel C P" for fuel C P
  by (rule axis_sweepI[OF extra_Y.method_sweep_axioms cache_row_def])

interpretation cache_B: axis_sweep "snd \<circ> snd" "exp_methods P" "cache_row fuel C P" for fuel C P
  by (rule axis_sweepI[OF extra_B.method_sweep_axioms cache_row_def])

interpretation value_X: axis_sweep fst "exp_methods P" "value_row fuel C P" for fuel C P
  by (rule axis_sweepI[OF extra_X.method_sweep_axioms value_row_def])

interpretation value_Y: axis_sweep "fst \<circ> snd" "exp_methods P" "value_row fuel C P" for fuel C P
  by (rule axis_sweepI[OF extra_Y.method_sweep_axioms value_row_def])

interpretation value_B: axis_sweep "snd \<circ> snd" "exp_methods P" "value_row fuel C P" for fuel C P
  by (rule axis_sweepI[OF extra_B.method_sweep_axioms value_row_def])

lemma xyb_init_len:
  "all_len fst ms 0 (xyb_init ms)" "all_len (fst \<circ> snd) ms 0 (xyb_init ms)" "all_len (snd \<circ> snd) ms 0 (xyb_init ms)"
  by (simp_all add: all_len_def xyb_init_def series_init_get)

lemma all_len_full: "all_len get ms n b \<Longrightarrow> full_series (get b) ms (\<lambda>_. n)"
  by (auto simp: all_len_def intro: completeI)

lemma extra_cache_complete:
  assumes "extra_cache_main fuel C P sizes s = (Inr (), s')" and d: "distinct (exp_methods P)"
  shows "\<exists>X Y B. map_of (saved s') ''extra_cache_sensitivity.json'' =
      Some (plot_extra (exp_methods P) ''cache_sizes'' sizes (X, Y, B)) \<and>
    list_all (\<lambda>S. full_series S (exp_methods P) (\<lambda>_. length sizes)) [X, Y, B]"
proof -
  from assms(1) obtain X Y B t where r: "act_fold (cache_row fuel C P) (xyb_init (exp_methods P)) sizes s = (Inr (X, Y, B), t)"
    and s': "map_of (saved s') ''extra_cache_sensitivity.json'' = Some (plot_extra (exp_methods P) ''cache_sizes'' sizes (X, Y, B))"
    by (auto simp: extra_cache_main_def act_dest update_conv)
  have "full_series X (exp_methods P) (\<lambda>_. length sizes)" "full_series Y (exp_methods P) (\<lambda>_. length sizes)"
    "full_series B (exp_methods P) (\<lambda>_. length sizes)"
    using all_len_full[OF cache_X.axis_full[OF d r xyb_init_len(1)]]
      all_len_full[OF cache_Y.axis_full[OF d r xyb_init_len(2)]]
      all_len_full[OF cache_B.axis_full[OF d r xyb_init_len(3)]] by simp_all
  with s' show ?thesis by auto
qed

text \<open>
  When \<^verbatim>\<open>extra_value_size.py\<close> ends, every method has one value size, one throughput and one P99
  latency per measured size in the result file, although the loop over the methods is the inner one.\<close>

theorem extra_value_complete:
  assumes "extra_value_main fuel C P sizes s = (Inr (), s')" and "distinct (exp_methods P)"
  shows "\<exists>X Y B. map_of (saved s') ''extra_value_size.json'' =
      Some (plot_extra (exp_methods P) ''value_sizes'' sizes (X, Y, B)) \<and>
    list_all (\<lambda>S. full_series S (exp_methods P) (\<lambda>_. length sizes)) [X, Y, B]"
proof -
  note d = assms(2)
  from assms(1) obtain X Y B t where r: "act_fold (value_row fuel C P) (xyb_init (exp_methods P)) sizes s = (Inr (X, Y, B), t)"
    and s': "map_of (saved s') ''extra_value_size.json'' = Some (plot_extra (exp_methods P) ''value_sizes'' sizes (X, Y, B))"
    by (auto simp: extra_value_main_def act_dest update_conv)
  have "full_series X (exp_methods P) (\<lambda>_. length sizes)" "full_series Y (exp_methods P) (\<lambda>_. length sizes)"
    "full_series B (exp_methods P) (\<lambda>_. length sizes)"
    using all_len_full[OF value_X.axis_full[OF d r xyb_init_len(1)]]
      all_len_full[OF value_Y.axis_full[OF d r xyb_init_len(2)]]
      all_len_full[OF value_B.axis_full[OF d r xyb_init_len(3)]] by simp_all
  with s' show ?thesis by auto
qed

theorem extra_value_complete_witness:
  "\<exists>X Y B. map_of (saved (snd (extra_value_main 1 sample_options (sample_exp [''SMART'']) [8]
      (sample_lat_state (sample_avg_out ''joined.''))))) ''extra_value_size.json'' =
      Some (plot_extra (exp_methods (sample_exp [''SMART''])) ''value_sizes'' [8] (X, Y, B)) \<and>
    list_all (\<lambda>S. full_series S (exp_methods (sample_exp [''SMART''])) (\<lambda>_. length [8 :: int])) [X, Y, B]"
proof (rule extra_value_complete)
  have "fst (extra_value_main 1 sample_options (sample_exp [''SMART'']) [8]
      (sample_lat_state (sample_avg_out ''joined.''))) = Inr ()"
    by code_simp
  then show "extra_value_main 1 sample_options (sample_exp [''SMART'']) [8] (sample_lat_state (sample_avg_out ''joined.'')) =
    (Inr (), snd (extra_value_main 1 sample_options (sample_exp [''SMART'']) [8] (sample_lat_state (sample_avg_out ''joined.''))))"
    by (rule returns_pair)
  show "distinct (exp_methods (sample_exp [''SMART'']))" by (simp add: sample_exp_def)
qed

end
