(* ===== verification/Common_Json.thy ===== *)
theory Common_Json
  imports Fig_Common
begin

text \<open>
  \<^verbatim>\<open>construction/scripts/generate-common-json.py\<close>, which writes the cluster into
  \<^verbatim>\<open>exp/params/common.json\<close>, and the reading of that file by the experiment scripts.  A JSON file
  is the value \<^verbatim>\<open>json.load\<close> returns for it; \<^verbatim>\<open>memcached.conf\<close> is a text.  The arguments are those
  \<^verbatim>\<open>argparse\<close> hands over.
\<close>

section \<open>Generating the configuration\<close>

record gen_args =
  arg_home :: string
  arg_master :: string
  arg_ips :: string
  arg_out :: "string option"

record conf_state =
  json_files :: "(string \<times> json) list"
  memcached_conf :: "string option"

definition rstrip_slash :: "string \<Rightarrow> string" where
  "rstrip_slash s = rev (dropWhile (\<lambda>c. c = CHR ''/'') (rev s))"

definition listed_ips :: "string \<Rightarrow> string list" where
  "listed_ips s = filter (\<lambda>ip. ip \<noteq> []) (map py_strip (split_on (CHR '','') s))"

definition cluster_ips_of :: "gen_args \<Rightarrow> string list" where
  "cluster_ips_of a =
     (let ips = listed_ips (arg_ips a) in if arg_master a \<notin> set ips then arg_master a # ips else ips)"

definition load_json :: "string \<Rightarrow> (conf_state, json) act" where
  "load_json path s =
     (case map_of (json_files s) path of None \<Rightarrow> (Inl (FileNotFoundError path), s) | Some j \<Rightarrow> (Inr j, s))"

text \<open>\<^verbatim>\<open>cfg[k] = v\<close>: a list or a scalar has no string keys.\<close>

definition set_key :: "string \<Rightarrow> json \<Rightarrow> json \<Rightarrow> json py" where
  "set_key k v j = (case j of JDict d \<Rightarrow> Inr (JDict (AList.update k v d)) | _ \<Rightarrow> Inl TypeError)"

definition new_config :: "gen_args \<Rightarrow> json \<Rightarrow> json py" where
  "new_config a cfg =
     (let home = rstrip_slash (arg_home a) in
      py_bind (set_key ''home_dir'' (JStr home) cfg) (\<lambda>cfg.
      py_bind (set_key ''workloads_dir'' (JStr (home @ ''/CHIME/ycsb/workloads'')) cfg) (\<lambda>cfg.
      py_bind (set_key ''master_ip'' (JStr (arg_master a)) cfg) (\<lambda>cfg.
      set_key ''cluster_ips'' (jstrs (cluster_ips_of a)) cfg))))"

definition out_path :: "string \<Rightarrow> gen_args \<Rightarrow> string" where
  "out_path common a = (case arg_out a of None \<Rightarrow> common | Some p \<Rightarrow> if p = [] then common else p)"

definition generate_main :: "string \<Rightarrow> gen_args \<Rightarrow> (conf_state, unit) act" where
  "generate_main common a =
     act_bind (load_json common) (\<lambda>cfg.
     act_bind (act_lift (new_config a cfg)) (\<lambda>cfg.
     act_seq (act_modify (\<lambda>s. s\<lparr>json_files := AList.update (out_path common a) cfg (json_files s)\<rparr>))
    (act_bind (act_get memcached_conf) (\<lambda>m.
     if m = None then act_return ()
     else act_modify (\<lambda>s. s\<lparr>memcached_conf := Some (arg_master a @ [CHR 0x0A] @ ''11211'' @ [CHR 0x0A])\<rparr>)))))"

section \<open>Reading it\<close>

text \<open>
  What a script takes from the file, when every value has the type it has in the repository's
  \<^verbatim>\<open>common.json\<close>; \<open>None\<close> when a key is missing or its value has another type.
\<close>

fun json_str :: "json \<Rightarrow> string option" where
  "json_str (JStr s) = Some s"
| "json_str _ = None"

fun json_strs :: "json \<Rightarrow> string list option" where
  "json_strs (JList xs) = those (map json_str xs)"
| "json_strs _ = None"

fun json_options :: "json \<Rightarrow> (string \<times> string) list option" where
  "json_options (JDict d) = those (map (\<lambda>(k, v). map_option (Pair k) (json_str v)) d)"
| "json_options _ = None"

definition json_get :: "(json \<Rightarrow> 'a option) \<Rightarrow> json \<Rightarrow> string \<Rightarrow> 'a option" where
  "json_get f j k = (case j of JDict d \<Rightarrow> Option.bind (map_of d k) f | _ \<Rightarrow> None)"

definition load_common :: "json \<Rightarrow> (common_params \<times> string list \<times> string) option" where
  "load_common j =
     Option.bind (json_get json_str j ''home_dir'') (\<lambda>home.
     Option.bind (json_get json_str j ''workloads_dir'') (\<lambda>wd.
     Option.bind (json_get json_strs j ''cluster_ips'') (\<lambda>ips.
     Option.bind (json_get json_str j ''master_ip'') (\<lambda>master.
     Option.bind (json_get json_str j ''common_options'') (\<lambda>opts.
     Option.bind (json_get json_options j ''cmake_options'') (\<lambda>cmake.
     Some (\<lparr>home_dir = home, workloads_dir = wd, common_options = opts, cmake_options = cmake\<rparr>, ips, master)))))))"

section \<open>The generated file\<close>

lemma json_get_set:
  "set_key k v j = Inr j' \<Longrightarrow> json_get f j' k' = (if k' = k then f v else json_get f j k')"
  by (auto simp: set_key_def json_get_def update_conv split: json.splits)

lemma json_strs_jstrs [simp]: "json_strs (jstrs xs) = Some xs"
  by (induction xs) (auto simp: jstrs_def)

lemma list_index_found: "x \<in> set xs \<Longrightarrow> \<exists>k. list_index x xs = Inr k \<and> k < length xs \<and> xs ! k = x"
  by (induction xs) auto

lemma master_listed: "arg_master a \<in> set (cluster_ips_of a)"
  by (simp add: cluster_ips_of_def Let_def)

lemma new_config_get:
  assumes "new_config a j = Inr j'"
  shows "json_get f j' k =
    (if k = ''cluster_ips'' then f (jstrs (cluster_ips_of a))
     else if k = ''master_ip'' then f (JStr (arg_master a))
     else if k = ''workloads_dir'' then f (JStr (rstrip_slash (arg_home a) @ ''/CHIME/ycsb/workloads''))
     else if k = ''home_dir'' then f (JStr (rstrip_slash (arg_home a)))
     else json_get f j k)"
proof -
  from assms obtain j1 j2 j3 where
    "set_key ''home_dir'' (JStr (rstrip_slash (arg_home a))) j = Inr j1"
    "set_key ''workloads_dir'' (JStr (rstrip_slash (arg_home a) @ ''/CHIME/ycsb/workloads'')) j1 = Inr j2"
    "set_key ''master_ip'' (JStr (arg_master a)) j2 = Inr j3"
    "set_key ''cluster_ips'' (jstrs (cluster_ips_of a)) j3 = Inr j'"
    by (auto simp: new_config_def Let_def)
  note sets = this[THEN json_get_set]
  show ?thesis by (simp only: sets)
qed

lemma load_commonD:
  "load_common j = Some (C, ips, master) \<Longrightarrow>
   \<exists>d. j = JDict d \<and> json_get json_str j ''common_options'' = Some (common_options C) \<and>
     json_get json_options j ''cmake_options'' = Some (cmake_options C)"
  by (cases j) (auto simp: load_common_def json_get_def bind_eq_Some_conv)


definition sample_base :: json where
  "sample_base = JDict [(''home_dir'', JStr ''/x''), (''workloads_dir'', JStr ''/x/w''),
     (''cluster_ips'', jstrs [''1.1'']), (''master_ip'', JStr ''1.1''), (''common_options'', JStr ''-DA=on''),
     (''cmake_options'', JDict [(''CHIME'', JStr ''-DC=on'')])]"


end
