(* ===== verification/Smoke_Test.thy ===== *)
theory Smoke_Test
  imports Common_Json
begin

text \<open>
  \<^verbatim>\<open>exp/smoke_test.py\<close>: build CHIME on two nodes and run one workload, at most three times.  The
  script ends normally (exit code 0) exactly when an attempt measures a positive throughput;
  every other way to end is an exception or \<^verbatim>\<open>sys.exit(1)\<close>.

  Its loop is a bounded retry that catches \<^verbatim>\<open>Exception\<close> only.  \<^verbatim>\<open>FunctionTimedOut\<close> of the
  \<^verbatim>\<open>func_timeout\<close> package derives from \<^verbatim>\<open>BaseException\<close>, so it passes through this handler, while
  the figure scripts name it in theirs.
\<close>

section \<open>Bounded retries\<close>

text \<open>\<^verbatim>\<open>except Exception\<close>.\<close>

definition caught :: "py_exc \<Rightarrow> bool" where
  "caught e = (retried e \<and> e \<noteq> FunctionTimedOut)"

text \<open>\<^verbatim>\<open>for attempt in range(n): try: ...; break except Exception: ... else: ...\<close>\<close>

fun try_times :: "nat \<Rightarrow> ('s, 'a) act \<Rightarrow> ('s, 'a option) act" where
  "try_times 0 m = act_return None"
| "try_times (Suc n) m =
     act_catch (act_bind m (\<lambda>x. act_return (Some x))) (\<lambda>e. if caught e then try_times n m else act_raise e)"

inductive caught_fails :: "('s, 'a) act \<Rightarrow> 's \<Rightarrow> nat \<Rightarrow> 's \<Rightarrow> bool" for m where
  none: "caught_fails m s 0 s"
| more: "m s = (Inl e, s1) \<Longrightarrow> caught e \<Longrightarrow> caught_fails m s1 k t \<Longrightarrow> caught_fails m s (Suc k) t"

inductive_simps caught_fails_0 [simp]: "caught_fails m s 0 t"
inductive_cases caught_fails_SucE: "caught_fails m s (Suc k) t"

lemma try_times_step:
  "try_times (Suc n) m s = (case m s of (Inr x, t) \<Rightarrow> (Inr (Some x), t)
     | (Inl e, t) \<Rightarrow> if caught e then try_times n m t else (Inl e, t))"
  by (auto simp: act_catch_def act_bind_def act_defs split: prod.splits sum.splits)

lemma try_times_runs:
  assumes "caught_fails m s k t"
  shows "try_times (k + n) m s = try_times n m t"
  using assms
proof (induction rule: caught_fails.induct)
  case (more s e s1 k t)
  then show ?case by (simp add: try_times_step del: try_times.simps)
qed simp

lemma try_times_cases:
  "(\<exists>t. caught_fails m s n t \<and> try_times n m s = (Inr None, t)) \<or>
   (\<exists>k t x u. k < n \<and> caught_fails m s k t \<and> m t = (Inr x, u) \<and> try_times n m s = (Inr (Some x), u)) \<or>
   (\<exists>k t e u. k < n \<and> caught_fails m s k t \<and> m t = (Inl e, u) \<and> \<not> caught e \<and> try_times n m s = (Inl e, u))"
proof (induction n arbitrary: s)
  case 0
  then show ?case by (simp add: act_return_def)
next
  case (Suc n)
  show ?case
  proof (cases "m s")
    case (Pair r s1)
    show ?thesis
    proof (cases r)
      case (Inr x)
      with Pair have "try_times (Suc n) m s = (Inr (Some x), s1)" by (simp add: try_times_step del: try_times.simps)
      with Pair Inr show ?thesis by (intro disjI2 disjI1 exI[of _ 0] exI[of _ s]) (simp del: try_times.simps)
    next
      case (Inl e)
      show ?thesis
      proof (cases "caught e")
        case True
        with Pair Inl have st: "try_times (Suc n) m s = try_times n m s1"
          by (simp add: try_times_step del: try_times.simps)
        have up: "caught_fails m s1 k t \<Longrightarrow> caught_fails m s (Suc k) t" for k t
          using Pair Inl True caught_fails.more by metis
        from Suc.IH[of s1] show ?thesis unfolding st by (metis up Suc_less_eq)
      next
        case False
        with Pair Inl have "try_times (Suc n) m s = (Inl e, s1)" by (simp add: try_times_step del: try_times.simps)
        with Pair Inl False show ?thesis
          by (intro disjI2 exI[of _ 0] exI[of _ s] exI[of _ e] exI[of _ s1]) (simp del: try_times.simps)
      qed
    qed
  qed
qed

section \<open>The script\<close>

definition smoke_params :: exp_params where
  "smoke_params = \<lparr>exp_methods = [''CHIME''], workload_name = ''c'', target_epoch = 10, client_num = (1, 4), MN_num = 1,
     key_type = ''randint'', value_size = 8, cache_size = 100, span_sizes = [(''CHIME'', 64)],
     epsilon = 16, neighbor_size = 8, hotspot_buffer_size = 30\<rparr>"

text \<open>Both nodes take part in the test, so it is told of two although one is a compute node.\<close>

definition smoke_ycsb :: "string \<Rightarrow> string" where
  "smoke_ycsb proj = YCSB_TEST proj (workload_name smoke_params) (key_type smoke_params) (2, snd (client_num smoke_params))"

definition smoke_attempt :: "string \<Rightarrow> (fig_state, log_stats) act" where
  "smoke_attempt proj =
     act_bind (run_test proj ''ycsb_test'' (smoke_ycsb proj) 2 True) (\<lambda>lgs.
     act_bind (statistics (target_epoch smoke_params) True lgs) (\<lambda>st.
     act_seq (sh_all (KILL_PROCESS proj ''ycsb_test'') 2) (act_return st)))"

definition smoke_verdict :: "log_stats option \<Rightarrow> (fig_state, unit) act" where
  "smoke_verdict r =
     (case r of None \<Rightarrow> act_raise (SystemExit 1)
      | Some st \<Rightarrow> (case tpt st of None \<Rightarrow> act_raise TypeError
                    | Some v \<Rightarrow> if 0 < v then act_return () else act_raise (SystemExit 1)))"

definition smoke_build :: "common_params \<Rightarrow> string py" where
  "smoke_build C =
     (let P = smoke_params in
      py_bind (sed_config C ''CHIME'' 8 (value_size P) (cache_size P) (MN_num P) (Some 64)
        (other_params 16 (neighbor_size P) (hotspot_buffer_size P))) (\<lambda>sed_cmd.
      py_bind (cmake_option C ''CHIME'') (\<lambda>opt.
      Inr (BUILD_PROJECT (project_dir C ''CHIME'') sed_cmd (switch_on ''MIDDLE_TEST_EPOCH'' opt)))))"

text \<open>\<open>ssh\<close> is what the connections of \<^verbatim>\<open>CMDManager(cluster_ips, master_ip)\<close> will answer.\<close>

definition smoke_setup ::
  "common_params \<Rightarrow> string list \<Rightarrow> string \<Rightarrow> recv_event list list \<times> reply py list list \<times> sftp list \<Rightarrow> (fig_state, unit) act" where
  "smoke_setup C ips master = (\<lambda>(evs, rs, fts).
     if length ips < 2 then act_raise (SystemExit 1)
     else act_bind (act_lift (smoke_build C)) (\<lambda>BUILD.
       act_seq (\<lambda>s. case CMDManager_init ips master evs rs fts of (r, c) \<Rightarrow> (r, s\<lparr>cl := c\<rparr>))
      (act_seq (sh_all BUILD 2)
      (sh_all (SPLIT_WORKLOADS C (project_dir C ''CHIME'') (workload_name smoke_params) (key_type smoke_params)
         (client_num smoke_params)) (fst (client_num smoke_params))))))"

definition smoke_main ::
  "common_params \<Rightarrow> string list \<Rightarrow> string \<Rightarrow> recv_event list list \<times> reply py list list \<times> sftp list \<Rightarrow> (fig_state, unit) act" where
  "smoke_main C ips master ssh =
     act_seq (smoke_setup C ips master ssh)
     (act_bind (try_times 3 (smoke_attempt (project_dir C ''CHIME''))) smoke_verdict)"

section \<open>Verdicts\<close>

lemma smoke_verdict_ok: "smoke_verdict r s = (Inr (), s') \<longleftrightarrow> s' = s \<and> (\<exists>st v. r = Some st \<and> tpt st = Some v \<and> 0 < v)"
  by (auto simp: smoke_verdict_def act_return_iff act_raise_def split: option.splits)

lemma try_times_Some_iff:
  "try_times n m s = (Inr (Some x), u) \<longleftrightarrow> (\<exists>k < n. \<exists>t. caught_fails m s k t \<and> m t = (Inr x, u))"
proof
  assume "try_times n m s = (Inr (Some x), u)"
  with try_times_cases[of m s n] show "\<exists>k < n. \<exists>t. caught_fails m s k t \<and> m t = (Inr x, u)" by auto
next
  assume "\<exists>k < n. \<exists>t. caught_fails m s k t \<and> m t = (Inr x, u)"
  then obtain k t where k: "k < n" "caught_fails m s k t" "m t = (Inr x, u)" by blast
  then obtain j where "n = k + Suc j" using less_iff_Suc_add by auto
  with try_times_runs[OF k(2), of "Suc j"] k(3) show "try_times n m s = (Inr (Some x), u)"
    by (simp add: try_times_step del: try_times.simps)
qed

text \<open>
  C26: The smoke test exits with code 0 exactly when the setup succeeds and one of at most three
  attempts, all earlier ones having failed with an ordinary exception, measures a positive
  throughput.\<close>

theorem smoke_test_passes_iff:
  "smoke_main C ips master ssh s = (Inr (), u) \<longleftrightarrow>
   (\<exists>t0 k t st v. smoke_setup C ips master ssh s = (Inr (), t0) \<and> k < 3 \<and>
      caught_fails (smoke_attempt (project_dir C ''CHIME'')) t0 k t \<and>
      smoke_attempt (project_dir C ''CHIME'') t = (Inr st, u) \<and> tpt st = Some v \<and> 0 < v)"
proof -
  have "smoke_main C ips master ssh s = (Inr (), u) \<longleftrightarrow>
    (\<exists>t0 st v. smoke_setup C ips master ssh s = (Inr (), t0) \<and>
      try_times 3 (smoke_attempt (project_dir C ''CHIME'')) t0 = (Inr (Some st), u) \<and> tpt st = Some v \<and> 0 < v)"
    by (auto simp: smoke_main_def act_bind_Inr_iff act_seq_Inr_iff smoke_verdict_ok)
  then show ?thesis unfolding try_times_Some_iff by blast
qed

text \<open>
  An attempt of the smoke test that runs into the time limit of a remote command is not
  retried: the script dies with \<^verbatim>\<open>FunctionTimedOut\<close>, where the retry loop of the figure scripts
  would try again.\<close>

theorem smoke_timeout_not_retried:
  assumes "smoke_setup C ips master ssh s = (Inr (), t)"
    and "smoke_attempt (project_dir C ''CHIME'') t = (Inl FunctionTimedOut, u)"
  shows "smoke_main C ips master ssh s = (Inl FunctionTimedOut, u) \<and>
    retry (Suc n) (smoke_attempt (project_dir C ''CHIME'')) t = retry n (smoke_attempt (project_dir C ''CHIME'')) u"
proof
  have "try_times (Suc (Suc (Suc 0))) (smoke_attempt (project_dir C ''CHIME'')) t = (Inl FunctionTimedOut, u)"
    using assms(2) by (simp add: try_times_step caught_def del: try_times.simps)
  with assms(1) show "smoke_main C ips master ssh s = (Inl FunctionTimedOut, u)"
    by (simp add: smoke_main_def act_seq_def act_bind_def numeral_3_eq_3 del: try_times.simps)
  show "retry (Suc n) (smoke_attempt (project_dir C ''CHIME'')) t = retry n (smoke_attempt (project_dir C ''CHIME'')) u"
    using assms(2) by (simp add: act_catch_def retried_def)
qed

definition silent_ssh :: "recv_event list list \<times> reply py list list \<times> sftp list" where
  "silent_ssh = ([[Msg ''$''], [Msg ''$'']], replicate 2 (replicate 5 (Inr (Inr [], Inr []))), [])"

theorem smoke_timeout_not_retried_witness:
  "fst (smoke_main sample_common [''a'', ''b''] ''a'' silent_ssh (sample_state 0 [])) = Inl FunctionTimedOut"
proof -
  let ?s = "smoke_setup sample_common [''a'', ''b''] ''a'' silent_ssh (sample_state 0 [])"
  let ?a = "smoke_attempt (project_dir sample_common ''CHIME'') (snd ?s)"
  have "fst ?s = Inr ()" by code_simp
  then have 1: "?s = (Inr (), snd ?s)" by (simp add: prod_eq_iff)
  have "fst ?a = Inl FunctionTimedOut" by code_simp
  then have 2: "?a = (Inl FunctionTimedOut, snd ?a)" by (simp add: prod_eq_iff)
  from smoke_timeout_not_retried[OF 1 2, of 0] show ?thesis by (metis fst_conv)
qed

end
