(* ===== verification/Surrogate.thy ===== *)
theory Surrogate
  imports Common_Json
begin

text \<open>
  \<^verbatim>\<open>exp/fig_14_surrogate.py\<close>: run the benchmark once in its reporting mode, read the cache sizes from
  the \<open>[stats] key = N\<close> lines of its error stream, and merge the result into a JSON file keyed by
  method and transport.  The benchmark process, the clock and \<^verbatim>\<open>git\<close> are parameters.
\<close>

section \<open>Statistics lines\<close>

definition stats_mark :: string where "stats_mark = ''[stats]''"

text \<open>\<^verbatim>\<open>STATS_PATTERN\<close> at the start of a text.\<close>

definition match_stats :: "string \<Rightarrow> (string \<times> string) option" where
  "match_stats s =
     (if \<not> py_startswith s stats_mark then None
      else
        let r = drop (length stats_mark) s; r1 = dropWhile py_space r;
            key = takeWhile word_char r1; r2 = dropWhile py_space (dropWhile word_char r1) in
        if r1 = r \<or> key = [] then None
        else case r2 of [] \<Rightarrow> None
          | c # r3 \<Rightarrow>
            let val = takeWhile is_digit (dropWhile py_space r3) in
            if c = CHR ''='' \<and> val \<noteq> [] then Some (key, val) else None)"

fun search_stats :: "string \<Rightarrow> (string \<times> string) option" where
  "search_stats [] = None"
| "search_stats (c # cs) = (case match_stats (c # cs) of None \<Rightarrow> search_stats cs | Some m \<Rightarrow> Some m)"

definition parse_stats :: "string \<Rightarrow> (string \<times> nat) list" where
  "parse_stats stderr =
     foldl (\<lambda>out line. case search_stats line of None \<Rightarrow> out | Some (key, val) \<Rightarrow> AList.update key (digits_val val) out)
       [] (splitlines stderr)"

section \<open>One measurement\<close>

record sur_args =
  sur_method :: string
  sur_transport :: string
  sur_ycsb :: string
  sur_workload :: string
  sur_keys :: int
  sur_out :: string
  sur_threads :: int

text \<open>What \<^verbatim>\<open>subprocess.run\<close> gives: \<^verbatim>\<open>stderr\<close> and exit code, or an exception such as the time limit.\<close>

record sur_env =
  path_exists :: "string \<Rightarrow> bool"
  benchmark :: "string list \<Rightarrow> (string \<times> int) py"
  utcnow :: string
  rev_parse :: "string py"

definition git_commit :: "sur_env \<Rightarrow> string py" where
  "git_commit E = (case rev_parse E of
       Inr out \<Rightarrow> Inr (let t = py_strip out in if t = [] then ''unknown'' else t)
     | Inl (FileNotFoundError p) \<Rightarrow> Inr ''unknown''
     | Inl e \<Rightarrow> Inl e)"

definition get_stat :: "(string \<times> nat) list \<Rightarrow> string \<Rightarrow> nat" where
  "get_stat stats k = (case map_of stats k of None \<Rightarrow> 0 | Some n \<Rightarrow> n)"

definition sur_total :: "(string \<times> nat) list \<Rightarrow> nat" where
  "sur_total stats = (case map_of stats ''total_cache_bytes'' of
     None \<Rightarrow> get_stat stats ''internal_cache_bytes'' + get_stat stats ''leaf_cache_bytes'' | Some n \<Rightarrow> n)"

definition sur_cmd :: "sur_args \<Rightarrow> string list" where
  "sur_cmd a = [sur_ycsb a, ''1'', show_int (sur_threads a), ''1'', ''randint'', ''c'', ''--stats-only'', ''--load'', sur_workload a]"

definition sur_result :: "sur_args \<Rightarrow> sur_env \<Rightarrow> (string \<times> nat) list \<Rightarrow> string \<Rightarrow> int \<Rightarrow> json" where
  "sur_result a E stats commit rc = JDict
     [(''dataset_keys'', jint (sur_keys a)),
      (''internal_cache_bytes'', jint (int (get_stat stats ''internal_cache_bytes''))),
      (''leaf_cache_bytes'', jint (int (get_stat stats ''leaf_cache_bytes''))),
      (''total_cache_bytes'', jint (int (sur_total stats))),
      (''measured_at'', JStr (utcnow E @ ''Z'')), (''commit'', JStr commit),
      (''method'', JStr (sur_method a)), (''transport'', JStr (sur_transport a)), (''exit_code'', jint rc)]"

definition sur_run_one :: "sur_args \<Rightarrow> sur_env \<Rightarrow> (json \<times> int) py" where
  "sur_run_one a E =
     (if \<not> path_exists E (sur_ycsb a) then Inl (FileNotFoundError (sur_ycsb a))
      else if \<not> path_exists E (sur_workload a) then Inl (FileNotFoundError (sur_workload a))
      else py_bind (benchmark E (sur_cmd a)) (\<lambda>(stderr, rc).
        py_bind (git_commit E) (\<lambda>commit. Inr (sur_result a E (parse_stats stderr) commit rc, rc))))"

section \<open>Merging\<close>

text \<open>\<^verbatim>\<open>data.setdefault(method, {})[transport] = result\<close>.\<close>

definition merge_result :: "string \<Rightarrow> string \<Rightarrow> json \<Rightarrow> json \<Rightarrow> json py" where
  "merge_result m t res data =
     (case data of
        JDict d \<Rightarrow>
          (case map_of d m of
             None \<Rightarrow> Inr (JDict (AList.update m (JDict [(t, res)]) d))
           | Some row \<Rightarrow> py_bind (set_key t res row) (\<lambda>row. Inr (JDict (AList.update m row d))))
      | _ \<Rightarrow> Inl (Exception ''AttributeError''))"

definition sur_main :: "sur_args \<Rightarrow> sur_env \<Rightarrow> (conf_state, int) act" where
  "sur_main a E =
     act_bind (act_lift (sur_run_one a E)) (\<lambda>(result, rc).
     act_bind (act_get (\<lambda>s. map_of (json_files s) (sur_out a))) (\<lambda>old.
     act_bind (act_lift (merge_result (sur_method a) (sur_transport a) result (case old of None \<Rightarrow> JDict [] | Some j \<Rightarrow> j))) (\<lambda>data.
     act_seq (act_modify (\<lambda>s. s\<lparr>json_files := AList.update (sur_out a) data (json_files s)\<rparr>))
     (act_return (if rc = 0 then 0 else 1)))))"

text \<open>\<^verbatim>\<open>data[m][t]\<close>.\<close>

definition entry :: "json \<Rightarrow> string \<Rightarrow> string \<Rightarrow> json option" where
  "entry data m t = json_get (\<lambda>row. json_get Some row t) data m"

lemma merge_entry:
  assumes "merge_result m t res data = Inr data'"
  shows "entry data' m' t' = (if m' = m \<and> t' = t then Some res else entry data m' t')"
  using assms
  by (auto simp: merge_result_def entry_def json_get_def set_key_def update_conv
      split: json.splits option.splits if_splits)

text \<open>
  C28: A run of the surrogate that returns has written its result under its method and transport, has
  kept every other measurement of the file and every other file, and exits with 0 exactly when the
  benchmark did.\<close>

theorem surrogate_merges:
  assumes "sur_main a E s = (Inr ec, s')"
  shows "\<exists>res rc data. sur_run_one a E = Inr (res, rc) \<and> (ec = 0 \<longleftrightarrow> rc = 0) \<and>
    map_of (json_files s') (sur_out a) = Some data \<and> entry data (sur_method a) (sur_transport a) = Some res \<and>
    (\<forall>m t old. (m, t) \<noteq> (sur_method a, sur_transport a) \<longrightarrow> map_of (json_files s) (sur_out a) = Some old \<longrightarrow>
       entry data m t = entry old m t) \<and>
    (\<forall>p. p \<noteq> sur_out a \<longrightarrow> map_of (json_files s') p = map_of (json_files s) p)"
proof -
  let ?old = "map_of (json_files s) (sur_out a)"
  from assms obtain res rc data where r: "sur_run_one a E = Inr (res, rc)" "ec = (if rc = 0 then 0 else 1)"
    and m: "merge_result (sur_method a) (sur_transport a) res (case ?old of None \<Rightarrow> JDict [] | Some j \<Rightarrow> j) = Inr data"
    and s': "s' = s\<lparr>json_files := AList.update (sur_out a) data (json_files s)\<rparr>"
    by (auto simp: sur_main_def act_dest act_get_def act_modify_def)
  show ?thesis
    using r merge_entry[OF m] by (intro exI[of _ res] exI[of _ rc] exI[of _ data]) (auto simp: s' update_conv)
qed

section \<open>Reading back what was printed\<close>

definition stats_line :: "string \<times> nat \<Rightarrow> string" where
  "stats_line = (\<lambda>(k, n). stats_mark @ '' '' @ k @ '' = '' @ show_nat n)"

definition is_word :: "string \<Rightarrow> bool" where
  "is_word k \<longleftrightarrow> k \<noteq> [] \<and> list_all word_char k"

lemma word_not_space [simp]: "word_char c \<Longrightarrow> \<not> py_space c"
  by (auto simp: word_char_def py_space_def Let_def)

lemma word_not_break: "word_char c \<Longrightarrow> \<not> line_break c"
  by (auto simp: word_char_def line_break_def Let_def)

lemma match_stats_line:
  assumes "is_word k"
  shows "match_stats (stats_line (k, n)) = Some (k, show_nat n)"
proof -
  have eq: "\<not> word_char (CHR ''='')" "\<not> py_space (CHR ''='')" "\<not> word_char (CHR '' '')" "\<not> is_digit (CHR '' '')"
    by (simp_all add: word_char_def py_space_def is_digit_def code_def Let_def)
  obtain c cs where k: "k = c # cs" "word_char c" using assms by (cases k) (auto simp: is_word_def)
  obtain d ds where n: "show_nat n = d # ds" "is_digit d" using show_nat_nonempty[of n] show_nat_hd by (cases "show_nat n") auto
  have 1: "dropWhile py_space ('' '' @ k @ z) = k @ z" for z using k by simp
  have 2: "takeWhile word_char (k @ '' = '' @ z) = k" "dropWhile word_char (k @ '' = '' @ z) = '' = '' @ z" for z
    using assms eq(3) by (intro scan_while; simp add: is_word_def)+
  have 3: "dropWhile py_space ('' = '' @ z) = ''= '' @ z" "dropWhile py_space ('' '' @ show_nat n) = show_nat n" for z
    using eq n by simp_all
  have 4: "takeWhile is_digit (show_nat n) = show_nat n"
    using show_nat_digits[of n] by (simp add: takeWhile_eq_all_conv)
  have s: "drop (length stats_mark) (stats_line (k, n)) = '' '' @ k @ '' = '' @ show_nat n"
    "py_startswith (stats_line (k, n)) stats_mark"
    by (simp_all add: stats_line_def py_startswith_def)
  have r: "k @ '' = '' @ show_nat n \<noteq> '' '' @ k @ '' = '' @ show_nat n" using k by auto
  show ?thesis unfolding match_stats_def s(1) Let_def 1 2 3
    using s(2) r k(1) 3(2) 4 n(1) by simp
qed

lemma search_stats_line:
  assumes "is_word k"
  shows "search_stats (stats_line (k, n)) = Some (k, show_nat n)"
proof -
  obtain cs where c: "stats_line (k, n) = CHR ''['' # cs" by (simp add: stats_line_def stats_mark_def)
  with match_stats_line[OF assms, of n] show ?thesis by simp
qed

lemma stats_line_breaks: "is_word k \<Longrightarrow> \<forall>c \<in> set (stats_line (k, n)). \<not> line_break c"
proof -
  assume "is_word k"
  moreover have "is_digit c \<Longrightarrow> \<not> line_break c" for c by (auto simp: is_digit_def line_break_def)
  moreover have "\<forall>c \<in> set (stats_mark @ '' = ''). \<not> line_break c" by (simp add: stats_mark_def line_break_def code_def)
  ultimately show ?thesis
    using show_nat_digits[of n] by (auto simp: stats_line_def is_word_def list_all_iff word_not_break)
qed

text \<open>
  From an error stream of \<open>[stats] key = N\<close> lines the parser recovers exactly the printed numbers,
  in the order of the keys' first appearance and with the last number of a repeated key.\<close>

theorem parse_stats_lines:
  assumes "list_all (\<lambda>(k, n). is_word k) ms"
  shows "parse_stats (concat (map (\<lambda>m. stats_line m @ [CHR 0x0A]) ms)) = foldl (\<lambda>d (k, n). AList.update k n d) [] ms"
proof -
  have "splitlines (concat (map (\<lambda>m. stats_line m @ [CHR 0x0A]) ms)) = map stats_line ms"
    using assms
  proof (induction ms)
    case (Cons m ms)
    then show ?case using splitlines_line[of "stats_line m"] stats_line_breaks by (cases m) auto
  qed simp
  moreover have "foldl (\<lambda>out line. case search_stats line of None \<Rightarrow> out | Some (key, val) \<Rightarrow> AList.update key (digits_val val) out)
      d (map stats_line ms) = foldl (\<lambda>d (k, n). AList.update k n d) d ms" for d
    using assms by (induction ms arbitrary: d) (auto simp: search_stats_line split: prod.splits)
  ultimately show ?thesis by (simp add: parse_stats_def)
qed

theorem parse_stats_lines_witness:
  "parse_stats (concat (map (\<lambda>m. stats_line m @ [CHR 0x0A]) [(''leaf_cache_bytes'', 12), (''x'', 3), (''leaf_cache_bytes'', 9)])) =
   [(''leaf_cache_bytes'', 9), (''x'', 3)]"
proof -
  have "list_all (\<lambda>(k, n). is_word k) [(''leaf_cache_bytes'', 12::nat), (''x'', 3), (''leaf_cache_bytes'', 9)]" by code_simp
  from parse_stats_lines[OF this] show ?thesis by simp
qed

definition sample_sur_args :: sur_args where
  "sample_sur_args = \<lparr>sur_method = ''CHIME'', sur_transport = ''cxl'', sur_ycsb = ''y'', sur_workload = ''w'',
     sur_keys = 6, sur_out = ''o'', sur_threads = 8\<rparr>"

definition sample_sur_env :: sur_env where
  "sample_sur_env = \<lparr>path_exists = \<lambda>_. True, benchmark = \<lambda>_. Inr (''[stats] leaf_cache_bytes = 12'', 0),
     utcnow = ''t'', rev_parse = Inr ''abc''\<rparr>"

definition sample_sur_data :: json where
  "sample_sur_data = JDict [(''CHIME'', JDict [(''rdma_single'', JNum 1)])]"

theorem surrogate_merges_witness:
  "\<exists>data. map_of (json_files (snd (sur_main sample_sur_args sample_sur_env
      \<lparr>json_files = [(''o'', sample_sur_data)], memcached_conf = None\<rparr>))) ''o'' = Some data \<and>
    entry data ''CHIME'' ''rdma_single'' = Some (JNum 1) \<and> entry data ''CHIME'' ''cxl'' \<noteq> None"
proof -
  let ?s = "\<lparr>json_files = [(''o'', sample_sur_data)], memcached_conf = None\<rparr>"
  let ?r = "sur_main sample_sur_args sample_sur_env ?s"
  have "fst ?r = Inr 0" by code_simp
  then have "?r = (Inr 0, snd ?r)" by (simp add: prod_eq_iff)
  from surrogate_merges[OF this] obtain res data where d: "map_of (json_files (snd ?r)) ''o'' = Some data"
    "entry data ''CHIME'' ''cxl'' = Some res"
    "\<And>m t old. (m, t) \<noteq> (''CHIME'', ''cxl'') \<Longrightarrow> map_of (json_files ?s) ''o'' = Some old \<Longrightarrow> entry data m t = entry old m t"
    unfolding sample_sur_args_def by (auto simp: sample_sur_args_def)
  have "entry sample_sur_data ''CHIME'' ''rdma_single'' = Some (JNum 1)"
    by (simp add: entry_def sample_sur_data_def json_get_def)
  with d d(3)[of "''CHIME''" "''rdma_single''" sample_sur_data] show ?thesis by simp
qed

end
