(* ===== verification/Set_Key.thy ===== *)
theory Set_Key
  imports Py_State
begin

text \<open>
  \<^verbatim>\<open>script/setKey.py\<close>: every node gets a key pair, the public keys are collected on the machine that
  runs the script, appended to the first node's \<^verbatim>\<open>authorized_keys\<close>, and the result is copied to
  all nodes.  \<^verbatim>\<open>ssh\<close> and \<^verbatim>\<open>scp\<close> are programs outside the repository: \<open>shell\<close> is what \<^verbatim>\<open>os.system\<close> does
  with a command, and \<open>tools_work\<close> states what they do when every node answers.
\<close>

section \<open>Configuration\<close>

text \<open>\<^verbatim>\<open>SERVER_LIST\<close> as shipped.\<close>

definition default_servers :: "string list" where
  "default_servers = map (\<lambda>n. ''clnode'' @ n @ ''.clemson.cloudlab.us'')
     [''279'', ''281'', ''264'', ''259'', ''267'', ''271'', ''278'', ''270'', ''282'', ''274'']"

text \<open>\<^verbatim>\<open>os.environ.get(k)\<close> that is set and not empty.\<close>

definition env_set :: "(string \<times> string) list \<Rightarrow> string \<Rightarrow> string option" where
  "env_set env k = (case map_of env k of None \<Rightarrow> None | Some v \<Rightarrow> if v = [] then None else Some v)"

definition setkey_user :: "(string \<times> string) list \<Rightarrow> string" where
  "setkey_user env =
     (case env_set env ''SETKEY_USER'' of Some u \<Rightarrow> u
      | None \<Rightarrow> (case map_of env ''USER'' of None \<Rightarrow> ''xuchuan'' | Some u \<Rightarrow> u))"

definition nonblank :: "string list \<Rightarrow> string list" where
  "nonblank xs = filter (\<lambda>s. s \<noteq> []) (map py_strip xs)"

definition setkey_servers :: "(string \<times> string) list \<Rightarrow> fs \<Rightarrow> string list py" where
  "setkey_servers env files =
     (case env_set env ''NODES'' of Some v \<Rightarrow> Inr (nonblank (split_on (CHR '','') v))
      | None \<Rightarrow> (case env_set env ''NODES_FILE'' of None \<Rightarrow> Inr default_servers
         | Some p \<Rightarrow> (case files p of None \<Rightarrow> Inl (FileNotFoundError p) | Some t \<Rightarrow> Inr (nonblank (readlines t)))))"

section \<open>Distribution\<close>

record sites =
  local_fs :: fs
  node_fs :: "string \<Rightarrow> fs"

type_synonym shell = "string \<Rightarrow> sites \<Rightarrow> int \<times> sites"

definition os_system :: "shell \<Rightarrow> string \<Rightarrow> (sites, int) act" where
  "os_system shell cmd w = (case shell cmd w of (rc, w') \<Rightarrow> (Inr rc, w'))"

definition keygen_cmd :: "string \<Rightarrow> string \<Rightarrow> string" where
  "keygen_cmd user s = ''ssh '' @ user @ ''@'' @ s @ '' -o StrictHostKeyChecking=no '' @ [CHR 0x22] @
     ''ssh-keygen -t rsa -b 2048 -N '' @ [CHR 0x27, CHR 0x27] @ '' -f ~/.ssh/id_rsa'' @ [CHR 0x22]"

definition fetch_pub_cmd :: "string \<Rightarrow> string \<Rightarrow> string" where
  "fetch_pub_cmd user s = ''scp -o StrictHostKeyChecking=no '' @ user @ ''@'' @ s @ '':.ssh/id_rsa.pub ./''"

definition fetch_auth_cmd :: "string \<Rightarrow> string \<Rightarrow> string" where
  "fetch_auth_cmd user s = ''scp -o StrictHostKeyChecking=no '' @ user @ ''@'' @ s @ '':.ssh/authorized_keys ./''"

definition push_auth_cmd :: "string \<Rightarrow> string \<Rightarrow> string" where
  "push_auth_cmd user s = ''scp -o StrictHostKeyChecking=no ./authorized_keys '' @ user @ ''@'' @ s @ '':.ssh/authorized_keys''"

definition first_line :: "string \<Rightarrow> string" where
  "first_line t = (case readlines t of [] \<Rightarrow> [] | l # _ \<Rightarrow> l)"

definition collect_key :: "shell \<Rightarrow> string \<Rightarrow> string list \<Rightarrow> string \<Rightarrow> (sites, string list) act" where
  "collect_key shell user keys s =
     act_seq (os_system shell (fetch_pub_cmd user s))
    (act_bind (act_get (\<lambda>w. local_fs w ''id_rsa.pub'')) (\<lambda>t.
     case t of None \<Rightarrow> act_return keys | Some t \<Rightarrow> act_return (keys @ [first_line t])))"

definition append_file :: "string \<Rightarrow> string \<Rightarrow> (sites, unit) act" where
  "append_file p t = act_modify (\<lambda>w. w\<lparr>local_fs := (local_fs w)(p \<mapsto>
     (case local_fs w p of None \<Rightarrow> [] | Some old \<Rightarrow> old) @ t)\<rparr>)"

definition setkey_main :: "shell \<Rightarrow> string \<Rightarrow> string list \<Rightarrow> (sites, unit) act" where
  "setkey_main shell user servers =
     act_seq (act_for servers (\<lambda>s. act_bind (os_system shell (keygen_cmd user s)) (\<lambda>_. act_return ())))
    (act_bind (act_fold (collect_key shell user) [] servers) (\<lambda>pub_key_list.
     act_bind (act_lift (py_index servers 0)) (\<lambda>s0.
     act_seq (os_system shell (fetch_auth_cmd user s0))
    (act_seq (append_file ''authorized_keys'' (concat pub_key_list))
    (act_for servers (\<lambda>s. act_bind (os_system shell (push_auth_cmd user s)) (\<lambda>_. act_return ())))))))"

section \<open>All nodes answer\<close>

text \<open>
  \<^verbatim>\<open>ssh\<close> leaves the local files alone, \<^verbatim>\<open>scp\<close> of a remote file writes its contents to the working
  directory, and \<^verbatim>\<open>scp\<close> to a node writes the file there; \<open>pub s\<close> is the public key file of node \<open>s\<close>.
\<close>

definition put_local :: "string \<Rightarrow> string \<Rightarrow> sites \<Rightarrow> sites" where
  "put_local p t w = w\<lparr>local_fs := (local_fs w)(p \<mapsto> t)\<rparr>"

definition put_node :: "string \<Rightarrow> string option \<Rightarrow> sites \<Rightarrow> sites" where
  "put_node s t w = w\<lparr>node_fs := (node_fs w)(s := (node_fs w s)(''.ssh/authorized_keys'' := t))\<rparr>"

definition tools_work :: "shell \<Rightarrow> string \<Rightarrow> string list \<Rightarrow> (string \<Rightarrow> string) \<Rightarrow> string \<Rightarrow> bool" where
  "tools_work shell user servers pub auth \<longleftrightarrow> (\<forall>s \<in> set servers. \<forall>w.
     snd (shell (keygen_cmd user s) w) = w \<and>
     snd (shell (fetch_pub_cmd user s) w) = put_local ''id_rsa.pub'' (pub s) w \<and>
     snd (shell (fetch_auth_cmd user s) w) = put_local ''authorized_keys'' auth w \<and>
     snd (shell (push_auth_cmd user s) w) = put_node s (local_fs w ''authorized_keys'') w)"

lemma os_system_eq: "snd (shell cmd w) = w' \<Longrightarrow> \<exists>rc. os_system shell cmd w = (Inr rc, w')"
  by (auto simp: os_system_def split: prod.splits)

lemma run_all_cmds:
  assumes "\<And>s w. s \<in> set ss \<Longrightarrow> snd (shell (cmd s) w) = f s w"
  shows "act_for ss (\<lambda>s. act_bind (os_system shell (cmd s)) (\<lambda>_. act_return ())) w = (Inr (), fold f ss w)"
  using assms
proof (induction ss arbitrary: w)
  case (Cons s ss)
  obtain rc where "os_system shell (cmd s) w = (Inr rc, f s w)"
    using os_system_eq[of shell "cmd s" w "f s w"] Cons.prems by auto
  with Cons show ?case by (simp add: act_seq_def act_bind_def act_return_def)
qed (simp add: act_return_def)

lemma collect_keys:
  assumes "\<And>s w. s \<in> set ss \<Longrightarrow> snd (shell (fetch_pub_cmd user s) w) = put_local ''id_rsa.pub'' (pub s) w"
  shows "act_fold (collect_key shell user) ks ss w =
    (Inr (ks @ map (\<lambda>s. first_line (pub s)) ss), fold (\<lambda>s. put_local ''id_rsa.pub'' (pub s)) ss w)"
  using assms
proof (induction ss arbitrary: ks w)
  case (Cons s ss)
  obtain rc where "os_system shell (fetch_pub_cmd user s) w = (Inr rc, put_local ''id_rsa.pub'' (pub s) w)"
    using os_system_eq[of shell "fetch_pub_cmd user s" w] Cons.prems by auto
  then have "collect_key shell user ks s w = (Inr (ks @ [first_line (pub s)]), put_local ''id_rsa.pub'' (pub s) w)"
    by (simp add: collect_key_def act_seq_def act_bind_def act_get_def act_return_def put_local_def)
  with Cons show ?case by (simp add: act_bind_def)
qed (simp add: act_return_def)

lemma fold_id: "fold (\<lambda>s w. w) ss w = w"
  by (induction ss) auto

lemma fold_push:
  assumes "local_fs w ''authorized_keys'' = Some t"
  shows "local_fs (fold (\<lambda>s w. put_node s (local_fs w ''authorized_keys'') w) ss w) = local_fs w \<and>
    node_fs (fold (\<lambda>s w. put_node s (local_fs w ''authorized_keys'') w) ss w) =
      (\<lambda>s. if s \<in> set ss then (node_fs w s)(''.ssh/authorized_keys'' \<mapsto> t) else node_fs w s)"
  using assms
proof (induction ss arbitrary: w)
  case (Cons s ss)
  have "local_fs (put_node s (local_fs w ''authorized_keys'') w) ''authorized_keys'' = Some t"
    using Cons.prems by (simp add: put_node_def)
  from Cons.IH[OF this] Cons.prems show ?case by (auto simp: put_node_def fun_eq_iff)
qed simp


text \<open>A shell on which every node answers.\<close>

definition answering_shell :: "string \<Rightarrow> string list \<Rightarrow> (string \<Rightarrow> string) \<Rightarrow> string \<Rightarrow> shell" where
  "answering_shell user servers pub auth cmd w =
     (case find (\<lambda>s. cmd = fetch_pub_cmd user s) servers of Some s \<Rightarrow> (0, put_local ''id_rsa.pub'' (pub s) w)
      | None \<Rightarrow> if list_ex (\<lambda>s. cmd = fetch_auth_cmd user s) servers then (0, put_local ''authorized_keys'' auth w)
        else (case find (\<lambda>s. cmd = push_auth_cmd user s) servers of
                Some s \<Rightarrow> (0, put_node s (local_fs w ''authorized_keys'') w) | None \<Rightarrow> (0, w)))"

definition sample_pub :: "string \<Rightarrow> string" where
  "sample_pub s = ''ssh-rsa '' @ s @ [CHR 0x0A]"

lemma commands_differ:
  "keygen_cmd user s \<noteq> fetch_pub_cmd user s'" "keygen_cmd user s \<noteq> fetch_auth_cmd user s'" "keygen_cmd user s \<noteq> push_auth_cmd user s'"
  by (simp_all add: keygen_cmd_def fetch_pub_cmd_def fetch_auth_cmd_def push_auth_cmd_def)

lemma sample_commands_differ:
  "list_all (\<lambda>s. list_all (\<lambda>s'. fetch_auth_cmd ''u'' s \<noteq> fetch_pub_cmd ''u'' s' \<and> push_auth_cmd ''u'' s \<noteq> fetch_pub_cmd ''u'' s' \<and>
     push_auth_cmd ''u'' s \<noteq> fetch_auth_cmd ''u'' s' \<and> (s = s' \<or> fetch_pub_cmd ''u'' s \<noteq> fetch_pub_cmd ''u'' s' \<and>
     push_auth_cmd ''u'' s \<noteq> push_auth_cmd ''u'' s')) [''n'', ''k'']) [''n'', ''k'']"
  by code_simp


text \<open>
  A node from which the key cannot be copied: the file of the node before it is still in the working
  directory, and its key is recorded a second time instead of the missing one.
\<close>

lemma stale_key:
  assumes "snd (shell (fetch_pub_cmd user s) w) = put_local ''id_rsa.pub'' t w"
    and "\<And>w. snd (shell (fetch_pub_cmd user s') w) = w"
  shows "fst (act_fold (collect_key shell user) [] [s, s'] w) = Inr [first_line t, first_line t]"
proof -
  obtain rc where 1: "os_system shell (fetch_pub_cmd user s) w = (Inr rc, put_local ''id_rsa.pub'' t w)"
    using os_system_eq[of shell "fetch_pub_cmd user s" w, OF assms(1)] by blast
  obtain rc' where 2: "os_system shell (fetch_pub_cmd user s') (put_local ''id_rsa.pub'' t w) = (Inr rc', put_local ''id_rsa.pub'' t w)"
    using os_system_eq[of shell "fetch_pub_cmd user s'", OF assms(2)] by blast
  from 1 2 show ?thesis
    by (simp add: collect_key_def act_seq_def act_bind_def act_get_def act_return_def) (simp add: put_local_def act_bind_def act_get_def act_return_def)
qed

end
