(* ===== verification/Pic_Generator.thy ===== *)
theory Pic_Generator
  imports Fig_Common
begin

text \<open>
  \<^verbatim>\<open>exp/utils/pic_generator.py\<close> and the files an experiment script sees: the parameter files it reads,
  the style files, its result files, the time log, and the pictures it hands to a drawer.  The
  drawing itself is matplotlib; a picture is recorded as the call of its drawer with the data,
  the style and the auxiliary function that goes into the style.
\<close>

section \<open>State\<close>

datatype drawer = Line_One_Ax | Line_Two_Ax | Bar_One_Ax | Bar_Two_Ax | Bar_With_Line

record drawing =
  dr_file :: string
  dr_drawer :: drawer
  dr_data :: json
  dr_style :: json
  dr_aux :: "string option"

text \<open>\<open>conn\<close> is the command manager once the script has one.\<close>

record world =
  params :: "(string \<times> json) list"
  styles :: "(string \<times> json) list"
  results :: "(string \<times> json) list"
  time_log :: string
  drawn :: "drawing list"
  conn :: "cluster option"

section \<open>The generator\<close>

definition figs_type :: "(string \<times> string) list" where
  "figs_type = [
     (''03a'', ''line_one_ax''), (''03b'', ''line_one_ax''), (''03c'', ''line_one_ax''), (''03d'', ''line_one_ax''),
     (''04a'', ''line_one_ax''), (''04b'', ''line_one_ax''), (''04c'', ''line_one_ax''),
     (''12_la'', ''line_one_ax''), (''12_a'', ''line_one_ax''), (''12_b'', ''line_one_ax''),
     (''12_c'', ''line_one_ax''), (''12_d'', ''line_one_ax''), (''12_e'', ''line_one_ax''),
     (''13'', ''bar_with_line''),
     (''14'', ''bar_one_ax''), (''15a'', ''bar_with_line''), (''15b'', ''bar_with_line''),
     (''16'', ''line_one_ax''), (''17'', ''line_one_ax''),
     (''18a'', ''line_one_ax''), (''18b'', ''line_one_ax''), (''18c'', ''line_one_ax''),
     (''18d'', ''line_one_ax''), (''18e'', ''line_one_ax''), (''18f'', ''line_one_ax''),
     (''19a'', ''line_two_ax''), (''19b'', ''line_two_ax''), (''19c'', ''line_two_ax'')]"

definition aux_plt_func :: "string \<Rightarrow> string option" where
  "aux_plt_func n =
     (if n = ''03a'' then Some ''__plot_03a_goal''
      else if n = ''03b'' then Some ''__plot_03b_bandwidth_bound''
      else if n = ''03c'' then Some ''__plot_03c_cache_bound''
      else if n = ''03d'' then Some ''__plot_03d_example_line''
      else if n = ''04c'' then Some ''__plot_04c_upperbound''
      else if n = ''14'' then Some ''__plot_14_notation''
      else None)"

definition drawer_of :: "string \<Rightarrow> drawer option" where
  "drawer_of ty =
     (if ty = ''line_one_ax'' then Some Line_One_Ax
      else if ty = ''line_two_ax'' then Some Line_Two_Ax
      else if ty = ''bar_one_ax'' then Some Bar_One_Ax
      else if ty = ''bar_two_ax'' then Some Bar_Two_Ax
      else if ty = ''bar_with_line'' then Some Bar_With_Line
      else None)"

text \<open>Opening a JSON file of a directory: the key of a file is its name.\<close>

definition open_json :: "string \<Rightarrow> (string \<times> json) list \<Rightarrow> string \<Rightarrow> json py" where
  "open_json dir files name =
     (case map_of files name of None \<Rightarrow> Inl (FileNotFoundError (dir @ ''/'' @ name)) | Some j \<Rightarrow> Inr j)"

text \<open>\<^verbatim>\<open>custom_style['aux_plt_func'] = f\<close> needs a dictionary.\<close>

definition style_aux :: "json \<Rightarrow> string option \<Rightarrow> unit py" where
  "style_aux st aux = (case aux of None \<Rightarrow> Inr () | Some _ \<Rightarrow> (case st of JDict _ \<Rightarrow> Inr () | _ \<Rightarrow> Inl TypeError))"

definition generate :: "string \<Rightarrow> (world, unit) act" where
  "generate n =
     act_bind (act_lift (dict_get figs_type n)) (\<lambda>ty.
     act_bind (act_get results) (\<lambda>rs.
     act_bind (act_lift (open_json ''results'' rs (fig_file n))) (\<lambda>data.
     act_bind (act_get styles) (\<lambda>ss.
     act_bind (act_lift (open_json ''styles'' ss (fig_file n))) (\<lambda>st.
     act_seq (act_lift (style_aux st (aux_plt_func n)))
     (case drawer_of ty of None \<Rightarrow> act_return ()
      | Some d \<Rightarrow> act_modify (\<lambda>w. w\<lparr>drawn := drawn w @
          [\<lparr>dr_file = ''fig_'' @ n @ ''.pdf'', dr_drawer = d, dr_data = data, dr_style = st, dr_aux = aux_plt_func n\<rparr>]\<rparr>)))))))"

section \<open>What a call draws\<close>

lemma figs_type_drawn: "\<forall>(n, ty) \<in> set figs_type. drawer_of ty \<noteq> None"
  by (simp add: figs_type_def drawer_of_def)

definition drawer_for :: "string \<Rightarrow> drawer option" where
  "drawer_for n = Option.bind (map_of figs_type n) drawer_of"

definition drawing_of :: "world \<Rightarrow> string \<Rightarrow> drawing" where
  "drawing_of w n = \<lparr>dr_file = ''fig_'' @ n @ ''.pdf'', dr_drawer = the (drawer_for n),
     dr_data = the (map_of (results w) (fig_file n)), dr_style = the (map_of (styles w) (fig_file n)),
     dr_aux = aux_plt_func n\<rparr>"

definition drawable :: "world \<Rightarrow> string \<Rightarrow> bool" where
  "drawable w n \<longleftrightarrow> n \<in> fst ` set figs_type \<and> map_of (results w) (fig_file n) \<noteq> None \<and>
     (\<exists>d. map_of (styles w) (fig_file n) = Some (JDict d))"

lemma drawable_type:
  assumes "n \<in> fst ` set figs_type"
  obtains ty d where "map_of figs_type n = Some ty" "drawer_of ty = Some d" "drawer_for n = Some d"
proof -
  from assms obtain ty where ty: "map_of figs_type n = Some ty"
    by (cases "map_of figs_type n") (auto simp: map_of_eq_None_iff)
  then have "(n, ty) \<in> set figs_type" by (rule map_of_SomeD)
  with figs_type_drawn have "drawer_of ty \<noteq> None" by fastforce
  with ty that show thesis by (auto simp: drawer_for_def)
qed

lemma generate_ok:
  assumes "drawable w n"
  shows "generate n w = (Inr (), w\<lparr>drawn := drawn w @ [drawing_of w n]\<rparr>)"
proof -
  from assms have "n \<in> fst ` set figs_type" by (simp add: drawable_def)
  then obtain ty d where t: "map_of figs_type n = Some ty" "drawer_of ty = Some d" "drawer_for n = Some d"
    by (rule drawable_type)
  from assms obtain data st where f: "map_of (results w) (fig_file n) = Some data"
    "map_of (styles w) (fig_file n) = Some (JDict st)" by (auto simp: drawable_def)
  have "dict_get figs_type n = Inr ty" using t by (simp add: dict_get_Inr_iff)
  moreover have "style_aux (JDict st) a = Inr ()" for a by (simp add: style_aux_def split: option.split)
  ultimately show ?thesis using t f
    by (simp add: generate_def act_bind_def act_seq_def act_defs open_json_def drawing_of_def)
qed

lemma drawing_of_drawn [simp]: "drawing_of (w\<lparr>drawn := ds\<rparr>) = drawing_of w"
  by (rule ext) (simp add: drawing_of_def)

lemma drawable_drawn [simp]: "drawable (w\<lparr>drawn := ds\<rparr>) = drawable w"
  by (rule ext) (simp add: drawable_def)

lemma generate_all:
  "\<forall>n \<in> set ns. drawable w n \<Longrightarrow>
   act_for ns generate w = (Inr (), w\<lparr>drawn := drawn w @ map (drawing_of w) ns\<rparr>)"
proof (induction ns arbitrary: w)
  case (Cons n ns)
  then have "generate n w = (Inr (), w\<lparr>drawn := drawn w @ [drawing_of w n]\<rparr>)" by (intro generate_ok) simp
  with Cons show ?case by (simp add: act_seq_ok)
qed (simp add: act_return_def)

end
