(* ===== verification/Fig_Scripts.thy ===== *)
theory Fig_Scripts
  imports Pic_Generator Common_Json Fig_Sweeps Fig_Others Fig_Bars
begin

text \<open>
  The figure scripts \<^verbatim>\<open>exp/fig_*.py\<close> as they are run: the parameters read from \<^verbatim>\<open>params/common.json\<close> and
  \<^verbatim>\<open>params/fig_<n>.json\<close> key by key, the command manager, \<^verbatim>\<open>main\<close>, the line in \<^verbatim>\<open>results/time.log\<close>
  and the pictures.  A \<open>job\<close> is what the module level of a script has computed when \<^verbatim>\<open>__main__\<close> starts.

  The directory \<^verbatim>\<open>results\<close> exists.  \<^verbatim>\<open>str\<close> of a \<^verbatim>\<open>float\<close> is the parameter \<open>str_float\<close>.  Parameters that a
  script does not read have an empty value in its \<^typ>\<open>exp_params\<close>.
\<close>

section \<open>Reading parameters\<close>

fun as_str :: "json \<Rightarrow> string py" where
  "as_str (JStr s) = Inr s"
| "as_str _ = Inl IllTyped"

fun as_rat :: "json \<Rightarrow> rat py" where
  "as_rat (JNum r) = Inr r"
| "as_rat _ = Inl IllTyped"

fun as_int :: "json \<Rightarrow> int py" where
  "as_int (JNum r) = (if of_int \<lfloor>r\<rfloor> = r then Inr \<lfloor>r\<rfloor> else Inl IllTyped)"
| "as_int _ = Inl IllTyped"

fun as_list :: "(json \<Rightarrow> 'a py) \<Rightarrow> json \<Rightarrow> 'a list py" where
  "as_list f (JList xs) = py_mapM f xs"
| "as_list f _ = Inl IllTyped"

lemma as_strs [simp]: "as_list as_str (jstrs xs) = Inr xs"
  by (simp add: jstrs_def py_mapM_Inr_iff)

fun as_dict :: "(json \<Rightarrow> 'a py) \<Rightarrow> json \<Rightarrow> (string \<times> 'a) list py" where
  "as_dict f (JDict d) = py_mapM (\<lambda>(k, v). py_bind (f v) (\<lambda>x. Inr (k, x))) d"
| "as_dict f _ = Inl IllTyped"

text \<open>
  \<^verbatim>\<open>a, b = xs\<close> raises \<^verbatim>\<open>ValueError\<close> unless the list has two elements.  A pair inside a list is
  unpacked later, in \<^verbatim>\<open>main\<close>: there any other shape is \<open>IllTyped\<close>.
\<close>

definition as_pair :: "py_exc \<Rightarrow> (json \<Rightarrow> 'a py) \<Rightarrow> (json \<Rightarrow> 'b py) \<Rightarrow> json \<Rightarrow> ('a \<times> 'b) py" where
  "as_pair err f g j =
     (case j of JList [x, y] \<Rightarrow> py_bind (f x) (\<lambda>a. py_bind (g y) (\<lambda>b. Inr (a, b)))
      | JList _ \<Rightarrow> Inl err | _ \<Rightarrow> Inl IllTyped)"

definition dict_field :: "json \<Rightarrow> string \<Rightarrow> json py" where
  "dict_field j k = (case j of JDict d \<Rightarrow> dict_get d k | _ \<Rightarrow> Inl TypeError)"

text \<open>\<^verbatim>\<open>x = e[k]\<close>, then the rest of the module with the value of \<^verbatim>\<open>x\<close>.\<close>

definition rd :: "(json \<Rightarrow> 'a py) \<Rightarrow> json \<Rightarrow> string \<Rightarrow> ('a \<Rightarrow> 'b py) \<Rightarrow> 'b py" where
  "rd f e k rest = py_bind (dict_field e k) (\<lambda>v. py_bind (f v) rest)"

type_synonym 'a common_reader =
  "(string \<times> json) list \<Rightarrow> (common_params \<times> string list \<times> string \<Rightarrow> 'a py) \<Rightarrow> 'a py"

definition common_full :: "'a common_reader" where
  "common_full files rest =
     py_bind (open_json ''params'' files ''common.json'') (\<lambda>p.
     rd as_str p ''home_dir'' (\<lambda>home. rd as_str p ''workloads_dir'' (\<lambda>wd.
     rd (as_list as_str) p ''cluster_ips'' (\<lambda>ips. rd as_str p ''master_ip'' (\<lambda>master.
     rd as_str p ''common_options'' (\<lambda>opts. rd (as_dict as_str) p ''cmake_options'' (\<lambda>cmake.
     rest (\<lparr>home_dir = home, workloads_dir = wd, common_options = opts, cmake_options = cmake\<rparr>, ips, master))))))))"

definition common_cmake :: "'a common_reader" where
  "common_cmake files rest =
     py_bind (open_json ''params'' files ''common.json'') (\<lambda>p.
     rd as_str p ''home_dir'' (\<lambda>home.
     rd (as_list as_str) p ''cluster_ips'' (\<lambda>ips. rd as_str p ''master_ip'' (\<lambda>master.
     rd as_str p ''common_options'' (\<lambda>opts. rd (as_dict as_str) p ''cmake_options'' (\<lambda>cmake.
     rest (\<lparr>home_dir = home, workloads_dir = [], common_options = opts, cmake_options = cmake\<rparr>, ips, master)))))))"

definition common_short :: "'a common_reader" where
  "common_short files rest =
     py_bind (open_json ''params'' files ''common.json'') (\<lambda>p.
     rd as_str p ''home_dir'' (\<lambda>home.
     rd (as_list as_str) p ''cluster_ips'' (\<lambda>ips. rd as_str p ''master_ip'' (\<lambda>master.
     rest (\<lparr>home_dir = home, workloads_dir = [], common_options = [], cmake_options = []\<rparr>, ips, master)))))"

definition exp_blank :: exp_params where
  "exp_blank = \<lparr>exp_methods = [], workload_name = [], target_epoch = 0, client_num = (0, 0), MN_num = 0, key_type = [],
     value_size = 0, cache_size = 0, span_sizes = [], epsilon = 0, neighbor_size = 0, hotspot_buffer_size = 0\<rparr>"

section \<open>The module level of the scripts\<close>

record job =
  job_num :: string
  job_ips :: "string list"
  job_master :: string
  job_main :: "(fig_state, unit) act"
  job_pics :: "string list"

definition fig_03a_job :: "nat \<Rightarrow> (string \<times> json) list \<Rightarrow> job py" where
  "fig_03a_job fuel files =
     common_full files (\<lambda>(C, ips, master).
     py_bind (open_json ''params'' files (fig_file ''03a'')) (\<lambda>e.
     rd (as_list as_str) e ''methods'' (\<lambda>ms.
     rd (as_pair ValueError as_str as_str) e ''workload_names'' (\<lambda>(_, wl).
     rd (as_pair ValueError as_int as_int) e ''client_num'' (\<lambda>cn. rd as_int e ''MN_num'' (\<lambda>mn.
     rd as_str e ''key_size'' (\<lambda>kt. rd as_int e ''value_size'' (\<lambda>vs.
     rd as_int e ''cache_size'' (\<lambda>cs. rd as_int e ''neighbor_size'' (\<lambda>nb.
     rd as_int e ''hotspot_buffer_size'' (\<lambda>hb.
     rd (as_dict (as_list as_int)) e ''ampl_size'' (\<lambda>ampls.
     let P = exp_blank\<lparr>exp_methods := ms, workload_name := wl, client_num := cn, MN_num := mn,
       key_type := kt, value_size := vs, cache_size := cs, neighbor_size := nb,
       hotspot_buffer_size := hb\<rparr> in
     Inr \<lparr>job_num = ''03a'', job_ips = ips, job_master = master, job_main = fig_03a_main fuel C P ampls,
       job_pics = [''03a'']\<rparr>))))))))))))"

definition fig_03b_job :: "nat \<Rightarrow> (string \<times> json) list \<Rightarrow> job py" where
  "fig_03b_job fuel files =
     common_full files (\<lambda>(C, ips, master).
     py_bind (open_json ''params'' files (fig_file ''03b'')) (\<lambda>e.
     rd (as_list as_str) e ''methods'' (\<lambda>ms.
     rd (as_pair ValueError as_str as_str) e ''workload_names'' (\<lambda>(_, wl).
     rd as_int e ''target_epoch'' (\<lambda>epoch.
     rd (as_list (as_pair IllTyped as_int as_int)) e ''client_num'' (\<lambda>cns.
     rd as_int e ''MN_num'' (\<lambda>mn. rd as_str e ''key_size'' (\<lambda>kt.
     rd as_int e ''value_size'' (\<lambda>vs. rd as_int e ''cache_size'' (\<lambda>cs.
     rd (as_dict as_int) e ''span_size'' (\<lambda>spans. rd as_int e ''epsilon'' (\<lambda>eps.
     rd as_int e ''neighbor_size'' (\<lambda>nb. rd as_int e ''hotspot_buffer_size'' (\<lambda>hb.
     let P = exp_blank\<lparr>exp_methods := ms, workload_name := wl, target_epoch := epoch, MN_num := mn,
       key_type := kt, value_size := vs, cache_size := cs, span_sizes := spans, epsilon := eps,
       neighbor_size := nb, hotspot_buffer_size := hb\<rparr> in
     Inr \<lparr>job_num = ''03b'', job_ips = ips, job_master = master, job_main = fig_03b_main fuel C P cns,
       job_pics = [''03b'']\<rparr>))))))))))))))"

definition fig_03c_job :: "nat \<Rightarrow> (string \<times> json) list \<Rightarrow> job py" where
  "fig_03c_job fuel files =
     common_full files (\<lambda>(C, ips, master).
     py_bind (open_json ''params'' files (fig_file ''03c'')) (\<lambda>e.
     rd (as_list as_str) e ''methods'' (\<lambda>ms.
     rd (as_pair ValueError as_str as_str) e ''workload_names'' (\<lambda>(_, wl).
     rd as_int e ''target_epoch'' (\<lambda>epoch.
     rd (as_list (as_pair IllTyped as_int as_int)) e ''client_num'' (\<lambda>cns.
     rd as_int e ''MN_num'' (\<lambda>mn. rd as_str e ''key_size'' (\<lambda>kt.
     rd as_int e ''value_size'' (\<lambda>vs. rd as_int e ''cache_size'' (\<lambda>cs.
     rd (as_dict as_int) e ''span_size'' (\<lambda>spans. rd as_int e ''epsilon'' (\<lambda>eps.
     rd as_int e ''neighbor_size'' (\<lambda>nb. rd as_int e ''hotspot_buffer_size'' (\<lambda>hb.
     let P = exp_blank\<lparr>exp_methods := ms, workload_name := wl, target_epoch := epoch, MN_num := mn,
       key_type := kt, value_size := vs, cache_size := cs, span_sizes := spans, epsilon := eps,
       neighbor_size := nb, hotspot_buffer_size := hb\<rparr> in
     Inr \<lparr>job_num = ''03c'', job_ips = ips, job_master = master, job_main = fig_03c_main fuel C P cns,
       job_pics = [''03c'']\<rparr>))))))))))))))"

definition fig_03d_job :: "nat \<Rightarrow> (string \<times> json) list \<Rightarrow> job py" where
  "fig_03d_job fuel files =
     common_short files (\<lambda>(C, ips, master).
     py_bind (open_json ''params'' files (fig_file ''03d'')) (\<lambda>e.
     rd (as_list as_str) e ''methods'' (\<lambda>ms. rd as_int e ''table_size'' (\<lambda>size.
     rd (as_list as_int) e ''ampl_size'' (\<lambda>ampls.
     Inr \<lparr>job_num = ''03d'', job_ips = ips, job_master = master, job_main = fig_03d_main fuel C ms size ampls,
       job_pics = [''03d'']\<rparr>)))))"

definition fig_04a_job :: "nat \<Rightarrow> (string \<times> json) list \<Rightarrow> job py" where
  "fig_04a_job fuel files =
     common_short files (\<lambda>(C, ips, master).
     py_bind (open_json ''params'' files (fig_file ''04a'')) (\<lambda>e.
     rd (as_list as_str) e ''methods'' (\<lambda>ms. rd as_int e ''target_epoch'' (\<lambda>epoch.
     rd (as_pair ValueError as_int as_int) e ''client_num'' (\<lambda>cn. rd as_int e ''MN_num'' (\<lambda>mn.
     rd as_str e ''key_size'' (\<lambda>kt. rd as_int e ''value_size'' (\<lambda>vs.
     rd as_int e ''span_size'' (\<lambda>span. rd (as_list as_int) e ''segment_size'' (\<lambda>segs.
     let P = exp_blank\<lparr>exp_methods := ms, target_epoch := epoch, client_num := cn, MN_num := mn,
       key_type := kt, value_size := vs\<rparr> in
     Inr \<lparr>job_num = ''04a'', job_ips = ips, job_master = master, job_main = fig_04a_main fuel C P span segs,
       job_pics = [''04a'']\<rparr>))))))))))"

definition fig_04b_job :: "nat \<Rightarrow> (string \<times> json) list \<Rightarrow> job py" where
  "fig_04b_job fuel files =
     common_short files (\<lambda>(C, ips, master).
     py_bind (open_json ''params'' files (fig_file ''04b'')) (\<lambda>e.
     rd (as_list as_str) e ''methods'' (\<lambda>ms. rd as_int e ''target_epoch'' (\<lambda>epoch.
     rd (as_pair ValueError as_int as_int) e ''client_num'' (\<lambda>cn. rd as_int e ''MN_num'' (\<lambda>mn.
     rd (as_list as_int) e ''key_size'' (\<lambda>keys. rd as_int e ''value_size'' (\<lambda>vs.
     rd as_int e ''span_size'' (\<lambda>span. rd as_int e ''segment_size'' (\<lambda>seg.
     let P = exp_blank\<lparr>exp_methods := ms, target_epoch := epoch, client_num := cn, MN_num := mn,
       value_size := vs\<rparr> in
     Inr \<lparr>job_num = ''04b'', job_ips = ips, job_master = master, job_main = fig_04b_main fuel C P span seg keys,
       job_pics = [''04b'']\<rparr>))))))))))"

definition fig_04c_job :: "nat \<Rightarrow> (string \<times> json) list \<Rightarrow> job py" where
  "fig_04c_job fuel files =
     common_short files (\<lambda>(C, ips, master).
     py_bind (open_json ''params'' files (fig_file ''04c'')) (\<lambda>e.
     rd (as_list as_str) e ''methods'' (\<lambda>ms. py_bind (py_index ms 0) (\<lambda>_.
     rd as_int e ''target_epoch'' (\<lambda>epoch.
     rd (as_pair ValueError as_int as_int) e ''client_num'' (\<lambda>cn. rd as_int e ''MN_num'' (\<lambda>mn.
     rd (as_list as_int) e ''neighbor_size'' (\<lambda>nbs. rd (as_list as_int) e ''key_size'' (\<lambda>keys.
     rd as_int e ''value_size'' (\<lambda>vs.
     let P = exp_blank\<lparr>exp_methods := ms, target_epoch := epoch, client_num := cn, MN_num := mn,
       value_size := vs\<rparr> in
     Inr \<lparr>job_num = ''04c'', job_ips = ips, job_master = master, job_main = fig_04c_main fuel C P nbs keys,
       job_pics = [''04c'']\<rparr>))))))))))"

definition fig_12_job :: "nat \<Rightarrow> (string \<times> json) list \<Rightarrow> job py" where
  "fig_12_job fuel files =
     common_full files (\<lambda>(C, ips, master).
     py_bind (open_json ''params'' files (fig_file ''12'')) (\<lambda>e.
     rd (as_list as_str) e ''methods'' (\<lambda>ms. rd (as_dict as_str) e ''workload_names'' (\<lambda>wls.
     rd (as_dict as_int) e ''target_epoch'' (\<lambda>epochs.
     rd (as_dict (as_dict (as_list (as_pair IllTyped as_int as_int)))) e ''client_num'' (\<lambda>clients.
     rd as_int e ''MN_num'' (\<lambda>mn. rd as_str e ''key_size'' (\<lambda>kt.
     rd as_int e ''value_size'' (\<lambda>vs. rd as_int e ''cache_size'' (\<lambda>cs.
     rd (as_dict as_int) e ''span_size'' (\<lambda>spans. rd as_int e ''epsilon'' (\<lambda>eps.
     rd as_int e ''neighbor_size'' (\<lambda>nb. rd as_int e ''hotspot_buffer_size'' (\<lambda>hb.
     let P = exp_blank\<lparr>exp_methods := ms, MN_num := mn, key_type := kt, value_size := vs,
       cache_size := cs, span_sizes := spans, epsilon := eps, neighbor_size := nb,
       hotspot_buffer_size := hb\<rparr> in
     Inr \<lparr>job_num = ''12'', job_ips = ips, job_master = master, job_main = fig_12_main fuel C P epochs clients wls,
       job_pics = map (\<lambda>(_, wl). ''12_'' @ wl) wls\<rparr>))))))))))))))"

definition fig_13_job :: "nat \<Rightarrow> (string \<times> json) list \<Rightarrow> job py" where
  "fig_13_job fuel files =
     common_full files (\<lambda>(C, ips, master).
     py_bind (open_json ''params'' files (fig_file ''13'')) (\<lambda>e.
     rd (as_list as_str) e ''methods'' (\<lambda>ms. rd (as_dict as_str) e ''workload_names'' (\<lambda>wls.
     rd as_int e ''target_epoch'' (\<lambda>epoch. rd as_int e ''long_target_epoch'' (\<lambda>long_epoch.
     rd (as_pair ValueError as_int as_int) e ''client_num'' (\<lambda>cn. rd as_int e ''MN_num'' (\<lambda>mn.
     rd as_str e ''key_size'' (\<lambda>kt. rd as_int e ''value_size'' (\<lambda>vs.
     rd as_int e ''cache_size'' (\<lambda>cs. rd (as_dict as_int) e ''span_size'' (\<lambda>spans.
     rd as_int e ''epsilon'' (\<lambda>eps. rd as_int e ''neighbor_size'' (\<lambda>nb.
     rd as_int e ''hotspot_buffer_size'' (\<lambda>hb.
     let P = exp_blank\<lparr>exp_methods := ms, target_epoch := epoch, client_num := cn, MN_num := mn,
       key_type := kt, value_size := vs, cache_size := cs, span_sizes := spans, epsilon := eps,
       neighbor_size := nb, hotspot_buffer_size := hb\<rparr> in
     Inr \<lparr>job_num = ''13'', job_ips = ips, job_master = master, job_main = fig_13_main fuel C P long_epoch wls,
       job_pics = [''13'']\<rparr>)))))))))))))))"

definition fig_14_job :: "nat \<Rightarrow> (string \<times> json) list \<Rightarrow> job py" where
  "fig_14_job fuel files =
     common_full files (\<lambda>(C, ips, master).
     py_bind (open_json ''params'' files (fig_file ''14'')) (\<lambda>e.
     rd (as_list as_str) e ''methods'' (\<lambda>ms. rd (as_list as_str) e ''workload_names'' (\<lambda>wls.
     rd (as_pair ValueError as_int as_int) e ''client_num'' (\<lambda>cn. rd as_int e ''MN_num'' (\<lambda>mn.
     rd as_str e ''key_size'' (\<lambda>kt. rd as_int e ''value_size'' (\<lambda>vs.
     rd as_int e ''cache_size'' (\<lambda>cs. rd (as_dict as_int) e ''span_size'' (\<lambda>spans.
     rd as_int e ''epsilon'' (\<lambda>eps. rd as_int e ''neighbor_size'' (\<lambda>nb.
     rd as_int e ''hotspot_buffer_size'' (\<lambda>hb.
     let P = exp_blank\<lparr>exp_methods := ms, client_num := cn, MN_num := mn, key_type := kt,
       value_size := vs, cache_size := cs, span_sizes := spans, epsilon := eps, neighbor_size := nb,
       hotspot_buffer_size := hb\<rparr> in
     Inr \<lparr>job_num = ''14'', job_ips = ips, job_master = master, job_main = fig_14_main fuel C P wls,
       job_pics = [''14'']\<rparr>)))))))))))))"

definition fig_15a_job :: "nat \<Rightarrow> (string \<times> json) list \<Rightarrow> job py" where
  "fig_15a_job fuel files =
     common_full files (\<lambda>(C, ips, master).
     py_bind (open_json ''params'' files (fig_file ''15a'')) (\<lambda>e.
     rd (as_list as_str) e ''methods'' (\<lambda>ms. rd (as_dict as_str) e ''workload_names'' (\<lambda>wls.
     rd as_int e ''target_epoch'' (\<lambda>epoch.
     rd (as_pair ValueError as_int as_int) e ''client_num'' (\<lambda>cn. rd as_int e ''MN_num'' (\<lambda>mn.
     rd as_str e ''key_size'' (\<lambda>kt. rd as_int e ''value_size'' (\<lambda>vs.
     rd as_int e ''cache_size'' (\<lambda>cs. rd as_int e ''span_size'' (\<lambda>span.
     rd as_int e ''neighbor_size'' (\<lambda>nb. rd as_int e ''hotspot_buffer_size'' (\<lambda>hb.
     let P = exp_blank\<lparr>exp_methods := ms, target_epoch := epoch, client_num := cn, MN_num := mn,
       key_type := kt, value_size := vs, cache_size := cs, neighbor_size := nb,
       hotspot_buffer_size := hb\<rparr> in
     Inr \<lparr>job_num = ''15a'', job_ips = ips, job_master = master, job_main = fig_15a_main fuel C P span wls,
       job_pics = [''15a'']\<rparr>)))))))))))))"

definition fig_15b_job :: "nat \<Rightarrow> (string \<times> json) list \<Rightarrow> job py" where
  "fig_15b_job fuel files =
     common_full files (\<lambda>(C, ips, master).
     py_bind (open_json ''params'' files (fig_file ''15b'')) (\<lambda>e.
     rd (as_list as_str) e ''methods'' (\<lambda>ms. rd (as_dict as_str) e ''workload_names'' (\<lambda>wls.
     rd as_int e ''target_epoch'' (\<lambda>epoch.
     rd (as_pair ValueError as_int as_int) e ''client_num'' (\<lambda>cn. rd as_int e ''MN_num'' (\<lambda>mn.
     rd as_str e ''key_size'' (\<lambda>kt. rd as_int e ''value_size'' (\<lambda>vs.
     rd as_int e ''cache_size'' (\<lambda>cs. rd as_int e ''span_size'' (\<lambda>span.
     rd as_int e ''epsilon'' (\<lambda>eps. rd as_int e ''neighbor_size'' (\<lambda>nb.
     rd as_int e ''hotspot_buffer_size'' (\<lambda>hb.
     let P = exp_blank\<lparr>exp_methods := ms, target_epoch := epoch, client_num := cn, MN_num := mn,
       key_type := kt, value_size := vs, cache_size := cs, epsilon := eps, neighbor_size := nb,
       hotspot_buffer_size := hb\<rparr> in
     Inr \<lparr>job_num = ''15b'', job_ips = ips, job_master = master, job_main = fig_15b_main fuel C P span wls,
       job_pics = [''15b'']\<rparr>))))))))))))))"

definition fig_16_job :: "nat \<Rightarrow> (string \<times> json) list \<Rightarrow> job py" where
  "fig_16_job fuel files =
     common_cmake files (\<lambda>(C, ips, master).
     py_bind (open_json ''params'' files (fig_file ''16'')) (\<lambda>e.
     rd (as_list as_str) e ''methods'' (\<lambda>ms. rd (as_list as_int) e ''key_size'' (\<lambda>keys.
     rd as_int e ''value_size'' (\<lambda>vs. rd as_int e ''span_size'' (\<lambda>span.
     Inr \<lparr>job_num = ''16'', job_ips = ips, job_master = master, job_main = fig_16_main fuel C ms vs span keys,
       job_pics = [''16'']\<rparr>))))))"

definition fig_17_job :: "nat \<Rightarrow> (string \<times> json) list \<Rightarrow> job py" where
  "fig_17_job fuel files =
     common_full files (\<lambda>(C, ips, master).
     py_bind (open_json ''params'' files (fig_file ''17'')) (\<lambda>e.
     rd (as_list as_str) e ''methods'' (\<lambda>ms.
     rd (as_pair ValueError as_str as_str) e ''workload_names'' (\<lambda>(_, wl).
     rd as_int e ''target_epoch'' (\<lambda>epoch.
     rd (as_list (as_pair IllTyped as_int as_int)) e ''client_num'' (\<lambda>cns.
     rd as_int e ''MN_num'' (\<lambda>mn. rd as_str e ''key_size'' (\<lambda>kt.
     rd as_int e ''value_size'' (\<lambda>vs. rd as_int e ''cache_size'' (\<lambda>cs.
     rd as_int e ''span_size'' (\<lambda>span. rd as_int e ''neighbor_size'' (\<lambda>nb.
     rd as_int e ''hotspot_buffer_size'' (\<lambda>hb.
     let P = exp_blank\<lparr>exp_methods := ms, workload_name := wl, target_epoch := epoch, MN_num := mn,
       key_type := kt, value_size := vs, cache_size := cs, neighbor_size := nb,
       hotspot_buffer_size := hb\<rparr> in
     Inr \<lparr>job_num = ''17'', job_ips = ips, job_master = master, job_main = fig_17_main fuel C P span cns,
       job_pics = [''17'']\<rparr>)))))))))))))"

definition fig_18a_job :: "(rat \<Rightarrow> string) \<Rightarrow> nat \<Rightarrow> (string \<times> json) list \<Rightarrow> job py" where
  "fig_18a_job str_float fuel files =
     common_full files (\<lambda>(C, ips, master).
     py_bind (open_json ''params'' files (fig_file ''18a'')) (\<lambda>e.
     rd (as_list as_str) e ''methods'' (\<lambda>ms. rd (as_list as_rat) e ''zipfian'' (\<lambda>zs.
     rd as_int e ''read_ratio'' (\<lambda>ratio. rd as_int e ''target_epoch'' (\<lambda>epoch.
     rd (as_pair ValueError as_int as_int) e ''client_num'' (\<lambda>cn. rd as_int e ''MN_num'' (\<lambda>mn.
     rd as_str e ''key_size'' (\<lambda>kt. rd as_int e ''value_size'' (\<lambda>vs.
     rd as_int e ''cache_size'' (\<lambda>cs. rd (as_dict as_int) e ''span_size'' (\<lambda>spans.
     rd as_int e ''epsilon'' (\<lambda>eps. rd as_int e ''neighbor_size'' (\<lambda>nb.
     rd as_int e ''hotspot_buffer_size'' (\<lambda>hb.
     let P = exp_blank\<lparr>exp_methods := ms, target_epoch := epoch, client_num := cn, MN_num := mn,
       key_type := kt, value_size := vs, cache_size := cs, span_sizes := spans, epsilon := eps,
       neighbor_size := nb, hotspot_buffer_size := hb\<rparr> in
     Inr \<lparr>job_num = ''18a'', job_ips = ips, job_master = master, job_main = fig_18a_main fuel C P ratio (map (\<lambda>z. (str_float z, z)) zs),
       job_pics = [''18a'']\<rparr>)))))))))))))))"

definition fig_18b_job :: "nat \<Rightarrow> (string \<times> json) list \<Rightarrow> job py" where
  "fig_18b_job fuel files =
     common_full files (\<lambda>(C, ips, master).
     py_bind (open_json ''params'' files (fig_file ''18b'')) (\<lambda>e.
     rd (as_list as_str) e ''methods'' (\<lambda>ms.
     rd (as_pair ValueError as_str as_str) e ''workload_names'' (\<lambda>(_, wl).
     rd (as_dict as_int) e ''target_epoch'' (\<lambda>epochs.
     rd (as_pair ValueError as_int as_int) e ''client_num'' (\<lambda>cn. rd as_int e ''MN_num'' (\<lambda>mn.
     rd as_str e ''key_size'' (\<lambda>kt. rd as_int e ''value_size'' (\<lambda>vs.
     rd (as_list as_int) e ''cache_size'' (\<lambda>caches. rd (as_dict as_int) e ''span_size'' (\<lambda>spans.
     rd as_int e ''epsilon'' (\<lambda>eps. rd as_int e ''neighbor_size'' (\<lambda>nb.
     rd as_int e ''hotspot_buffer_size'' (\<lambda>hb.
     let P = exp_blank\<lparr>exp_methods := ms, workload_name := wl, client_num := cn, MN_num := mn,
       key_type := kt, value_size := vs, span_sizes := spans, epsilon := eps, neighbor_size := nb,
       hotspot_buffer_size := hb\<rparr> in
     Inr \<lparr>job_num = ''18b'', job_ips = ips, job_master = master, job_main = fig_18b_main fuel C P epochs caches,
       job_pics = [''18b'']\<rparr>))))))))))))))"

definition fig_18c_job :: "nat \<Rightarrow> (string \<times> json) list \<Rightarrow> job py" where
  "fig_18c_job fuel files =
     common_full files (\<lambda>(C, ips, master).
     py_bind (open_json ''params'' files (fig_file ''18c'')) (\<lambda>e.
     rd (as_list as_str) e ''methods'' (\<lambda>ms.
     rd (as_pair ValueError as_str as_str) e ''workload_names'' (\<lambda>(_, wl).
     rd as_int e ''target_epoch'' (\<lambda>epoch.
     rd (as_pair ValueError as_int as_int) e ''client_num'' (\<lambda>cn. rd as_int e ''MN_num'' (\<lambda>mn.
     rd as_str e ''key_size'' (\<lambda>kt. rd (as_list as_int) e ''value_size'' (\<lambda>vals.
     rd as_int e ''cache_size'' (\<lambda>cs. rd (as_dict as_int) e ''span_size'' (\<lambda>spans.
     rd as_int e ''epsilon'' (\<lambda>eps. rd as_int e ''neighbor_size'' (\<lambda>nb.
     rd as_int e ''hotspot_buffer_size'' (\<lambda>hb.
     let P = exp_blank\<lparr>exp_methods := ms, workload_name := wl, target_epoch := epoch, client_num := cn,
       MN_num := mn, key_type := kt, cache_size := cs, span_sizes := spans, epsilon := eps, neighbor_size := nb,
       hotspot_buffer_size := hb\<rparr> in
     Inr \<lparr>job_num = ''18c'', job_ips = ips, job_master = master, job_main = fig_18c_main fuel C P vals,
       job_pics = [''18c'']\<rparr>))))))))))))))"

definition fig_18d_job :: "nat \<Rightarrow> (string \<times> json) list \<Rightarrow> job py" where
  "fig_18d_job fuel files =
     common_full files (\<lambda>(C, ips, master).
     py_bind (open_json ''params'' files (fig_file ''18d'')) (\<lambda>e.
     rd (as_list as_str) e ''methods'' (\<lambda>ms.
     rd (as_pair ValueError as_str as_str) e ''workload_names'' (\<lambda>(_, wl).
     rd as_int e ''target_epoch'' (\<lambda>epoch.
     rd (as_pair ValueError as_int as_int) e ''client_num'' (\<lambda>cn. rd as_int e ''MN_num'' (\<lambda>mn.
     rd as_str e ''key_size'' (\<lambda>kt. rd (as_list as_int) e ''value_size'' (\<lambda>vals.
     rd as_int e ''cache_size'' (\<lambda>cs. rd (as_dict as_int) e ''span_size'' (\<lambda>spans.
     rd as_int e ''epsilon'' (\<lambda>eps. rd as_int e ''neighbor_size'' (\<lambda>nb.
     rd as_int e ''hotspot_buffer_size'' (\<lambda>hb.
     let P = exp_blank\<lparr>exp_methods := ms, workload_name := wl, target_epoch := epoch, client_num := cn,
       MN_num := mn, key_type := kt, cache_size := cs, span_sizes := spans, epsilon := eps, neighbor_size := nb,
       hotspot_buffer_size := hb\<rparr> in
     Inr \<lparr>job_num = ''18d'', job_ips = ips, job_master = master, job_main = fig_18d_main fuel C P vals,
       job_pics = [''18d'']\<rparr>))))))))))))))"

definition fig_18e_job :: "nat \<Rightarrow> (string \<times> json) list \<Rightarrow> job py" where
  "fig_18e_job fuel files =
     common_full files (\<lambda>(C, ips, master).
     py_bind (open_json ''params'' files (fig_file ''18e'')) (\<lambda>e.
     rd (as_list as_str) e ''methods'' (\<lambda>ms.
     rd (as_pair ValueError as_str as_str) e ''workload_names'' (\<lambda>(_, wl).
     rd as_int e ''target_epoch'' (\<lambda>epoch.
     rd (as_pair ValueError as_int as_int) e ''client_num'' (\<lambda>cn. rd as_int e ''MN_num'' (\<lambda>mn.
     rd as_str e ''key_size'' (\<lambda>kt. rd as_int e ''value_size'' (\<lambda>vs.
     rd as_int e ''cache_size'' (\<lambda>cs. rd (as_list as_int) e ''span_size'' (\<lambda>spans.
     rd as_int e ''epsilon'' (\<lambda>eps. rd as_int e ''neighbor_size'' (\<lambda>nb.
     rd as_int e ''hotspot_buffer_size'' (\<lambda>hb.
     let P = exp_blank\<lparr>exp_methods := ms, workload_name := wl, target_epoch := epoch, client_num := cn,
       MN_num := mn, key_type := kt, value_size := vs, cache_size := cs, epsilon := eps, neighbor_size := nb,
       hotspot_buffer_size := hb\<rparr> in
     Inr \<lparr>job_num = ''18e'', job_ips = ips, job_master = master, job_main = fig_18e_main fuel C P spans,
       job_pics = [''18e'']\<rparr>))))))))))))))"

definition fig_18f_19b_job :: "nat \<Rightarrow> (string \<times> json) list \<Rightarrow> job py" where
  "fig_18f_19b_job fuel files =
     common_full files (\<lambda>(C, ips, master).
     py_bind (open_json ''params'' files (fig_file ''18f_19b'')) (\<lambda>e.
     rd (as_list as_str) e ''methods'' (\<lambda>ms. py_bind (py_index ms 0) (\<lambda>_.
     rd (as_pair ValueError as_str as_str) e ''workload_names'' (\<lambda>(_, wl).
     rd as_int e ''target_epoch'' (\<lambda>epoch.
     rd (as_pair ValueError as_int as_int) e ''client_num'' (\<lambda>cn. rd as_int e ''MN_num'' (\<lambda>mn.
     rd as_str e ''key_size'' (\<lambda>kt. rd as_int e ''value_size'' (\<lambda>vs.
     rd as_int e ''cache_size'' (\<lambda>cs. rd as_int e ''span_size'' (\<lambda>span.
     rd (as_list as_int) e ''neighbor_size'' (\<lambda>nbs. rd as_int e ''hotspot_buffer_size'' (\<lambda>hb.
     let P = exp_blank\<lparr>exp_methods := ms, workload_name := wl, target_epoch := epoch, client_num := cn,
       MN_num := mn, key_type := kt, value_size := vs, cache_size := cs, hotspot_buffer_size := hb\<rparr> in
     Inr \<lparr>job_num = ''18f_19b'', job_ips = ips, job_master = master, job_main = fig_18f_19b_main fuel C P span nbs,
       job_pics = [''18f'', ''19b'']\<rparr>))))))))))))))"

definition fig_19a_job :: "nat \<Rightarrow> (string \<times> json) list \<Rightarrow> job py" where
  "fig_19a_job fuel files =
     common_full files (\<lambda>(C, ips, master).
     py_bind (open_json ''params'' files (fig_file ''19a'')) (\<lambda>e.
     rd (as_list as_str) e ''methods'' (\<lambda>ms. py_bind (py_index ms 0) (\<lambda>_.
     rd (as_pair ValueError as_str as_str) e ''workload_names'' (\<lambda>(_, wl).
     rd as_int e ''target_epoch'' (\<lambda>epoch.
     rd (as_pair ValueError as_int as_int) e ''client_num'' (\<lambda>cn. rd as_int e ''MN_num'' (\<lambda>mn.
     rd as_str e ''key_size'' (\<lambda>kt. rd as_int e ''value_size'' (\<lambda>vs.
     rd as_int e ''cache_size'' (\<lambda>cs. rd (as_list as_int) e ''span_size'' (\<lambda>spans.
     rd as_int e ''neighbor_size'' (\<lambda>nb. rd as_int e ''hotspot_buffer_size'' (\<lambda>hb.
     let P = exp_blank\<lparr>exp_methods := ms, workload_name := wl, target_epoch := epoch, client_num := cn,
       MN_num := mn, key_type := kt, value_size := vs, cache_size := cs, neighbor_size := nb,
       hotspot_buffer_size := hb\<rparr> in
     Inr \<lparr>job_num = ''19a'', job_ips = ips, job_master = master, job_main = fig_19a_main fuel C P spans,
       job_pics = [''19a'']\<rparr>))))))))))))))"

definition fig_19c_job :: "nat \<Rightarrow> (string \<times> json) list \<Rightarrow> job py" where
  "fig_19c_job fuel files =
     common_full files (\<lambda>(C, ips, master).
     py_bind (open_json ''params'' files (fig_file ''19c'')) (\<lambda>e.
     rd (as_list as_str) e ''methods'' (\<lambda>ms. py_bind (py_index ms 0) (\<lambda>_.
     rd (as_pair ValueError as_str as_str) e ''workload_names'' (\<lambda>(_, wl).
     rd as_int e ''target_epoch'' (\<lambda>epoch.
     rd (as_pair ValueError as_int as_int) e ''client_num'' (\<lambda>cn. rd as_int e ''MN_num'' (\<lambda>mn.
     rd as_str e ''key_size'' (\<lambda>kt. rd as_int e ''value_size'' (\<lambda>vs.
     rd as_int e ''cache_size'' (\<lambda>cs. rd as_int e ''span_size'' (\<lambda>span.
     rd as_int e ''neighbor_size'' (\<lambda>nb. rd (as_list as_int) e ''hotspot_buffer_size'' (\<lambda>hbs.
     let P = exp_blank\<lparr>exp_methods := ms, workload_name := wl, target_epoch := epoch, client_num := cn,
       MN_num := mn, key_type := kt, value_size := vs, cache_size := cs, neighbor_size := nb\<rparr> in
     Inr \<lparr>job_num = ''19c'', job_ips = ips, job_master = master, job_main = fig_19c_main fuel C P span hbs,
       job_pics = [''19c'']\<rparr>))))))))))))))"

section \<open>Running a script\<close>

text \<open>\<^verbatim>\<open>int(t // 60)\<close> and \<^verbatim>\<open>int(t % 60)\<close> of the seconds \<^verbatim>\<open>main\<close> took.\<close>

definition took_line :: "string \<Rightarrow> rat \<Rightarrow> string" where
  "took_line n t = n @ ''.py execution time: '' @ show_int \<lfloor>t / 60\<rfloor> @ '' min '' @
     show_int \<lfloor>t - 60 * of_int \<lfloor>t / 60\<rfloor>\<rfloor> @ '' s'' @ [CHR 0x0A]"

definition time_line :: "string \<Rightarrow> rat \<Rightarrow> string" where
  "time_line n t = took_line (''fig_'' @ n) t"

definition script_end :: "job \<Rightarrow> rat \<Rightarrow> (world, unit) act" where
  "script_end j t =
     act_seq (act_modify (\<lambda>w. w\<lparr>time_log := time_log w @ time_line (job_num j) t\<rparr>))
     (act_for (job_pics j) generate)"

type_synonym nodes = "recv_event list list \<times> reply py list list \<times> sftp list"

text \<open>The command manager, then \<^verbatim>\<open>main\<close>, then the statements after it.\<close>

definition with_manager :: "nodes \<Rightarrow> job \<Rightarrow> (world, unit) act \<Rightarrow> (world, unit) act" where
  "with_manager nds j rest w = (case nds of (evs, rs, fts) \<Rightarrow>
     (case CMDManager_init (job_ips j) (job_master j) evs rs fts of
        (Inl e, c) \<Rightarrow> (Inl e, w\<lparr>conn := Some c\<rparr>)
      | (Inr _, c) \<Rightarrow>
          (case job_main j \<lparr>cl = c, saved = results w\<rparr> of
             (Inl e, s) \<Rightarrow> (Inl e, w\<lparr>conn := Some (cl s), results := saved s\<rparr>)
           | (Inr _, s) \<Rightarrow> rest (w\<lparr>conn := Some (cl s), results := saved s\<rparr>))))"

definition run_job :: "nodes \<Rightarrow> rat \<Rightarrow> job \<Rightarrow> (world, unit) act" where
  "run_job nds t j = with_manager nds j (script_end j t)"

definition run_script :: "nodes \<Rightarrow> rat \<Rightarrow> ((string \<times> json) list \<Rightarrow> job py) \<Rightarrow> (world, unit) act" where
  "run_script nds t load =
     act_bind (act_get params) (\<lambda>files. act_bind (act_lift (load files)) (run_job nds t))"

lemma with_manager_InrD:
  assumes "with_manager nds j rest w = (Inr (), w')"
  obtains c s where "job_main j \<lparr>cl = c, saved = results w\<rparr> = (Inr (), s)"
    "rest (w\<lparr>conn := Some (cl s), results := saved s\<rparr>) = (Inr (), w')"
  using assms by (auto simp: with_manager_def split: prod.splits sum.splits)

section \<open>All scripts\<close>

definition fig_scripts :: "(rat \<Rightarrow> string) \<Rightarrow> nat \<Rightarrow> (string \<times> ((string \<times> json) list \<Rightarrow> job py)) list" where
  "fig_scripts str_float fuel = [
     (''03a'', fig_03a_job fuel),
     (''03b'', fig_03b_job fuel),
     (''03c'', fig_03c_job fuel),
     (''03d'', fig_03d_job fuel),
     (''04a'', fig_04a_job fuel),
     (''04b'', fig_04b_job fuel),
     (''04c'', fig_04c_job fuel),
     (''12'', fig_12_job fuel),
     (''13'', fig_13_job fuel),
     (''14'', fig_14_job fuel),
     (''15a'', fig_15a_job fuel),
     (''15b'', fig_15b_job fuel),
     (''16'', fig_16_job fuel),
     (''17'', fig_17_job fuel),
     (''18a'', fig_18a_job str_float fuel),
     (''18b'', fig_18b_job fuel),
     (''18c'', fig_18c_job fuel),
     (''18d'', fig_18d_job fuel),
     (''18e'', fig_18e_job fuel),
     (''18f_19b'', fig_18f_19b_job fuel),
     (''19a'', fig_19a_job fuel),
     (''19c'', fig_19c_job fuel)]"

section \<open>The parameters a script needs\<close>

definition fig_keys :: "(string \<times> string list) list" where
  "fig_keys = [
    (''03a'', [''methods'', ''workload_names'', ''client_num'', ''MN_num'', ''key_size'', ''value_size'', ''cache_size'', ''neighbor_size'', ''hotspot_buffer_size'', ''ampl_size'']),
    (''03b'', [''methods'', ''workload_names'', ''target_epoch'', ''client_num'', ''MN_num'', ''key_size'', ''value_size'', ''cache_size'', ''span_size'', ''epsilon'', ''neighbor_size'', ''hotspot_buffer_size'']),
    (''03c'', [''methods'', ''workload_names'', ''target_epoch'', ''client_num'', ''MN_num'', ''key_size'', ''value_size'', ''cache_size'', ''span_size'', ''epsilon'', ''neighbor_size'', ''hotspot_buffer_size'']),
    (''03d'', [''methods'', ''table_size'', ''ampl_size'']),
    (''04a'', [''methods'', ''target_epoch'', ''client_num'', ''MN_num'', ''key_size'', ''value_size'', ''span_size'', ''segment_size'']),
    (''04b'', [''methods'', ''target_epoch'', ''client_num'', ''MN_num'', ''key_size'', ''value_size'', ''span_size'', ''segment_size'']),
    (''04c'', [''methods'', ''target_epoch'', ''client_num'', ''MN_num'', ''neighbor_size'', ''key_size'', ''value_size'']),
    (''12'', [''methods'', ''workload_names'', ''target_epoch'', ''client_num'', ''MN_num'', ''key_size'', ''value_size'', ''cache_size'', ''span_size'', ''epsilon'', ''neighbor_size'', ''hotspot_buffer_size'']),
    (''13'', [''methods'', ''workload_names'', ''target_epoch'', ''long_target_epoch'', ''client_num'', ''MN_num'', ''key_size'', ''value_size'', ''cache_size'', ''span_size'', ''epsilon'', ''neighbor_size'', ''hotspot_buffer_size'']),
    (''14'', [''methods'', ''workload_names'', ''client_num'', ''MN_num'', ''key_size'', ''value_size'', ''cache_size'', ''span_size'', ''epsilon'', ''neighbor_size'', ''hotspot_buffer_size'']),
    (''15a'', [''methods'', ''workload_names'', ''target_epoch'', ''client_num'', ''MN_num'', ''key_size'', ''value_size'', ''cache_size'', ''span_size'', ''neighbor_size'', ''hotspot_buffer_size'']),
    (''15b'', [''methods'', ''workload_names'', ''target_epoch'', ''client_num'', ''MN_num'', ''key_size'', ''value_size'', ''cache_size'', ''span_size'', ''epsilon'', ''neighbor_size'', ''hotspot_buffer_size'']),
    (''16'', [''methods'', ''key_size'', ''value_size'', ''span_size'']),
    (''17'', [''methods'', ''workload_names'', ''target_epoch'', ''client_num'', ''MN_num'', ''key_size'', ''value_size'', ''cache_size'', ''span_size'', ''neighbor_size'', ''hotspot_buffer_size'']),
    (''18a'', [''methods'', ''zipfian'', ''read_ratio'', ''target_epoch'', ''client_num'', ''MN_num'', ''key_size'', ''value_size'', ''cache_size'', ''span_size'', ''epsilon'', ''neighbor_size'', ''hotspot_buffer_size'']),
    (''18b'', [''methods'', ''workload_names'', ''target_epoch'', ''client_num'', ''MN_num'', ''key_size'', ''value_size'', ''cache_size'', ''span_size'', ''epsilon'', ''neighbor_size'', ''hotspot_buffer_size'']),
    (''18c'', [''methods'', ''workload_names'', ''target_epoch'', ''client_num'', ''MN_num'', ''key_size'', ''value_size'', ''cache_size'', ''span_size'', ''epsilon'', ''neighbor_size'', ''hotspot_buffer_size'']),
    (''18d'', [''methods'', ''workload_names'', ''target_epoch'', ''client_num'', ''MN_num'', ''key_size'', ''value_size'', ''cache_size'', ''span_size'', ''epsilon'', ''neighbor_size'', ''hotspot_buffer_size'']),
    (''18e'', [''methods'', ''workload_names'', ''target_epoch'', ''client_num'', ''MN_num'', ''key_size'', ''value_size'', ''cache_size'', ''span_size'', ''epsilon'', ''neighbor_size'', ''hotspot_buffer_size'']),
    (''18f_19b'', [''methods'', ''workload_names'', ''target_epoch'', ''client_num'', ''MN_num'', ''key_size'', ''value_size'', ''cache_size'', ''span_size'', ''neighbor_size'', ''hotspot_buffer_size'']),
    (''19a'', [''methods'', ''workload_names'', ''target_epoch'', ''client_num'', ''MN_num'', ''key_size'', ''value_size'', ''cache_size'', ''span_size'', ''neighbor_size'', ''hotspot_buffer_size'']),
    (''19c'', [''methods'', ''workload_names'', ''target_epoch'', ''client_num'', ''MN_num'', ''key_size'', ''value_size'', ''cache_size'', ''span_size'', ''neighbor_size'', ''hotspot_buffer_size''])]"

definition common_keys :: "string \<Rightarrow> string list" where
  "common_keys n =
     (if n \<in> set [''03d'', ''04a'', ''04b'', ''04c''] then [''home_dir'', ''cluster_ips'', ''master_ip'']
      else if n = ''16'' then [''home_dir'', ''cluster_ips'', ''master_ip'', ''common_options'', ''cmake_options'']
      else [''home_dir'', ''workloads_dir'', ''cluster_ips'', ''master_ip'', ''common_options'', ''cmake_options''])"

definition script_reads :: "string \<Rightarrow> (string \<times> string) list" where
  "script_reads n = map (Pair ''common.json'') (common_keys n) @
     map (Pair (fig_file n)) (case map_of fig_keys n of None \<Rightarrow> [] | Some ks \<Rightarrow> ks)"

definition present :: "(string \<times> json) list \<Rightarrow> string \<times> string \<Rightarrow> bool" where
  "present files fk = (case map_of files (fst fk) of Some (JDict d) \<Rightarrow> map_of d (snd fk) \<noteq> None | _ \<Rightarrow> False)"

lemma presentI: "open_json dir files f = Inr e \<Longrightarrow> dict_field e k = Inr v \<Longrightarrow> present files (f, k)"
  by (auto simp: present_def open_json_def dict_field_def dict_get_Inr_iff split: option.splits json.splits)

lemmas job_reads =
  common_full_def common_cmake_def common_short_def rd_def script_reads_def common_keys_def fig_keys_def Let_def

definition reads_ok :: "string \<Rightarrow> ((string \<times> json) list \<Rightarrow> job py) \<Rightarrow> bool" where
  "reads_ok n load \<longleftrightarrow> (\<forall>files j. load files = Inr j \<longrightarrow> list_all (present files) (script_reads n))"

lemma fig_03a_reads: "reads_ok ''03a'' (fig_03a_job fuel)"
  unfolding reads_ok_def by (auto simp: fig_03a_job_def job_reads intro: presentI)

lemma fig_03b_reads: "reads_ok ''03b'' (fig_03b_job fuel)"
  unfolding reads_ok_def by (auto simp: fig_03b_job_def job_reads intro: presentI)

lemma fig_03c_reads: "reads_ok ''03c'' (fig_03c_job fuel)"
  unfolding reads_ok_def by (auto simp: fig_03c_job_def job_reads intro: presentI)

lemma fig_03d_reads: "reads_ok ''03d'' (fig_03d_job fuel)"
  unfolding reads_ok_def by (auto simp: fig_03d_job_def job_reads intro: presentI)

lemma fig_04a_reads: "reads_ok ''04a'' (fig_04a_job fuel)"
  unfolding reads_ok_def by (auto simp: fig_04a_job_def job_reads intro: presentI)

lemma fig_04b_reads: "reads_ok ''04b'' (fig_04b_job fuel)"
  unfolding reads_ok_def by (auto simp: fig_04b_job_def job_reads intro: presentI)

lemma fig_04c_reads: "reads_ok ''04c'' (fig_04c_job fuel)"
  unfolding reads_ok_def by (auto simp: fig_04c_job_def job_reads intro: presentI)

lemma fig_12_reads: "reads_ok ''12'' (fig_12_job fuel)"
  unfolding reads_ok_def by (auto simp: fig_12_job_def job_reads intro: presentI)

lemma fig_13_reads: "reads_ok ''13'' (fig_13_job fuel)"
  unfolding reads_ok_def by (auto simp: fig_13_job_def job_reads intro: presentI)

lemma fig_14_reads: "reads_ok ''14'' (fig_14_job fuel)"
  unfolding reads_ok_def by (auto simp: fig_14_job_def job_reads intro: presentI)

lemma fig_15a_reads: "reads_ok ''15a'' (fig_15a_job fuel)"
  unfolding reads_ok_def by (auto simp: fig_15a_job_def job_reads intro: presentI)

lemma fig_15b_reads: "reads_ok ''15b'' (fig_15b_job fuel)"
  unfolding reads_ok_def by (auto simp: fig_15b_job_def job_reads intro: presentI)

lemma fig_16_reads: "reads_ok ''16'' (fig_16_job fuel)"
  unfolding reads_ok_def by (auto simp: fig_16_job_def job_reads intro: presentI)

lemma fig_17_reads: "reads_ok ''17'' (fig_17_job fuel)"
  unfolding reads_ok_def by (auto simp: fig_17_job_def job_reads intro: presentI)

lemma fig_18a_reads: "reads_ok ''18a'' (fig_18a_job str_float fuel)"
  unfolding reads_ok_def by (auto simp: fig_18a_job_def job_reads intro: presentI)

lemma fig_18b_reads: "reads_ok ''18b'' (fig_18b_job fuel)"
  unfolding reads_ok_def by (auto simp: fig_18b_job_def job_reads intro: presentI)

lemma fig_18c_reads: "reads_ok ''18c'' (fig_18c_job fuel)"
  unfolding reads_ok_def by (auto simp: fig_18c_job_def job_reads intro: presentI)

lemma fig_18d_reads: "reads_ok ''18d'' (fig_18d_job fuel)"
  unfolding reads_ok_def by (auto simp: fig_18d_job_def job_reads intro: presentI)

lemma fig_18e_reads: "reads_ok ''18e'' (fig_18e_job fuel)"
  unfolding reads_ok_def by (auto simp: fig_18e_job_def job_reads intro: presentI)

lemma fig_18f_19b_reads: "reads_ok ''18f_19b'' (fig_18f_19b_job fuel)"
  unfolding reads_ok_def by (auto simp: fig_18f_19b_job_def job_reads intro: presentI)

lemma fig_19a_reads: "reads_ok ''19a'' (fig_19a_job fuel)"
  unfolding reads_ok_def by (auto simp: fig_19a_job_def job_reads intro: presentI)

lemma fig_19c_reads: "reads_ok ''19c'' (fig_19c_job fuel)"
  unfolding reads_ok_def by (auto simp: fig_19c_job_def job_reads intro: presentI)

lemmas fig_reads = fig_03a_reads fig_03b_reads fig_03c_reads fig_03d_reads fig_04a_reads fig_04b_reads fig_04c_reads fig_12_reads fig_13_reads fig_14_reads fig_15a_reads fig_15b_reads fig_16_reads fig_17_reads fig_18a_reads fig_18b_reads fig_18c_reads fig_18d_reads fig_18e_reads fig_18f_19b_reads fig_19a_reads fig_19c_reads


lemma scripts_read: "(n, load) \<in> set (fig_scripts str_float fuel) \<Longrightarrow> reads_ok n load"
  unfolding fig_scripts_def by (auto simp: fig_reads)

lemma run_script_unreadable: "load (params w) = Inl e \<Longrightarrow> run_script nds t load w = (Inl e, w)"
  by (simp add: run_script_def act_bind_def act_defs)

text \<open>
  C9: A script whose parameters are not all there raises before it touches anything: when a file it
  reads is missing, or one of the keys it reads, it ends in an exception without contacting a node,
  and the result files, the time log and the pictures are as before.\<close>

theorem script_needs_params:
  assumes "(n, load) \<in> set (fig_scripts str_float fuel)" and "fk \<in> set (script_reads n)"
    and "\<not> present (params w) fk"
  shows "\<exists>e. run_script nds t load w = (Inl e, w)"
proof (cases "load (params w)")
  case (Inl e)
  then show ?thesis using run_script_unreadable by blast
next
  case (Inr j)
  with scripts_read[OF assms(1)] have "list_all (present (params w)) (script_reads n)" by (simp add: reads_ok_def)
  with assms(2,3) show ?thesis by (simp add: list_all_iff)
qed

definition blank_world :: world where
  "blank_world = \<lparr>params = [(''common.json'', sample_base)], styles = [], results = [], time_log = [], drawn = [], conn = None\<rparr>"

theorem script_needs_params_witness:
  "\<exists>e. run_script ([], [], []) 0 (fig_14_job 1) blank_world = (Inl e, blank_world)"
proof (rule script_needs_params)
  show "(''14'', fig_14_job 1) \<in> set (fig_scripts (\<lambda>_. []) 1)" by (simp add: fig_scripts_def)
  show "(fig_file ''14'', ''epsilon'') \<in> set (script_reads ''14'')" by (simp add: script_reads_def fig_keys_def)
  show "\<not> present (params blank_world) (fig_file ''14'', ''epsilon'')"
    by (simp add: present_def blank_world_def fig_file_def)
qed

section \<open>The pictures of a script\<close>

text \<open>\<open>saves n m\<close>: when \<open>m\<close> ends normally there is a result file of figure \<open>n\<close>.\<close>

definition has_result :: "string \<Rightarrow> fig_state \<Rightarrow> bool" where
  "has_result n s \<longleftrightarrow> map_of (saved s) (fig_file n) \<noteq> None"

definition saves :: "string \<Rightarrow> (fig_state, 'a) act \<Rightarrow> bool" where
  "saves n m \<longleftrightarrow> (\<forall>s r s'. m s = (Inr r, s') \<longrightarrow> has_result n s')"

lemma saves_json [simp, intro]: "saves n (save_json (fig_file n) j)"
  by (simp add: saves_def has_result_def save_json_def act_defs update_conv)

lemma saves_bind [intro]: "(\<And>x. saves n (f x)) \<Longrightarrow> saves n (act_bind m f)"
  unfolding saves_def by (metis act_bind_InrD)

lemma saves_prod [intro]: "(\<And>a b. saves n (f a b)) \<Longrightarrow> saves n (case p of (a, b) \<Rightarrow> f a b)"
  by (cases p) simp

lemma saves_seq [intro]: "saves n m' \<Longrightarrow> saves n (act_seq m m')"
  by (auto simp: act_seq_def)

lemma saves_let [intro]: "(\<And>x. saves n (f x)) \<Longrightarrow> saves n (let x = v in f x)"
  by (simp add: Let_def)

text \<open>Result files are never removed.\<close>

lemma save_keeps [simp, intro]: "act_keeps (has_result n) (save_json f j)"
  by (rule act_keepsI) (simp add: has_result_def save_json_def act_defs update_conv)

lemma saves_first: "saves n m \<Longrightarrow> act_keeps (has_result n) m' \<Longrightarrow> saves n (act_seq m m')"
  by (auto simp: saves_def act_seq_Inr_iff dest: act_keepsD[where P = "has_result n"])


lemma on_cluster_keeps [simp, intro]: "act_keeps (has_result n) (on_cluster m)"
  by (rule act_keepsI) (simp add: has_result_def on_cluster_def split: prod.split)

lemma retry_keeps: "act_keeps P m \<Longrightarrow> act_keeps P (retry k m)"
  by (induction k) (auto intro: act_keeps_catch)

lemma fold_keeps: "(\<And>b x. act_keeps P (f b x)) \<Longrightarrow> act_keeps P (act_fold f b xs)"
  by (induction xs arbitrary: b) (auto intro: act_keeps_bind)

lemma act_keeps_prod: "(\<And>a b. act_keeps P (f a b)) \<Longrightarrow> act_keeps P (case p of (a, b) \<Rightarrow> f a b)"
  by (cases p) simp

lemma act_keeps_prod_app: "(\<And>a b. act_keeps P (f a b x)) \<Longrightarrow> act_keeps P ((case p of (a, b) \<Rightarrow> f a b) x)"
  by (cases p) simp

lemma let_keeps: "(\<And>x. act_keeps P (f x)) \<Longrightarrow> act_keeps P (let x = v in f x)"
  by (simp add: Let_def)

lemmas keeps_rules = act_keeps_pure act_keeps_bind act_keeps_seq act_keeps_prod act_keeps_prod_app let_keeps fold_keeps retry_keeps
  save_keeps on_cluster_keeps

lemma fig_12_workload_keeps: "act_keeps (has_result n) (fig_12_workload fuel C P es clients w)"
  unfolding fig_12_workload_def fig_12_method_def fig_12_point_def fig_12_measure_def run_test_def statistics_def
    cluster_lats_def sh_all_def sh_one_def
  by (intro keeps_rules)

lemma for_saves:
  assumes "\<And>x. x \<in> set xs \<Longrightarrow> saves (g x) (f x)" and "\<And>n x. act_keeps (has_result n) (f x)"
  shows "x \<in> set xs \<Longrightarrow> saves (g x) (act_for xs f)"
  using assms(1)
proof (induction xs)
  case (Cons y ys)
  show ?case
  proof (cases "x \<in> set ys")
    case True
    with Cons show ?thesis by (simp add: saves_seq)
  next
    case False
    with Cons.prems have "saves (g x) (f x)" "x = y" by auto
    then show ?thesis by (simp add: saves_first act_keeps_for assms(2))
  qed
qed simp

lemma fig_12_file_eq: "fig_12_file wl = fig_file (''12_'' @ wl)"
  by (simp add: fig_12_file_def fig_file_def)

lemma fig_12_saves:
  assumes "wk \<in> set wls"
  shows "saves (''12_'' @ snd wk) (fig_12_main fuel C P es clients wls)"
  unfolding fig_12_main_def
proof (rule for_saves[OF _ fig_12_workload_keeps assms])
  fix x
  show "saves (''12_'' @ snd x) (fig_12_workload fuel C P es clients x)"
    unfolding fig_12_workload_def fig_12_file_eq by (cases x) (auto simp: Let_def)
qed

lemmas fig_12_saves_pair = fig_12_saves[where wk = "(a, b)" for a b, simplified]

lemma fig_18f_19b_saves:
  "saves ''18f'' (fig_18f_19b_main fuel C P a b)" "saves ''19b'' (fig_18f_19b_main fuel C P a b)"
  unfolding fig_18f_19b_main_def by (intro saves_bind saves_seq saves_prod saves_first saves_json save_keeps)+

lemma fig_03a_saves: "saves ''03a'' (fig_03a_main fuel C P a)"
  unfolding fig_03a_main_def Let_def by (intro saves_bind saves_seq saves_prod saves_json)

lemma fig_03b_saves: "saves ''03b'' (fig_03b_main fuel C P a)"
  unfolding fig_03b_main_def Let_def by (intro saves_bind saves_seq saves_prod saves_json)

lemma fig_03c_saves: "saves ''03c'' (fig_03c_main fuel C P a)"
  unfolding fig_03c_main_def Let_def by (intro saves_bind saves_seq saves_prod saves_json)

lemma fig_03d_saves: "saves ''03d'' (fig_03d_main fuel C ms a b)"
  unfolding fig_03d_main_def Let_def by (intro saves_bind saves_seq saves_prod saves_json)

lemma fig_04a_saves: "saves ''04a'' (fig_04a_main fuel C P a b)"
  unfolding fig_04a_main_def Let_def by (intro saves_bind saves_seq saves_prod saves_json)

lemma fig_04b_saves: "saves ''04b'' (fig_04b_main fuel C P a b c)"
  unfolding fig_04b_main_def Let_def by (intro saves_bind saves_seq saves_prod saves_json)

lemma fig_04c_saves: "saves ''04c'' (fig_04c_main fuel C P a b)"
  unfolding fig_04c_main_def Let_def by (intro saves_bind saves_seq saves_prod saves_json)

lemma fig_13_saves: "saves ''13'' (fig_13_main fuel C P a b)"
  unfolding fig_13_main_def Let_def by (intro saves_bind saves_seq saves_prod saves_json)

lemma fig_14_saves: "saves ''14'' (fig_14_main fuel C P a)"
  unfolding fig_14_main_def Let_def by (intro saves_bind saves_seq saves_prod saves_json)

lemma fig_15a_saves: "saves ''15a'' (fig_15a_main fuel C P a b)"
  unfolding fig_15a_main_def Let_def by (intro saves_bind saves_seq saves_prod saves_json)

lemma fig_15b_saves: "saves ''15b'' (fig_15b_main fuel C P a b)"
  unfolding fig_15b_main_def Let_def by (intro saves_bind saves_seq saves_prod saves_json)

lemma fig_16_saves: "saves ''16'' (fig_16_main fuel C ms a b c)"
  unfolding fig_16_main_def Let_def by (intro saves_bind saves_seq saves_prod saves_json)

lemma fig_17_saves: "saves ''17'' (fig_17_main fuel C P a b)"
  unfolding fig_17_main_def Let_def by (intro saves_bind saves_seq saves_prod saves_json)

lemma fig_18a_saves: "saves ''18a'' (fig_18a_main fuel C P a b)"
  unfolding fig_18a_main_def Let_def by (intro saves_bind saves_seq saves_prod saves_json)

lemma fig_18b_saves: "saves ''18b'' (fig_18b_main fuel C P a b)"
  unfolding fig_18b_main_def Let_def by (intro saves_bind saves_seq saves_prod saves_json)

lemma fig_18c_saves: "saves ''18c'' (fig_18c_main fuel C P a)"
  unfolding fig_18c_main_def Let_def by (intro saves_bind saves_seq saves_prod saves_json)

lemma fig_18d_saves: "saves ''18d'' (fig_18d_main fuel C P a)"
  unfolding fig_18d_main_def Let_def by (intro saves_bind saves_seq saves_prod saves_json)

lemma fig_18e_saves: "saves ''18e'' (fig_18e_main fuel C P a)"
  unfolding fig_18e_main_def Let_def by (intro saves_bind saves_seq saves_prod saves_json)

lemma fig_19a_saves: "saves ''19a'' (fig_19a_main fuel C P a)"
  unfolding fig_19a_main_def Let_def by (intro saves_bind saves_seq saves_prod saves_json)

lemma fig_19c_saves: "saves ''19c'' (fig_19c_main fuel C P a b)"
  unfolding fig_19c_main_def Let_def by (intro saves_bind saves_seq saves_prod saves_json)

lemmas figs_save = fig_03a_saves fig_03b_saves fig_03c_saves fig_03d_saves fig_04a_saves fig_04b_saves fig_04c_saves fig_12_saves fig_13_saves fig_14_saves fig_15a_saves fig_15b_saves fig_16_saves fig_17_saves fig_18a_saves fig_18b_saves fig_18c_saves fig_18d_saves fig_18e_saves fig_18f_19b_saves fig_19a_saves fig_19c_saves


definition draws_own :: "string \<Rightarrow> ((string \<times> json) list \<Rightarrow> job py) \<Rightarrow> bool" where
  "draws_own n load \<longleftrightarrow> (\<forall>files j. load files = Inr j \<longrightarrow>
     job_num j = n \<and> (\<forall>p \<in> set (job_pics j). saves p (job_main j)) \<and>
     (n = ''12'' \<or> set (job_pics j) \<subseteq> fst ` set figs_type))"

lemmas job_draws = common_full_def common_cmake_def common_short_def rd_def Let_def draws_own_def figs_type_def figs_save

lemma fig_03a_draws: "draws_own ''03a'' (fig_03a_job fuel)"
  by (auto simp: fig_03a_job_def job_draws)

lemma fig_03b_draws: "draws_own ''03b'' (fig_03b_job fuel)"
  by (auto simp: fig_03b_job_def job_draws)

lemma fig_03c_draws: "draws_own ''03c'' (fig_03c_job fuel)"
  by (auto simp: fig_03c_job_def job_draws)

lemma fig_03d_draws: "draws_own ''03d'' (fig_03d_job fuel)"
  by (auto simp: fig_03d_job_def job_draws)

lemma fig_04a_draws: "draws_own ''04a'' (fig_04a_job fuel)"
  by (auto simp: fig_04a_job_def job_draws)

lemma fig_04b_draws: "draws_own ''04b'' (fig_04b_job fuel)"
  by (auto simp: fig_04b_job_def job_draws)

lemma fig_04c_draws: "draws_own ''04c'' (fig_04c_job fuel)"
  by (auto simp: fig_04c_job_def job_draws)

lemma fig_12_draws: "draws_own ''12'' (fig_12_job fuel)"
  by (auto simp: fig_12_job_def job_draws intro: fig_12_saves_pair)

lemma fig_13_draws: "draws_own ''13'' (fig_13_job fuel)"
  by (auto simp: fig_13_job_def job_draws)

lemma fig_14_draws: "draws_own ''14'' (fig_14_job fuel)"
  by (auto simp: fig_14_job_def job_draws)

lemma fig_15a_draws: "draws_own ''15a'' (fig_15a_job fuel)"
  by (auto simp: fig_15a_job_def job_draws)

lemma fig_15b_draws: "draws_own ''15b'' (fig_15b_job fuel)"
  by (auto simp: fig_15b_job_def job_draws)

lemma fig_16_draws: "draws_own ''16'' (fig_16_job fuel)"
  by (auto simp: fig_16_job_def job_draws)

lemma fig_17_draws: "draws_own ''17'' (fig_17_job fuel)"
  by (auto simp: fig_17_job_def job_draws)

lemma fig_18a_draws: "draws_own ''18a'' (fig_18a_job str_float fuel)"
  by (auto simp: fig_18a_job_def job_draws)

lemma fig_18b_draws: "draws_own ''18b'' (fig_18b_job fuel)"
  by (auto simp: fig_18b_job_def job_draws)

lemma fig_18c_draws: "draws_own ''18c'' (fig_18c_job fuel)"
  by (auto simp: fig_18c_job_def job_draws)

lemma fig_18d_draws: "draws_own ''18d'' (fig_18d_job fuel)"
  by (auto simp: fig_18d_job_def job_draws)

lemma fig_18e_draws: "draws_own ''18e'' (fig_18e_job fuel)"
  by (auto simp: fig_18e_job_def job_draws)

lemma fig_18f_19b_draws: "draws_own ''18f_19b'' (fig_18f_19b_job fuel)"
  by (auto simp: fig_18f_19b_job_def job_draws)

lemma fig_19a_draws: "draws_own ''19a'' (fig_19a_job fuel)"
  by (auto simp: fig_19a_job_def job_draws)

lemma fig_19c_draws: "draws_own ''19c'' (fig_19c_job fuel)"
  by (auto simp: fig_19c_job_def job_draws)

lemmas figs_draw = fig_03a_draws fig_03b_draws fig_03c_draws fig_03d_draws fig_04a_draws fig_04b_draws fig_04c_draws fig_12_draws fig_13_draws fig_14_draws fig_15a_draws fig_15b_draws fig_16_draws fig_17_draws fig_18a_draws fig_18b_draws fig_18c_draws fig_18d_draws fig_18e_draws fig_18f_19b_draws fig_19a_draws fig_19c_draws

lemma scripts_draw: "(n, load) \<in> set (fig_scripts str_float fuel) \<Longrightarrow> draws_own n load"
  unfolding fig_scripts_def by (auto simp: figs_draw)



definition sample_16 :: json where
  "sample_16 = JDict [(''methods'', jstrs [''SMART'']), (''key_size'', JList [JNum 8, JNum 32]), (''value_size'', JNum 8),
     (''span_size'', JNum 64)]"

definition sample_world :: world where
  "sample_world = \<lparr>params = [(''common.json'', sample_base), (fig_file ''16'', sample_16)],
     styles = [(fig_file ''16'', JDict [])], results = [], time_log = [], drawn = [], conn = None\<rparr>"

definition sample_job :: job where
  "sample_job = \<lparr>job_num = ''16'', job_ips = [''1.1''], job_master = ''1.1'',
     job_main = fig_16_main 1 \<lparr>home_dir = ''/x'', workloads_dir = [], common_options = ''-DA=on'',
       cmake_options = [(''CHIME'', ''-DC=on'')]\<rparr> [''SMART''] 8 64 [8, 32], job_pics = [''16'']\<rparr>"

lemma sample_job: "fig_16_job 1 (params sample_world) = Inr sample_job"
  by (simp add: fig_16_job_def sample_world_def common_cmake_def rd_def dict_field_def open_json_def fig_file_def
      sample_base_def sample_16_def jstrs_def sample_job_def dict_get_def)

definition sample_result :: json where
  "sample_result = plot_xy [''SMART''] (JList [JNum 8, JNum 32]) [(''SMART'', [JNum 18, JNum 18])]"

lemma sample_main:
  "job_main sample_job \<lparr>cl = c, saved = []\<rparr> = (Inr (), \<lparr>cl = c, saved = [(fig_file ''16'', sample_result)]\<rparr>)"
  by (simp add: sample_job_def fig_16_main_def fig_16_point_def series_init_def append_to_def save_json_def act_bind_def
      act_defs sample_result_def jint_def)

lemma sample_init:
  "\<exists>c. CMDManager_init [''1.1''] ''1.1'' [[Msg ''$'']] [[Inr (Inr [], Inr [])]] [] = (Inr (), c)"
  by (simp add: CMDManager_init_def clear_shell_def shell_send_def set_shell_def all_execute_def CN_range_def cli_ip_def
      exec_command_def act_bind_def act_seq_def act_defs Let_def dict_get_def)


end
