(* ===== verification/Shipped_Params.thy ===== *)
theory Shipped_Params
  imports Fig_Scripts
begin

text \<open>
  The parameter files of the repository, \<^verbatim>\<open>exp/params/common.json\<close> and \<^verbatim>\<open>exp/params/fig_<n>.json\<close>, as the
  values \<^verbatim>\<open>json.load\<close> returns, and that every figure script loads them.
\<close>

section \<open>The files\<close>

definition shipped_options :: "(string \<times> string) list" where
  "shipped_options = [
     (''CHIME'',
      ''-DENABLE_CACHE=on -DENABLE_CACHE_EVICTION=off -DHOPSCOTCH_LEAF_NODE=on  -DVACANCY_AWARE_LOCK=on  -DMETADATA_REPLICATION=on  -DSIBLING_BASED_VALIDATION=on  -DSPECULATIVE_READ=on  -DFINE_GRAINED_RANGE_QUERY=on  -DGREEDY_RANGE_QUERY=on  -DENABLE_VAR_LEN_KV=off''),
     (''Sherman'',
      ''-DENABLE_CACHE=on -DENABLE_CACHE_EVICTION=off -DHOPSCOTCH_LEAF_NODE=off -DVACANCY_AWARE_LOCK=off -DMETADATA_REPLICATION=off -DSIBLING_BASED_VALIDATION=off -DSPECULATIVE_READ=off -DFINE_GRAINED_RANGE_QUERY=off -DGREEDY_RANGE_QUERY=off -DENABLE_VAR_LEN_KV=off''),
     (''SMART'',
      ''-DENABLE_CACHE=on -DART_INDEXED_CACHE=on -DHOMOGENEOUS_INTERNAL_NODE=on -DLOCK_FREE_INTERNAL_NODE=on -DUPDATE_IN_PLACE_LEAF_NODE=on -DREAR_EMBEDDED_LOCK=on''),
     (''ROLEX'',
      ''-DHOPSCOTCH_LEAF_NODE=off -DVACANCY_AWARE_LOCK=off -DMETADATA_REPLICATION=off -DSPECULATIVE_READ=off -DENABLE_VAR_LEN_KV=off''),
     (''CHIME-indirect'',
      ''-DENABLE_CACHE=on -DENABLE_CACHE_EVICTION=off -DHOPSCOTCH_LEAF_NODE=on -DVACANCY_AWARE_LOCK=on -DMETADATA_REPLICATION=on -DSIBLING_BASED_VALIDATION=on -DSPECULATIVE_READ=on -DFINE_GRAINED_RANGE_QUERY=on -DGREEDY_RANGE_QUERY=on -DENABLE_VAR_LEN_KV=on''),
     (''Marlin'',
      ''-DENABLE_CACHE=on -DENABLE_CACHE_EVICTION=off -DON_CHIP=off -DENABLE_VAR_LEN_KV=on -DTREE_ENABLE_MARLIN=on''),
     (''SMART-RCU'',
      ''-DENABLE_CACHE=on -DART_INDEXED_CACHE=on -DHOMOGENEOUS_INTERNAL_NODE=on -DLOCK_FREE_INTERNAL_NODE=on -DUPDATE_IN_PLACE_LEAF_NODE=off -DREAR_EMBEDDED_LOCK=off''),
     (''ROLEX-indirect'',
      ''-DHOPSCOTCH_LEAF_NODE=off -DVACANCY_AWARE_LOCK=off -DMETADATA_REPLICATION=off -DSPECULATIVE_READ=off -DENABLE_VAR_LEN_KV=on''),
     (''S +Hopscotch Leaf Node'',
      ''-DENABLE_CACHE=on -DENABLE_CACHE_EVICTION=off -DHOPSCOTCH_LEAF_NODE=on  -DVACANCY_AWARE_LOCK=off -DMETADATA_REPLICATION=off -DSIBLING_BASED_VALIDATION=off -DSPECULATIVE_READ=off -DFINE_GRAINED_RANGE_QUERY=off -DGREEDY_RANGE_QUERY=off -DENABLE_VAR_LEN_KV=off''),
     (''S +Vacancy-Aware Lock'',
      ''-DENABLE_CACHE=on -DENABLE_CACHE_EVICTION=off -DHOPSCOTCH_LEAF_NODE=on  -DVACANCY_AWARE_LOCK=on  -DMETADATA_REPLICATION=off -DSIBLING_BASED_VALIDATION=off -DSPECULATIVE_READ=off -DFINE_GRAINED_RANGE_QUERY=off -DGREEDY_RANGE_QUERY=off -DENABLE_VAR_LEN_KV=off''),
     (''S +Metadata Replication'',
      ''-DENABLE_CACHE=on -DENABLE_CACHE_EVICTION=off -DHOPSCOTCH_LEAF_NODE=on  -DVACANCY_AWARE_LOCK=on  -DMETADATA_REPLICATION=on  -DSIBLING_BASED_VALIDATION=off -DSPECULATIVE_READ=off -DFINE_GRAINED_RANGE_QUERY=off -DGREEDY_RANGE_QUERY=off -DENABLE_VAR_LEN_KV=off''),
     (''S +Sibling-Based Validation'',
      ''-DENABLE_CACHE=on -DENABLE_CACHE_EVICTION=off -DHOPSCOTCH_LEAF_NODE=on  -DVACANCY_AWARE_LOCK=on  -DMETADATA_REPLICATION=on  -DSIBLING_BASED_VALIDATION=on  -DSPECULATIVE_READ=off -DFINE_GRAINED_RANGE_QUERY=off -DGREEDY_RANGE_QUERY=off -DENABLE_VAR_LEN_KV=off''),
     (''S +Speculative Leaf Read'',
      ''-DENABLE_CACHE=on -DENABLE_CACHE_EVICTION=off -DHOPSCOTCH_LEAF_NODE=on  -DVACANCY_AWARE_LOCK=on  -DMETADATA_REPLICATION=on  -DSIBLING_BASED_VALIDATION=on  -DSPECULATIVE_READ=on  -DFINE_GRAINED_RANGE_QUERY=off -DGREEDY_RANGE_QUERY=off -DENABLE_VAR_LEN_KV=off''),
     (''R +Hopscotch Leaf Node'',
      ''-DHOPSCOTCH_LEAF_NODE=on  -DVACANCY_AWARE_LOCK=off -DMETADATA_REPLICATION=off -DSPECULATIVE_READ=off -DENABLE_VAR_LEN_KV=off''),
     (''R +Vacancy-Aware Lock'',
      ''-DHOPSCOTCH_LEAF_NODE=on  -DVACANCY_AWARE_LOCK=on  -DMETADATA_REPLICATION=off -DSPECULATIVE_READ=off -DENABLE_VAR_LEN_KV=off''),
     (''R +Metadata Replication'',
      ''-DHOPSCOTCH_LEAF_NODE=on  -DVACANCY_AWARE_LOCK=on  -DMETADATA_REPLICATION=on  -DSPECULATIVE_READ=off -DENABLE_VAR_LEN_KV=off''),
     (''R +Speculative Leaf Read'',
      ''-DHOPSCOTCH_LEAF_NODE=on  -DVACANCY_AWARE_LOCK=on  -DMETADATA_REPLICATION=on  -DSPECULATIVE_READ=on  -DENABLE_VAR_LEN_KV=off''),
     (''Coarse-Grained Mode'',
      ''-DENABLE_CACHE=on -DENABLE_CACHE_EVICTION=off -DHOPSCOTCH_LEAF_NODE=on -DVACANCY_AWARE_LOCK=on -DMETADATA_REPLICATION=on -DSIBLING_BASED_VALIDATION=on -DSPECULATIVE_READ=on -DFINE_GRAINED_RANGE_QUERY=off -DGREEDY_RANGE_QUERY=off -DENABLE_VAR_LEN_KV=off''),
     (''Fine-Grained Mode'',
      ''-DENABLE_CACHE=on -DENABLE_CACHE_EVICTION=off -DHOPSCOTCH_LEAF_NODE=on -DVACANCY_AWARE_LOCK=on -DMETADATA_REPLICATION=on -DSIBLING_BASED_VALIDATION=on -DSPECULATIVE_READ=on -DFINE_GRAINED_RANGE_QUERY=on  -DGREEDY_RANGE_QUERY=off -DENABLE_VAR_LEN_KV=off''),
     (''+Greedy Range Query'',
      ''-DENABLE_CACHE=on -DENABLE_CACHE_EVICTION=off -DHOPSCOTCH_LEAF_NODE=on -DVACANCY_AWARE_LOCK=on -DMETADATA_REPLICATION=on -DSIBLING_BASED_VALIDATION=on -DSPECULATIVE_READ=on -DFINE_GRAINED_RANGE_QUERY=on  -DGREEDY_RANGE_QUERY=on  -DENABLE_VAR_LEN_KV=off''),
     (''CHIME w/ Sibling-Based Validation'',
      ''-DENABLE_CACHE=on -DENABLE_CACHE_EVICTION=off -DHOPSCOTCH_LEAF_NODE=on  -DVACANCY_AWARE_LOCK=on  -DMETADATA_REPLICATION=on  -DSIBLING_BASED_VALIDATION=on  -DSPECULATIVE_READ=off -DFINE_GRAINED_RANGE_QUERY=off -DGREEDY_RANGE_QUERY=off -DENABLE_VAR_LEN_KV=off''),
     (''CHIME w/o Sibling-Based Validation'',
      ''-DENABLE_CACHE=on -DENABLE_CACHE_EVICTION=off -DHOPSCOTCH_LEAF_NODE=on  -DVACANCY_AWARE_LOCK=on  -DMETADATA_REPLICATION=on  -DSIBLING_BASED_VALIDATION=off -DSPECULATIVE_READ=off -DFINE_GRAINED_RANGE_QUERY=off -DGREEDY_RANGE_QUERY=off -DENABLE_VAR_LEN_KV=off''),
     (''CHIME w/ Speculative Leaf Read'',
      ''-DENABLE_CACHE=on -DENABLE_CACHE_EVICTION=off -DHOPSCOTCH_LEAF_NODE=on  -DVACANCY_AWARE_LOCK=on  -DMETADATA_REPLICATION=on  -DSIBLING_BASED_VALIDATION=on  -DSPECULATIVE_READ=on  -DFINE_GRAINED_RANGE_QUERY=off -DGREEDY_RANGE_QUERY=off -DENABLE_VAR_LEN_KV=off''),
     (''CHIME w/o Speculative Leaf Read'',
      ''-DENABLE_CACHE=on -DENABLE_CACHE_EVICTION=off -DHOPSCOTCH_LEAF_NODE=on  -DVACANCY_AWARE_LOCK=on  -DMETADATA_REPLICATION=on  -DSIBLING_BASED_VALIDATION=on  -DSPECULATIVE_READ=off -DFINE_GRAINED_RANGE_QUERY=off -DGREEDY_RANGE_QUERY=off -DENABLE_VAR_LEN_KV=off''),
     (''Sherman +Speculative Leaf Read'',
      ''-DENABLE_CACHE=on -DENABLE_CACHE_EVICTION=off -DHOPSCOTCH_LEAF_NODE=off  -DVACANCY_AWARE_LOCK=off -DMETADATA_REPLICATION=off -DSIBLING_BASED_VALIDATION=off -DSPECULATIVE_READ=on -DFINE_GRAINED_RANGE_QUERY=off -DGREEDY_RANGE_QUERY=off -DENABLE_VAR_LEN_KV=off'')]"

definition shipped_ips :: "string list" where
  "shipped_ips =
     [''10.10.1.2'', ''10.10.1.1'', ''10.10.1.3'', ''10.10.1.4'', ''10.10.1.5'', ''10.10.1.6'', ''10.10.1.7'',
     ''10.10.1.8'', ''10.10.1.9'', ''10.10.1.10'', ''10.10.1.11'']"

definition params_common :: json where
  "params_common =
     JDict [(''home_dir'', JStr ''/users/TempUser''), (''workloads_dir'',
     JStr ''/users/TempUser/CHIME/ycsb/workloads''), (''cluster_ips'', jstrs shipped_ips), (''master_ip'',
     JStr ''10.10.1.2''), (''common_options'',
     JStr ''-DSTATIC_MN_IP=on -DENABLE_CORO=on -DSHORT_TEST_EPOCH=off -DMIDDLE_TEST_EPOCH=off -DLONG_TEST_EPOCH=off -DREAD_DELEGATION=on -DWRITE_COMBINING=on''
     ), (''cmake_options'', JDict (map (\<lambda>(m, opt). (m, JStr opt)) shipped_options))]"

definition params_03a :: json where
  "params_03a =
     JDict [(''methods'', jstrs [''SMART'', ''Sherman'', ''ROLEX'']), (''workload_names'', jstrs [''YCSB C'',
     ''c'']), (''client_num'', JList [JNum 10, JNum 64]), (''MN_num'', JNum 1), (''key_size'', JStr ''randint''
     ), (''value_size'', JNum 8), (''cache_size'', JNum 60000), (''neighbor_size'', JNum 8),
     (''hotspot_buffer_size'', JNum 30), (''ampl_size'', JDict [(''SMART'', JList [JNum 1]), (''Sherman'',
     JList [JNum 2, JNum 8, JNum 16, JNum 32, JNum 64, JNum 96, JNum 128]), (''ROLEX'', JList [JNum 12, JNum 16,
     JNum 32, JNum 64, JNum 96, JNum 128])])]"

definition params_03b :: json where
  "params_03b =
     JDict [(''methods'', jstrs [''SMART'', ''Sherman'', ''ROLEX'']), (''workload_names'', jstrs [''YCSB C'',
     ''c'']), (''target_epoch'', JNum 9), (''client_num'', JList [JList [JNum 10, JNum 8], JList [JNum 10,
     JNum 16], JList [JNum 10, JNum 24], JList [JNum 10, JNum 32], JList [JNum 10, JNum 40], JList [JNum 10,
     JNum 48]]), (''MN_num'', JNum 1), (''key_size'', JStr ''randint''), (''value_size'', JNum 8),
     (''cache_size'', JNum 1000), (''span_size'', JDict [(''CHIME'', JNum 64), (''SMART'', JNum 1),
     (''Sherman'', JNum 64), (''ROLEX'', JNum 16)]), (''epsilon'', JNum 16), (''neighbor_size'', JNum 8),
     (''hotspot_buffer_size'', JNum 30)]"

definition params_03c :: json where
  "params_03c =
     JDict [(''methods'', jstrs [''SMART'', ''Sherman'', ''ROLEX'']), (''workload_names'', jstrs [''YCSB C'',
     ''c'']), (''target_epoch'', JNum 9), (''client_num'', JList [JList [JNum 10, JNum 8], JList [JNum 10,
     JNum 16], JList [JNum 10, JNum 24], JList [JNum 10, JNum 32], JList [JNum 10, JNum 40], JList [JNum 10,
     JNum 48]]), (''MN_num'', JNum 10), (''key_size'', JStr ''randint''), (''value_size'', JNum 8),
     (''cache_size'', JNum 100), (''span_size'', JDict [(''CHIME'', JNum 64), (''SMART'', JNum 1), (''Sherman'',
     JNum 64), (''ROLEX'', JNum 16)]), (''epsilon'', JNum 16), (''neighbor_size'', JNum 8),
     (''hotspot_buffer_size'', JNum 30)]"

definition params_03d :: json where
  "params_03d =
     JDict [(''methods'', jstrs [''Hopscotch'', ''FaRM'', ''Associativity'', ''RACE'']), (''table_size'',
     JNum 128), (''ampl_size'', JList [JNum 4, JNum 8, JNum 12, JNum 16, JNum 20])]"

definition params_04a :: json where
  "params_04a =
     JDict [(''methods'', jstrs [''Segment'', ''Metadata before Segment'']), (''target_epoch'', JNum 8),
     (''client_num'', JList [JNum 10, JNum 64]), (''MN_num'', JNum 1), (''key_size'', JStr ''randint''),
     (''value_size'', JNum 8), (''span_size'', JNum 64), (''segment_size'', JList [JNum 8, JNum 16, JNum 24,
     JNum 32, JNum 40, JNum 48, JNum 56, JNum 64])]"

definition params_04b :: json where
  "params_04b =
     JDict [(''methods'', jstrs [''Segment'', ''Segment and Metadata (2-I/O)'']), (''target_epoch'', JNum 8),
     (''client_num'', JList [JNum 10, JNum 64]), (''MN_num'', JNum 1), (''key_size'', JList [JNum 8, JNum 16,
     JNum 24, JNum 32, JNum 40, JNum 48, JNum 56, JNum 64]), (''value_size'', JNum 8), (''span_size'', JNum 64),
     (''segment_size'', JNum 8)]"

definition params_04c :: json where
  "params_04c =
     JDict [(''methods'', jstrs [''Neighborhood'']), (''target_epoch'', JNum 10), (''client_num'', JList [
     JNum 10, JNum 64]), (''MN_num'', JNum 1), (''neighbor_size'', JList [JNum 1, JNum 4, JNum 8]),
     (''key_size'', JList [JNum 8, JNum 16, JNum 24, JNum 32, JNum 40, JNum 48, JNum 56, JNum 64]),
     (''value_size'', JNum 8)]"

definition params_12 :: json where
  "params_12 =
     JDict [(''methods'', jstrs [''CHIME'', ''SMART'', ''Sherman'', ''ROLEX'', ''SMART-SC'']),
     (''workload_names'', JDict [(''YCSB C'', JStr ''c''), (''YCSB D'', JStr ''d''), (''YCSB E'', JStr ''e''),
     (''YCSB LOAD'', JStr ''la''), (''YCSB A'', JStr ''a''), (''YCSB B'', JStr ''b'')]), (''target_epoch'',
     JDict [(''YCSB LOAD'', JNum 10), (''YCSB A'', JNum 10), (''YCSB B'', JNum 10), (''YCSB C'', JNum 10),
     (''YCSB D'', JNum 10), (''YCSB E'', JNum 10)]), (''client_num'', JDict [(''YCSB LOAD'', JDict [(''CHIME'',
     JList [JList [JNum 10, JNum 4], JList [JNum 10, JNum 8], JList [JNum 10, JNum 12], JList [JNum 10, JNum 16
     ], JList [JNum 10, JNum 20], JList [JNum 10, JNum 24], JList [JNum 10, JNum 28], JList [JNum 10, JNum 32]]
     ), (''SMART'', JList [JList [JNum 10, JNum 8], JList [JNum 10, JNum 10], JList [JNum 10, JNum 12], JList [
     JNum 10, JNum 16], JList [JNum 10, JNum 20], JList [JNum 10, JNum 24], JList [JNum 10, JNum 28], JList [
     JNum 10, JNum 32]]), (''Sherman'', JList [JList [JNum 10, JNum 2], JList [JNum 10, JNum 4], JList [JNum 10,
     JNum 8], JList [JNum 10, JNum 16], JList [JNum 10, JNum 20], JList [JNum 10, JNum 24], JList [JNum 10,
     JNum 28], JList [JNum 10, JNum 32]]), (''SMART-SC'', JList [JList [JNum 10, JNum 2], JList [JNum 10, JNum 4
     ], JList [JNum 10, JNum 8], JList [JNum 10, JNum 16], JList [JNum 10, JNum 20], JList [JNum 10, JNum 24],
     JList [JNum 10, JNum 28], JList [JNum 10, JNum 32]])]), (''YCSB A'', JDict [(''CHIME'', JList [JList [
     JNum 10, JNum 2], JList [JNum 10, JNum 4], JList [JNum 10, JNum 8], JList [JNum 10, JNum 12], JList [
     JNum 10, JNum 16], JList [JNum 10, JNum 24], JList [JNum 10, JNum 32], JList [JNum 10, JNum 48]]),
     (''SMART'', JList [JList [JNum 10, JNum 2], JList [JNum 10, JNum 4], JList [JNum 10, JNum 8], JList [
     JNum 10, JNum 16], JList [JNum 10, JNum 32], JList [JNum 10, JNum 40], JList [JNum 10, JNum 48], JList [
     JNum 10, JNum 56]]), (''Sherman'', JList [JList [JNum 10, JNum 2], JList [JNum 10, JNum 4], JList [JNum 10,
     JNum 8], JList [JNum 10, JNum 12], JList [JNum 10, JNum 16], JList [JNum 10, JNum 20], JList [JNum 10,
     JNum 24], JList [JNum 10, JNum 28]]), (''ROLEX'', JList [JList [JNum 10, JNum 2], JList [JNum 10, JNum 4],
     JList [JNum 10, JNum 8], JList [JNum 10, JNum 12], JList [JNum 10, JNum 16], JList [JNum 10, JNum 20],
     JList [JNum 10, JNum 22], JList [JNum 10, JNum 24]]), (''SMART-SC'', JList [JList [JNum 10, JNum 2],
     JList [JNum 10, JNum 4], JList [JNum 10, JNum 6], JList [JNum 10, JNum 8], JList [JNum 10, JNum 32],
     JList [JNum 10, JNum 40], JList [JNum 10, JNum 56], JList [JNum 10, JNum 64]])]), (''YCSB B'', JDict [
     (''CHIME'', JList [JList [JNum 10, JNum 4], JList [JNum 10, JNum 8], JList [JNum 10, JNum 12], JList [
     JNum 10, JNum 16], JList [JNum 10, JNum 24], JList [JNum 10, JNum 32], JList [JNum 10, JNum 40], JList [
     JNum 10, JNum 48]]), (''SMART'', JList [JList [JNum 10, JNum 2], JList [JNum 10, JNum 4], JList [JNum 10,
     JNum 8], JList [JNum 10, JNum 16], JList [JNum 10, JNum 32], JList [JNum 10, JNum 48], JList [JNum 10,
     JNum 56], JList [JNum 10, JNum 64]]), (''Sherman'', JList [JList [JNum 10, JNum 2], JList [JNum 10, JNum 4
     ], JList [JNum 10, JNum 8], JList [JNum 10, JNum 16], JList [JNum 10, JNum 20], JList [JNum 10, JNum 24],
     JList [JNum 10, JNum 28], JList [JNum 10, JNum 32]]), (''ROLEX'', JList [JList [JNum 10, JNum 2], JList [
     JNum 10, JNum 4], JList [JNum 10, JNum 8], JList [JNum 10, JNum 16], JList [JNum 10, JNum 20], JList [
     JNum 10, JNum 24], JList [JNum 10, JNum 28], JList [JNum 10, JNum 32]]), (''SMART-SC'', JList [JList [
     JNum 10, JNum 2], JList [JNum 10, JNum 4], JList [JNum 10, JNum 8], JList [JNum 10, JNum 16], JList [
     JNum 10, JNum 20], JList [JNum 10, JNum 24], JList [JNum 10, JNum 48], JList [JNum 10, JNum 64]])]),
     (''YCSB C'', JDict [(''CHIME'', JList [JList [JNum 10, JNum 4], JList [JNum 10, JNum 8], JList [JNum 10,
     JNum 12], JList [JNum 10, JNum 16], JList [JNum 10, JNum 32], JList [JNum 10, JNum 48], JList [JNum 10,
     JNum 56], JList [JNum 10, JNum 64]]), (''SMART'', JList [JList [JNum 10, JNum 2], JList [JNum 10, JNum 4],
     JList [JNum 10, JNum 6], JList [JNum 10, JNum 8], JList [JNum 10, JNum 12], JList [JNum 10, JNum 14],
     JList [JNum 10, JNum 16], JList [JNum 10, JNum 18]]), (''Sherman'', JList [JList [JNum 10, JNum 2], JList [
     JNum 10, JNum 4], JList [JNum 10, JNum 8], JList [JNum 10, JNum 16], JList [JNum 10, JNum 24], JList [
     JNum 10, JNum 32], JList [JNum 10, JNum 40], JList [JNum 10, JNum 48]]), (''ROLEX'', JList [JList [JNum 10,
     JNum 2], JList [JNum 10, JNum 4], JList [JNum 10, JNum 8], JList [JNum 10, JNum 16], JList [JNum 10,
     JNum 24], JList [JNum 10, JNum 32], JList [JNum 10, JNum 40], JList [JNum 10, JNum 48]]), (''SMART-SC'',
     JList [JList [JNum 10, JNum 4], JList [JNum 10, JNum 8], JList [JNum 10, JNum 12], JList [JNum 10, JNum 16
     ], JList [JNum 10, JNum 32], JList [JNum 10, JNum 48], JList [JNum 10, JNum 56], JList [JNum 10, JNum 64]])
     ]), (''YCSB D'', JDict [(''CHIME'', JList [JList [JNum 10, JNum 8], JList [JNum 10, JNum 12], JList [
     JNum 10, JNum 16], JList [JNum 10, JNum 28], JList [JNum 10, JNum 32], JList [JNum 10, JNum 40], JList [
     JNum 10, JNum 48], JList [JNum 10, JNum 56]]), (''SMART'', JList [JList [JNum 10, JNum 2], JList [JNum 10,
     JNum 4], JList [JNum 10, JNum 8], JList [JNum 10, JNum 16], JList [JNum 10, JNum 20], JList [JNum 10,
     JNum 24], JList [JNum 10, JNum 28], JList [JNum 10, JNum 32]]), (''Sherman'', JList [JList [JNum 10, JNum 2
     ], JList [JNum 10, JNum 4], JList [JNum 10, JNum 8], JList [JNum 10, JNum 16], JList [JNum 10, JNum 20],
     JList [JNum 10, JNum 24], JList [JNum 10, JNum 28], JList [JNum 10, JNum 32]]), (''ROLEX'', JList [JList [
     JNum 10, JNum 2], JList [JNum 10, JNum 4], JList [JNum 10, JNum 8], JList [JNum 10, JNum 12], JList [
     JNum 10, JNum 16], JList [JNum 10, JNum 20], JList [JNum 10, JNum 24], JList [JNum 10, JNum 28]]),
     (''SMART-SC'', JList [JList [JNum 10, JNum 8], JList [JNum 10, JNum 12], JList [JNum 10, JNum 16], JList [
     JNum 10, JNum 20], JList [JNum 10, JNum 24], JList [JNum 10, JNum 32], JList [JNum 10, JNum 48], JList [
     JNum 10, JNum 64]])]), (''YCSB E'', JDict [(''CHIME'', JList [JList [JNum 10, JNum 2], JList [JNum 10,
     JNum 4], JList [JNum 10, JNum 5], JList [JNum 10, JNum 10], JList [JNum 10, JNum 14], JList [JNum 10,
     JNum 16]]), (''SMART'', JList [JList [JNum 10, JNum 2], JList [JNum 10, JNum 4], JList [JNum 10, JNum 8],
     JList [JNum 10, JNum 12], JList [JNum 10, JNum 16], JList [JNum 10, JNum 24]]), (''Sherman'', JList [
     JList [JNum 10, JNum 2], JList [JNum 10, JNum 3], JList [JNum 10, JNum 4], JList [JNum 10, JNum 6], JList [
     JNum 10, JNum 24], JList [JNum 10, JNum 32]]), (''ROLEX'', JList [JList [JNum 10, JNum 2], JList [JNum 10,
     JNum 3], JList [JNum 10, JNum 4], JList [JNum 10, JNum 14], JList [JNum 10, JNum 18], JList [JNum 10,
     JNum 20]]), (''SMART-SC'', JList [JList [JNum 10, JNum 2], JList [JNum 10, JNum 4], JList [JNum 10, JNum 8
     ], JList [JNum 10, JNum 12], JList [JNum 10, JNum 16], JList [JNum 10, JNum 24]])])]), (''MN_num'', JNum 1
     ), (''key_size'', JStr ''randint''), (''value_size'', JNum 8), (''cache_size'', JNum 100), (''span_size'',
     JDict [(''CHIME'', JNum 64), (''SMART'', JNum 1), (''Sherman'', JNum 64), (''ROLEX'', JNum 16)]),
     (''epsilon'', JNum 16), (''neighbor_size'', JNum 8), (''hotspot_buffer_size'', JNum 30)]"

definition params_13 :: json where
  "params_13 =
     JDict [(''methods'', jstrs [''CHIME-indirect'', ''SMART-RCU'', ''Marlin'', ''ROLEX-indirect'']),
     (''workload_names'', JDict [(''YCSB LOAD'', JStr ''la''), (''YCSB A'', JStr ''a''), (''YCSB B'', JStr ''b''
     ), (''YCSB C'', JStr ''c''), (''YCSB D'', JStr ''d''), (''YCSB E'', JStr ''e'')]), (''target_epoch'',
     JNum 5), (''long_target_epoch'', JNum 9), (''client_num'', JList [JNum 10, JNum 32]), (''MN_num'', JNum 1),
     (''key_size'', JStr ''randint''), (''value_size'', JNum 8), (''cache_size'', JNum 100), (''span_size'',
     JDict [(''CHIME-indirect'', JNum 64), (''SMART-RCU'', JNum 1), (''Marlin'', JNum 64), (''ROLEX-indirect'',
     JNum 16)]), (''epsilon'', JNum 16), (''neighbor_size'', JNum 8), (''hotspot_buffer_size'', JNum 30)]"

definition params_14 :: json where
  "params_14 =
     JDict [(''methods'', jstrs [''CHIME'', ''Sherman'', ''ROLEX'', ''SMART'']), (''workload_names'', jstrs [
     ''40M'', ''60M'', ''80M'', ''100M'', ''120M'']), (''client_num'', JList [JNum 10, JNum 64]), (''MN_num'',
     JNum 1), (''key_size'', JStr ''randint''), (''value_size'', JNum 8), (''cache_size'', JNum 60000),
     (''span_size'', JDict [(''CHIME'', JNum 64), (''SMART'', JNum 1), (''Sherman'', JNum 64), (''ROLEX'',
     JNum 16)]), (''epsilon'', JNum 16), (''neighbor_size'', JNum 8), (''hotspot_buffer_size'', JNum 30)]"

definition params_15a :: json where
  "params_15a =
     JDict [(''methods'', jstrs [''Sherman'', ''S +Hopscotch Leaf Node'', ''S +Vacancy-Aware Lock'',
     ''S +Metadata Replication'', ''S +Sibling-Based Validation'', ''S +Speculative Leaf Read'']),
     (''workload_names'', JDict [(''YCSB LOAD'', JStr ''la''), (''YCSB A'', JStr ''a''), (''YCSB B'', JStr ''b''
     ), (''YCSB C'', JStr ''c''), (''YCSB D'', JStr ''d'')]), (''target_epoch'', JNum 9), (''client_num'',
     JList [JNum 10, JNum 32]), (''MN_num'', JNum 1), (''key_size'', JStr ''randint''), (''value_size'', JNum 8
     ), (''cache_size'', JNum 100), (''span_size'', JNum 64), (''neighbor_size'', JNum 8),
     (''hotspot_buffer_size'', JNum 30)]"

definition params_15b :: json where
  "params_15b =
     JDict [(''methods'', jstrs [''ROLEX'', ''R +Hopscotch Leaf Node'', ''R +Vacancy-Aware Lock'',
     ''R +Metadata Replication'', ''R +Speculative Leaf Read'']), (''workload_names'', JDict [(''YCSB A'',
     JStr ''a''), (''YCSB B'', JStr ''b''), (''YCSB C'', JStr ''c''), (''YCSB D'', JStr ''d'')]),
     (''target_epoch'', JNum 9), (''client_num'', JList [JNum 10, JNum 32]), (''MN_num'', JNum 1),
     (''key_size'', JStr ''randint''), (''value_size'', JNum 8), (''cache_size'', JNum 100), (''span_size'',
     JNum 64), (''epsilon'', JNum 16), (''neighbor_size'', JNum 8), (''hotspot_buffer_size'', JNum 30)]"

definition params_16 :: json where
  "params_16 =
     JDict [(''methods'', jstrs [''CHIME w/ Sibling-Based Validation'', ''CHIME w/o Sibling-Based Validation'',
     ''SMART'', ''Sherman'', ''ROLEX'']), (''key_size'', JList [JNum 8, JNum 32, JNum 64, JNum 96, JNum 128,
     JNum 160, JNum 192, JNum 224, JNum 256]), (''value_size'', JNum 8), (''span_size'', JNum 64)]"

definition params_17 :: json where
  "params_17 =
     JDict [(''methods'', jstrs [''SMART'', ''CHIME w/ Speculative Leaf Read'',
     ''CHIME w/o Speculative Leaf Read'']), (''workload_names'', jstrs [''YCSB C'', ''c'']), (''target_epoch'',
     JNum 10), (''client_num'', JList [JList [JNum 10, JNum 8], JList [JNum 10, JNum 16], JList [JNum 10,
     JNum 24], JList [JNum 10, JNum 32], JList [JNum 10, JNum 40], JList [JNum 10, JNum 48], JList [JNum 10,
     JNum 56], JList [JNum 10, JNum 64]]), (''MN_num'', JNum 1), (''key_size'', JStr ''randint''),
     (''value_size'', JNum 8), (''cache_size'', JNum 100000), (''span_size'', JNum 64), (''neighbor_size'',
     JNum 8), (''hotspot_buffer_size'', JNum 30)]"

definition params_18a :: json where
  "params_18a =
     JDict [(''methods'', jstrs [''CHIME'', ''SMART'', ''Sherman'', ''ROLEX'']), (''zipfian'', JList [
     JNum (1 / 2), JNum (3 / 5), JNum (7 / 10), JNum (4 / 5), JNum (9 / 10), JNum (99 / 100)]), (''read_ratio'',
     JNum 50), (''target_epoch'', JNum 9), (''client_num'', JList [JNum 10, JNum 64]), (''MN_num'', JNum 1),
     (''key_size'', JStr ''randint''), (''value_size'', JNum 8), (''cache_size'', JNum 100), (''span_size'',
     JDict [(''CHIME'', JNum 64), (''SMART'', JNum 1), (''Sherman'', JNum 64), (''ROLEX'', JNum 16)]),
     (''epsilon'', JNum 16), (''neighbor_size'', JNum 8), (''hotspot_buffer_size'', JNum 30)]"

definition params_18b :: json where
  "params_18b =
     JDict [(''methods'', jstrs [''SMART'', ''CHIME'', ''Sherman'', ''ROLEX'']), (''workload_names'', jstrs [
     ''YCSB C'', ''c'']), (''target_epoch'', JDict [(''CHIME'', JNum 9), (''SMART'', JNum 30), (''Sherman'',
     JNum 9), (''ROLEX'', JNum 9)]), (''client_num'', JList [JNum 10, JNum 64]), (''MN_num'', JNum 1),
     (''key_size'', JStr ''randint''), (''value_size'', JNum 8), (''cache_size'', JList [JNum 0, JNum 50,
     JNum 100, JNum 200, JNum 300, JNum 400, JNum 500]), (''span_size'', JDict [(''CHIME'', JNum 64),
     (''SMART'', JNum 1), (''Sherman'', JNum 64), (''ROLEX'', JNum 16)]), (''epsilon'', JNum 16),
     (''neighbor_size'', JNum 8), (''hotspot_buffer_size'', JNum 30)]"

definition params_18c :: json where
  "params_18c =
     JDict [(''methods'', jstrs [''CHIME'', ''SMART'', ''Sherman'', ''ROLEX'']), (''workload_names'', jstrs [
     ''YCSB C'', ''c'']), (''target_epoch'', JNum 9), (''client_num'', JList [JNum 10, JNum 64]), (''MN_num'',
     JNum 1), (''key_size'', JStr ''randint''), (''value_size'', JList [JNum 8, JNum 16, JNum 32, JNum 64,
     JNum 128, JNum 256, JNum 384, JNum 512]), (''cache_size'', JNum 100), (''span_size'', JDict [(''CHIME'',
     JNum 64), (''SMART'', JNum 1), (''Sherman'', JNum 64), (''ROLEX'', JNum 16)]), (''epsilon'', JNum 16),
     (''neighbor_size'', JNum 8), (''hotspot_buffer_size'', JNum 30)]"

definition params_18d :: json where
  "params_18d =
     JDict [(''methods'', jstrs [''CHIME-indirect'', ''SMART-RCU'', ''Marlin'', ''ROLEX-indirect'']),
     (''workload_names'', jstrs [''YCSB C'', ''c'']), (''target_epoch'', JNum 9), (''client_num'', JList [
     JNum 10, JNum 64]), (''MN_num'', JNum 1), (''key_size'', JStr ''randint''), (''value_size'', JList [JNum 8,
     JNum 16, JNum 32, JNum 64, JNum 128, JNum 256, JNum 384, JNum 512]), (''cache_size'', JNum 100),
     (''span_size'', JDict [(''CHIME-indirect'', JNum 64), (''SMART-RCU'', JNum 1), (''Marlin'', JNum 64),
     (''ROLEX-indirect'', JNum 16)]), (''epsilon'', JNum 16), (''neighbor_size'', JNum 8),
     (''hotspot_buffer_size'', JNum 30)]"

definition params_18e :: json where
  "params_18e =
     JDict [(''methods'', jstrs [''CHIME'', ''Sherman'', ''ROLEX'']), (''workload_names'', jstrs [''YCSB C'',
     ''c'']), (''target_epoch'', JNum 9), (''client_num'', JList [JNum 10, JNum 64]), (''MN_num'', JNum 1),
     (''key_size'', JStr ''randint''), (''value_size'', JNum 8), (''cache_size'', JNum 10000), (''span_size'',
     JList [JNum 8, JNum 16, JNum 32, JNum 64, JNum 128, JNum 256, JNum 384, JNum 512]), (''epsilon'', JNum 16),
     (''neighbor_size'', JNum 8), (''hotspot_buffer_size'', JNum 30)]"

definition params_18f_19b :: json where
  "params_18f_19b =
     JDict [(''methods'', jstrs [''CHIME'']), (''workload_names'', jstrs [''YCSB C'', ''c'']),
     (''target_epoch'', JNum 9), (''client_num'', JList [JNum 10, JNum 64]), (''MN_num'', JNum 1),
     (''key_size'', JStr ''randint''), (''value_size'', JNum 8), (''cache_size'', JNum 10000), (''span_size'',
     JNum 64), (''neighbor_size'', JList [JNum 2, JNum 4, JNum 6, JNum 8, JNum 10, JNum 12, JNum 14, JNum 16]),
     (''hotspot_buffer_size'', JNum 30)]"

definition params_19a :: json where
  "params_19a =
     JDict [(''methods'', jstrs [''CHIME'']), (''workload_names'', jstrs [''YCSB C'', ''c'']),
     (''target_epoch'', JNum 9), (''client_num'', JList [JNum 10, JNum 64]), (''MN_num'', JNum 1),
     (''key_size'', JStr ''randint''), (''value_size'', JNum 8), (''cache_size'', JNum 10000), (''span_size'',
     JList [JNum 8, JNum 16, JNum 32, JNum 64, JNum 128, JNum 256, JNum 384, JNum 512]), (''neighbor_size'',
     JNum 8), (''hotspot_buffer_size'', JNum 30)]"

definition params_19c :: json where
  "params_19c =
     JDict [(''methods'', jstrs [''CHIME'']), (''workload_names'', jstrs [''YCSB C'', ''c'']),
     (''target_epoch'', JNum 9), (''client_num'', JList [JNum 10, JNum 64]), (''MN_num'', JNum 1),
     (''key_size'', JStr ''randint''), (''value_size'', JNum 8), (''cache_size'', JNum 100), (''span_size'',
     JNum 64), (''neighbor_size'', JNum 8), (''hotspot_buffer_size'', JList [JNum 0, JNum 10, JNum 20, JNum 30,
     JNum 40, JNum 50])]"

definition shipped_params :: "(string \<times> json) list" where
  "shipped_params = [(''common.json'', params_common),
     (fig_file ''03a'', params_03a), (fig_file ''03b'', params_03b), (fig_file ''03c'', params_03c), (fig_file ''03d'', params_03d),
     (fig_file ''04a'', params_04a), (fig_file ''04b'', params_04b), (fig_file ''04c'', params_04c), (fig_file ''12'', params_12),
     (fig_file ''13'', params_13), (fig_file ''14'', params_14), (fig_file ''15a'', params_15a), (fig_file ''15b'', params_15b),
     (fig_file ''16'', params_16), (fig_file ''17'', params_17), (fig_file ''18a'', params_18a), (fig_file ''18b'', params_18b),
     (fig_file ''18c'', params_18c), (fig_file ''18d'', params_18d), (fig_file ''18e'', params_18e), (fig_file ''18f_19b'', params_18f_19b),
     (fig_file ''19a'', params_19a), (fig_file ''19c'', params_19c)]"

section \<open>They load\<close>

text \<open>A job that can start: the command manager finds its master and the generator knows its pictures.\<close>

definition startable :: "job py \<Rightarrow> bool" where
  "startable r = (case r of Inl e \<Rightarrow> False
     | Inr j \<Rightarrow> job_master j \<in> set (job_ips j) \<and> set (job_pics j) \<subseteq> fst ` set figs_type)"

definition shipped_script :: "string \<Rightarrow> ((string \<times> json) list \<Rightarrow> job py) \<Rightarrow> bool" where
  "shipped_script n load \<longleftrightarrow> startable (load shipped_params)"

lemma rd_head [simp]:
  "rd f (JDict ((k', v) # d)) k rest = (if k' = k then py_bind (f v) rest else rd f (JDict d) k rest)"
  by (simp add: rd_def dict_field_def dict_get_def)

lemma open_head:
  "open_json dir ((n', j) # files) n = (if n' = n then Inr j else open_json dir files n)"
  by (simp add: open_json_def)

lemma as_options [simp]:
  "py_mapM (\<lambda>(k, v). py_bind (as_str v) (\<lambda>x. Inr (k, x))) (map (\<lambda>(m, opt). (m, JStr opt)) d) = Inr d"
  by (induction d) auto

lemma as_str_pair [simp]: "as_pair err as_str as_str (jstrs [a, b]) = Inr (a, b)"
  by (simp add: as_pair_def jstrs_def)

lemma as_int_pair [simp]: "as_pair err as_int as_int (JList [JNum (numeral a), JNum (numeral b)]) = Inr (numeral a, numeral b)"
  by (simp add: as_pair_def)

definition shipped_C :: common_params where
  "shipped_C = \<lparr>home_dir = ''/users/TempUser'', workloads_dir = ''/users/TempUser/CHIME/ycsb/workloads'',
     common_options = ''-DSTATIC_MN_IP=on -DENABLE_CORO=on -DSHORT_TEST_EPOCH=off -DMIDDLE_TEST_EPOCH=off -DLONG_TEST_EPOCH=off -DREAD_DELEGATION=on -DWRITE_COMBINING=on'',
     cmake_options = shipped_options\<rparr>"

lemma shipped_common:
  "common_full shipped_params rest = rest (shipped_C, shipped_ips, ''10.10.1.2'')"
  "common_cmake shipped_params rest = rest (shipped_C\<lparr>workloads_dir := []\<rparr>, shipped_ips, ''10.10.1.2'')"
  "common_short shipped_params rest =
     rest (shipped_C\<lparr>workloads_dir := [], common_options := [], cmake_options := []\<rparr>, shipped_ips, ''10.10.1.2'')"
  by (simp_all add: common_full_def common_cmake_def common_short_def shipped_params_def open_head params_common_def
      shipped_C_def)

lemma master_shipped: "''10.10.1.2'' \<in> set shipped_ips"
  by (simp add: shipped_ips_def)

lemma shipped_open:
  "open_json ''params'' shipped_params (fig_file ''03a'') = Inr params_03a"
  "open_json ''params'' shipped_params (fig_file ''03b'') = Inr params_03b"
  "open_json ''params'' shipped_params (fig_file ''03c'') = Inr params_03c"
  "open_json ''params'' shipped_params (fig_file ''03d'') = Inr params_03d"
  "open_json ''params'' shipped_params (fig_file ''04a'') = Inr params_04a"
  "open_json ''params'' shipped_params (fig_file ''04b'') = Inr params_04b"
  "open_json ''params'' shipped_params (fig_file ''04c'') = Inr params_04c"
  "open_json ''params'' shipped_params (fig_file ''12'') = Inr params_12"
  "open_json ''params'' shipped_params (fig_file ''13'') = Inr params_13"
  "open_json ''params'' shipped_params (fig_file ''14'') = Inr params_14"
  "open_json ''params'' shipped_params (fig_file ''15a'') = Inr params_15a"
  "open_json ''params'' shipped_params (fig_file ''15b'') = Inr params_15b"
  "open_json ''params'' shipped_params (fig_file ''16'') = Inr params_16"
  "open_json ''params'' shipped_params (fig_file ''17'') = Inr params_17"
  "open_json ''params'' shipped_params (fig_file ''18a'') = Inr params_18a"
  "open_json ''params'' shipped_params (fig_file ''18b'') = Inr params_18b"
  "open_json ''params'' shipped_params (fig_file ''18c'') = Inr params_18c"
  "open_json ''params'' shipped_params (fig_file ''18d'') = Inr params_18d"
  "open_json ''params'' shipped_params (fig_file ''18e'') = Inr params_18e"
  "open_json ''params'' shipped_params (fig_file ''18f_19b'') = Inr params_18f_19b"
  "open_json ''params'' shipped_params (fig_file ''19a'') = Inr params_19a"
  "open_json ''params'' shipped_params (fig_file ''19c'') = Inr params_19c"
  by (simp_all add: shipped_params_def open_head fig_file_def)

lemmas shipped_rules = shipped_script_def startable_def shipped_common shipped_open master_shipped figs_type_def Let_def

lemma shipped_03a: "shipped_script ''03a'' (fig_03a_job fuel)"
  by (simp add: fig_03a_job_def params_03a_def shipped_rules)

lemma shipped_03b: "shipped_script ''03b'' (fig_03b_job fuel)"
  by (simp add: fig_03b_job_def params_03b_def shipped_rules)

lemma shipped_03c: "shipped_script ''03c'' (fig_03c_job fuel)"
  by (simp add: fig_03c_job_def params_03c_def shipped_rules)

lemma shipped_03d: "shipped_script ''03d'' (fig_03d_job fuel)"
  by (simp add: fig_03d_job_def params_03d_def shipped_rules)

lemma shipped_04a: "shipped_script ''04a'' (fig_04a_job fuel)"
  by (simp add: fig_04a_job_def params_04a_def shipped_rules)

lemma shipped_04b: "shipped_script ''04b'' (fig_04b_job fuel)"
  by (simp add: fig_04b_job_def params_04b_def shipped_rules)

lemma shipped_04c: "shipped_script ''04c'' (fig_04c_job fuel)"
  by (simp add: fig_04c_job_def params_04c_def shipped_rules)

lemma shipped_12: "shipped_script ''12'' (fig_12_job fuel)"
  by (simp add: fig_12_job_def params_12_def shipped_rules)

lemma shipped_13: "shipped_script ''13'' (fig_13_job fuel)"
  by (simp add: fig_13_job_def params_13_def shipped_rules)

lemma shipped_14: "shipped_script ''14'' (fig_14_job fuel)"
  by (simp add: fig_14_job_def params_14_def shipped_rules)

lemma shipped_15a: "shipped_script ''15a'' (fig_15a_job fuel)"
  by (simp add: fig_15a_job_def params_15a_def shipped_rules)

lemma shipped_15b: "shipped_script ''15b'' (fig_15b_job fuel)"
  by (simp add: fig_15b_job_def params_15b_def shipped_rules)

lemma shipped_16: "shipped_script ''16'' (fig_16_job fuel)"
  by (simp add: fig_16_job_def params_16_def shipped_rules)

lemma shipped_17: "shipped_script ''17'' (fig_17_job fuel)"
  by (simp add: fig_17_job_def params_17_def shipped_rules)

lemma shipped_18a: "shipped_script ''18a'' (fig_18a_job str_float fuel)"
  by (simp add: fig_18a_job_def params_18a_def shipped_rules)

lemma shipped_18b: "shipped_script ''18b'' (fig_18b_job fuel)"
  by (simp add: fig_18b_job_def params_18b_def shipped_rules)

lemma shipped_18c: "shipped_script ''18c'' (fig_18c_job fuel)"
  by (simp add: fig_18c_job_def params_18c_def shipped_rules)

lemma shipped_18d: "shipped_script ''18d'' (fig_18d_job fuel)"
  by (simp add: fig_18d_job_def params_18d_def shipped_rules)

lemma shipped_18e: "shipped_script ''18e'' (fig_18e_job fuel)"
  by (simp add: fig_18e_job_def params_18e_def shipped_rules)

lemma shipped_18f_19b: "shipped_script ''18f_19b'' (fig_18f_19b_job fuel)"
  by (simp add: fig_18f_19b_job_def params_18f_19b_def shipped_rules)

lemma shipped_19a: "shipped_script ''19a'' (fig_19a_job fuel)"
  by (simp add: fig_19a_job_def params_19a_def shipped_rules)

lemma shipped_19c: "shipped_script ''19c'' (fig_19c_job fuel)"
  by (simp add: fig_19c_job_def params_19c_def shipped_rules)

lemmas shipped_all = shipped_03a shipped_03b shipped_03c shipped_03d shipped_04a shipped_04b shipped_04c shipped_12 shipped_13 shipped_14 shipped_15a shipped_15b shipped_16 shipped_17 shipped_18a shipped_18b shipped_18c shipped_18d shipped_18e shipped_18f_19b shipped_19a shipped_19c

text \<open>
  What the build of a method looks up: its options, and its span where the spans are listed per
  method.  \<^verbatim>\<open>SMART-SC\<close> is built as \<^verbatim>\<open>SMART\<close>.
\<close>

definition built_as :: "string \<Rightarrow> string" where
  "built_as m = (if m = ''SMART-SC'' then ''SMART'' else m)"

definition configured :: "json \<Rightarrow> bool" where
  "configured j =
     (case json_get json_strs j ''methods'' of None \<Rightarrow> False
      | Some ms \<Rightarrow> list_all (\<lambda>m. built_as m \<in> fst ` set shipped_options \<and>
          (case json_get Some j ''span_size'' of Some (JDict d) \<Rightarrow> built_as m \<in> fst ` set d | _ \<Rightarrow> True)) ms)"

definition builds :: "string \<Rightarrow> bool" where
  "builds n \<longleftrightarrow> n \<notin> set [''03d'', ''04a'', ''04b'', ''04c'']"

lemma shipped_methods: "fst ` set shipped_options = set [
     ''CHIME'', ''Sherman'', ''SMART'', ''ROLEX'', ''CHIME-indirect'', ''Marlin'', ''SMART-RCU'',
     ''ROLEX-indirect'', ''S +Hopscotch Leaf Node'', ''S +Vacancy-Aware Lock'', ''S +Metadata Replication'',
     ''S +Sibling-Based Validation'', ''S +Speculative Leaf Read'', ''R +Hopscotch Leaf Node'',
     ''R +Vacancy-Aware Lock'', ''R +Metadata Replication'', ''R +Speculative Leaf Read'',
     ''Coarse-Grained Mode'', ''Fine-Grained Mode'', ''+Greedy Range Query'',
     ''CHIME w/ Sibling-Based Validation'', ''CHIME w/o Sibling-Based Validation'',
     ''CHIME w/ Speculative Leaf Read'', ''CHIME w/o Speculative Leaf Read'', ''Sherman +Speculative Leaf Read'']"
  unfolding shipped_options_def by (simp only: list.set image_insert image_empty fst_conv)

lemma json_get_head [simp]:
  "json_get f (JDict ((k', v) # d)) k = (if k' = k then f v else json_get f (JDict d) k)"
  by (simp add: json_get_def)

lemma json_get_end [simp]: "json_get f (JDict []) k = None"
  by (simp add: json_get_def)

lemmas conf_rules = configured_def built_as_def shipped_methods

lemma configured_03a: "configured params_03a"
  by (simp add: params_03a_def conf_rules)

lemma configured_03b: "configured params_03b"
  by (simp add: params_03b_def conf_rules)

lemma configured_03c: "configured params_03c"
  by (simp add: params_03c_def conf_rules)

lemma configured_12: "configured params_12"
  by (simp add: params_12_def conf_rules)

lemma configured_13: "configured params_13"
  by (simp add: params_13_def conf_rules)

lemma configured_14: "configured params_14"
  by (simp add: params_14_def conf_rules)

lemma configured_15a: "configured params_15a"
  by (simp add: params_15a_def conf_rules)

lemma configured_15b: "configured params_15b"
  by (simp add: params_15b_def conf_rules)

lemma configured_16: "configured params_16"
  by (simp add: params_16_def conf_rules)

lemma configured_17: "configured params_17"
  by (simp add: params_17_def conf_rules)

lemma configured_18a: "configured params_18a"
  by (simp add: params_18a_def conf_rules)

lemma configured_18b: "configured params_18b"
  by (simp add: params_18b_def conf_rules)

lemma configured_18c: "configured params_18c"
  by (simp add: params_18c_def conf_rules)

lemma configured_18d: "configured params_18d"
  by (simp add: params_18d_def conf_rules)

lemma configured_18e: "configured params_18e"
  by (simp add: params_18e_def conf_rules)

lemma configured_18f_19b: "configured params_18f_19b"
  by (simp add: params_18f_19b_def conf_rules)

lemma configured_19a: "configured params_19a"
  by (simp add: params_19a_def conf_rules)

lemma configured_19c: "configured params_19c"
  by (simp add: params_19c_def conf_rules)

lemmas configured_all = configured_03a configured_03b configured_03c configured_12 configured_13 configured_14 configured_15a configured_15b configured_16 configured_17 configured_18a configured_18b configured_18c configured_18d configured_18e configured_18f_19b configured_19a configured_19c



end
