(* ===== verification/Cloudlab.thy ===== *)
theory Cloudlab
  imports Fig_Scripts
begin

text \<open>
  \<^verbatim>\<open>script/cloudlab-setup.py\<close>: the commands that reserve nodes, create, extend and terminate the
  experiment through \<^verbatim>\<open>portal-cli\<close>, the state file that carries the experiment's id from one command to
  the next, and the set-up of the nodes over \<^verbatim>\<open>ssh\<close>.  The portal answers each call with a return code
  and an output; \<open>loads\<close> is \<^verbatim>\<open>json.loads\<close> of that output, \<open>None\<close> for a text that is no JSON.  The state
  file and the parameter files hold JSON values.  The arguments are those \<^verbatim>\<open>argparse\<close> hands over.
\<close>

section \<open>State\<close>

datatype lab_event =
    Portal "string list"
  | Spawn string
  | Wait string
  | Shell string

record lab =
  portal_token :: "string option"
  lab_project :: string
  state_file :: "json option"
  json_at :: "(string \<times> json) list"
  portal_replies :: "(int \<times> string) list"
  lab_trace :: "lab_event list"

record lab_args =
  arg_command :: "string option"
  arg_profile :: "string option"
  arg_experiment_id :: "string option"
  arg_hours :: int
  arg_user :: "string option"

definition CLOUDLAB_PORTAL :: string where "CLOUDLAB_PORTAL = ''https://boss.emulab.net:43794''"
definition PROFILE_NAME :: string where "PROFILE_NAME = ''chime-r6525-clemson''"
definition PROFILE_PROJECT :: string where "PROFILE_PROJECT = ''CS620426SP''"
definition NODE_TYPE :: string where "NODE_TYPE = ''r6525''"
definition NODE_COUNT :: int where "NODE_COUNT = 11"
definition DURATION_HOURS :: int where "DURATION_HOURS = 58"
definition CLUSTER_URN :: string where "CLUSTER_URN = ''urn:publicid:IDN+clemson.cloudlab.us+authority+cm''"

definition REPOS :: "string list" where
  "REPOS = [''https://github.com/djjay0131/CHIME.git'', ''https://github.com/dmemsys/SMART.git'',
     ''https://github.com/River861/ROLEX.git'', ''https://github.com/River861/Marlin.git'']"

definition emit :: "lab_event \<Rightarrow> (lab, unit) act" where
  "emit e = act_modify (\<lambda>s. s\<lparr>lab_trace := lab_trace s @ [e]\<rparr>)"

section \<open>The portal\<close>

definition get_token :: "(lab, string) act" where
  "get_token = act_bind (act_get portal_token) (\<lambda>t.
     case t of None \<Rightarrow> act_raise (SystemExit 1) | Some tok \<Rightarrow> if tok = [] then act_raise (SystemExit 1) else act_return tok)"

text \<open>
  \<^verbatim>\<open>subprocess.run\<close> takes strings only; the id of the state file may be another JSON value.  With no
  reply left there is no \<^verbatim>\<open>portal-cli\<close> to run.
\<close>

definition portal_run :: "json list \<Rightarrow> (lab, int \<times> string) act" where
  "portal_run args =
     act_bind get_token (\<lambda>tok.
     act_bind (act_lift (case those (map json_str args) of None \<Rightarrow> Inl TypeError | Some as \<Rightarrow> Inr as)) (\<lambda>as.
     act_bind (act_get portal_replies) (\<lambda>rs.
     case rs of
       [] \<Rightarrow> act_raise (FileNotFoundError ''portal-cli'')
     | r # rs \<Rightarrow>
         act_seq (emit (Portal ([''portal-cli'', ''--token'', tok, ''--portal-url'', CLOUDLAB_PORTAL] @ as)))
        (act_seq (act_modify (\<lambda>s. s\<lparr>portal_replies := rs\<rparr>)) (act_return r)))))"

definition run_cli :: "bool \<Rightarrow> json list \<Rightarrow> (lab, string option) act" where
  "run_cli capture args =
     act_bind (portal_run args) (\<lambda>(returncode, stdout).
     if capture then if returncode \<noteq> 0 then act_raise (SystemExit 1) else act_return (Some (py_strip stdout))
     else act_return None)"

definition cli :: "json list \<Rightarrow> (lab, string) act" where
  "cli args = act_bind (run_cli True args) (\<lambda>r. act_return (case r of None \<Rightarrow> [] | Some s \<Rightarrow> s))"

section \<open>The state file\<close>

definition load_state :: "(lab, json) act" where
  "load_state = act_bind (act_get state_file) (\<lambda>j. act_return (case j of None \<Rightarrow> JDict [] | Some j \<Rightarrow> j))"

definition save_state :: "string \<Rightarrow> json \<Rightarrow> (lab, unit) act" where
  "save_state k v =
     act_bind load_state (\<lambda>existing.
     act_bind (act_lift (as_object existing)) (\<lambda>d.
     act_modify (\<lambda>s. s\<lparr>state_file := Some (JDict (AList.update k v d))\<rparr>)))"

text \<open>\<^verbatim>\<open>d.get(k)\<close> of an object.\<close>

definition obj_get :: "string \<Rightarrow> json \<Rightarrow> json py" where
  "obj_get k j = py_bind (as_object j) (\<lambda>d. Inr (case map_of d k of None \<Rightarrow> JNull | Some v \<Rightarrow> v))"

text \<open>The \<^verbatim>\<open>try\<close> at the end of \<^verbatim>\<open>reserve\<close> and \<^verbatim>\<open>create\<close>: output without an id changes nothing.\<close>

definition remember_id :: "(string \<Rightarrow> json option) \<Rightarrow> string \<Rightarrow> string \<Rightarrow> (lab, unit) act" where
  "remember_id loads k output =
     act_catch
       (act_bind (act_lift (case loads output of None \<Rightarrow> Inl JSONDecodeError | Some j \<Rightarrow> obj_get ''id'' j)) (\<lambda>v.
        if truthy v then save_state k v else act_return ()))
       (\<lambda>e. if e = JSONDecodeError \<or> e = AttributeError then act_return () else act_raise e)"

definition write_json :: "string \<Rightarrow> json \<Rightarrow> (lab, unit) act" where
  "write_json p j = act_modify (\<lambda>s. s\<lparr>json_at := AList.update p j (json_at s)\<rparr>)"

section \<open>Commands\<close>

definition res_data :: json where
  "res_data = JDict [(''nodetypes'', JList [JDict [(''count'', jint NODE_COUNT), (''nodetype'', JStr NODE_TYPE),
     (''urn'', JStr CLUSTER_URN)]])]"

definition cmd_search :: "lab_args \<Rightarrow> (lab, unit) act" where
  "cmd_search args =
     act_seq (write_json ''/tmp/cloudlab-search.json'' res_data)
    (act_bind (act_get lab_project) (\<lambda>proj.
     act_bind (cli (map JStr [''resgroup'', ''search'', ''--project'', proj, ''--duration'', show_int DURATION_HOURS,
       ''--nodetypes'', ''@/tmp/cloudlab-search.json''])) (\<lambda>_. act_return ())))"

definition cmd_reserve :: "(string \<Rightarrow> json option) \<Rightarrow> lab_args \<Rightarrow> (lab, unit) act" where
  "cmd_reserve loads args =
     act_seq (write_json ''/tmp/cloudlab-reserve.json'' res_data)
    (act_bind (act_get lab_project) (\<lambda>proj.
     act_bind (cli (map JStr [''resgroup'', ''create'', ''--project'', proj,
       ''--reason'', ''CS 6204 course project: reproducing CHIME (SOSP'' @ [CHR 0x27] @ ''24) experiments'',
       ''--start-at'', ''now'', ''--duration'', show_int DURATION_HOURS,
       ''--nodetypes'', ''@/tmp/cloudlab-reserve.json''])) (remember_id loads ''reservation_id'')))"

definition profile_args :: "lab_args \<Rightarrow> string list" where
  "profile_args args =
     (if PROFILE_NAME \<noteq> [] \<and> PROFILE_PROJECT \<noteq> []
      then [''--profile-name'', PROFILE_NAME, ''--profile-project'', PROFILE_PROJECT]
      else case arg_profile args of None \<Rightarrow> [] | Some p \<Rightarrow> if p = [] then [] else [''--profile-name'', p])"

definition cmd_create :: "(string \<Rightarrow> json option) \<Rightarrow> lab_args \<Rightarrow> (lab, unit) act" where
  "cmd_create loads args =
     act_seq (write_json ''/tmp/cloudlab-bindings.json''
       (JDict [(''nodeCount'', JStr (show_int NODE_COUNT)), (''phystype'', JStr NODE_TYPE), (''osImage'', JStr ''default'')]))
    (act_bind (act_get lab_project) (\<lambda>proj.
     act_bind (cli (map JStr ([''experiment'', ''create'', ''--name'', ''chime-reproduce'', ''--project'', proj,
       ''--duration'', show_int DURATION_HOURS, ''--bindings'', ''@/tmp/cloudlab-bindings.json''] @ profile_args args)))
     (remember_id loads ''experiment_id'')))"

text \<open>\<^verbatim>\<open>state.get("experiment_id") or args.experiment_id\<close>, and \<^verbatim>\<open>sys.exit(1)\<close> without either.\<close>

definition the_experiment :: "lab_args \<Rightarrow> (lab, json) act" where
  "the_experiment args =
     act_bind load_state (\<lambda>state.
     act_bind (act_lift (obj_get ''experiment_id'' state)) (\<lambda>v.
     if truthy v then act_return v
     else case arg_experiment_id args of None \<Rightarrow> act_raise (SystemExit 1)
       | Some i \<Rightarrow> if i = [] then act_raise (SystemExit 1) else act_return (JStr i)))"

definition cmd_status :: "lab_args \<Rightarrow> (lab, unit) act" where
  "cmd_status args =
     act_bind (the_experiment args) (\<lambda>i.
     act_bind (cli (map JStr [''--elaborate'', ''experiment'', ''get'', ''--experiment-id''] @ [i])) (\<lambda>_.
     act_bind (cli (map JStr [''experiment'', ''manifests'', ''get'', ''--experiment-id''] @ [i])) (\<lambda>_. act_return ())))"

definition cmd_extend :: "lab_args \<Rightarrow> (lab, unit) act" where
  "cmd_extend args =
     act_bind (the_experiment args) (\<lambda>i.
     act_bind (cli (map JStr [''experiment'', ''extend'', ''--experiment-id''] @ [i] @
       map JStr [''--extend-by'', show_int (arg_hours args)])) (\<lambda>_. act_return ()))"

definition cmd_terminate :: "lab_args \<Rightarrow> (lab, unit) act" where
  "cmd_terminate args =
     act_bind (the_experiment args) (\<lambda>i.
     act_bind (cli (map JStr [''experiment'', ''terminate'', ''--experiment-id''] @ [i])) (\<lambda>_. act_return ()))"

section \<open>Setting up the nodes\<close>

definition setup_cmds :: "string \<Rightarrow> string list" where
  "setup_cmds home = [
     ''cd '' @ home @ ''/CHIME && bash script/resizePartition.sh'',
     ''cd '' @ home @ ''/CHIME && bash script/installMLNX.sh'',
     ''cd '' @ home @ ''/CHIME && bash script/installLibs.sh'',
     ''pip3 install paramiko func_timeout matplotlib numpy'',
     ''echo 36864 > /proc/sys/vm/nr_hugepages'']"

definition repo_name :: "string \<Rightarrow> string" where
  "repo_name repo = py_replace ''.git'' [] (last (split_on (CHR ''/'') repo))"

definition clone_cmd :: "string \<Rightarrow> string \<Rightarrow> string" where
  "clone_cmd home repo = ''cd '' @ home @ '' && [ -d '' @ repo_name repo @ '' ] || git clone '' @ repo"

definition clone_cmds :: "string \<Rightarrow> string list" where
  "clone_cmds home = map (clone_cmd home) REPOS"

definition ycsb_cmd :: "string \<Rightarrow> string" where
  "ycsb_cmd home = ''cd '' @ home @ ''/CHIME/ycsb && [ -d workloads ] || bash generate_full_workloads.sh''"

definition ssh_cmd :: "string \<Rightarrow> string \<Rightarrow> string \<Rightarrow> string" where
  "ssh_cmd user ip cmd =
     ''ssh -o StrictHostKeyChecking=no '' @ user @ ''@'' @ ip @ '' '' @ [CHR 0x27] @ cmd @ [CHR 0x27]"

definition ycsb_ssh :: "string \<Rightarrow> string \<Rightarrow> string \<Rightarrow> string" where
  "ycsb_ssh user ip cmd =
     ssh_cmd user ip (''nohup bash -c '' @ [CHR 0x22] @ cmd @ [CHR 0x22] @ '' > /tmp/ycsb_gen.log 2>&1 &'')"

text \<open>One phase: start every command on every node, then wait for all of them in that order.\<close>

definition phase_cmds :: "string \<Rightarrow> string list \<Rightarrow> string list \<Rightarrow> string list" where
  "phase_cmds user ips cmds = concat (map (\<lambda>ip. map (ssh_cmd user ip) cmds) ips)"

definition run_phase :: "string \<Rightarrow> string list \<Rightarrow> string list \<Rightarrow> (lab, unit) act" where
  "run_phase user ips cmds =
     act_seq (act_for ips (\<lambda>ip. act_for cmds (\<lambda>cmd. emit (Spawn (ssh_cmd user ip cmd)))))
     (act_for (phase_cmds user ips cmds) (\<lambda>p. emit (Wait p)))"

definition cmd_setup :: "lab_args \<Rightarrow> (lab, unit) act" where
  "cmd_setup args =
     act_bind (act_get json_at) (\<lambda>files.
     act_bind (act_lift (py_bind (open_json ''exp/params'' files ''common.json'') (\<lambda>p.
       rd (as_list as_str) p ''cluster_ips'' (\<lambda>ips. rd as_str p ''home_dir'' (\<lambda>home. Inr (ips, home)))))) (\<lambda>(ips, home).
     let user = (case arg_user args of None \<Rightarrow> ''root'' | Some u \<Rightarrow> if u = [] then ''root'' else u) in
     act_seq (run_phase user ips (setup_cmds home))
    (act_seq (run_phase user ips (clone_cmds home))
     (act_for ips (\<lambda>ip. emit (Shell (ycsb_ssh user ip (ycsb_cmd home))))))))"

definition lab_main :: "(string \<Rightarrow> json option) \<Rightarrow> lab_args \<Rightarrow> (lab, unit) act" where
  "lab_main loads args =
     (case arg_command args of None \<Rightarrow> act_raise (SystemExit 1)
      | Some c \<Rightarrow>
          if c = ''search'' then cmd_search args
          else if c = ''reserve'' then cmd_reserve loads args
          else if c = ''create'' then cmd_create loads args
          else if c = ''status'' then cmd_status args
          else if c = ''extend'' then cmd_extend args
          else if c = ''setup'' then cmd_setup args
          else if c = ''terminate'' then cmd_terminate args
          else act_raise (KeyError c))"

section \<open>The id of the experiment\<close>

lemmas lab_simps = act_bind_def act_seq_def act_catch_def act_defs emit_def cli_def run_cli_def portal_run_def get_token_def
  load_state_def the_experiment_def obj_get_def as_object_def write_json_def

lemma json_strs_of [simp]: "those (map json_str (map JStr xs)) = Some xs"
  by (induction xs) auto

lemma json_strs_of_comp [simp]: "those (map (json_str \<circ> JStr) xs) = Some xs"
  by (induction xs) auto

text \<open>A call that the portal answers with return code 0.\<close>

definition portal_argv :: "string \<Rightarrow> string list \<Rightarrow> string list" where
  "portal_argv tok as = [''portal-cli'', ''--token'', tok, ''--portal-url'', CLOUDLAB_PORTAL] @ as"

lemma cli_ok:
  assumes "portal_token s = Some tok" "tok \<noteq> []" "those (map json_str args) = Some as"
    "portal_replies s = (0, out) # rs"
  shows "cli args s = (Inr (py_strip out), s\<lparr>lab_trace := lab_trace s @ [Portal (portal_argv tok as)], portal_replies := rs\<rparr>)"
  using assms by (simp add: lab_simps portal_argv_def)

definition has_id :: "lab \<Rightarrow> string \<Rightarrow> bool" where
  "has_id s i \<longleftrightarrow> i \<noteq> [] \<and> (\<exists>d. state_file s = Some (JDict d) \<and> map_of d ''experiment_id'' = Some (JStr i))"

lemma the_experiment_saved: "has_id s i \<Longrightarrow> the_experiment args s = (Inr (JStr i), s)"
  by (auto simp: has_id_def lab_simps)

definition fresh_state :: "lab \<Rightarrow> bool" where
  "fresh_state s \<longleftrightarrow> (case state_file s of None \<Rightarrow> True | Some (JDict d) \<Rightarrow> True | _ \<Rightarrow> False)"

lemma remember_id_ok:
  assumes "loads out = Some (JDict d)" "map_of d ''id'' = Some (JStr i)" "i \<noteq> []" "fresh_state s"
  shows "\<exists>d'. remember_id loads k out s = (Inr (), s\<lparr>state_file := Some (JDict d')\<rparr>) \<and> map_of d' k = Some (JStr i)"
  using assms
  by (auto simp: remember_id_def save_state_def lab_simps fresh_state_def update_conv split: option.splits json.splits)

text \<open>
  C12: \<^verbatim>\<open>create\<close> followed by \<^verbatim>\<open>terminate\<close>: when the portal accepts the creation and answers with an id, a
  later \<^verbatim>\<open>terminate\<close> stops exactly that experiment, and it does so whatever \<^verbatim>\<open>--experiment-id\<close> the
  user passes: the id of the state file wins.\<close>

theorem create_then_terminate:
  assumes "portal_token s = Some tok" and "tok \<noteq> []" and "fresh_state s"
    and "portal_replies s = (0, out1) # (0, out2) # rs"
    and "loads (py_strip out1) = Some (JDict d)" and "map_of d ''id'' = Some (JStr i)" and "i \<noteq> []"
  shows "\<exists>s1 s2 as. cmd_create loads a1 s = (Inr (), s1) \<and> has_id s1 i \<and>
    cmd_terminate a2 s1 = (Inr (), s2) \<and> has_id s2 i \<and>
    lab_trace s2 = lab_trace s @ [Portal (portal_argv tok ([''experiment'', ''create''] @ as)),
      Portal (portal_argv tok [''experiment'', ''terminate'', ''--experiment-id'', i])]"
proof -
  define as where "as = [''--name'', ''chime-reproduce'', ''--project'', lab_project s, ''--duration'',
    show_int DURATION_HOURS, ''--bindings'', ''@/tmp/cloudlab-bindings.json''] @ profile_args a1"
  define b where "b = JDict [(''nodeCount'', JStr (show_int NODE_COUNT)), (''phystype'', JStr NODE_TYPE), (''osImage'', JStr ''default'')]"
  define s0 where "s0 = s\<lparr>json_at := AList.update ''/tmp/cloudlab-bindings.json'' b (json_at s)\<rparr>"
  define t where "t = s0\<lparr>lab_trace := lab_trace s @ [Portal (portal_argv tok ([''experiment'', ''create''] @ as))],
    portal_replies := (0, out2) # rs\<rparr>"
  have "cli (map JStr ([''experiment'', ''create''] @ as)) s0 = (Inr (py_strip out1), t)"
    unfolding t_def by (rule cli_ok[THEN trans]) (use assms in \<open>simp_all add: s0_def del: map_append\<close>)
  moreover have "write_json ''/tmp/cloudlab-bindings.json'' b s = (Inr (), s0)" by (simp add: s0_def lab_simps)
  moreover have "act_get lab_project s0 = (Inr (lab_project s), s0)" by (simp add: s0_def act_get_def)
  ultimately have c: "cmd_create loads a1 s = remember_id loads ''experiment_id'' (py_strip out1) t"
    unfolding cmd_create_def b_def[symmetric] by (simp add: act_seq_def as_def del: map_append list.map)
  have "fresh_state t" using assms(3) by (simp add: fresh_state_def t_def s0_def)
  from remember_id_ok[where loads = loads and out = "py_strip out1", OF assms(5,6,7) this] obtain d' where
    r: "cmd_create loads a1 s = (Inr (), t\<lparr>state_file := Some (JDict d')\<rparr>)" and d': "map_of d' ''experiment_id'' = Some (JStr i)"
    unfolding c by blast
  let ?s1 = "t\<lparr>state_file := Some (JDict d')\<rparr>"
  let ?s2 = "?s1\<lparr>lab_trace := lab_trace ?s1 @ [Portal (portal_argv tok [''experiment'', ''terminate'', ''--experiment-id'', i])],
    portal_replies := rs\<rparr>"
  have h: "has_id ?s1 i" using d' assms(7) by (simp add: has_id_def)
  have "cli (map JStr [''experiment'', ''terminate'', ''--experiment-id''] @ [JStr i]) ?s1 = (Inr (py_strip out2), ?s2)"
    by (rule cli_ok[THEN trans]) (use assms in \<open>simp_all add: t_def s0_def\<close>)
  then have "cmd_terminate a2 ?s1 = (Inr (), ?s2)"
    by (simp add: cmd_terminate_def the_experiment_saved[OF h] act_return_def)
  moreover have "has_id ?s2 i" using h by (simp add: has_id_def)
  ultimately show ?thesis using r h
    by (intro exI[of _ ?s1] exI[of _ ?s2] exI[of _ as]) (simp add: t_def)
qed

definition id_lab :: lab where
  "id_lab = \<lparr>portal_token = Some ''t'', lab_project = ''p'', state_file = Some (JDict [(''experiment_id'', JStr ''old'')]),
     json_at = [], portal_replies = [(0, ''new''), (0, [])], lab_trace = []\<rparr>"

definition id_loads :: "string \<Rightarrow> json option" where
  "id_loads t = Some (JDict [(''id'', JStr t)])"

definition no_args :: lab_args where
  "no_args = \<lparr>arg_command = None, arg_profile = None, arg_experiment_id = None, arg_hours = 0, arg_user = None\<rparr>"

theorem create_then_terminate_witness:
  "\<exists>s1 s2 as. cmd_create id_loads no_args id_lab = (Inr (), s1) \<and> has_id s1 ''new'' \<and>
    cmd_terminate (no_args\<lparr>arg_experiment_id := Some ''other''\<rparr>) s1 = (Inr (), s2) \<and> has_id s2 ''new'' \<and>
    lab_trace s2 = [Portal (portal_argv ''t'' ([''experiment'', ''create''] @ as)),
      Portal (portal_argv ''t'' [''experiment'', ''terminate'', ''--experiment-id'', ''new''])]"
  using create_then_terminate[of id_lab "''t''" "''new''" "[]" "[]" id_loads "[(''id'', JStr ''new'')]" "''new''" no_args
      "no_args\<lparr>arg_experiment_id := Some ''other''\<rparr>"]
  by (simp add: id_lab_def fresh_state_def id_loads_def strip_id py_space_def code_def)

section \<open>Without a token\<close>

text \<open>A computation that calls nobody and keeps the state file, and ends in \<^verbatim>\<open>sys.exit(1)\<close>.\<close>

definition exits_quietly :: "lab \<Rightarrow> (lab, 'a) act \<Rightarrow> bool" where
  "exits_quietly s m \<longleftrightarrow> fst (m s) = Inl (SystemExit 1) \<and> lab_trace (snd (m s)) = lab_trace s \<and>
     state_file (snd (m s)) = state_file s"

definition no_token :: "lab \<Rightarrow> bool" where
  "no_token s \<longleftrightarrow> portal_token s = None \<or> portal_token s = Some []"

lemma cli_no_token: "no_token s \<Longrightarrow> cli args s = (Inl (SystemExit 1), s)"
  by (auto simp: no_token_def lab_simps)

lemma no_token_write [simp]: "no_token (s\<lparr>json_at := x\<rparr>) = no_token s"
  by (simp add: no_token_def)

text \<open>
  Without \<^verbatim>\<open>PORTAL_TOKEN\<close> no command but \<^verbatim>\<open>setup\<close> reaches the portal: it exits with 1, no program is
  called and the state file stays as it is.  The state file must hold an object, as the script writes it.\<close>

theorem lab_needs_token:
  assumes "no_token s" and "fresh_state s" and "c \<in> set [''search'', ''reserve'', ''create'', ''status'', ''extend'', ''terminate'']"
    and "arg_command args = Some c"
  shows "exits_quietly s (lab_main loads args)"
proof -
  have e: "exits_quietly s (act_bind (the_experiment args) (\<lambda>i. act_bind (cli (f i)) (g i)))"
    for f and g :: "json \<Rightarrow> string \<Rightarrow> (lab, unit) act"
    using assms(1,2)
    by (auto simp: exits_quietly_def fresh_state_def lab_simps no_token_def split: option.splits json.splits)
  have w: "exits_quietly s (act_seq (write_json p j) (act_bind (act_get lab_project) (\<lambda>proj. act_bind (cli (f proj)) g)))"
    for p j f and g :: "string \<Rightarrow> (lab, unit) act"
    using assms(1) by (simp add: exits_quietly_def act_seq_def act_bind_def write_json_def act_defs cli_no_token)
  have "exits_quietly s (cmd_search args)" "exits_quietly s (cmd_reserve loads args)" "exits_quietly s (cmd_create loads args)"
    unfolding cmd_search_def cmd_reserve_def cmd_create_def by (rule w)+
  moreover have "exits_quietly s (cmd_status args)" "exits_quietly s (cmd_extend args)" "exits_quietly s (cmd_terminate args)"
    unfolding cmd_status_def cmd_extend_def cmd_terminate_def by (rule e)+
  ultimately show ?thesis using assms(3,4) by (auto simp: lab_main_def)
qed

theorem lab_needs_token_witness:
  "exits_quietly (id_lab\<lparr>portal_token := None\<rparr>) (lab_main id_loads (no_args\<lparr>arg_command := Some ''terminate''\<rparr>))"
  by (rule lab_needs_token[of _ "''terminate''"]) (simp_all add: no_token_def fresh_state_def id_lab_def no_args_def)

section \<open>The order of the set-up\<close>

lemma emits: "act_for xs (\<lambda>x. emit (f x)) s = (Inr (), s\<lparr>lab_trace := lab_trace s @ map f xs\<rparr>)"
  by (induction xs arbitrary: s) (simp_all add: act_seq_def act_bind_def act_defs emit_def)

lemma emits2:
  "act_for xs (\<lambda>x. act_for ys (\<lambda>y. emit (f x y))) s =
   (Inr (), s\<lparr>lab_trace := lab_trace s @ concat (map (\<lambda>x. map (f x) ys) xs)\<rparr>)"
  by (induction xs arbitrary: s) (simp_all add: act_seq_def act_bind_def act_defs emits)

lemma run_phase_trace:
  "run_phase user ips cmds s =
   (Inr (), s\<lparr>lab_trace := lab_trace s @ map Spawn (phase_cmds user ips cmds) @ map Wait (phase_cmds user ips cmds)\<rparr>)"
  by (simp add: run_phase_def act_seq_def act_bind_def emits2 emits phase_cmds_def map_concat comp_def)

text \<open>\<open>before a b tr\<close>: both events occur, every \<open>a\<close> before every \<open>b\<close>.\<close>

definition before :: "'e \<Rightarrow> 'e \<Rightarrow> 'e list \<Rightarrow> bool" where
  "before a b tr \<longleftrightarrow> a \<in> set tr \<and> b \<in> set tr \<and>
     (\<forall>i < length tr. \<forall>j < length tr. tr ! i = a \<longrightarrow> tr ! j = b \<longrightarrow> i < j)"

lemma beforeI:
  assumes "a \<in> set xs" "b \<in> set ys" "a \<notin> set ys" "b \<notin> set xs"
  shows "before a b (xs @ ys)"
  using assms unfolding before_def
  by (auto simp: nth_append split: if_splits)


lemma no_space_prefix: "CHR '' '' \<notin> set a \<Longrightarrow> CHR '' '' \<notin> set b \<Longrightarrow> a @ CHR '' '' # x = b @ CHR '' '' # y \<Longrightarrow> a = b \<and> x = y"
  by (induction a arbitrary: b) (auto simp: Cons_eq_append_conv)

lemma ssh_cmd_inject:
  assumes "CHR '' '' \<notin> set a" "CHR '' '' \<notin> set b"
  shows "ssh_cmd user a c = ssh_cmd user b d \<longleftrightarrow> a = b \<and> c = d"
proof -
  have "ssh_cmd user a c = ssh_cmd user b d \<longleftrightarrow>
      a @ CHR '' '' # CHR 0x27 # c @ [CHR 0x27] = b @ CHR '' '' # CHR 0x27 # d @ [CHR 0x27]"
    unfolding ssh_cmd_def by simp
  then show ?thesis by (metis no_space_prefix[OF assms] list.inject same_append_eq append_same_eq)
qed

lemma phase_cmds_iff:
  assumes "\<forall>ip \<in> set ips. CHR '' '' \<notin> set ip" "ip \<in> set ips"
  shows "ssh_cmd user ip c \<in> set (phase_cmds user ips cmds) \<longleftrightarrow> c \<in> set cmds"
  using assms by (auto simp: phase_cmds_def ssh_cmd_inject)

lemma clone_not_setup: "clone_cmd home r \<notin> set (setup_cmds home)"
  by (simp add: clone_cmd_def setup_cmds_def)

text \<open>
  C13: The set-up does on every node first the installation, then the cloning, then the workloads, and
  each phase waits for the one before.  So the installation commands, three of which change into the
  CHIME directory, have all ended before the command that clones CHIME is started.\<close>

theorem setup_order:
  assumes "map_of (json_at s) ''common.json'' = Some (JDict d)"
    and "map_of d ''cluster_ips'' = Some (jstrs ips)" and "map_of d ''home_dir'' = Some (JStr home)"
    and "\<forall>ip \<in> set ips. CHR '' '' \<notin> set ip" and "arg_user args = Some user" and "user \<noteq> []"
  shows "\<exists>tr. cmd_setup args s = (Inr (), s\<lparr>lab_trace := lab_trace s @ tr\<rparr>) \<and>
    (\<forall>ip \<in> set ips. \<forall>c \<in> set (setup_cmds home). \<forall>r \<in> set (clone_cmds home).
       before (Wait (ssh_cmd user ip c)) (Spawn (ssh_cmd user ip r)) tr \<and>
       before (Wait (ssh_cmd user ip r)) (Shell (ycsb_ssh user ip (ycsb_cmd home))) tr)"
proof -
  define P1 where "P1 = phase_cmds user ips (setup_cmds home)"
  define P2 where "P2 = phase_cmds user ips (clone_cmds home)"
  define Y where "Y = map (\<lambda>ip. Shell (ycsb_ssh user ip (ycsb_cmd home))) ips"
  let ?one = "map Spawn P1 @ map Wait P1" and ?two = "map Spawn P2 @ map Wait P2"
  have "cmd_setup args s = (Inr (), s\<lparr>lab_trace := lab_trace s @ ?one @ ?two @ Y\<rparr>)"
    using assms(1,2,3,5,6)
    by (simp add: cmd_setup_def act_bind_def act_seq_def act_defs open_json_def rd_def dict_field_def dict_get_def
        Let_def run_phase_trace emits P1_def P2_def Y_def)
  moreover have "before (Wait (ssh_cmd user ip c)) (Spawn (ssh_cmd user ip r)) (?one @ ?two @ Y)"
    and "before (Wait (ssh_cmd user ip r)) (Shell (ycsb_ssh user ip (ycsb_cmd home))) ((?one @ ?two) @ Y)"
    if h: "ip \<in> set ips" "c \<in> set (setup_cmds home)" "r \<in> set (clone_cmds home)" for ip c r
  proof -
    note iff = phase_cmds_iff[OF assms(4) h(1)]
    from h(3) clone_not_setup have nr: "r \<notin> set (setup_cmds home)" by (auto simp: clone_cmds_def)
    from h(2) clone_not_setup have nc: "c \<notin> set (clone_cmds home)" by (auto simp: clone_cmds_def)
    show "before (Wait (ssh_cmd user ip c)) (Spawn (ssh_cmd user ip r)) (?one @ ?two @ Y)"
      by (rule beforeI) (use h nr nc in \<open>auto simp: P1_def P2_def Y_def iff\<close>)
    show "before (Wait (ssh_cmd user ip r)) (Shell (ycsb_ssh user ip (ycsb_cmd home))) ((?one @ ?two) @ Y)"
      by (rule beforeI) (use h nr in \<open>auto simp: P1_def P2_def Y_def iff\<close>)
  qed
  ultimately show ?thesis by (intro exI[of _ "?one @ ?two @ Y"]) simp
qed

theorem setup_order_witness:
  "\<exists>tr. cmd_setup (no_args\<lparr>arg_user := Some ''u''\<rparr>) (id_lab\<lparr>json_at := [(''common.json'', sample_base)]\<rparr>) =
     (Inr (), id_lab\<lparr>json_at := [(''common.json'', sample_base)], lab_trace := tr\<rparr>) \<and>
   before (Wait (ssh_cmd ''u'' ''1.1'' ''cd /x/CHIME && bash script/installMLNX.sh''))
     (Spawn (ssh_cmd ''u'' ''1.1'' (clone_cmd ''/x'' ''https://github.com/djjay0131/CHIME.git''))) tr"
proof -
  let ?s = "id_lab\<lparr>json_at := [(''common.json'', sample_base)]\<rparr>"
  have b: "map_of (json_at ?s) ''common.json'' = Some (JDict [(''home_dir'', JStr ''/x''), (''workloads_dir'', JStr ''/x/w''),
     (''cluster_ips'', jstrs [''1.1'']), (''master_ip'', JStr ''1.1''), (''common_options'', JStr ''-DA=on''),
     (''cmake_options'', JDict [(''CHIME'', JStr ''-DC=on'')])])" by (simp add: sample_base_def)
  have m: "''cd /x/CHIME && bash script/installMLNX.sh'' \<in> set (setup_cmds ''/x'')"
    "clone_cmd ''/x'' ''https://github.com/djjay0131/CHIME.git'' \<in> set (clone_cmds ''/x'')"
    by (simp_all add: setup_cmds_def clone_cmds_def REPOS_def)
  have "\<exists>tr. cmd_setup (no_args\<lparr>arg_user := Some ''u''\<rparr>) ?s = (Inr (), ?s\<lparr>lab_trace := lab_trace ?s @ tr\<rparr>) \<and>
    (\<forall>ip \<in> set [''1.1'']. \<forall>c \<in> set (setup_cmds ''/x''). \<forall>r \<in> set (clone_cmds ''/x'').
       before (Wait (ssh_cmd ''u'' ip c)) (Spawn (ssh_cmd ''u'' ip r)) tr \<and>
       before (Wait (ssh_cmd ''u'' ip r)) (Shell (ycsb_ssh ''u'' ip (ycsb_cmd ''/x''))) tr)"
    by (rule setup_order[OF b]) simp_all
  then obtain tr where tr: "cmd_setup (no_args\<lparr>arg_user := Some ''u''\<rparr>) ?s = (Inr (), ?s\<lparr>lab_trace := lab_trace ?s @ tr\<rparr>)"
    "before (Wait (ssh_cmd ''u'' ''1.1'' ''cd /x/CHIME && bash script/installMLNX.sh''))
     (Spawn (ssh_cmd ''u'' ''1.1'' (clone_cmd ''/x'' ''https://github.com/djjay0131/CHIME.git''))) tr"
    using m by (metis list.set_intros(1))
  then show ?thesis by (intro exI[of _ tr]) (simp add: id_lab_def)
qed

end
