(* ===== verification/Profiles.thy ===== *)
theory Profiles
  imports Cloudlab
begin

text \<open>
  \<^verbatim>\<open>scripts/create-profiles.py\<close>: two CloudLab profiles are created over HTTPS unless the portal lists them.
  The portal is the list of its responses; with none left the connection fails.  \<open>loads\<close> is \<^verbatim>\<open>json.loads\<close>
  of a response, \<open>None\<close> for a body that is no JSON, and \<open>str_of\<close> is \<^verbatim>\<open>str\<close> of a dictionary.  A
  \<^verbatim>\<open>Location\<close> holds no control characters, brackets or semicolons.
\<close>

section \<open>Requests\<close>

record response =
  status :: int
  location :: "string option"
  data :: string

record request =
  req_method :: string
  req_path :: string
  req_body :: "json option"
  req_token :: "string option"

record portal =
  jwt_file :: "string option"
  responses :: "response list"
  requests :: "request list"

definition JWT_PATH :: string where "JWT_PATH = ''files/cloudlab.jwt''"
definition PROJECT :: string where "PROJECT = ''CS620426SP''"

definition jwt_token :: "string \<Rightarrow> string" where
  "jwt_token t =
     (let token = py_strip t in if py_startswith token ''Bearer '' then drop (length ''Bearer '') token else token)"

definition load_jwt :: "(portal, string) act" where
  "load_jwt = act_bind (act_get jwt_file) (\<lambda>f.
     case f of None \<Rightarrow> act_raise (FileNotFoundError JWT_PATH)
     | Some t \<Rightarrow> act_return (jwt_token t))"

text \<open>\<^verbatim>\<open>conn.request\<close> and \<^verbatim>\<open>conn.getresponse\<close>; the header is left out when there is no token.\<close>

definition send :: "request \<Rightarrow> (portal, response) act" where
  "send r p =
     (case responses p of
        [] \<Rightarrow> (Inl (Exception ''OSError''), p\<lparr>requests := requests p @ [r]\<rparr>)
      | a # as \<Rightarrow> (Inr a, p\<lparr>requests := requests p @ [r], responses := as\<rparr>))"

definition redirect :: "int \<Rightarrow> bool" where
  "redirect c \<longleftrightarrow> c \<in> set [301, 302, 303, 307, 308]"

text \<open>
  \<^verbatim>\<open>urlparse\<close> of an \<^verbatim>\<open>https\<close> URL: the host ends at the first slash, question mark or hash sign, the path at
  the first question mark, the query at the hash sign.
\<close>

definition url_path :: "string \<Rightarrow> string" where
  "url_path url =
     takeWhile (\<lambda>c. c \<notin> set ''?#'') (dropWhile (\<lambda>c. c \<notin> set ''/?#'') (drop (length ''https://'') url))"

definition url_query :: "string \<Rightarrow> string" where
  "url_query url =
     (let u = takeWhile (\<lambda>c. c \<noteq> CHR ''#'') (dropWhile (\<lambda>c. c \<notin> set ''/?#'') (drop (length ''https://'') url)) in
      tl (dropWhile (\<lambda>c. c \<noteq> CHR ''?'') u))"

definition new_path :: "string \<Rightarrow> string" where
  "new_path loc =
     (if py_startswith loc ''https://''
      then url_path loc @ (if url_query loc = [] then [] else ''?'' @ url_query loc)
      else loc)"

definition new_method :: "string \<Rightarrow> int \<Rightarrow> string" where
  "new_method verb c = (if c = 307 \<or> c = 308 then verb else ''GET'')"

text \<open>\<^verbatim>\<open>json.dumps(body).encode() if body else None\<close>: an empty body is not sent.\<close>

definition payload :: "json option \<Rightarrow> json option" where
  "payload body = (case body of None \<Rightarrow> None | Some j \<Rightarrow> if truthy j then Some j else None)"

definition token_header :: "string option \<Rightarrow> string option" where
  "token_header jwt = (case jwt of None \<Rightarrow> None | Some t \<Rightarrow> if t = [] then None else Some t)"

function api_request ::
  "string \<Rightarrow> string \<Rightarrow> json option \<Rightarrow> string option \<Rightarrow> nat \<Rightarrow> portal \<Rightarrow> (int \<times> string) py \<times> portal" where
  "api_request verb path body jwt depth p =
     (if depth > 5 then (Inl (Exception ''Too many redirects''), p)
      else
        case send \<lparr>req_method = verb, req_path = path, req_body = payload body, req_token = token_header jwt\<rparr> p of
          (Inl e, q) \<Rightarrow> (Inl e, q)
        | (Inr r, q) \<Rightarrow>
            if redirect (status r) then
              let loc = (case location r of None \<Rightarrow> [] | Some l \<Rightarrow> l); nm = new_method verb (status r) in
              api_request nm (new_path loc) (if nm = verb then body else None) jwt (depth + 1) q
            else (Inr (status r, data r), q))"
  by pat_completeness auto
termination by (relation "Wellfounded.measure (\<lambda>(_, _, _, _, depth, _). 6 - depth)") auto

declare api_request.simps [simp del]

section \<open>Profiles\<close>

definition geni_script :: "string \<Rightarrow> string \<Rightarrow> string" where
  "geni_script cnt hw = concat (map (\<lambda>l. l @ [CHR 0x0A]) [
     ''import geni.portal as portal'',
     ''import geni.rspec.pg as rspec'',
     ''import geni.rspec.emulab as emulab'',
     [],
     ''request = portal.context.makeRequestRSpec()'',
     [],
     ''for i in range('' @ cnt @ ''):'',
     ''    node = request.RawPC('' @ [CHR 0x22] @ ''node{}'' @ [CHR 0x22] @ ''.format(i))'',
     ''    node.hardware_type = '' @ [CHR 0x22] @ hw @ [CHR 0x22],
     ''    node.disk_image = '' @ [CHR 0x22] @ ''urn:publicid:IDN+emulab.net+image+emulab-ops//UBUNTU20-64-STD'' @ [CHR 0x22],
     ''    node.component_manager_id = '' @ [CHR 0x22] @ ''urn:publicid:IDN+clemson.cloudlab.us+authority+cm'' @ [CHR 0x22],
     [],
     ''portal.context.printRequestRSpec()''])"

definition SCRIPT_R6525 :: string where "SCRIPT_R6525 = geni_script ''11'' ''r6525''"
definition SCRIPT_R650 :: string where "SCRIPT_R650 = geni_script ''10'' ''r650''"

record profile =
  p_name :: string
  p_description :: string
  p_script :: string

definition PROFILES :: "profile list" where
  "PROFILES = [
     \<lparr>p_name = ''chime-r6525-clemson'',
      p_description = ''11x r6525 nodes at Clemson with Ubuntu 20.04 for CHIME experiments (10 CN + 1 MN)'',
      p_script = SCRIPT_R6525\<rparr>,
     \<lparr>p_name = ''chime-r650-clemson'',
      p_description = ''10x r650 nodes at Clemson with Ubuntu 20.04 for CHIME experiments (9 CN + 1 MN)'',
      p_script = SCRIPT_R650\<rparr>]"

definition profile_body :: "profile \<Rightarrow> json" where
  "profile_body p = JDict [(''name'', JStr (p_name p)), (''description'', JStr (p_description p)),
     (''script'', JStr (p_script p)), (''project'', JStr PROJECT), (''public'', JBool False)]"

definition create_profile :: "string \<Rightarrow> profile \<Rightarrow> (portal, int \<times> string) act" where
  "create_profile jwt p = api_request ''POST'' ''/profiles'' (Some (profile_body p)) (Some jwt) 0"

definition list_profiles :: "string \<Rightarrow> (portal, int \<times> string) act" where
  "list_profiles jwt = api_request ''GET'' ''/profiles'' None (Some jwt) 0"

text \<open>
  The names a listing gives: \<^verbatim>\<open>p.get("name") or p.get("id") or str(p)\<close> of each entry up to the first that
  is no object or whose name cannot be put into a set; the exception ends the loop.
\<close>

fun hashable :: "json \<Rightarrow> bool" where
  "hashable (JList _) = False"
| "hashable (JDict _) = False"
| "hashable _ = True"

definition profile_name :: "(json \<Rightarrow> string) \<Rightarrow> (string \<times> json) list \<Rightarrow> json" where
  "profile_name str_of d =
     (case map_of d ''name'' of Some v \<Rightarrow> if truthy v then v else
         (case map_of d ''id'' of Some w \<Rightarrow> if truthy w then w else JStr (str_of (JDict d)) | None \<Rightarrow> JStr (str_of (JDict d)))
      | None \<Rightarrow> (case map_of d ''id'' of Some w \<Rightarrow> if truthy w then w else JStr (str_of (JDict d)) | None \<Rightarrow> JStr (str_of (JDict d))))"

fun names_of :: "(json \<Rightarrow> string) \<Rightarrow> json list \<Rightarrow> json list" where
  "names_of str_of [] = []"
| "names_of str_of (JDict d # ps) =
     (if hashable (profile_name str_of d) then profile_name str_of d # names_of str_of ps else [])"
| "names_of str_of (_ # ps) = []"

definition existing_names :: "(json \<Rightarrow> string) \<Rightarrow> json option \<Rightarrow> json list" where
  "existing_names str_of parsed =
     (case parsed of None \<Rightarrow> []
      | Some j \<Rightarrow>
          let plist = (case j of JDict d \<Rightarrow> (case map_of d ''profiles'' of None \<Rightarrow> j | Some v \<Rightarrow> v) | _ \<Rightarrow> j) in
          case plist of JList ps \<Rightarrow> names_of str_of ps | _ \<Rightarrow> [])"

definition ensure_profile :: "string \<Rightarrow> json list \<Rightarrow> profile \<Rightarrow> (portal, unit) act" where
  "ensure_profile jwt existing p =
     (if JStr (p_name p) \<in> set existing then act_return ()
      else act_bind (create_profile jwt p) (\<lambda>_. act_return ()))"

definition profiles_main :: "(string \<Rightarrow> json option) \<Rightarrow> (json \<Rightarrow> string) \<Rightarrow> (portal, unit) act" where
  "profiles_main loads str_of =
     act_bind load_jwt (\<lambda>jwt.
     act_bind (list_profiles jwt) (\<lambda>(_, listing).
     act_for PROFILES (ensure_profile jwt (existing_names str_of (loads listing)))))"

section \<open>Redirects\<close>

lemma send_ok: "responses p = a # as \<Longrightarrow> send r p = (Inr a, p\<lparr>requests := requests p @ [r], responses := as\<rparr>)"
  by (simp add: send_def)

lemma api_step_redirect:
  assumes "depth \<le> 5" "responses p = a # as" "redirect (status a)"
  shows "\<exists>verb' path' body' r. api_request verb path body jwt depth p =
    api_request verb' path' body' jwt (depth + 1) (p\<lparr>requests := requests p @ [r], responses := as\<rparr>)"
  by (subst api_request.simps) (use assms in \<open>auto simp: send_ok Let_def\<close>)

lemma api_step_done:
  assumes "depth \<le> 5" "responses p = a # as" "\<not> redirect (status a)"
  shows "\<exists>r. api_request verb path body jwt depth p =
    (Inr (status a, data a), p\<lparr>requests := requests p @ [r], responses := as\<rparr>)"
  by (subst api_request.simps) (use assms in \<open>auto simp: send_ok\<close>)

lemma api_redirects:
  assumes "responses p = as @ bs" "\<forall>a \<in> set as. redirect (status a)" "depth + length as \<le> 6"
  shows "\<exists>verb' path' body' rs. length rs = length as \<and> api_request verb path body jwt depth p =
    api_request verb' path' body' jwt (depth + length as) (p\<lparr>requests := requests p @ rs, responses := bs\<rparr>)"
  using assms
proof (induction as arbitrary: verb path body depth p)
  case Nil
  then have "p\<lparr>requests := requests p @ [], responses := bs\<rparr> = p" by (cases p) simp
  then show ?case by (metis add.right_neutral list.size(3))
next
  case (Cons a as)
  then obtain verb1 path1 body1 r where 1: "api_request verb path body jwt depth p =
      api_request verb1 path1 body1 jwt (depth + 1) (p\<lparr>requests := requests p @ [r], responses := as @ bs\<rparr>)"
    using api_step_redirect[of depth p a "as @ bs" verb path body jwt] by auto
  let ?p = "p\<lparr>requests := requests p @ [r], responses := as @ bs\<rparr>"
  have "responses ?p = as @ bs" "\<forall>a \<in> set as. redirect (status a)" "depth + 1 + length as \<le> 6" using Cons.prems by auto
  from Cons.IH[OF this, of verb1 path1 body1] obtain verb' path' body' rs where "length rs = length as"
    "api_request verb1 path1 body1 jwt (depth + 1) ?p =
     api_request verb' path' body' jwt (depth + 1 + length as) (?p\<lparr>requests := requests ?p @ rs, responses := bs\<rparr>)" by blast
  with 1 show ?case
    by (rule_tac exI[of _ verb'], rule_tac exI[of _ path'], rule_tac exI[of _ body'], rule_tac exI[of _ "r # rs"]) simp
qed

text \<open>
  C14: A request follows at most five redirects.  When the portal redirects it \<open>k\<close> times and then
  answers, \<open>k + 1\<close> requests are sent and the answer is returned if \<open>k\<close> is at most 5; six redirects
  in a row end in \<^verbatim>\<open>Too many redirects\<close> after exactly six requests.\<close>

theorem api_request_redirects:
  assumes "responses p = as @ bs" and "\<forall>a \<in> set as. redirect (status a)"
    and "length as = 6 \<or> length as < 6 \<and> (\<exists>b cs. bs = b # cs \<and> \<not> redirect (status b))"
  shows "\<exists>rs. if length as = 6
    then length rs = 6 \<and> api_request verb path body jwt 0 p =
      (Inl (Exception ''Too many redirects''), p\<lparr>requests := requests p @ rs, responses := bs\<rparr>)
    else length rs = length as + 1 \<and> api_request verb path body jwt 0 p =
      (Inr (status (hd bs), data (hd bs)), p\<lparr>requests := requests p @ rs, responses := tl bs\<rparr>)"
proof -
  have "0 + length as \<le> 6" using assms(3) by auto
  from api_redirects[OF assms(1,2) this, of verb path body jwt] obtain verb' path' body' rs where rs: "length rs = length as"
    "api_request verb path body jwt 0 p =
     api_request verb' path' body' jwt (length as) (p\<lparr>requests := requests p @ rs, responses := bs\<rparr>)" by auto
  show ?thesis
  proof (cases "length as = 6")
    case True
    then show ?thesis using rs by (intro exI[of _ rs]) (simp add: api_request.simps)
  next
    case False
    then obtain b cs where b: "bs = b # cs" "\<not> redirect (status b)" "length as \<le> 5" using assms(3) by auto
    let ?q = "p\<lparr>requests := requests p @ rs, responses := bs\<rparr>"
    have "responses ?q = b # cs" using b(1) by simp
    from api_step_done[OF b(3) this b(2), of verb' path' body' jwt] obtain r where
      "api_request verb' path' body' jwt (length as) ?q = (Inr (status b, data b), ?q\<lparr>requests := requests ?q @ [r], responses := cs\<rparr>)"
      by blast
    with False rs b(1) show ?thesis by (intro exI[of _ "rs @ [r]"]) simp
  qed
qed

definition ok_response :: response where
  "ok_response = \<lparr>status = 200, location = None, data = ''[]''\<rparr>"

definition moved :: response where
  "moved = \<lparr>status = 307, location = Some ''https://h/p?q=1'', data = []\<rparr>"

definition sample_portal :: portal where
  "sample_portal = \<lparr>jwt_file = Some ''Bearer t'', responses = [moved, moved, ok_response], requests = []\<rparr>"

theorem api_request_redirects_witness:
  "\<exists>rs. length rs = 3 \<and> api_request ''GET'' ''/profiles'' None (Some ''t'') 0 sample_portal =
    (Inr (200, ''[]''), sample_portal\<lparr>requests := rs, responses := []\<rparr>)"
proof -
  have 1: "responses sample_portal = [moved, moved] @ [ok_response]" by (simp add: sample_portal_def)
  have 2: "\<forall>a \<in> set [moved, moved]. redirect (status a)" by (simp add: moved_def redirect_def)
  have 3: "length [moved, moved] = 6 \<or>
      length [moved, moved] < 6 \<and> (\<exists>b cs. [ok_response] = b # cs \<and> \<not> redirect (status b))"
    by (simp add: ok_response_def redirect_def)
  from api_request_redirects[OF 1 2 3, of "''GET''" "''/profiles''" None "Some ''t''"] show ?thesis
    by (simp add: ok_response_def sample_portal_def numeral_3_eq_3)
qed

section \<open>Which profiles are created\<close>

lemma api_direct:
  assumes "responses p = a # as" "\<not> redirect (status a)"
  shows "api_request verb path body jwt 0 p = (Inr (status a, data a), p\<lparr>requests := requests p @
    [\<lparr>req_method = verb, req_path = path, req_body = payload body, req_token = token_header jwt\<rparr>], responses := as\<rparr>)"
  by (subst api_request.simps) (use assms in \<open>simp add: send_ok\<close>)

definition post_of :: "string \<Rightarrow> profile \<Rightarrow> request" where
  "post_of jwt p = \<lparr>req_method = ''POST'', req_path = ''/profiles'', req_body = Some (profile_body p), req_token = token_header (Some jwt)\<rparr>"

lemma ensure_all:
  assumes "\<forall>a \<in> set (responses p). \<not> redirect (status a)"
    and "length (filter (\<lambda>q. JStr (p_name q) \<notin> set ns) ps) \<le> length (responses p)"
  shows "act_for ps (ensure_profile jwt ns) p = (Inr (),
    p\<lparr>requests := requests p @ map (post_of jwt) (filter (\<lambda>q. JStr (p_name q) \<notin> set ns) ps),
      responses := drop (length (filter (\<lambda>q. JStr (p_name q) \<notin> set ns) ps)) (responses p)\<rparr>)"
  using assms
proof (induction ps arbitrary: p)
  case Nil
  then show ?case by (simp add: act_return_def)
next
  case (Cons q ps)
  show ?case
  proof (cases "JStr (p_name q) \<in> set ns")
    case True
    with Cons show ?thesis by (simp add: ensure_profile_def act_seq_def act_bind_def act_return_def)
  next
    case False
    with Cons.prems obtain a as where a: "responses p = a # as" by (cases "responses p") auto
    with Cons.prems have "\<not> redirect (status a)" by simp
    note d = api_direct[OF a this, of "''POST''" "''/profiles''" "Some (profile_body q)" "Some jwt"]
    let ?p = "p\<lparr>requests := requests p @ [post_of jwt q], responses := as\<rparr>"
    have "ensure_profile jwt ns q p = (Inr (), ?p)"
      using False d by (simp add: ensure_profile_def create_profile_def act_bind_def act_return_def post_of_def payload_def profile_body_def)
    moreover have "act_for ps (ensure_profile jwt ns) ?p = (Inr (),
      ?p\<lparr>requests := requests ?p @ map (post_of jwt) (filter (\<lambda>q. JStr (p_name q) \<notin> set ns) ps),
        responses := drop (length (filter (\<lambda>q. JStr (p_name q) \<notin> set ns) ps)) (responses ?p)\<rparr>)"
      using Cons.prems False a by (intro Cons.IH) auto
    ultimately show ?thesis using False a by (simp add: act_seq_def act_bind_def)
  qed
qed

definition missing_profiles :: "json list \<Rightarrow> profile list" where
  "missing_profiles ns = filter (\<lambda>q. JStr (p_name q) \<notin> set ns) PROFILES"


definition listing_loads :: "string \<Rightarrow> json option" where
  "listing_loads _ = Some (JList [JDict [(''name'', JStr ''chime-r650-clemson'')]])"


end
