(* ===== verification/Re_Scan.thy ===== *)
theory Re_Scan
  imports Py_Prelude
begin

text \<open>
  Regular expressions of the text tools as scanners.  A matcher takes the text from a position on and
  returns what the pattern captures together with the text behind the match, or \<open>None\<close>.
  \<open>re_search\<close> is \<^verbatim>\<open>re.search\<close> (the leftmost match, with the text before it), \<open>re_sub\<close> is \<^verbatim>\<open>re.sub\<close> with a fixed
  replacement, \<open>re_findall\<close> is \<^verbatim>\<open>re.findall\<close>.  Every pattern here matches at least one character.
\<close>

section \<open>Searching\<close>

fun re_search :: "(string \<Rightarrow> 'a option) \<Rightarrow> string \<Rightarrow> (string \<times> 'a) option" where
  "re_search m [] = map_option (Pair []) (m [])"
| "re_search m (c # cs) =
     (case m (c # cs) of Some r \<Rightarrow> Some ([], r) | None \<Rightarrow> map_option (\<lambda>(a, r). (c # a, r)) (re_search m cs))"

function re_sub :: "(string \<Rightarrow> string option) \<Rightarrow> string \<Rightarrow> string \<Rightarrow> string" where
  "re_sub m rep [] = []"
| "re_sub m rep (c # cs) =
     (case m (c # cs) of
        Some r \<Rightarrow> if length r \<le> length cs then rep @ re_sub m rep r else c # re_sub m rep cs
      | None \<Rightarrow> c # re_sub m rep cs)"
  by pat_completeness auto
termination by (relation "measure (\<lambda>(_, _, s). length s)") auto

function re_findall :: "(string \<Rightarrow> ('a \<times> string) option) \<Rightarrow> string \<Rightarrow> 'a list" where
  "re_findall m [] = []"
| "re_findall m (c # cs) =
     (case m (c # cs) of
        Some (x, r) \<Rightarrow> if length r \<le> length cs then x # re_findall m r else re_findall m cs
      | None \<Rightarrow> re_findall m cs)"
  by pat_completeness auto
termination by (relation "measure (\<lambda>(_, s). length s)") auto

section \<open>Pieces of patterns\<close>

text \<open>A literal; \<^verbatim>\<open>[^c]*c\<close>; \<^verbatim>\<open>(?:\[[^\]]*\])?\<close> taken when it is there.\<close>

definition lit :: "string \<Rightarrow> string \<Rightarrow> string option" where
  "lit p s = (if py_startswith s p then Some (drop (length p) s) else None)"

fun until_char :: "char \<Rightarrow> string \<Rightarrow> (string \<times> string) option" where
  "until_char c [] = None"
| "until_char c (d # s) = (if d = c then Some ([], s) else map_option (\<lambda>(a, r). (d # a, r)) (until_char c s))"

definition bracket :: "string \<Rightarrow> string option" where
  "bracket s = Option.bind (lit ''['' s) (\<lambda>r. map_option snd (until_char (CHR '']'') r))"

definition opt_bracket :: "string \<Rightarrow> string" where
  "opt_bracket s = (case bracket s of None \<Rightarrow> s | Some r \<Rightarrow> r)"

text \<open>\<^verbatim>\<open>\{([^}]*)\}\<close>\<close>

definition brace :: "string \<Rightarrow> (string \<times> string) option" where
  "brace s = Option.bind (lit ''{'' s) (until_char (CHR ''}''))"

section \<open>Rules\<close>

lemma lit_append [simp]: "lit p (p @ s) = Some s"
  by (simp add: lit_def py_startswith_def)

lemma lit_Some: "lit p s = Some r \<longleftrightarrow> s = p @ r"
proof
  assume "lit p s = Some r"
  then have "py_startswith s p" "drop (length p) s = r" by (simp_all add: lit_def split: if_splits)
  then show "s = p @ r" unfolding py_startswith_def by (metis append_take_drop_id)
qed simp

lemma lit_None_hd: "p \<noteq> [] \<Longrightarrow> hd p \<noteq> c \<Longrightarrow> lit p (c # s) = None"
  by (cases p) (auto simp: lit_def py_startswith_def)

lemma until_char_Some: "until_char c s = Some (a, r) \<longleftrightarrow> s = a @ c # r \<and> c \<notin> set a"
proof (induction s arbitrary: a)
  case (Cons d s)
  show ?case
  proof (cases a)
    case Nil
    then show ?thesis by auto
  next
    case (Cons x xs)
    with Cons.IH[of xs] show ?thesis by auto
  qed
qed simp

lemma until_char_here [simp]: "c \<notin> set a \<Longrightarrow> until_char c (a @ c # r) = Some (a, r)"
  by (simp add: until_char_Some)

lemma until_char_None: "until_char c s = None \<longleftrightarrow> c \<notin> set s"
  by (induction s) auto

lemma brace_here [simp]: "CHR ''}'' \<notin> set a \<Longrightarrow> brace (CHR ''{'' # a @ CHR ''}'' # r) = Some (a, r)"
  by (simp add: brace_def lit_def py_startswith_def)

lemma re_search_None: "m [] = None \<Longrightarrow> (re_search m s = None) \<longleftrightarrow> (\<forall>k \<le> length s. m (drop k s) = None)"
proof (induction s)
  case (Cons c s)
  have "(\<forall>k \<le> length (c # s). m (drop k (c # s)) = None) \<longleftrightarrow> m (c # s) = None \<and> (\<forall>k \<le> length s. m (drop k s) = None)"
    (is "?l \<longleftrightarrow> ?r")
  proof
    assume l: ?l
    show ?r
    proof (intro conjI allI impI)
      show "m (c # s) = None" using l[THEN spec, of 0] by simp
      fix k assume "k \<le> length s"
      then show "m (drop k s) = None" using l[THEN spec, of "Suc k"] by simp
    qed
  next
    assume ?r
    then show ?l by (auto simp: drop_Cons split: nat.split)
  qed
  with Cons show ?case by (auto split: option.splits)
qed simp

text \<open>The match is leftmost: nothing matches before it.\<close>

lemma re_search_skip:
  assumes "\<And>k. k < length a \<Longrightarrow> m (drop k a @ s) = None" "m s = Some r" "s \<noteq> []"
  shows "re_search m (a @ s) = Some (a, r)"
  using assms(1)
proof (induction a)
  case Nil
  then show ?case using assms(2,3) by (cases s) auto
next
  case (Cons c a)
  have "re_search m (a @ s) = Some (a, r)"
  proof (rule Cons.IH)
    fix k assume "k < length a"
    then show "m (drop k a @ s) = None" using Cons.prems[of "Suc k"] by simp
  qed
  moreover have "m (c # a @ s) = None" using Cons.prems[of 0] by simp
  ultimately show ?case by simp
qed

lemma re_sub_none:
  assumes "\<And>k. k < length a \<Longrightarrow> m (drop k a @ s) = None"
  shows "re_sub m rep (a @ s) = a @ re_sub m rep s"
  using assms
proof (induction a)
  case (Cons c a)
  have "re_sub m rep (a @ s) = a @ re_sub m rep s"
  proof (rule Cons.IH)
    fix k assume "k < length a"
    then show "m (drop k a @ s) = None" using Cons.prems[of "Suc k"] by simp
  qed
  moreover have "m (c # a @ s) = None" using Cons.prems[of 0] by simp
  ultimately show ?case by simp
qed simp

lemma re_search_Some:
  "re_search m s = Some (a, r) \<Longrightarrow> \<exists>k \<le> length s. a = take k s \<and> m (drop k s) = Some r"
proof (induction s arbitrary: a)
  case Nil
  then show ?case by auto
next
  case (Cons c s)
  show ?case
  proof (cases "m (c # s)")
    case None
    with Cons.prems obtain a' where a': "a = c # a'" "re_search m s = Some (a', r)" by auto
    from Cons.IH[OF a'(2)] obtain k where "k \<le> length s" "a' = take k s" "m (drop k s) = Some r" by blast
    with a' show ?thesis by (intro exI[of _ "Suc k"]) simp
  next
    case (Some x)
    with Cons.prems show ?thesis by (intro exI[of _ 0]) simp
  qed
qed

section \<open>Literals\<close>

text \<open>
  A pattern that starts with a literal whose first character does not occur in it again: it is
  found where the literal first occurs.
\<close>

lemma lit_inside:
  assumes "lit (c # p) (x @ c # z) = Some r" "c \<notin> set p" "x \<noteq> []"
  shows "\<exists>r'. lit (c # p) x = Some r'"
proof -
  from assms(1) have e: "x @ c # z = (c # p) @ r" by (simp only: lit_Some)
  from assms(3) obtain y where x: "x = c # y" using e by (cases x) auto
  with e have "y @ c # z = p @ r" by simp
  then consider u where "y = p @ u" | u where "p = y @ u" "c # z = u @ r"
    by (auto simp: append_eq_append_conv2)
  then show ?thesis
  proof cases
    case 1
    then show ?thesis using x by (auto simp: lit_Some)
  next
    case 2
    with assms(2) have "u = []" by (cases u) auto
    with 2 x show ?thesis by (auto simp: lit_Some)
  qed
qed

lemma lit_in: "lit p (drop k s) = Some r \<Longrightarrow> py_in p s"
  unfolding py_in_iff lit_Some by (metis append_take_drop_id)

lemma lit_absent:
  assumes "\<not> py_in (c # p) a" "c \<notin> set p" "k < length a"
  shows "lit (c # p) (drop k a @ c # z) = None"
proof (rule ccontr)
  assume "lit (c # p) (drop k a @ c # z) \<noteq> None"
  then obtain r where "lit (c # p) (drop k a @ c # z) = Some r" by blast
  from lit_inside[OF this assms(2)] assms(3) obtain r' where "lit (c # p) (drop k a) = Some r'" by auto
  then have "py_in (c # p) a" by (rule lit_in)
  with assms(1) show False by simp
qed

locale headed =
  fixes m :: "string \<Rightarrow> 'a option" and c :: char and p :: string
  assumes head: "lit (c # p) s = None \<Longrightarrow> m s = None" and once: "c \<notin> set p"
begin

lemma search_at:
  assumes "\<not> py_in (c # p) a" "m (c # p @ z) = Some r"
  shows "re_search m (a @ c # p @ z) = Some (a, r)"
  using assms(2) lit_absent[OF assms(1) once] by (intro re_search_skip) (auto intro: head)

lemma search_none:
  assumes "\<not> py_in (c # p) s"
  shows "re_search m s = None"
proof (subst re_search_None)
  show "m [] = None" by (rule head) (simp add: lit_def py_startswith_def)
  show "\<forall>k \<le> length s. m (drop k s) = None" using assms lit_in head by (metis not_Some_eq)
qed

end

lemma headed_lit: "c \<notin> set p \<Longrightarrow> headed (lit (c # p)) c p"
  by unfold_locales

end
