(* ===== verification/Word_Cap.thy ===== *)
theory Word_Cap
  imports Re_Scan Py_State
begin

text \<open>
  \<^verbatim>\<open>scripts/check_zen_word_cap.py\<close>: every slide of a LaTeX deck that is spoken, that is, before \<^verbatim>\<open>\appendix\<close>,
  may have at most a given number of words outside its title, notes, figures and listings.  The
  program is modelled by its exit code; the printed report is left out.
\<close>

section \<open>Tags\<close>

definition backslash :: char where "backslash = CHR 0x5C"

definition begin_tag :: "string \<Rightarrow> string" where
  "begin_tag env = backslash # ''begin{'' @ env @ ''}''"

definition end_tag :: "string \<Rightarrow> string" where
  "end_tag env = backslash # ''end{'' @ env @ ''}''"

section \<open>Stripping\<close>

definition STRIP_ENVS :: "string list" where
  "STRIP_ENVS = [''tikzpicture'', ''lstlisting'', ''tabular'', ''figure'', ''table'']"

text \<open>
  \<^verbatim>\<open>\begin{env}(?:\[[^\]]*\])?.*?\end{env}\<close>: when nothing closes the environment behind the bracket, the
  bracket is given up and its text searched too.
\<close>

definition env_match :: "string \<Rightarrow> string \<Rightarrow> string option" where
  "env_match env s = Option.bind (lit (begin_tag env) s) (\<lambda>r.
     case re_search (lit (end_tag env)) (opt_bracket r) of
       Some (_, q) \<Rightarrow> Some q
     | None \<Rightarrow> map_option snd (re_search (lit (end_tag env)) r))"

definition macro_arg :: "string \<Rightarrow> string \<Rightarrow> string option" where
  "macro_arg name s = Option.bind (lit (backslash # name) s) (\<lambda>r. map_option snd (brace r))"

definition graphics_match :: "string \<Rightarrow> string option" where
  "graphics_match s = Option.bind (lit (backslash # ''includegraphics'') s) (\<lambda>r. map_option snd (brace (opt_bracket r)))"

definition frame_title_match :: "string \<Rightarrow> string option" where
  "frame_title_match s = Option.bind (lit (begin_tag ''frame'') s) (\<lambda>r. map_option snd (brace (opt_bracket r)))"

text \<open>\<^verbatim>\<open>(?<!\\)%[^\n]*\<close>; \<open>prev\<close> is the character before the position.\<close>

function strip_comments :: "char option \<Rightarrow> string \<Rightarrow> string" where
  "strip_comments prev [] = []"
| "strip_comments prev (c # cs) =
     (if c = CHR ''%'' \<and> prev \<noteq> Some backslash
      then CHR '' '' # strip_comments (Some c) (dropWhile (\<lambda>d. d \<noteq> CHR 0x0A) cs)
      else c # strip_comments (Some c) cs)"
  by pat_completeness auto
termination
  by (relation "measure (\<lambda>(_, s). length s)") (auto simp: le_imp_less_Suc length_dropWhile_le)

text \<open>The argument of a macro up to its closing brace; a backslash protects the next character.\<close>

fun close_brace :: "nat \<Rightarrow> string \<Rightarrow> string" where
  "close_brace 0 s = s"
| "close_brace (Suc d) [] = []"
| "close_brace (Suc d) [c] = (if c = CHR ''}'' then close_brace d [] else [])"
| "close_brace (Suc d) (c # c' # s) =
     (if c = backslash then close_brace (Suc d) s
      else if c = CHR ''{'' then close_brace (Suc (Suc d)) (c' # s)
      else if c = CHR ''}'' then close_brace d (c' # s)
      else close_brace (Suc d) (c' # s))"

definition macro_open :: "string \<Rightarrow> string \<Rightarrow> string option" where
  "macro_open name s = Option.bind (lit (backslash # name) s) (\<lambda>r. lit ''{'' (dropWhile py_space r))"

lemma close_brace_length: "length (close_brace d s) \<le> length s"
  by (induction d s rule: close_brace.induct) (auto intro: le_SucI)

lemma lit_length: "lit p s = Some r \<Longrightarrow> length r + length p = length s"
  by (auto simp: lit_Some)

lemma macro_open_length: "macro_open name s = Some r \<Longrightarrow> length r < length s"
proof -
  assume "macro_open name s = Some r"
  then obtain q where q: "lit (backslash # name) s = Some q" "lit ''{'' (dropWhile py_space q) = Some r"
    by (auto simp: macro_open_def bind_eq_Some_conv)
  from lit_length[OF q(2)] length_dropWhile_le[of py_space q] have "length r < length q" by simp
  with lit_length[OF q(1)] show ?thesis by simp
qed

function strip_balanced_macro :: "string \<Rightarrow> string \<Rightarrow> string" where
  "strip_balanced_macro name s =
     (case re_search (macro_open name) s of
        None \<Rightarrow> s
      | Some (a, r) \<Rightarrow> a @ strip_balanced_macro name (close_brace 1 r))"
  by pat_completeness auto
termination
proof (relation "measure (\<lambda>(_, s). length s)")
  fix name s p a r
  assume "re_search (macro_open name) s = Some p" "(a, r) = p"
  then have "re_search (macro_open name) s = Some (a, r)" by simp
  from re_search_Some[OF this] obtain k where "macro_open name (drop k s) = Some r" by blast
  from macro_open_length[OF this] have "length r < length s" by simp
  with close_brace_length[of 1 r] show "((name, close_brace 1 r), (name, s)) \<in> measure (\<lambda>(_, s). length s)" by simp
qed simp

declare strip_balanced_macro.simps [simp del]

definition strip_blocks :: "string \<Rightarrow> string" where
  "strip_blocks text =
     (let text = foldl (\<lambda>t env. re_sub (env_match env) '' '' t) text STRIP_ENVS;
          text = strip_balanced_macro ''note'' text;
          text = foldl (\<lambda>t m. re_sub m '' '' t) text [macro_arg ''frametitle'', macro_arg ''caption'', graphics_match];
          text = re_sub frame_title_match '' '' text
      in strip_comments None text)"

section \<open>Counting\<close>

definition ascii_letter :: "char \<Rightarrow> bool" where
  "ascii_letter c \<longleftrightarrow> 65 \<le> code c \<and> code c \<le> 90 \<or> 97 \<le> code c \<and> code c \<le> 122"

definition macro_name_match :: "string \<Rightarrow> string option" where
  "macro_name_match s = Option.bind (lit [backslash] s) (\<lambda>r.
     let isn = (\<lambda>c. ascii_letter c \<or> c = CHR ''@'') in
     if takeWhile isn r = [] then None
     else let q = dropWhile isn r in
       Some (opt_bracket (case q of [] \<Rightarrow> [] | c # cs \<Rightarrow> if c = CHR ''*'' then cs else q)))"

definition zen_word_char :: "char \<Rightarrow> bool" where
  "zen_word_char c \<longleftrightarrow> ascii_letter c \<or> is_digit c \<or> c = CHR 0x27 \<or> c = CHR ''-''"

definition word_match :: "string \<Rightarrow> (string \<times> string) option" where
  "word_match s = (case s of [] \<Rightarrow> None
     | c # cs \<Rightarrow> if ascii_letter c \<and> takeWhile zen_word_char cs \<noteq> []
         then Some (c # takeWhile zen_word_char cs, dropWhile zen_word_char cs) else None)"

definition count_words :: "string \<Rightarrow> nat" where
  "count_words text =
     (let text = re_sub macro_name_match '' '' text;
          text = map (\<lambda>c. if c = CHR ''{'' \<or> c = CHR ''}'' then CHR '' '' else c) text
      in length (re_findall word_match text))"

section \<open>Frames\<close>

definition frame_match :: "string \<Rightarrow> (string option \<times> string) option" where
  "frame_match s = map_option (\<lambda>r.
     case brace (opt_bracket r) of None \<Rightarrow> (None, opt_bracket r) | Some (t, q) \<Rightarrow> (Some t, q)) (lit (begin_tag ''frame'') s)"

definition frame_name :: "string option \<Rightarrow> string" where
  "frame_name t = py_strip (case t of None \<Rightarrow> ''[plain]'' | Some t \<Rightarrow> if t = [] then ''[plain]'' else t)"

lemma bracket_length: "length (opt_bracket s) \<le> length s"
proof -
  have "bracket s = Some r \<Longrightarrow> length r \<le> length s" for r
    by (auto simp: bracket_def bind_eq_Some_conv until_char_Some lit_Some)
  then show ?thesis by (auto simp: opt_bracket_def split: option.split)
qed

lemma brace_length: "brace s = Some (t, q) \<Longrightarrow> length q < length s"
  by (auto simp: brace_def bind_eq_Some_conv until_char_Some lit_Some)

lemma frame_match_length: "frame_match s = Some (t, q) \<Longrightarrow> length q < length s"
proof -
  assume "frame_match s = Some (t, q)"
  then obtain r where r: "lit (begin_tag ''frame'') s = Some r"
    "(t, q) = (case brace (opt_bracket r) of None \<Rightarrow> (None, opt_bracket r) | Some (t, q) \<Rightarrow> (Some t, q))"
    by (auto simp: frame_match_def)
  have "length q \<le> length (opt_bracket r)"
    using r(2) brace_length[of "opt_bracket r"] by (auto split: option.splits)
  also note bracket_length[of r]
  also have "length r < length s" using lit_length[OF r(1)] by (simp add: begin_tag_def)
  finally show ?thesis .
qed

function frames_from :: "string \<Rightarrow> (string \<times> string) list" where
  "frames_from s =
     (case re_search frame_match s of
        None \<Rightarrow> []
      | Some (a, t, q) \<Rightarrow>
          (case re_search (lit (end_tag ''frame'')) q of
             None \<Rightarrow> []
           | Some (_, rest) \<Rightarrow>
               (frame_name t, let f = drop (length a) s in take (length f - length rest) f) # frames_from rest))"
  by pat_completeness auto
termination
proof (relation "measure length")
  fix s p a tq t q p' b rest
  assume h: "re_search frame_match s = Some p" "(a, tq) = p" "(t, q) = tq"
    "re_search (lit (end_tag ''frame'')) q = Some p'" "(b, rest) = p'"
  from h(1-3) have "re_search frame_match s = Some (a, t, q)" by simp
  from re_search_Some[OF this] obtain k where "frame_match (drop k s) = Some (t, q)" by blast
  from frame_match_length[OF this] have 1: "length q < length s" by simp
  from h(4,5) have "re_search (lit (end_tag ''frame'')) q = Some (b, rest)" by simp
  from re_search_Some[OF this] obtain j where "lit (end_tag ''frame'') (drop j q) = Some rest" by blast
  from lit_length[OF this] have "length rest \<le> length q" by simp
  with 1 show "(rest, s) \<in> measure length" by simp
qed simp

declare frames_from.simps [simp del]

definition split_spoken_frames :: "string \<Rightarrow> (string \<times> string) list" where
  "split_spoken_frames tex =
     (let body = (case re_search (lit (backslash # ''appendix'')) tex of None \<Rightarrow> tex | Some (a, _) \<Rightarrow> a);
          body = (case re_search (lit (begin_tag ''document'')) body of None \<Rightarrow> body | Some (_, r) \<Rightarrow> r)
      in frames_from body)"

definition over_cap :: "int \<Rightarrow> string \<times> string \<Rightarrow> bool" where
  "over_cap cap f \<longleftrightarrow> int (count_words (strip_blocks (snd f))) > cap"

definition zen_main :: "fs \<Rightarrow> string list \<Rightarrow> int" where
  "zen_main files argv =
     (if length argv \<noteq> 3 then 2
      else case py_int (argv ! 2) of Inl _ \<Rightarrow> 2
        | Inr cap \<Rightarrow>
            (case files (argv ! 1) of None \<Rightarrow> 1
             | Some tex \<Rightarrow> if filter (over_cap cap) (split_spoken_frames tex) \<noteq> [] then 1 else 0))"

section \<open>Notes do not count\<close>

text \<open>Texts with balanced braces; a backslash protects the next character.\<close>

inductive balanced :: "string \<Rightarrow> bool" where
  empty: "balanced []"
| char: "balanced s \<Longrightarrow> c \<noteq> backslash \<Longrightarrow> c \<noteq> CHR ''{'' \<Longrightarrow> c \<noteq> CHR ''}'' \<Longrightarrow> balanced (c # s)"
| escape: "balanced s \<Longrightarrow> balanced (backslash # c # s)"
| group: "balanced s \<Longrightarrow> balanced t \<Longrightarrow> balanced (CHR ''{'' # s @ CHR ''}'' # t)"

lemma close_brace_char:
  "c \<noteq> backslash \<Longrightarrow> c \<noteq> CHR ''{'' \<Longrightarrow> c \<noteq> CHR ''}'' \<Longrightarrow> close_brace (Suc d) (c # s) = close_brace (Suc d) s"
  by (cases s) auto

lemma close_brace_open: "s \<noteq> [] \<Longrightarrow> close_brace (Suc d) (CHR ''{'' # s) = close_brace (Suc (Suc d)) s"
  by (cases s) (auto simp: backslash_def)

lemma close_brace_close: "close_brace (Suc d) (CHR ''}'' # s) = close_brace d s"
  by (cases s) (auto simp: backslash_def)

lemma close_balanced: "balanced b \<Longrightarrow> close_brace (Suc d) (b @ s) = close_brace (Suc d) s"
proof (induction b arbitrary: d s rule: balanced.induct)
  case (group b t)
  have "close_brace (Suc d) (CHR ''{'' # b @ CHR ''}'' # t @ s) = close_brace (Suc (Suc d)) (b @ CHR ''}'' # t @ s)"
    by (rule close_brace_open) simp
  also have "\<dots> = close_brace (Suc d) (t @ s)" by (simp add: group.IH(1) close_brace_close)
  finally show ?case by (simp add: group.IH(2))
qed (simp_all add: close_brace_char)

definition note_text :: "string \<Rightarrow> string" where
  "note_text b = backslash # ''note{'' @ b @ ''}''"

lemma dropWhile_append_hd:
  "dropWhile P (x @ c # z) = d # u \<Longrightarrow> \<not> P c \<Longrightarrow> c \<noteq> d \<Longrightarrow> \<exists>v. dropWhile P x = d # v"
  by (induction x) (auto split: if_splits)

lemma note_inside:
  assumes "macro_open ''note'' (x @ backslash # z) = Some r" "x \<noteq> []"
  shows "macro_open ''note'' x \<noteq> None"
proof -
  have bs: "backslash \<notin> set ''note''" "\<not> py_space backslash" "backslash \<noteq> CHR ''{''"
    by (simp_all add: backslash_def py_space_def code_def)
  from assms(1) obtain q where q: "lit (backslash # ''note'') (x @ backslash # z) = Some q" "lit ''{'' (dropWhile py_space q) = Some r"
    unfolding macro_open_def bind_eq_Some_conv by blast
  from lit_inside[OF q(1) bs(1) assms(2)] obtain q' where q': "lit (backslash # ''note'') x = Some q'" by blast
  then have "x = (backslash # ''note'') @ q'" by (simp only: lit_Some)
  with q(1) have "q = q' @ backslash # z" by (simp only: lit_Some append_assoc) simp
  with q(2) have "dropWhile py_space (q' @ backslash # z) = CHR ''{'' # r" by (simp only: lit_Some) simp
  from dropWhile_append_hd[OF this bs(2,3)] obtain v where "dropWhile py_space q' = CHR ''{'' # v" by blast
  then have "lit ''{'' (dropWhile py_space q') = Some v" by (simp only: lit_Some) simp
  with q' show ?thesis by (simp add: macro_open_def)
qed

definition noteless :: "string \<Rightarrow> bool" where
  "noteless s \<longleftrightarrow> re_search (macro_open ''note'') s = None"

lemma noteless_drop: "noteless a \<Longrightarrow> k \<le> length a \<Longrightarrow> macro_open ''note'' (drop k a) = None"
  by (simp add: noteless_def re_search_None macro_open_def lit_def py_startswith_def)

lemma strip_noteless: "noteless s \<Longrightarrow> strip_balanced_macro ''note'' s = s"
  by (simp add: noteless_def strip_balanced_macro.simps)

lemma strip_note:
  assumes "noteless a" "balanced b"
  shows "strip_balanced_macro ''note'' (a @ note_text b @ s) = a @ strip_balanced_macro ''note'' s"
proof -
  let ?n = "backslash # ''note{'' @ b @ CHR ''}'' # s"
  have m: "macro_open ''note'' ?n = Some (b @ CHR ''}'' # s)"
    by (simp add: macro_open_def lit_def py_startswith_def py_space_def code_def)
  have "re_search (macro_open ''note'') (a @ ?n) = Some (a, b @ CHR ''}'' # s)"
  proof (rule re_search_skip[where m = "macro_open ''note''", OF _ m])
    fix k assume "k < length a"
    then show "macro_open ''note'' (drop k a @ ?n) = None"
      using note_inside[of "drop k a"] noteless_drop[OF assms(1), of k] by (metis drop_eq_Nil less_imp_le not_None_eq not_le)
  qed simp
  then have "strip_balanced_macro ''note'' (a @ ?n) = a @ strip_balanced_macro ''note'' (close_brace 1 (b @ CHR ''}'' # s))"
    by (subst strip_balanced_macro.simps) simp
  moreover have "close_brace 1 (b @ CHR ''}'' # s) = s"
    using close_balanced[OF assms(2), of 0 "CHR ''}'' # s"] close_brace_close[of 0 s] by simp
  ultimately show ?thesis by (simp add: note_text_def)
qed

text \<open>
  C17: Removing the notes of a slide leaves exactly the text between them: every
  \<^verbatim>\<open>\note{...}\<close> whose braces balance disappears with its whole argument, nested groups and escaped
  braces included, and nothing else does.\<close>

theorem strip_notes:
  assumes "\<forall>(a, b) \<in> set parts. noteless a \<and> balanced b" and "noteless rest"
  shows "strip_balanced_macro ''note'' (concat (map (\<lambda>(a, b). a @ note_text b) parts) @ rest) =
    concat (map fst parts) @ rest"
  using assms(1)
proof (induction parts)
  case Nil
  then show ?case by (simp add: strip_noteless assms(2))
next
  case (Cons p parts)
  obtain a b where p: "p = (a, b)" by (cases p)
  with Cons.prems have "noteless a" "balanced b" by auto
  from strip_note[OF this] Cons p show ?case by simp
qed

lemma noteless_plain: "backslash \<notin> set s \<Longrightarrow> noteless s"
proof -
  assume b: "backslash \<notin> set s"
  have "macro_open ''note'' (drop k s) = None" for k
  proof (cases "lit (backslash # ''note'') (drop k s)")
    case (Some r)
    then have "drop k s = backslash # ''note'' @ r" by (simp add: lit_Some)
    then have "backslash \<in> set s" by (metis in_set_dropD list.set_intros(1))
    with b show ?thesis by simp
  qed (simp add: macro_open_def)
  then show ?thesis by (simp add: noteless_def re_search_None macro_open_def lit_def py_startswith_def)
qed

theorem strip_notes_witness:
  "strip_balanced_macro ''note'' (''ab'' @ note_text ''x{y}z'' @ ''cd'') = ''abcd''"
proof -
  have "balanced ''y''" "balanced ''z''" by (auto intro!: balanced.char balanced.empty simp: backslash_def)
  from balanced.group[OF this] have "balanced ''x{y}z''" by (auto intro!: balanced.char simp: backslash_def)
  then show ?thesis using strip_notes[of "[(''ab'', ''x{y}z'')]" "''cd''"] by (simp add: noteless_plain backslash_def)
qed


section \<open>The deck\<close>

definition frame_text :: "string \<Rightarrow> string \<Rightarrow> string" where
  "frame_text t b = begin_tag ''frame'' @ ''{'' @ t @ ''}'' @ b @ end_tag ''frame''"

text \<open>A slide of the deck: the text before it, its title and its body.\<close>

definition plain_slide :: "string \<times> string \<times> string \<Rightarrow> bool" where
  "plain_slide = (\<lambda>(g, t, b). \<not> py_in (begin_tag ''frame'') g \<and> CHR ''}'' \<notin> set t \<and> t \<noteq> [] \<and> \<not> py_in (end_tag ''frame'') b)"

lemma frame_match_slide:
  assumes "CHR ''}'' \<notin> set t"
  shows "frame_match (begin_tag ''frame'' @ CHR ''{'' # t @ CHR ''}'' # z) = Some (Some t, z)"
  using assms by (simp add: frame_match_def opt_bracket_def bracket_def lit_None_hd)

interpretation frame_begin: headed frame_match backslash "''begin{'' @ ''frame'' @ ''}''"
  by unfold_locales (simp_all add: frame_match_def begin_tag_def backslash_def)

interpretation frame_end: headed "lit (end_tag ''frame'')" backslash "''end{'' @ ''frame'' @ ''}''"
  by unfold_locales (simp_all add: end_tag_def backslash_def)

interpretation appendix: headed "lit (backslash # ''appendix'')" backslash "''appendix''"
  by unfold_locales (simp_all add: backslash_def)

interpretation document: headed "lit (begin_tag ''document'')" backslash "''begin{'' @ ''document'' @ ''}''"
  by unfold_locales (simp_all add: begin_tag_def backslash_def)

lemma search_frame:
  assumes "\<not> py_in (begin_tag ''frame'') g" "CHR ''}'' \<notin> set t"
  shows "re_search frame_match (g @ begin_tag ''frame'' @ CHR ''{'' # t @ CHR ''}'' # z) = Some (g, Some t, z)"
  using frame_begin.search_at[of g "CHR ''{'' # t @ CHR ''}'' # z"] frame_match_slide[OF assms(2), of z] assms(1)
  by (simp add: begin_tag_def)

lemma search_end:
  "\<not> py_in (end_tag ''frame'') b \<Longrightarrow> re_search (lit (end_tag ''frame'')) (b @ end_tag ''frame'' @ z) = Some (b, z)"
  using frame_end.search_at[of b z z] lit_append[of "end_tag ''frame''" z] by (simp add: end_tag_def)

lemma search_no_frame: "\<not> py_in (begin_tag ''frame'') s \<Longrightarrow> re_search frame_match s = None"
  using frame_begin.search_none[of s] by (simp add: begin_tag_def)

definition deck_text :: "(string \<times> string \<times> string) list \<Rightarrow> string" where
  "deck_text slides = concat (map (\<lambda>(g, t, b). g @ frame_text t b) slides)"

definition deck_frames :: "(string \<times> string \<times> string) list \<Rightarrow> (string \<times> string) list" where
  "deck_frames slides = map (\<lambda>(g, t, b). (py_strip t, frame_text t b)) slides"

lemma frames_slide:
  assumes "plain_slide (g, t, b)"
  shows "frames_from (g @ frame_text t b @ z) = (py_strip t, frame_text t b) # frames_from z"
proof -
  from assms have h: "\<not> py_in (begin_tag ''frame'') g" "CHR ''}'' \<notin> set t" "t \<noteq> []" "\<not> py_in (end_tag ''frame'') b"
    by (auto simp: plain_slide_def)
  have e: "g @ frame_text t b @ z = g @ begin_tag ''frame'' @ CHR ''{'' # t @ CHR ''}'' # b @ end_tag ''frame'' @ z"
    by (simp add: frame_text_def)
  show ?thesis
    using h(3) by (subst frames_from.simps) (simp add: e search_frame[OF h(1,2)] search_end[OF h(4)] frame_name_def frame_text_def)
qed

lemma frames_deck:
  "\<forall>s \<in> set slides. plain_slide s \<Longrightarrow> \<not> py_in (begin_tag ''frame'') z \<Longrightarrow>
   frames_from (deck_text slides @ z) = deck_frames slides"
proof (induction slides)
  case Nil
  then show ?case by (subst frames_from.simps) (simp add: deck_text_def deck_frames_def search_no_frame)
next
  case (Cons s slides)
  obtain g t b where s: "s = (g, t, b)" by (cases s)
  with Cons.prems have "plain_slide (g, t, b)" by simp
  from frames_slide[OF this, of "deck_text slides @ z"] Cons s show ?case by (simp add: deck_text_def deck_frames_def)
qed

lemma split_deck:
  assumes "\<forall>s \<in> set slides. plain_slide s" "\<not> py_in (begin_tag ''frame'') z" "\<not> py_in (begin_tag ''document'') pre"
    "\<not> py_in (backslash # ''appendix'') (pre @ begin_tag ''document'' @ deck_text slides @ z)"
  shows "split_spoken_frames (pre @ begin_tag ''document'' @ deck_text slides @ z @ (backslash # ''appendix'') @ post) = deck_frames slides"
proof -
  have 1: "re_search (lit (backslash # ''appendix'')) ((pre @ begin_tag ''document'' @ deck_text slides @ z) @ backslash # ''appendix'' @ post) =
      Some (pre @ begin_tag ''document'' @ deck_text slides @ z, post)"
    by (rule appendix.search_at[OF assms(4)]) (use lit_append[of "backslash # ''appendix''" post] in simp)
  have 2: "re_search (lit (begin_tag ''document'')) (pre @ begin_tag ''document'' @ deck_text slides @ z) = Some (pre, deck_text slides @ z)"
    using document.search_at[of pre "deck_text slides @ z" "deck_text slides @ z"] assms(3)
      lit_append[of "begin_tag ''document''" "deck_text slides @ z"]
    by (simp add: begin_tag_def)
  show ?thesis using 1 2 frames_deck[OF assms(1,2)] by (simp add: split_spoken_frames_def)
qed

lemma over_cap_deck:
  "filter (over_cap cap) (deck_frames slides) = [] \<longleftrightarrow>
   (\<forall>(g, t, b) \<in> set slides. int (count_words (strip_blocks (frame_text t b))) \<le> cap)"
  by (induction slides) (auto simp: deck_frames_def over_cap_def)


definition sample_slides :: "(string \<times> string \<times> string) list" where
  "sample_slides = [([], ''T'', ''one two''), ('' '', ''U'', ''three'')]"


text \<open>The environment's name in \<^verbatim>\<open>\end{frame}\<close> counts as a word: a slide with an empty body has one.\<close>

lemma empty_slide_counts: "count_words (strip_blocks (frame_text ''T'' [])) = 1"
  by code_simp

end
