(* ===== verification/Spoken_Time.thy ===== *)
theory Spoken_Time
  imports Word_Cap
begin

text \<open>
  \<^verbatim>\<open>scripts/sum_spoken_time.py\<close>: the sum of the \<^verbatim>\<open>Time:\<close> values of the spoken slides, with and without those
  marked \<^verbatim>\<open>CUT-HERE-IF-SHORT\<close>.
\<close>

section \<open>Times\<close>

text \<open>\<^verbatim>\<open>Time:[^0-9]*?(\d+)s\<close>\<close>

definition time_match :: "string \<Rightarrow> nat option" where
  "time_match s = Option.bind (lit ''Time:'' s) (\<lambda>r.
     let q = dropWhile (\<lambda>c. \<not> is_digit c) r; ds = takeWhile is_digit q in
     if ds \<noteq> [] \<and> take 1 (dropWhile is_digit q) = ''s'' then Some (digits_val ds) else None)"

definition find_time :: "string \<Rightarrow> nat option" where
  "find_time s = map_option snd (re_search time_match s)"

section \<open>Slides\<close>

definition is_begin :: "string \<Rightarrow> bool" where
  "is_begin l = py_startswith (py_lstrip l) (begin_tag ''frame'')"

definition is_end :: "string \<Rightarrow> bool" where
  "is_end l = py_startswith (py_lstrip l) (end_tag ''frame'')"

definition cut_mark :: string where
  "cut_mark = ''CUT-HERE-IF-SHORT''"

text \<open>The mark in the last \<open>n\<close> lines that are not blank; the lines come last first.\<close>

fun cut_in :: "nat \<Rightarrow> string list \<Rightarrow> bool" where
  "cut_in 0 ls = False"
| "cut_in (Suc n) [] = False"
| "cut_in (Suc n) (l # ls) =
     (let prev = py_strip l in
      if prev = [] then cut_in (Suc n) ls
      else if py_in cut_mark prev then True
      else cut_in n ls)"

text \<open>The last time in a slide counts.\<close>

definition slide_seconds :: "string list \<Rightarrow> nat" where
  "slide_seconds ls = foldl (\<lambda>s l. case find_time l of None \<Rightarrow> s | Some t \<Rightarrow> t) 0 ls"

text \<open>\<open>prev\<close> are the lines before, last first; \<open>acc\<close> is the pair of \<^verbatim>\<open>total\<close> and \<^verbatim>\<open>minimum\<close>.\<close>

function count_slides :: "string list \<Rightarrow> nat \<times> nat \<Rightarrow> string list \<Rightarrow> nat \<times> nat" where
  "count_slides prev acc [] = acc"
| "count_slides prev acc (l # ls) =
     (if is_begin l then
        let body = takeWhile (\<lambda>x. \<not> is_end x) ls;
            rest = dropWhile (\<lambda>x. \<not> is_end x) ls;
            seconds = slide_seconds body
        in count_slides (rev (take 1 rest) @ rev body @ l # prev)
             (fst acc + seconds, if cut_in 3 prev then snd acc else snd acc + seconds) (drop 1 rest)
      else count_slides (l # prev) acc ls)"
  by pat_completeness auto
termination
  by (relation "measure (\<lambda>(_, _, ls). length ls)") (auto simp: le_imp_less_Suc diff_le_mono length_dropWhile_le le_diff_conv le_SucI)

section \<open>The script\<close>

definition spoken_end :: "string \<Rightarrow> string option" where
  "spoken_end s = (case lit (backslash # ''appendix'') s of Some r \<Rightarrow> Some r
     | None \<Rightarrow> lit (backslash # ''ifdefined'' @ backslash # ''WITHBACKUP'') s)"

definition word_boundary :: "string \<Rightarrow> bool" where
  "word_boundary r = (case r of [] \<Rightarrow> True | c # _ \<Rightarrow> \<not> word_char c)"

text \<open>Where the text behind \<^verbatim>\<open>\maketitle\<close> ends; \<^verbatim>\<open>$\<close> is the end or the position before a last newline.\<close>

definition title_end :: "string \<Rightarrow> unit option" where
  "title_end s =
     (if lit (begin_tag ''frame'') s \<noteq> None
       \<or> (case lit (backslash # ''section'') s of None \<Rightarrow> False | Some r \<Rightarrow> word_boundary r)
       \<or> lit (backslash # ''appendix'') s \<noteq> None \<or> s = [] \<or> s = [CHR 0x0A]
      then Some () else None)"

definition title_match :: "string \<Rightarrow> string option" where
  "title_match s = Option.bind (lit (backslash # ''maketitle'') s) (\<lambda>r.
     if word_boundary r then map_option fst (re_search title_end r) else None)"

definition title_seconds :: "string \<Rightarrow> nat" where
  "title_seconds s =
     (case re_search title_match s of None \<Rightarrow> 0
      | Some (_, t) \<Rightarrow> (case find_time t of None \<Rightarrow> 0 | Some n \<Rightarrow> n))"

definition spoken_part :: "string \<Rightarrow> string" where
  "spoken_part text = (case re_search spoken_end text of None \<Rightarrow> text | Some (a, _) \<Rightarrow> a)"

definition spoken_times :: "string \<Rightarrow> nat \<times> nat" where
  "spoken_times text =
     (let spoken = spoken_part text;
          acc = count_slides [] (0, 0) (splitlines spoken);
          t = title_seconds spoken
      in (fst acc + t, snd acc + t))"

text \<open>The exit code and the line printed.\<close>

definition spoken_main :: "fs \<Rightarrow> string list \<Rightarrow> int \<times> string" where
  "spoken_main files argv =
     (if length argv \<noteq> 2 then (1, [])
      else case files (argv ! 1) of None \<Rightarrow> (1, [])
        | Some text \<Rightarrow> (0, show_nat (fst (spoken_times text)) @ '' '' @ show_nat (snd (spoken_times text))))"

section \<open>A deck\<close>

text \<open>A slide: lines before it, whether it is marked, its first line, its body and its last line.\<close>

record slide =
  sl_gap :: "string list"
  sl_cut :: bool
  sl_first :: string
  sl_body :: "string list"
  sl_last :: string

definition slide_lines :: "slide \<Rightarrow> string list" where
  "slide_lines s = sl_gap s @ (if sl_cut s then [''% '' @ cut_mark] else []) @ sl_first s # sl_body s @ [sl_last s]"

definition unmarked :: "string \<Rightarrow> bool" where
  "unmarked l \<longleftrightarrow> \<not> py_in cut_mark (py_strip l)"

definition proper_slide :: "slide \<Rightarrow> bool" where
  "proper_slide s \<longleftrightarrow> is_begin (sl_first s) \<and> is_end (sl_last s) \<and>
     (\<forall>l \<in> set (sl_body s). \<not> is_end l) \<and> (\<forall>l \<in> set (sl_gap s). \<not> is_begin l) \<and>
     (\<forall>l \<in> set (sl_gap s @ sl_body s @ [sl_first s, sl_last s]). unmarked l) \<and>
     (\<exists>l \<in> set (sl_body s). py_strip l \<noteq> [])"


definition filled :: "string list \<Rightarrow> nat" where
  "filled xs = length (filter (\<lambda>l. py_strip l \<noteq> []) xs)"

lemma cut_in_unmarked: "\<forall>l \<in> set xs. unmarked l \<Longrightarrow> cut_in n (xs @ ls) = cut_in (n - filled xs) ls"
proof (induction xs arbitrary: n)
  case (Cons x xs)
  then show ?case by (cases n) (simp_all add: filled_def unmarked_def Let_def)
qed (simp add: filled_def)

lemma begins_filled: "py_startswith (py_lstrip l) (backslash # p) \<Longrightarrow> py_strip l \<noteq> []"
proof -
  assume "py_startswith (py_lstrip l) (backslash # p)"
  then have "lit (backslash # p) (py_lstrip l) \<noteq> None" by (simp add: lit_def)
  then obtain r where "lit (backslash # p) (py_lstrip l) = Some r" by blast
  then have "py_lstrip l = backslash # p @ r" by (simp add: lit_Some)
  then have "backslash \<in> set (rev (py_lstrip l))" by simp
  moreover have "\<not> py_space backslash" by (simp add: backslash_def py_space_def code_def)
  ultimately show ?thesis by (auto simp: py_strip_def py_rstrip_def)
qed

lemma begin_end_filled: "is_begin l \<Longrightarrow> py_strip l \<noteq> []" "is_end l \<Longrightarrow> py_strip l \<noteq> []"
  unfolding is_begin_def is_end_def begin_tag_def end_tag_def by (erule begins_filled)+

lemma count_gap:
  "\<forall>l \<in> set gap. \<not> is_begin l \<Longrightarrow> count_slides prev acc (gap @ ls) = count_slides (rev gap @ prev) acc ls"
  by (induction gap arbitrary: prev) auto

lemma mark_line: "\<not> is_begin (''% '' @ cut_mark)" "cut_in 3 ((''% '' @ cut_mark) # ls)"
proof -
  show "\<not> is_begin (''% '' @ cut_mark)"
    by (simp add: is_begin_def py_startswith_def py_lstrip_def cut_mark_def py_space_def code_def begin_tag_def backslash_def)
  have "py_in cut_mark (py_strip (''% '' @ cut_mark))" "cut_mark \<noteq> []" by code_simp+
  then show "cut_in 3 ((''% '' @ cut_mark) # ls)" by (auto simp: numeral_3_eq_3 Let_def)
qed

definition quiet :: "string list \<Rightarrow> bool" where
  "quiet prev \<longleftrightarrow> (\<forall>n \<le> 3. \<not> cut_in n prev)"

lemma quiet_after:
  assumes "proper_slide s"
  shows "quiet (rev (slide_lines s) @ prev)"
proof -
  let ?xs = "sl_last s # rev (sl_body s) @ [sl_first s]"
  from assms obtain l where l: "l \<in> set (sl_body s)" "py_strip l \<noteq> []" by (auto simp: proper_slide_def)
  then have "filled (rev (sl_body s)) \<ge> 1" by (auto simp: filled_def length_greater_0_conv Suc_le_eq filter_empty_conv)
  moreover have "py_strip (sl_last s) \<noteq> []" "py_strip (sl_first s) \<noteq> []"
    using assms begin_end_filled by (auto simp: proper_slide_def)
  ultimately have f: "filled ?xs \<ge> 3" by (simp add: filled_def)
  have "\<forall>l \<in> set ?xs. unmarked l" using assms by (auto simp: proper_slide_def)
  from cut_in_unmarked[OF this] f have "\<not> cut_in n (?xs @ ls)" if "n \<le> 3" for n ls using that by simp
  then show ?thesis by (simp add: quiet_def slide_lines_def)
qed

lemma cut_in_quiet: "quiet prev \<Longrightarrow> \<forall>l \<in> set gap. unmarked l \<Longrightarrow> \<not> cut_in 3 (gap @ prev)"
  by (simp add: cut_in_unmarked quiet_def)

lemma count_slide:
  assumes "proper_slide s" "quiet prev"
  shows "count_slides prev acc (slide_lines s @ ls) = count_slides (rev (slide_lines s) @ prev)
    (fst acc + slide_seconds (sl_body s), if sl_cut s then snd acc else snd acc + slide_seconds (sl_body s)) ls"
proof -
  let ?mark = "if sl_cut s then [''% '' @ cut_mark] else []"
  let ?prev = "rev (sl_gap s @ ?mark) @ prev"
  have "\<forall>l \<in> set (sl_gap s @ ?mark). \<not> is_begin l" using assms(1) mark_line(1) by (auto simp: proper_slide_def)
  from count_gap[OF this] have 1: "count_slides prev acc (slide_lines s @ ls) =
      count_slides ?prev acc (sl_first s # sl_body s @ sl_last s # ls)" by (simp add: slide_lines_def)
  have body: "takeWhile (\<lambda>x. \<not> is_end x) (sl_body s @ sl_last s # ls) = sl_body s"
    "dropWhile (\<lambda>x. \<not> is_end x) (sl_body s @ sl_last s # ls) = sl_last s # ls" "is_begin (sl_first s)"
    using assms(1) by (auto simp: proper_slide_def takeWhile_append dropWhile_append)
  have "cut_in 3 ?prev = sl_cut s"
    using assms cut_in_quiet[OF assms(2), of "rev (sl_gap s)"] mark_line(2) by (auto simp: proper_slide_def)
  with 1 body show ?thesis by (simp add: slide_lines_def Let_def)
qed


definition sample_deck :: "slide list" where
  "sample_deck = [\<lparr>sl_gap = [[]], sl_cut = False, sl_first = begin_tag ''frame'', sl_body = [''Time: 30s''], sl_last = end_tag ''frame''\<rparr>,
     \<lparr>sl_gap = [], sl_cut = True, sl_first = begin_tag ''frame'', sl_body = [''x'', ''Time: (cut) 12s''], sl_last = end_tag ''frame''\<rparr>]"


text \<open>A slide without a body is too short for the three lines: the mark of the slide before reaches the next one.\<close>

lemma cut_reaches_next:
  "cut_in 3 [end_tag ''frame'', begin_tag ''frame'', ''% '' @ cut_mark]"
  by code_simp

end
