(* ===== verification/Report_Lists.thy ===== *)
theory Report_Lists
  imports Spoken_Time
begin

text \<open>
  Two checks of the report: \<^verbatim>\<open>scripts/check_api_additions_match.py\<close>, that two lists of the report have the
  same titles, and \<^verbatim>\<open>scripts/measure_spine_pct.py\<close>, the share of its lines in two sections.  A \<^verbatim>\<open>float\<close> is
  the rational number it denotes.
\<close>

section \<open>Titles of a list\<close>

definition label_tag :: "string \<Rightarrow> string" where
  "label_tag l = backslash # ''label{'' @ l @ ''}''"

text \<open>
  \<^verbatim>\<open>\begin{(itemize|enumerate)}(.*?)\end{\1}\<close>: the block between the tags; a list that is not closed does
  not match and the search goes on.
\<close>

definition list_match :: "string \<Rightarrow> string option" where
  "list_match s =
     (case lit (begin_tag ''itemize'') s of
        Some q \<Rightarrow> map_option fst (re_search (lit (end_tag ''itemize'')) q)
      | None \<Rightarrow> Option.bind (lit (begin_tag ''enumerate'') s) (\<lambda>q. map_option fst (re_search (lit (end_tag ''enumerate'')) q)))"

definition labelled_list :: "string \<Rightarrow> string \<Rightarrow> string option" where
  "labelled_list l s = Option.bind (lit (label_tag l) s) (\<lambda>r. map_option snd (re_search list_match r))"

definition textbf_match :: "string \<Rightarrow> (string \<times> string) option" where
  "textbf_match s = Option.bind (lit (backslash # ''textbf{'') s) (\<lambda>r.
     case until_char (CHR ''}'') r of Some (t, q) \<Rightarrow> if t = [] then None else Some (t, q) | None \<Rightarrow> None)"

text \<open>\<^verbatim>\<open>[^\n]*?\<close> before a pattern: the first match that starts in this line.\<close>

fun in_line :: "(string \<Rightarrow> 'a option) \<Rightarrow> string \<Rightarrow> 'a option" where
  "in_line m [] = m []"
| "in_line m (c # s) = (case m (c # s) of Some x \<Rightarrow> Some x | None \<Rightarrow> if c = CHR 0x0A then None else in_line m s)"

definition item_match :: "string \<Rightarrow> (string \<times> string) option" where
  "item_match s = Option.bind (lit (backslash # ''item'') s) (\<lambda>r. if word_boundary r then in_line textbf_match r else None)"

definition rstrip_dots :: "string \<Rightarrow> string" where
  "rstrip_dots s = rev (dropWhile (\<lambda>c. c = CHR ''.'') (rev s))"

definition extract_titles :: "string \<Rightarrow> string \<Rightarrow> string list" where
  "extract_titles text l =
     (case re_search (labelled_list l) text of None \<Rightarrow> []
      | Some (_, block) \<Rightarrow> map (\<lambda>t. rstrip_dots (py_strip t)) (re_findall item_match block))"

definition api_main :: "fs \<Rightarrow> string list \<Rightarrow> int" where
  "api_main files argv =
     (if length argv \<noteq> 2 then 1
      else case files (argv ! 1) of None \<Rightarrow> 1
        | Some text \<Rightarrow>
            let approach = extract_titles text ''api-additions:approach'';
                postmortem = extract_titles text ''api-additions:postmortem''
            in if approach = [] then 1
               else if postmortem = [] then 1
               else if length approach \<noteq> length postmortem then 1
               else if filter (\<lambda>(a, p). a \<noteq> p) (zip approach postmortem) \<noteq> [] then 1
               else 0)"

lemma zip_equal: "length xs = length ys \<Longrightarrow> filter (\<lambda>(a, p). a \<noteq> p) (zip xs ys) = [] \<longleftrightarrow> xs = ys"
  by (induction xs ys rule: list_induct2) auto

lemma api_main_passes:
  "api_main files [prog, f] = 0 \<longleftrightarrow> (\<exists>text. files f = Some text \<and>
     extract_titles text ''api-additions:approach'' \<noteq> [] \<and>
     extract_titles text ''api-additions:approach'' = extract_titles text ''api-additions:postmortem'')"
  by (auto simp: api_main_def Let_def zip_equal split: option.splits)

section \<open>A list read back\<close>

definition item_text :: "string \<times> string \<Rightarrow> string" where
  "item_text = (\<lambda>(t, prose). backslash # ''item '' @ backslash # ''textbf{'' @ t @ ''}'' @ prose @ [CHR 0x0A])"

definition items_text :: "(string \<times> string) list \<Rightarrow> string" where
  "items_text items = concat (map item_text items)"

definition plain_item :: "string \<times> string \<Rightarrow> bool" where
  "plain_item = (\<lambda>(t, prose). t \<noteq> [] \<and> CHR ''}'' \<notin> set t \<and> backslash \<notin> set prose)"

lemma item_match_plain: "s = [] \<or> hd s \<noteq> backslash \<Longrightarrow> item_match s = None"
  by (cases s) (auto simp: item_match_def lit_def py_startswith_def)

lemma findall_plain: "backslash \<notin> set a \<Longrightarrow> re_findall item_match (a @ s) = re_findall item_match s"
  by (induction a) (auto simp: item_match_plain)

lemma findall_item:
  assumes "plain_item (t, prose)"
  shows "re_findall item_match (item_text (t, prose) @ s) = t # re_findall item_match s"
proof -
  let ?q = "prose @ CHR 0x0A # s"
  from assms have t: "t \<noteq> []" "CHR ''}'' \<notin> set t" "backslash \<notin> set (prose @ [CHR 0x0A])"
    by (auto simp: plain_item_def backslash_def)
  have "textbf_match (backslash # ''textbf{'' @ t @ CHR ''}'' # ?q) = Some (t, ?q)"
    using t(1,2) by (simp add: textbf_match_def lit_def py_startswith_def)
  then have "in_line textbf_match (CHR '' '' # backslash # ''textbf{'' @ t @ CHR ''}'' # ?q) = Some (t, ?q)"
    by (simp add: textbf_match_def lit_def py_startswith_def backslash_def)
  then have m: "item_match (backslash # ''item '' @ backslash # ''textbf{'' @ t @ CHR ''}'' # ?q) = Some (t, ?q)"
    by (simp add: item_match_def lit_def py_startswith_def word_boundary_def word_char_def code_def)
  have "re_findall item_match (item_text (t, prose) @ s) = t # re_findall item_match ?q"
    using m by (simp add: item_text_def)
  with findall_plain[OF t(3), of s] show ?thesis by simp
qed

lemma findall_items:
  "\<forall>i \<in> set items. plain_item i \<Longrightarrow> re_findall item_match (items_text items) = map fst items"
proof (induction items)
  case (Cons i items)
  then show ?case using findall_item[of "fst i" "snd i" "items_text items"] by (simp add: items_text_def)
qed (simp add: items_text_def)

definition list_text :: "string \<Rightarrow> string \<Rightarrow> (string \<times> string) list \<Rightarrow> string" where
  "list_text l gap items = label_tag l @ gap @ begin_tag ''itemize'' @ items_text items @ end_tag ''itemize''"

definition list_ok :: "string \<Rightarrow> (string \<times> string) list \<Rightarrow> bool" where
  "list_ok gap items \<longleftrightarrow> backslash \<notin> set gap \<and> (\<forall>i \<in> set items. plain_item i) \<and>
     \<not> py_in (end_tag ''itemize'') (items_text items)"

lemma list_match_plain: "hd s \<noteq> backslash \<Longrightarrow> s \<noteq> [] \<Longrightarrow> list_match s = None"
  by (cases s) (auto simp: list_match_def lit_None_hd begin_tag_def)

interpretation itemize_end: headed "lit (end_tag ''itemize'')" backslash "''end{'' @ ''itemize'' @ ''}''"
  by unfold_locales (simp_all add: end_tag_def backslash_def)

lemma search_list:
  assumes "backslash \<notin> set gap" "\<not> py_in (end_tag ''itemize'') b"
  shows "re_search list_match (gap @ begin_tag ''itemize'' @ b @ end_tag ''itemize'' @ z) = Some (gap, b)"
proof (rule re_search_skip[where m = list_match])
  fix k assume k: "k < length gap"
  then have "hd (drop k gap @ begin_tag ''itemize'' @ b @ end_tag ''itemize'' @ z) = gap ! k"
    by (simp add: hd_append hd_drop_conv_nth)
  moreover have "gap ! k \<noteq> backslash" using assms(1) k nth_mem by metis
  ultimately show "list_match (drop k gap @ begin_tag ''itemize'' @ b @ end_tag ''itemize'' @ z) = None"
    using k by (intro list_match_plain) auto
next
  have "re_search (lit (end_tag ''itemize'')) (b @ end_tag ''itemize'' @ z) = Some (b, z)"
    using itemize_end.search_at[of b z z] assms(2) lit_append[of "end_tag ''itemize''" z] by (simp add: end_tag_def)
  then show "list_match (begin_tag ''itemize'' @ b @ end_tag ''itemize'' @ z) = Some b" by (simp add: list_match_def)
qed (simp add: begin_tag_def)

lemma extract_list:
  assumes "\<not> py_in (label_tag l) pre" "backslash \<notin> set l" "list_ok gap items"
  shows "extract_titles (pre @ list_text l gap items @ post) l = map (\<lambda>(t, _). rstrip_dots (py_strip t)) items"
proof -
  let ?r = "gap @ begin_tag ''itemize'' @ items_text items @ end_tag ''itemize'' @ post"
  have "headed (labelled_list l) backslash (''label{'' @ l @ ''}'')"
    using assms(2) by unfold_locales (simp_all add: labelled_list_def label_tag_def backslash_def)
  from headed.search_at[OF this, of pre ?r "items_text items"]
  have "re_search (labelled_list l) (pre @ label_tag l @ ?r) = Some (pre, items_text items)"
    using assms(1,3) search_list[of gap "items_text items" post] lit_append[of "label_tag l" ?r]
    by (simp add: labelled_list_def list_ok_def label_tag_def)
  moreover have "re_findall item_match (items_text items) = map fst items"
    using assms(3) by (intro findall_items) (simp add: list_ok_def)
  ultimately show ?thesis by (simp add: extract_titles_def list_text_def comp_def case_prod_beta)
qed

definition item_title :: "string \<times> string \<Rightarrow> string" where
  "item_title i = rstrip_dots (py_strip (fst i))"

text \<open>
  On a report with both labelled lists the check passes exactly when the lists have the same titles
  in the same order; the prose of the items, and a full stop at the end of a title, do not matter.\<close>

theorem api_lists_match:
  assumes "\<not> py_in (label_tag ''api-additions:approach'') pre" and "list_ok gap items" and "items \<noteq> []"
    and "\<not> py_in (label_tag ''api-additions:postmortem'') (pre @ list_text ''api-additions:approach'' gap items @ mid)"
    and "list_ok gap' items'" and "items' \<noteq> []"
    and "files f = Some (pre @ list_text ''api-additions:approach'' gap items @ mid @
      list_text ''api-additions:postmortem'' gap' items' @ post)"
  shows "api_main files [prog, f] = (if map item_title items = map item_title items' then 0 else 1)"
proof -
  have l: "backslash \<notin> set ''api-additions:approach''" "backslash \<notin> set ''api-additions:postmortem''"
    by (simp_all add: backslash_def)
  let ?t = "pre @ list_text ''api-additions:approach'' gap items @ mid @ list_text ''api-additions:postmortem'' gap' items' @ post"
  have "extract_titles ?t ''api-additions:approach'' = map item_title items"
    using extract_list[OF assms(1) l(1) assms(2), of "mid @ list_text ''api-additions:postmortem'' gap' items' @ post"]
    by (simp add: item_title_def case_prod_beta)
  moreover have "extract_titles ?t ''api-additions:postmortem'' = map item_title items'"
    using extract_list[OF assms(4) l(2) assms(5), of post] by (simp add: item_title_def case_prod_beta)
  ultimately show ?thesis using assms(3,6,7)
    by (auto simp: api_main_def Let_def zip_equal dest: map_eq_imp_length_eq)
qed

theorem api_lists_match_witness:
  "api_main (\<lambda>_. Some (''a'' @ list_text ''api-additions:approach'' '' '' [(''One.'', ''x'')] @ ''b'' @
     list_text ''api-additions:postmortem'' [] [(''One'', ''y'')] @ ''c'')) [''p'', ''f''] = 0"
proof -
  have 1: "\<not> py_in (label_tag ''api-additions:approach'') ''a''" by code_simp
  have 2: "list_ok '' '' [(''One.'', ''x'')]" "list_ok [] [(''One'', ''y'')]" by code_simp+
  have 3: "\<not> py_in (label_tag ''api-additions:postmortem'')
      (''a'' @ list_text ''api-additions:approach'' '' '' [(''One.'', ''x'')] @ ''b'')" by code_simp
  have 4: "map item_title [(''One.'', ''x'')] = map item_title [(''One'', ''y'')]" by code_simp
  show ?thesis
    by (subst api_lists_match[OF 1 2(1) _ 3 2(2), where post = "''c''"]) (use 4 in simp_all)
qed

section \<open>The share of two sections\<close>

definition label_find :: "string \<Rightarrow> (string \<times> string) option" where
  "label_find s = Option.bind (lit (backslash # ''label{'') s) (\<lambda>r.
     case until_char (CHR ''}'') r of Some (t, q) \<Rightarrow> if t = [] then None else Some (t, q) | None \<Rightarrow> None)"

definition setdefault :: "string \<Rightarrow> nat \<Rightarrow> (string \<times> nat) list \<Rightarrow> (string \<times> nat) list" where
  "setdefault k v d = (if map_of d k = None then AList.update k v d else d)"

definition line_labels :: "(string \<times> nat) list \<Rightarrow> nat \<times> string \<Rightarrow> (string \<times> nat) list" where
  "line_labels out = (\<lambda>(i, line). foldl (\<lambda>d l. setdefault l i d) out (re_findall label_find line))"

definition section_line_ranges :: "string option \<Rightarrow> (string \<times> nat) list" where
  "section_line_ranges tex =
     (case tex of None \<Rightarrow> []
      | Some t \<Rightarrow> let ls = readlines t in foldl line_labels [] (zip [1..<Suc (length ls)] ls))"

text \<open>\<^verbatim>\<open>round\<close>: half to even.\<close>

definition py_round :: "rat \<Rightarrow> int" where
  "py_round r = (let f = \<lfloor>r\<rfloor>; d = r - of_int f in
     if d < 1 / 2 then f else if d > 1 / 2 then f + 1 else if even f then f else f + 1)"

definition spine_labels :: "string list" where
  "spine_labels = [''sec:approach'', ''sec:effort'', ''sec:postmortem'', ''sec:late-data'']"

definition at_label :: "(string \<times> nat) list \<Rightarrow> string \<Rightarrow> int" where
  "at_label d l = (case map_of d l of None \<Rightarrow> 0 | Some i \<Rightarrow> int i)"

definition estimate_pct :: "string option \<Rightarrow> int" where
  "estimate_pct tex =
     (let labels = section_line_ranges tex in
      if \<not> list_all (\<lambda>k. map_of labels k \<noteq> None) spine_labels then 0
      else case tex of None \<Rightarrow> 0
        | Some t \<Rightarrow>
            let total_lines = int (length (readlines t));
                approach_span = at_label labels ''sec:effort'' - at_label labels ''sec:approach'';
                postmortem_span = at_label labels ''sec:late-data'' - at_label labels ''sec:postmortem''
            in py_round (100 * of_int (approach_span + postmortem_span) / of_int (max total_lines 1)))"

definition spine_main :: "fs \<Rightarrow> string list \<Rightarrow> int \<times> string" where
  "spine_main files argv =
     (if length argv \<noteq> 3 then (1, []) else (0, show_int (estimate_pct (files (argv ! 2)))))"

lemma py_round_between: "of_int a \<le> r \<Longrightarrow> r \<le> of_int b \<Longrightarrow> a \<le> py_round r \<and> py_round r \<le> b"
proof
  assume a: "of_int a \<le> r" and b: "r \<le> of_int b"
  then have "a \<le> \<lfloor>r\<rfloor>" by (simp add: le_floor_iff)
  then show "a \<le> py_round r" by (auto simp: py_round_def Let_def)
  show "py_round r \<le> b"
  proof (cases "\<lfloor>r\<rfloor> < b")
    case True
    then show ?thesis by (auto simp: py_round_def Let_def)
  next
    case False
    with b have "r = of_int \<lfloor>r\<rfloor>" by (metis floor_mono floor_of_int le_less of_int_floor_le order_antisym)
    then have "py_round r = \<lfloor>r\<rfloor>" by (simp add: py_round_def)
    also have "\<dots> \<le> b" using b by (metis floor_mono floor_of_int)
    finally show ?thesis .
  qed
qed

definition in_file :: "nat \<Rightarrow> (string \<times> nat) list \<Rightarrow> bool" where
  "in_file n d \<longleftrightarrow> (\<forall>k i. map_of d k = Some i \<longrightarrow> 0 < i \<and> i \<le> n)"

lemma setdefault_in_file: "in_file n d \<Longrightarrow> 0 < i \<Longrightarrow> i \<le> n \<Longrightarrow> in_file n (setdefault l i d)"
  by (simp add: in_file_def setdefault_def update_conv)

lemma line_labels_in_file:
  assumes "in_file n d" "0 < i" "i \<le> n"
  shows "in_file n (line_labels d (i, l))"
proof -
  have "in_file n (foldl (\<lambda>d l. setdefault l i d) d ls)" for ls
    using assms(1) by (induction ls arbitrary: d) (simp_all add: setdefault_in_file assms(2,3))
  then show ?thesis by (simp add: line_labels_def)
qed

lemma labels_in_file: "\<forall>x \<in> set xs. 0 < fst x \<and> fst x \<le> n \<Longrightarrow> in_file n d \<Longrightarrow> in_file n (foldl line_labels d xs)"
proof (induction xs arbitrary: d)
  case (Cons x xs)
  obtain i l where "x = (i, l)" by (cases x)
  with Cons show ?case by (simp add: line_labels_in_file)
qed simp

lemma ranges_in_file: "in_file (length (readlines t)) (section_line_ranges (Some t))"
proof -
  let ?xs = "zip [1..<Suc (length (readlines t))] (readlines t)"
  have "\<forall>x \<in> set ?xs. 0 < fst x \<and> fst x \<le> length (readlines t)"
  proof
    fix x assume "x \<in> set ?xs"
    then have "fst x \<in> set [1..<Suc (length (readlines t))]" by (metis in_set_zipE prod.collapse)
    then show "0 < fst x \<and> fst x \<le> length (readlines t)" by auto
  qed
  from labels_in_file[OF this, of "[]"] show ?thesis
    unfolding section_line_ranges_def option.case Let_def by (simp add: in_file_def del: upt_Suc)
qed

text \<open>
  C19: When the four sections follow one another in the order of their names, the estimate is a percentage:
  it lies between 0 and 100.\<close>

theorem estimate_pct_bounds:
  assumes "d = section_line_ranges (Some t)"
    and "at_label d ''sec:approach'' \<le> at_label d ''sec:effort''" and "at_label d ''sec:effort'' \<le> at_label d ''sec:postmortem''"
    and "at_label d ''sec:postmortem'' \<le> at_label d ''sec:late-data''"
  shows "0 \<le> estimate_pct (Some t) \<and> estimate_pct (Some t) \<le> 100"
proof -
  let ?n = "int (length (readlines t))"
  have f: "in_file (length (readlines t)) d" using ranges_in_file assms(1) by simp
  have b: "0 \<le> at_label d l \<and> at_label d l \<le> ?n" for l using f by (auto simp: at_label_def in_file_def split: option.split)
  have s: "0 \<le> (at_label d ''sec:effort'' - at_label d ''sec:approach'') + (at_label d ''sec:late-data'' - at_label d ''sec:postmortem'')"
    "(at_label d ''sec:effort'' - at_label d ''sec:approach'') + (at_label d ''sec:late-data'' - at_label d ''sec:postmortem'') \<le> ?n"
    using assms(2-4) b[of "''sec:approach''"] b[of "''sec:late-data''"] by linarith+
  define x where "x = (at_label d ''sec:effort'' - at_label d ''sec:approach'') + (at_label d ''sec:late-data'' - at_label d ''sec:postmortem'')"
  have "of_int 0 \<le> (100 * of_int x / of_int (max ?n 1) :: rat)" using s by (simp add: x_def)
  moreover have "(100 * of_int x / of_int (max ?n 1) :: rat) \<le> of_int 100"
  proof -
    have "(of_int x :: rat) \<le> of_int (max ?n 1)" using s unfolding of_int_le_iff x_def by simp
    then show ?thesis by (simp add: pos_divide_le_eq del: of_int_max)
  qed
  ultimately have "0 \<le> py_round (100 * of_int x / of_int (max ?n 1)) \<and> py_round (100 * of_int x / of_int (max ?n 1)) \<le> 100"
    by (rule py_round_between)
  then show ?thesis using assms(1) by (simp add: estimate_pct_def Let_def x_def)
qed

definition sample_report :: string where
  "sample_report = concat (map (\<lambda>l. label_tag l @ [CHR 0x0A]) [''sec:approach'', ''sec:effort'', ''x'', ''sec:postmortem'', ''sec:late-data''])"

theorem estimate_pct_bounds_witness:
  "0 \<le> estimate_pct (Some sample_report) \<and> estimate_pct (Some sample_report) \<le> 100"
proof -
  let ?d = "[(''sec:approach'', 1), (''sec:effort'', 2), (''x'', 3), (''sec:postmortem'', 4), (''sec:late-data'', 5)]"
  have d: "?d = section_line_ranges (Some sample_report)" by code_simp
  show ?thesis by (rule estimate_pct_bounds[OF d]) (simp_all add: at_label_def)
qed

text \<open>In another order it need not be: with the sections swapped the estimate is negative.\<close>

lemma estimate_pct_negative:
  "estimate_pct (Some (concat (map (\<lambda>l. label_tag l @ [CHR 0x0A]) [''sec:effort'', ''sec:approach'', ''sec:late-data'', ''sec:postmortem'']))) = - 50"
  by code_simp

section \<open>Pages\<close>

text \<open>
  \<^verbatim>\<open>^Pages:\s+(\d+)\<close> with \<^verbatim>\<open>re.MULTILINE\<close>: a match starts at the beginning of a line.  The output of
  \<^verbatim>\<open>pdfinfo\<close> is \<open>None\<close> when the program fails or does not exist.
\<close>

fun line_search :: "(string \<Rightarrow> 'a option) \<Rightarrow> bool \<Rightarrow> string \<Rightarrow> 'a option" where
  "line_search m start [] = (if start then m [] else None)"
| "line_search m start (c # s) =
     (case (if start then m (c # s) else None) of Some x \<Rightarrow> Some x | None \<Rightarrow> line_search m (c = CHR 0x0A) s)"

definition pages_match :: "string \<Rightarrow> nat option" where
  "pages_match s = Option.bind (lit ''Pages:'' s) (\<lambda>r.
     let q = dropWhile py_space r; ds = takeWhile is_digit q in
     if q = r \<or> ds = [] then None else py_nat ds)"

definition total_pages :: "string option \<Rightarrow> nat" where
  "total_pages pdfinfo =
     (case pdfinfo of None \<Rightarrow> 0
      | Some out \<Rightarrow> (case line_search pages_match True out of None \<Rightarrow> 0 | Some n \<Rightarrow> n))"

lemma line_search_inside:
  "CHR 0x0A \<notin> set l \<Longrightarrow> line_search m False (l @ CHR 0x0A # z) = line_search m True z"
  by (induction l) auto

lemma line_search_next:
  assumes "CHR 0x0A \<notin> set l" and "m (l @ CHR 0x0A # z) = None"
  shows "line_search m True (l @ CHR 0x0A # z) = line_search m True z"
  using assms line_search_inside by (cases l) auto

lemma lit_within_line:
  assumes "lit p (l @ c # z) = Some r" and "c \<notin> set p"
  shows "py_startswith l p"
proof -
  have e: "l @ c # z = p @ r" using assms(1) by (simp only: lit_Some)
  have "length p \<le> length l"
  proof (rule ccontr)
    assume "\<not> length p \<le> length l"
    then have n: "length l < length p" by simp
    have "(p @ r) ! length l = c" unfolding e[symmetric] by (rule nth_append_length)
    with n have "p ! length l = c" by (simp add: nth_append)
    with nth_mem[OF n] assms(2) show False by simp
  qed
  moreover from e have "take (length p) (l @ c # z) = p" by simp
  ultimately show ?thesis by (simp add: py_startswith_def)
qed

lemma pages_match_none:
  assumes "\<not> py_startswith l ''Pages:''"
  shows "pages_match (l @ CHR 0x0A # z) = None"
proof -
  have "CHR 0x0A \<notin> set ''Pages:''" by simp
  with lit_within_line[of "''Pages:''" l "CHR 0x0A" z] assms have "lit ''Pages:'' (l @ CHR 0x0A # z) = None"
    by (metis option.exhaust)
  then show ?thesis by (simp add: pages_match_def)
qed

text \<open>
  On the output of \<^verbatim>\<open>pdfinfo\<close>, lines of which the first that starts with \<^verbatim>\<open>Pages:\<close> has the number behind some
  blanks, the program finds that number.\<close>

theorem total_pages_found:
  assumes "list_all (\<lambda>l. CHR 0x0A \<notin> set l \<and> \<not> py_startswith l ''Pages:'') ls"
  shows "total_pages (Some (concat (map (\<lambda>l. l @ [CHR 0x0A]) ls) @ ''Pages:'' @ replicate (Suc k) (CHR '' '') @
    show_nat n @ CHR 0x0A # rest)) = n"
proof -
  let ?t = "''Pages:'' @ replicate (Suc k) (CHR '' '') @ show_nat n @ CHR 0x0A # rest"
  have q: "dropWhile py_space (replicate (Suc k) (CHR '' '') @ show_nat n @ CHR 0x0A # rest) = show_nat n @ CHR 0x0A # rest"
  proof -
    obtain c cs where c: "show_nat n = c # cs" by (cases "show_nat n") auto
    then have "is_digit c" using show_nat_digits[of n] by simp
    then have "\<not> py_space c" by (auto simp: is_digit_def py_space_def)
    with c have "dropWhile py_space (show_nat n @ CHR 0x0A # rest) = show_nat n @ CHR 0x0A # rest" by simp
    moreover have "py_space (CHR '' '')" by code_simp
    ultimately show ?thesis by (simp add: dropWhile_append)
  qed
  have d: "takeWhile is_digit (show_nat n @ CHR 0x0A # rest) = show_nat n"
  proof -
    have "\<not> is_digit (CHR 0x0A)" by code_simp
    with show_nat_digits[of n] show ?thesis by (simp add: takeWhile_append)
  qed
  have "pages_match ?t = Some n" unfolding pages_match_def lit_append Option.bind.bind_lunit Let_def q d by simp
  then have "line_search pages_match True ?t = Some n" by simp
  moreover have "line_search pages_match True (concat (map (\<lambda>l. l @ [CHR 0x0A]) ls) @ ?t) = line_search pages_match True ?t"
    using assms by (induction ls) (simp_all add: line_search_next pages_match_none)
  ultimately show ?thesis by (simp add: total_pages_def)
qed

end
