(* ===== verification/Jsonl_Plots.thy ===== *)
theory Jsonl_Plots
  imports Fig_Bars "HOL-Library.List_Lexorder" "HOL-Library.Char_ord"
begin

text \<open>
  What the ten plot programs \<^verbatim>\<open>exp/plot_*.py\<close> share: result files with one JSON object per line, grouping of
  measurements in a dictionary of lists, one number per group, and pictures.  \<^verbatim>\<open>matplotlib\<close> is the record of
  what it is asked to draw; axis labels, fonts and grids are left out.  \<^verbatim>\<open>json.loads\<close> is the argument
  \<open>loads\<close>, \<open>None\<close> being \<^verbatim>\<open>JSONDecodeError\<close>.  A \<^verbatim>\<open>float\<close> is the rational number it denotes.  Where a value
  has a type the programs never store there, such as a thread count that is a text, the model
  raises \<open>IllTyped\<close>.
\<close>

section \<open>Pictures\<close>

record curve =
  cv_label :: string
  cv_color :: string
  cv_marker :: string
  cv_dash :: string
  cv_xs :: "json list"
  cv_ys :: "json list"
  cv_err :: "(rat \<times> rat) list"

record bars =
  br_label :: string
  br_colors :: "string list"
  br_x :: "rat list"
  br_h :: "rat list"

text \<open>A note is a number written at a point, a count or a value.\<close>

datatype plot_note = Count nat rat rat | Height rat rat rat

record panel =
  pn_title :: string
  pn_curves :: "curve list"
  pn_bars :: "bars list"
  pn_notes :: "plot_note list"
  pn_ticks :: "(rat \<times> string) list"

record figure =
  fg_title :: string
  fg_panels :: "panel list"
  fg_caption :: string

definition empty_panel :: "string \<Rightarrow> panel" where
  "empty_panel title = \<lparr>pn_title = title, pn_curves = [], pn_bars = [], pn_notes = [], pn_ticks = []\<rparr>"

record plots =
  texts :: "(string \<times> string) list"
  dirs :: "string list"
  figs :: "(string \<times> figure) list"

text \<open>\<^verbatim>\<open>mkdir(parents=True, exist_ok=True)\<close>, and \<^verbatim>\<open>fig.savefig\<close>, which needs the directory.\<close>

definition mkdir :: "string \<Rightarrow> (plots, unit) act" where
  "mkdir d = act_modify (\<lambda>s. s\<lparr>dirs := List.insert d (dirs s)\<rparr>)"

definition savefig :: "string \<Rightarrow> string \<Rightarrow> figure \<Rightarrow> (plots, unit) act" where
  "savefig dir name fig =
     act_bind (act_get dirs) (\<lambda>ds.
     if dir \<in> set ds then act_modify (\<lambda>s. s\<lparr>figs := figs s @ [(dir @ ''/'' @ name, fig)]\<rparr>)
     else act_raise (FileNotFoundError (dir @ ''/'' @ name)))"

section \<open>Result files\<close>

type_synonym obj = "(string \<times> json) list"

text \<open>A text that begins with a brace decodes to a dictionary or not at all.\<close>

definition line_obj :: "(string \<Rightarrow> json option) \<Rightarrow> string \<Rightarrow> obj option" where
  "line_obj loads line =
     (let line = py_strip line in
      if \<not> py_startswith line ''{'' then None
      else case loads line of Some (JDict d) \<Rightarrow> Some d | _ \<Rightarrow> None)"

definition load_jsonl :: "(string \<Rightarrow> json option) \<Rightarrow> (string \<times> string) list \<Rightarrow> string \<Rightarrow> obj list" where
  "load_jsonl loads fs path =
     (case map_of fs path of None \<Rightarrow> [] | Some t \<Rightarrow> List.map_filter (line_obj loads) (splitlines t))"

definition load_all :: "(string \<Rightarrow> json option) \<Rightarrow> (string \<times> string) list \<Rightarrow> string \<Rightarrow> string list \<Rightarrow> obj list" where
  "load_all loads fs base names = concat (map (\<lambda>f. load_jsonl loads fs (base @ ''/'' @ f)) names)"

section \<open>Fields of a measurement\<close>

text \<open>\<^verbatim>\<open>p.get("peak_mops", 0) > 0\<close> and \<^verbatim>\<open>m and m > 0\<close>, with the number when it is positive.\<close>

definition positive :: "json \<Rightarrow> rat option py" where
  "positive v = py_bind (py_num v) (\<lambda>m. Inr (if m > 0 then Some m else None))"

definition peak :: "obj \<Rightarrow> rat option py" where
  "peak p = (case map_of p ''peak_mops'' of None \<Rightarrow> Inr None | Some v \<Rightarrow> positive v)"

definition truthy_peak :: "obj \<Rightarrow> rat option py" where
  "truthy_peak p =
     (case map_of p ''peak_mops'' of None \<Rightarrow> Inr None | Some v \<Rightarrow> if truthy v then positive v else Inr None)"

definition number_field :: "string \<Rightarrow> obj \<Rightarrow> rat py" where
  "number_field k p = py_bind (dict_get p k) (\<lambda>v. case py_num v of Inl _ \<Rightarrow> Inl IllTyped | Inr q \<Rightarrow> Inr q)"

abbreviation threads :: "obj \<Rightarrow> rat py" where
  "threads \<equiv> number_field ''threads''"

definition str_field :: "string \<Rightarrow> obj \<Rightarrow> string py" where
  "str_field k p = py_bind (dict_get p k) (\<lambda>v. case v of JStr s \<Rightarrow> Inr s | _ \<Rightarrow> Inl IllTyped)"

section \<open>Groups\<close>

text \<open>
  \<^verbatim>\<open>d[k].append(v)\<close> on a \<^verbatim>\<open>defaultdict(list)\<close>, and the loops that fill such a dictionary: \<open>sel\<close> is the body
  of the loop, which skips a measurement, appends a value under a key, or raises.
\<close>

definition add_to :: "'k \<Rightarrow> 'v \<Rightarrow> ('k \<times> 'v list) list \<Rightarrow> ('k \<times> 'v list) list" where
  "add_to k v d = AList.update k ((case map_of d k of None \<Rightarrow> [] | Some l \<Rightarrow> l) @ [v]) d"

definition group_step :: "('p \<Rightarrow> ('k \<times> 'v) option py) \<Rightarrow> ('k \<times> 'v list) list \<Rightarrow> 'p \<Rightarrow> ('k \<times> 'v list) list py" where
  "group_step sel d p = py_bind (sel p) (\<lambda>r. case r of None \<Rightarrow> Inr d | Some (k, v) \<Rightarrow> Inr (add_to k v d))"

definition group_by :: "('p \<Rightarrow> ('k \<times> 'v) option py) \<Rightarrow> 'p list \<Rightarrow> ('k \<times> 'v list) list py" where
  "group_by sel pts = py_foldM (group_step sel) [] pts"

text \<open>One number per group, in the order of the keys: \<^verbatim>\<open>sorted([(t, f(v)) for t, v in d.items()])\<close>.\<close>

definition curve_of :: "('v list \<Rightarrow> 'y) \<Rightarrow> ('k::linorder \<times> 'v list) list \<Rightarrow> ('k \<times> 'y) list" where
  "curve_of agg d = sort_key fst (map (\<lambda>(t, vs). (t, agg vs)) d)"

definition best :: "rat list \<Rightarrow> rat" where
  "best vs = Max (set vs)"

definition mean :: "rat list \<Rightarrow> rat" where
  "mean vs = sum_list vs / of_nat (length vs)"

text \<open>\<^verbatim>\<open>statistics.stdev\<close> for at least two values; \<open>sqrt_f\<close> is the square sqrt_f of floating point.\<close>

definition stdev :: "(rat \<Rightarrow> rat) \<Rightarrow> rat list \<Rightarrow> rat" where
  "stdev sqrt_f vs = sqrt_f (sum_list (map (\<lambda>v. (v - mean vs) * (v - mean vs)) vs) / (of_nat (length vs) - 1))"

definition nums :: "rat list \<Rightarrow> json list" where
  "nums = map JNum"

text \<open>The ticks of an axis with thread counts: \<^verbatim>\<open>str(t)\<close> of a whole number.\<close>

definition thread_ticks :: "rat list \<Rightarrow> (rat \<times> string) list" where
  "thread_ticks ts = map (\<lambda>t. (t, show_int \<lfloor>t\<rfloor>)) ts"

section \<open>What a group holds\<close>

text \<open>The values the loop body selects for a key, in the order of the measurements.\<close>

definition chosen :: "('p \<Rightarrow> ('k \<times> 'v) option py) \<Rightarrow> 'k \<Rightarrow> 'p list \<Rightarrow> 'v list" where
  "chosen sel k pts =
     List.map_filter (\<lambda>p. case sel p of Inr (Some (k', v)) \<Rightarrow> if k' = k then Some v else None | _ \<Rightarrow> None) pts"

lemma chosen_Nil [simp]: "chosen sel k [] = []"
  by (simp add: chosen_def map_filter_simps)

lemma chosen_append [simp]: "chosen sel k (xs @ ys) = chosen sel k xs @ chosen sel k ys"
  by (simp add: chosen_def List.map_filter_def)

lemma set_chosen: "set (chosen sel k pts) = {v. \<exists>p \<in> set pts. sel p = Inr (Some (k, v))}"
  by (auto simp: chosen_def List.map_filter_def split: sum.splits option.splits if_splits)
    (force split: sum.splits option.splits if_splits)+

definition groups :: "('k \<times> 'v list) list \<Rightarrow> ('k \<Rightarrow> 'v list) \<Rightarrow> bool" where
  "groups d f \<longleftrightarrow> distinct (map fst d) \<and> map_of d = (\<lambda>k. if f k = [] then None else Some (f k))"

lemma groups_add:
  assumes "groups d f"
  shows "groups (add_to k v d) (f(k := f k @ [v]))"
  using assms unfolding groups_def add_to_def
  by (auto simp: distinct_update update_conv fun_eq_iff)

lemma group_foldM:
  assumes "py_foldM (group_step sel) d pts = Inr d'" and "groups d f"
  shows "groups d' (\<lambda>k. f k @ chosen sel k pts) \<and> (\<forall>p \<in> set pts. \<exists>r. sel p = Inr r)"
  using assms
proof (induction pts arbitrary: d f)
  case (Cons p pts)
  from Cons.prems(1) obtain e where e: "group_step sel d p = Inr e"
    and rest: "py_foldM (group_step sel) e pts = Inr d'" by auto
  from e obtain r where r: "sel p = Inr r" by (auto simp: group_step_def)
  have "groups e (\<lambda>k. f k @ chosen sel k [p])"
  proof (cases r)
    case None
    with r e Cons.prems(2) show ?thesis by (simp add: group_step_def chosen_def map_filter_simps)
  next
    case (Some kv)
    then obtain k v where kv: "r = Some (k, v)" by (cases kv) auto
    have "(\<lambda>k'. f k' @ chosen sel k' [p]) = f(k := f k @ [v])"
      using r kv by (auto simp: chosen_def map_filter_simps fun_eq_iff)
    with r e kv groups_add[OF Cons.prems(2), of k v] show ?thesis by (simp add: group_step_def)
  qed
  from Cons.IH[OF rest this] r show ?case by (simp flip: chosen_append)
qed simp

lemma group_by_groups:
  assumes "group_by sel pts = Inr d"
  shows "groups d (\<lambda>k. chosen sel k pts)" and "\<forall>p \<in> set pts. \<exists>r. sel p = Inr r"
  using group_foldM[of sel "[]" pts d "\<lambda>_. []"] assms by (auto simp: group_by_def groups_def)

lemma group_by_total:
  assumes "\<forall>p \<in> set pts. \<exists>r. sel p = Inr r"
  shows "\<exists>d. group_by sel pts = Inr d"
proof -
  have "\<exists>d'. py_foldM (group_step sel) d pts = Inr d'" for d
    using assms
  proof (induction pts arbitrary: d)
    case (Cons p pts)
    then obtain r where "sel p = Inr r" by auto
    then obtain e where "group_step sel d p = Inr e" by (cases r) (auto simp: group_step_def)
    with Cons show ?case by auto
  qed simp
  then show ?thesis by (simp add: group_by_def)
qed

lemma group_by_iff: "(\<exists>d. group_by sel pts = Inr d) \<longleftrightarrow> (\<forall>p \<in> set pts. \<exists>r. sel p = Inr r)"
  using group_by_groups(2) group_by_total by metis

lemma groups_mem: "groups d f \<Longrightarrow> (k, vs) \<in> set d \<longleftrightarrow> vs = f k \<and> vs \<noteq> []"
  unfolding groups_def by (subst map_of_eq_Some_iff[symmetric]) auto

section \<open>The points of a curve\<close>

lemma curve_of_mem: "groups d f \<Longrightarrow> (t, y) \<in> set (curve_of agg d) \<longleftrightarrow> f t \<noteq> [] \<and> y = agg (f t)"
  by (force simp: curve_of_def groups_mem)

lemma map_fst_curve [simp]: "map fst (map (\<lambda>(t, vs). (t, agg vs)) d) = map fst d"
  by (induction d) auto

lemma curve_of_sorted:
  assumes "groups d f"
  shows "sorted_wrt (<) (map fst (curve_of agg d))"
proof -
  have "mset (map fst (curve_of agg d)) = mset (map fst d)"
    by (metis curve_of_def map_fst_curve mset_map mset_sort)
  from mset_eq_imp_distinct_iff[OF this] have "distinct (map fst (curve_of agg d))"
    using assms by (simp add: groups_def)
  then show ?thesis by (simp add: strict_sorted_iff curve_of_def)
qed

text \<open>A number for a group of values that lies between the smallest and the largest of them.\<close>

locale summary =
  fixes agg :: "rat list \<Rightarrow> rat"
  assumes agg_ge: "vs \<noteq> [] \<Longrightarrow> (\<And>v. v \<in> set vs \<Longrightarrow> lo \<le> v) \<Longrightarrow> lo \<le> agg vs"
    and agg_le: "vs \<noteq> [] \<Longrightarrow> (\<And>v. v \<in> set vs \<Longrightarrow> v \<le> hi) \<Longrightarrow> agg vs \<le> hi"
begin

lemma agg_between: "vs \<noteq> [] \<Longrightarrow> Min (set vs) \<le> agg vs \<and> agg vs \<le> Max (set vs)"
  by (intro conjI agg_ge agg_le) auto

lemma agg_const: "vs \<noteq> [] \<Longrightarrow> set vs \<subseteq> {c} \<Longrightarrow> agg vs = c"
  by (intro antisym agg_ge agg_le) auto

lemma agg_positive:
  assumes "vs \<noteq> []" and "\<And>v. v \<in> set vs \<Longrightarrow> 0 < v"
  shows "0 < agg vs"
proof -
  have "0 < Min (set vs)" using assms by auto
  with agg_between[OF assms(1)] show ?thesis by simp
qed

lemma points_between:
  assumes "groups d f" and "(t, y) \<in> set (curve_of agg d)"
  shows "f t \<noteq> [] \<and> Min (set (f t)) \<le> y \<and> y \<le> Max (set (f t))"
  using assms agg_between by (simp add: curve_of_mem)

end

interpretation best: summary best
  by unfold_locales (auto simp: best_def intro: order_trans[OF _ Max_ge])

lemma sum_list_lower: "(\<And>v. v \<in> set vs \<Longrightarrow> lo \<le> v) \<Longrightarrow> of_nat (length vs) * lo \<le> sum_list (vs :: rat list)"
  by (induction vs) (auto simp: algebra_simps add_mono)

lemma sum_list_upper: "(\<And>v. v \<in> set vs \<Longrightarrow> v \<le> hi) \<Longrightarrow> sum_list (vs :: rat list) \<le> of_nat (length vs) * hi"
  by (induction vs) (auto simp: algebra_simps add_mono)

interpretation mean: summary mean
  by unfold_locales
    (auto simp: mean_def pos_le_divide_eq pos_divide_le_eq mult.commute[of _ "of_nat _"]
      intro!: sum_list_lower sum_list_upper)

end
