(* ===== verification/Result_Plots.thy ===== *)
theory Result_Plots
  imports Jsonl_Plots
begin

text \<open>
  The two programs that draw the throughput curves of figure 12 from sweeps, \<^verbatim>\<open>plot_fig_12_final.py\<close>
  and \<^verbatim>\<open>plot_fig_12_apr27.py\<close>.  The argument \<open>here\<close> is the directory of the program.  The sign for plus
  or minus and the arrow of two labels are written with ASCII characters.
\<close>

section \<open>Directories and constants\<close>

definition apr27_dir :: "string \<Rightarrow> string" where
  "apr27_dir here = here @ ''/results/rdma-2node-04271959''"

definition may2_dir :: "string \<Rightarrow> string" where
  "may2_dir here = here @ ''/results/may2-competitors''"

definition may2_24h_dir :: "string \<Rightarrow> string" where
  "may2_24h_dir here = here @ ''/results/may2-24h''"

definition figures_dir :: "string \<Rightarrow> string" where
  "figures_dir here = here @ ''/../report/figures''"

definition manual_point :: obj where
  "manual_point = [(''workload'', JStr ''c''), (''threads'', JNum 8), (''peak_mops'', JNum (112 / 100))]"

definition workload_titles :: "(string \<times> string) list" where
  "workload_titles = [(''c'', ''YCSB C (read-only)''), (''d'', ''YCSB D (95% read, 5% insert)''),
     (''e'', ''YCSB E (range scan)'')]"

definition styled_curve :: "string \<Rightarrow> string \<Rightarrow> string \<Rightarrow> string \<Rightarrow> (rat \<times> rat) list \<Rightarrow> curve" where
  "styled_curve label color marker dash pts =
     \<lparr>cv_label = label, cv_color = color, cv_marker = marker, cv_dash = dash,
      cv_xs = nums (map fst pts), cv_ys = nums (map snd pts), cv_err = []\<rparr>"

section \<open>plot_fig_12_final.py\<close>

definition throughput_points :: "(string \<Rightarrow> json option) \<Rightarrow> string \<Rightarrow> (string \<times> string) list \<Rightarrow> obj list" where
  "throughput_points loads base fs =
     load_jsonl loads fs (base @ ''/fig_12_c_sweep.jsonl'') @
     load_jsonl loads fs (base @ ''/fig_12_de_sweep.jsonl'') @
     load_jsonl loads fs (base @ ''/fig_12_chime_extra.jsonl'') @ [manual_point]"

definition throughput_sel :: "obj \<Rightarrow> (string \<times> rat \<times> rat) option py" where
  "throughput_sel p =
     py_bind (peak p) (\<lambda>m. case m of None \<Rightarrow> Inr None
     | Some m \<Rightarrow> if map_of p ''workload'' = None then Inr None
        else py_bind (str_field ''workload'' p) (\<lambda>w. py_bind (threads p) (\<lambda>t. Inr (Some (w, t, m)))))"

text \<open>The second loop: the mean of the points of a workload with the same thread count.\<close>

definition mean_curve :: "(rat \<times> rat) list \<Rightarrow> (rat \<times> rat) list py" where
  "mean_curve tms = py_bind (group_by (\<lambda>(t, m). Inr (Some (t, m))) tms) (\<lambda>agg. Inr (curve_of mean agg))"

definition throughput_series :: "obj list \<Rightarrow> (string \<times> (rat \<times> rat) list) list py" where
  "throughput_series points =
     py_bind (group_by throughput_sel points) (\<lambda>series.
     py_mapM (\<lambda>(w, tms). py_bind (mean_curve tms) (\<lambda>pts. Inr (w, pts))) series)"

definition final_styles :: "(string \<times> string \<times> string \<times> string) list" where
  "final_styles = [(''c'', ''o'', ''#1f77b4'', ''YCSB C (read-only)''),
     (''d'', ''s'', ''#ff7f0e'', ''YCSB D (95% read, 5% insert)''), (''e'', ''^'', ''#2ca02c'', ''YCSB E (range scan)'')]"

definition throughput_curves :: "(string \<times> (rat \<times> rat) list) list \<Rightarrow> curve list py" where
  "throughput_curves series =
     py_mapM (\<lambda>(w, pts). py_bind (dict_get final_styles w) (\<lambda>(marker, color, label).
       Inr (styled_curve label color marker [] pts))) (sort_key fst series)"

definition render_throughput_curves :: "(string \<Rightarrow> json option) \<Rightarrow> string \<Rightarrow> string \<Rightarrow> string \<Rightarrow> (plots, unit) act" where
  "render_throughput_curves loads base dir name =
     act_bind (act_get texts) (\<lambda>fs.
     act_bind (act_lift (throughput_series (throughput_points loads base fs))) (\<lambda>series.
     act_bind (act_lift (throughput_curves series)) (\<lambda>cs.
     savefig dir name \<lparr>fg_title = [], fg_panels =
       [(empty_panel ''CHIME on r650 Clemson, 1 CN + 1 MN, ConnectX-6 Dx (April 27, 2026)'')
         \<lparr>pn_curves := cs, pn_ticks := thread_ticks [4, 8, 16, 32, 48, 64]\<rparr>], fg_caption = []\<rparr>)))"

definition variance_sel :: "obj \<Rightarrow> (rat \<times> rat) option py" where
  "variance_sel p = py_bind (peak p) (\<lambda>m. case m of None \<Rightarrow> Inr None
     | Some m \<Rightarrow> py_bind (threads p) (\<lambda>t. Inr (Some (t, m))))"

text \<open>\<^verbatim>\<open>by_t\<close> in the order of the thread counts: each with its values.\<close>

definition variance_groups :: "obj list \<Rightarrow> (rat \<times> rat list) list py" where
  "variance_groups points = py_bind (group_by variance_sel points) (\<lambda>by_t. Inr (sort_key fst by_t))"

definition variance_curve :: "(rat \<times> rat list) list \<Rightarrow> curve" where
  "variance_curve g =
     \<lparr>cv_label = ''Mean +- range'', cv_color = ''#1f77b4'', cv_marker = ''o'', cv_dash = [],
      cv_xs = nums (map fst g), cv_ys = nums (map (\<lambda>(t, vs). mean vs) g),
      cv_err = map (\<lambda>(t, vs). (mean vs - Min (set vs), Max (set vs) - mean vs)) g\<rparr>"

definition render_variance :: "(string \<Rightarrow> json option) \<Rightarrow> string \<Rightarrow> string \<Rightarrow> string \<Rightarrow> (plots, unit) act" where
  "render_variance loads base dir name =
     act_bind (act_get texts) (\<lambda>fs.
     act_bind (act_lift (variance_groups (load_all loads fs base [''fig_12_variance.jsonl'', ''fig_12_variance_v2.jsonl'']))) (\<lambda>g.
     if g = [] then act_return ()
     else savefig dir name \<lparr>fg_title = [], fg_panels =
       [(empty_panel ''YCSB C variance: range across replications'')
         \<lparr>pn_curves := [variance_curve g], pn_notes := map (\<lambda>(t, vs). Count (length vs) t (mean vs)) g,
          pn_ticks := thread_ticks [16, 32, 48, 64]\<rparr>], fg_caption = []\<rparr>))"

definition variant_order :: "string list" where
  "variant_order = [''hopscotch'', ''+vacancy'', ''+metadata'', ''+sibling'', ''chime'']"

definition variant_labels :: "string list" where
  "variant_labels = [''+ Hopscotch leaves'', ''+ Vacancy lock'', ''+ Metadata repl.'', ''+ Sibling validation'',
     ''+ Speculative read'' @ [CHR 0x0A] @ ''(full CHIME)'']"

definition norm_variant :: "(string \<times> string) list" where
  "norm_variant = map (\<lambda>v. (v, v)) variant_order @ map (\<lambda>v. (''build-15a-'' @ v, v)) variant_order"

text \<open>The last positive value of a variant counts.\<close>

definition variant_step :: "(string \<times> rat) list \<Rightarrow> obj \<Rightarrow> (string \<times> rat) list py" where
  "variant_step m p =
     py_bind (str_field ''variant'' p) (\<lambda>name.
     case map_of norm_variant name of None \<Rightarrow> Inr m
     | Some v \<Rightarrow> py_bind (peak p) (\<lambda>y. Inr (case y of None \<Rightarrow> m | Some y \<Rightarrow> AList.update v y m)))"

definition variant_peaks :: "obj list \<Rightarrow> (string \<times> rat) list py" where
  "variant_peaks pts = py_foldM variant_step [] pts"

definition get0 :: "('k \<times> rat) list \<Rightarrow> 'k \<Rightarrow> rat" where
  "get0 d k = (case map_of d k of None \<Rightarrow> 0 | Some y \<Rightarrow> y)"

definition index_x :: "'a list \<Rightarrow> rat \<Rightarrow> rat list" where
  "index_x xs off = map (\<lambda>i. of_nat i + off) [0..<length xs]"

definition index_ticks :: "string list \<Rightarrow> (rat \<times> string) list" where
  "index_ticks labels = zip (index_x labels 0) labels"

definition render_ablation :: "(string \<Rightarrow> json option) \<Rightarrow> string \<Rightarrow> string \<Rightarrow> string \<Rightarrow> (plots, unit) act" where
  "render_ablation loads base dir name =
     act_bind (act_get texts) (\<lambda>fs.
     act_bind (act_lift (variant_peaks (load_jsonl loads fs (base @ ''/fig_15a_sweep_v2.jsonl'')))) (\<lambda>c_data.
     act_bind (act_lift (variant_peaks (load_jsonl loads fs (base @ ''/fig_15a_d_sweep.jsonl'')))) (\<lambda>d_data.
     savefig dir name \<lparr>fg_title = [], fg_panels =
       [(empty_panel ''fig_15a Cumulative Ablation: Sherman -> CHIME, r650 1 CN + 1 MN'')
         \<lparr>pn_bars :=
           [\<lparr>br_label = ''YCSB C @ 16 threads'', br_colors = [''#1f77b4''], br_x = index_x variant_order (- (35 / 200)),
             br_h = map (get0 c_data) variant_order\<rparr>,
            \<lparr>br_label = ''YCSB D @ 32 threads'', br_colors = [''#ff7f0e''], br_x = index_x variant_order (35 / 200),
             br_h = map (get0 d_data) variant_order\<rparr>],
          pn_ticks := index_ticks variant_labels\<rparr>], fg_caption = []\<rparr>)))"

definition final_main :: "(string \<Rightarrow> json option) \<Rightarrow> string \<Rightarrow> (plots, unit) act" where
  "final_main loads here =
     act_seq (mkdir (figures_dir here))
    (act_seq (render_throughput_curves loads (apr27_dir here) (figures_dir here) ''fig12-final-cde.pdf'')
    (act_seq (render_variance loads (apr27_dir here) (figures_dir here) ''fig12-variance.pdf'')
     (render_ablation loads (apr27_dir here) (figures_dir here) ''fig15a-ablation.pdf'')))"

section \<open>plot_fig_12_apr27.py\<close>

definition apr27_sel :: "obj \<Rightarrow> (string \<times> rat \<times> rat) option py" where
  "apr27_sel p =
     py_bind (str_field ''workload'' p) (\<lambda>w. py_bind (threads p) (\<lambda>t.
     py_bind (number_field ''peak_mops'' p) (\<lambda>m. Inr (Some (w, t, m)))))"

definition apr27_styles :: "(string \<times> string \<times> string \<times> string) list" where
  "apr27_styles = [(''c'', ''o'', ''#1f77b4'', ''YCSB C (read-only)''),
     (''d'', ''s'', ''#ff7f0e'', ''YCSB D (read-mostly)''), (''e'', ''^'', ''#2ca02c'', ''YCSB E (range scan)'')]"

text \<open>Sorting pairs: by the second component and then, stably, by the first.\<close>

definition sort_pairs :: "(rat \<times> rat) list \<Rightarrow> (rat \<times> rat) list" where
  "sort_pairs xs = sort_key fst (sort_key snd xs)"

definition apr27_curve :: "string \<times> (rat \<times> rat) list \<Rightarrow> curve" where
  "apr27_curve = (\<lambda>(w, pts).
     let (marker, color, label) = (case map_of apr27_styles w of None \<Rightarrow> (''x'', [], w) | Some st \<Rightarrow> st) in
     styled_curve label color marker [] (sort_pairs pts))"

definition apr27_main :: "(string \<Rightarrow> json option) \<Rightarrow> string \<Rightarrow> (plots, unit) act" where
  "apr27_main loads here =
     act_bind (act_get texts) (\<lambda>fs.
     act_bind (act_lift (group_by apr27_sel
       (load_all loads fs (apr27_dir here) [''fig_12_c_sweep.jsonl'', ''fig_12_de_sweep.jsonl''] @ [manual_point]))) (\<lambda>series.
     act_seq (mkdir (figures_dir here))
     (savefig (figures_dir here) ''fig12-apr27-cde.pdf'' \<lparr>fg_title = [], fg_panels =
       [(empty_panel ''CHIME on r650 Clemson, 1 CN + 1 MN, Apr 27 2026'')
         \<lparr>pn_curves := map apr27_curve (sort_key fst series), pn_ticks := thread_ticks [4, 8, 16, 32, 64]\<rparr>],
         fg_caption = []\<rparr>)))"

section \<open>The points of the throughput curves\<close>

lemma chosen_pairs: "chosen (\<lambda>(t, m). Inr (Some (t, m))) t tms = map snd (filter (\<lambda>tm. fst tm = t) tms)"
  by (induction tms) (auto simp: chosen_def map_filter_simps)

lemma mean_curve_ok:
  "\<exists>pts. mean_curve tms = Inr pts \<and> sorted_wrt (<) (map fst pts) \<and>
     (\<forall>t y. (t, y) \<in> set pts \<longleftrightarrow>
       (let vs = map snd (filter (\<lambda>tm. fst tm = t) tms) in vs \<noteq> [] \<and> y = mean vs \<and> Min (set vs) \<le> y \<and> y \<le> Max (set vs)))"
proof -
  obtain d where d: "group_by (\<lambda>(t, m). Inr (Some (t, m))) tms = Inr d"
    using group_by_total[of tms "\<lambda>(t, m). Inr (Some (t, m))"] by auto
  note g = group_by_groups(1)[OF d, unfolded chosen_pairs]
  have "(t, y) \<in> set (curve_of mean d) \<longleftrightarrow>
      (let vs = map snd (filter (\<lambda>tm. fst tm = t) tms) in vs \<noteq> [] \<and> y = mean vs \<and> Min (set vs) \<le> y \<and> y \<le> Max (set vs))" for t y
    using mean.agg_between[of "map snd (filter (\<lambda>tm. fst tm = t) tms)"]
    by (auto simp: curve_of_mem[OF g] Let_def)
  with d curve_of_sorted[OF g] show ?thesis by (simp add: mean_curve_def)
qed

text \<open>The positive measurements of a workload at a thread count, in the order of the points.\<close>

definition runs_at :: "obj list \<Rightarrow> string \<Rightarrow> rat \<Rightarrow> rat list" where
  "runs_at points w t = map snd (filter (\<lambda>tm. fst tm = t) (chosen throughput_sel w points))"

lemma runs_at_append: "runs_at (xs @ ys) w t = runs_at xs w t @ runs_at ys w t"
  by (simp add: runs_at_def)

lemma throughput_series_mem:
  assumes "throughput_series points = Inr series"
  shows "(w, pts) \<in> set series \<longleftrightarrow>
    chosen throughput_sel w points \<noteq> [] \<and> mean_curve (chosen throughput_sel w points) = Inr pts"
proof -
  obtain g where g: "group_by throughput_sel points = Inr g"
    and m: "py_mapM (\<lambda>(w, tms). py_bind (mean_curve tms) (\<lambda>pts. Inr (w, pts))) g = Inr series"
    using assms by (auto simp: throughput_series_def)
  have "(w, pts) \<in> set series \<longleftrightarrow> (\<exists>tms. (w, tms) \<in> set g \<and> mean_curve tms = Inr pts)"
    using m
  proof (induction g arbitrary: series)
    case (Cons x g)
    then show ?case by (cases x) fastforce
  qed simp
  then show ?thesis using groups_mem[OF group_by_groups(1)[OF g]] by auto
qed

lemma manual_point_sel: "throughput_sel manual_point = Inr (Some (''c'', 8, 112 / 100))"
  by (simp add: throughput_sel_def manual_point_def peak_def positive_def str_field_def number_field_def dict_get_def)

lemma runs_at_manual: "runs_at [manual_point] ''c'' 8 = [112 / 100]"
  by (simp add: runs_at_def chosen_def map_filter_simps manual_point_sel)

text \<open>
  C36: The picture of the throughput curves has for every workload with a successful run one curve whose
  thread counts strictly increase, and the value at a thread count is the mean of all successful
  runs there, so it lies between the worst and the best of them.\<close>

theorem throughput_series_means:
  assumes "throughput_series points = Inr series" and "(w, pts) \<in> set series"
  shows "sorted_wrt (<) (map fst pts) \<and>
    (\<forall>t y. (t, y) \<in> set pts \<longleftrightarrow> runs_at points w t \<noteq> [] \<and> y = mean (runs_at points w t) \<and>
       Min (set (runs_at points w t)) \<le> y \<and> y \<le> Max (set (runs_at points w t)))"
  using mean_curve_ok[of "chosen throughput_sel w points"] assms(2)
  unfolding throughput_series_mem[OF assms(1)] by (auto simp: runs_at_def Let_def)

text \<open>
  The point added by hand is averaged with the runs of the files: the curve of workload C is at 8
  threads the mean of 1.12 and of every run of C with 8 threads that a file has.\<close>

theorem manual_point_averaged:
  assumes "throughput_series (throughput_points loads base fs) = Inr series"
  shows "\<exists>pts vs. (''c'', pts) \<in> set series \<and> (8, mean (vs @ [112 / 100])) \<in> set pts \<and>
    vs = runs_at (butlast (throughput_points loads base fs)) ''c'' 8"
proof -
  let ?ps = "throughput_points loads base fs"
  have ps: "?ps = butlast ?ps @ [manual_point]" by (simp add: throughput_points_def butlast_append)
  have r: "runs_at ?ps ''c'' 8 = runs_at (butlast ?ps) ''c'' 8 @ [112 / 100]"
    by (subst ps) (simp only: runs_at_append runs_at_manual)
  then have ne: "chosen throughput_sel ''c'' ?ps \<noteq> []" by (auto simp: runs_at_def)
  obtain pts where c: "mean_curve (chosen throughput_sel ''c'' ?ps) = Inr pts"
    and mem: "\<And>t y. (t, y) \<in> set pts \<longleftrightarrow> runs_at ?ps ''c'' t \<noteq> [] \<and> y = mean (runs_at ?ps ''c'' t) \<and>
        Min (set (runs_at ?ps ''c'' t)) \<le> y \<and> y \<le> Max (set (runs_at ?ps ''c'' t))"
    using mean_curve_ok[of "chosen throughput_sel ''c'' ?ps"] unfolding runs_at_def Let_def by blast
  have "(8, mean (runs_at ?ps ''c'' 8)) \<in> set pts"
    unfolding mem using r mean.agg_between[of "runs_at ?ps ''c'' 8"] by simp
  with ne r c show ?thesis by (auto simp: throughput_series_mem[OF assms])
qed

text \<open>
  The error bars of the variance picture never point the wrong way, and together they span exactly
  the range of the runs.\<close>

theorem variance_bars:
  assumes "variance_groups points = Inr g"
  shows "list_all2 (\<lambda>(t, vs) (lo, hi). 0 \<le> lo \<and> 0 \<le> hi \<and> lo + hi = Max (set vs) - Min (set vs)) g (cv_err (variance_curve g))"
proof -
  obtain d where d: "group_by variance_sel points = Inr d" and g: "g = sort_key fst d"
    using assms by (auto simp: variance_groups_def)
  have "vs \<noteq> []" if "(t, vs) \<in> set g" for t vs
    using that groups_mem[OF group_by_groups(1)[OF d], of t vs] unfolding g by auto
  then show ?thesis
    using mean.agg_between by (fastforce simp: variance_curve_def list_all2_map2 list.rel_refl_strong intro!: list.rel_refl_strong)
qed

section \<open>Examples\<close>

text \<open>The line of \<^verbatim>\<open>fig_12_chime_extra.jsonl\<close> for 8 threads.\<close>

definition extra_point :: obj where
  "extra_point = [(''workload'', JStr ''c''), (''threads'', JNum 8), (''build'', JStr ''15a-chime''), (''peak_mops'', JNum (11251 / 10000))]"

definition extra_files :: "(string \<times> string) list" where
  "extra_files = [(''r/fig_12_chime_extra.jsonl'', ''{}'')]"

definition extra_loads :: "string \<Rightarrow> json option" where
  "extra_loads = (\<lambda>_. Some (JDict extra_point))"

lemma extra_series:
  "throughput_series (throughput_points extra_loads ''r'' extra_files) = Inr [(''c'', [(8, 22451 / 20000)])]"
  by code_simp

theorem throughput_series_means_witness:
  "(8, 22451 / 20000) \<in> set [(8 :: rat, 22451 / 20000 :: rat)] \<longleftrightarrow>
    runs_at (throughput_points extra_loads ''r'' extra_files) ''c'' 8 \<noteq> [] \<and>
    22451 / 20000 = mean (runs_at (throughput_points extra_loads ''r'' extra_files) ''c'' 8) \<and>
    Min (set (runs_at (throughput_points extra_loads ''r'' extra_files) ''c'' 8)) \<le> 22451 / 20000 \<and>
    22451 / 20000 \<le> Max (set (runs_at (throughput_points extra_loads ''r'' extra_files) ''c'' 8))"
proof -
  have "(''c'', [(8, 22451 / 20000)]) \<in> set [(''c'', [(8 :: rat, 22451 / 20000 :: rat)])]" by simp
  from throughput_series_means[OF extra_series this] show ?thesis by blast
qed

theorem manual_point_averaged_witness:
  "\<exists>pts vs. (''c'', pts) \<in> set [(''c'', [(8 :: rat, 22451 / 20000)])] \<and> (8, mean (vs @ [112 / 100])) \<in> set pts \<and>
    vs = runs_at (butlast (throughput_points extra_loads ''r'' extra_files)) ''c'' 8"
  by (rule manual_point_averaged[OF extra_series])

theorem variance_bars_witness:
  "list_all2 (\<lambda>(t, vs) (lo, hi). 0 \<le> lo \<and> 0 \<le> hi \<and> lo + hi = Max (set vs) - Min (set vs))
     [(8 :: rat, [11251 / 10000, 112 / 100])] (cv_err (variance_curve [(8, [11251 / 10000, 112 / 100])]))"
proof (rule variance_bars)
  show "variance_groups [extra_point, manual_point] = Inr [(8, [11251 / 10000, 112 / 100])]" by code_simp
qed

end
