(* ===== verification/Cxl_Plots.thy ===== *)
theory Cxl_Plots
  imports Result_Plots
begin

text \<open>
  The plot programs that compare methods and transports: \<^verbatim>\<open>plot_competitor_comparison.py\<close>,
  \<^verbatim>\<open>plot_cxl_reproducibility.py\<close>, \<^verbatim>\<open>plot_transport_method.py\<close>, \<^verbatim>\<open>plot_cxl_vs_rdma.py\<close>,
  \<^verbatim>\<open>plot_cxl_ablation.py\<close> and \<^verbatim>\<open>plot_cxl_ablation_full.py\<close>.
\<close>

section \<open>plot_competitor_comparison.py\<close>

definition series_sel :: "string \<Rightarrow> obj \<Rightarrow> (rat \<times> rat) option py" where
  "series_sel workload p =
     (if map_of p ''workload'' \<noteq> Some (JStr workload) then Inr None
      else py_bind (truthy_peak p) (\<lambda>m. case m of None \<Rightarrow> Inr None
        | Some m \<Rightarrow> py_bind (threads p) (\<lambda>t. Inr (Some (t, m)))))"

definition series_for_method :: "obj list \<Rightarrow> string \<Rightarrow> (rat \<times> rat) list py" where
  "series_for_method points workload =
     py_bind (group_by (series_sel workload) points) (\<lambda>by_t. Inr (curve_of best by_t))"

definition setdefault_method :: "string \<Rightarrow> obj \<Rightarrow> obj" where
  "setdefault_method method d = (if map_of d ''method'' = None then AList.update ''method'' (JStr method) d else d)"

definition competitor_data ::
  "(string \<Rightarrow> json option) \<Rightarrow> string \<Rightarrow> (string \<times> string) list \<Rightarrow> (string \<times> obj list) list" where
  "competitor_data loads here fs =
     (''CHIME'', map (setdefault_method ''CHIME'') (load_all loads fs (apr27_dir here)
        [''fig_12_c_sweep.jsonl'', ''fig_12_chime_extra.jsonl'', ''fig_12_de_sweep.jsonl'']) @
        [(''method'', JStr ''CHIME'') # manual_point]) #
     map (\<lambda>method. (method, map (setdefault_method method) (load_all loads fs (may2_dir here)
        (map (\<lambda>w. lower method @ ''_'' @ w @ ''_sweep.jsonl'') [''c'', ''d'', ''e'']))))
       [''SMART'', ''ROLEX'', ''Sherman'']"

definition competitor_styles :: "(string \<times> string \<times> string \<times> string) list" where
  "competitor_styles = [(''CHIME'', ''#d62728'', ''o'', ''-''), (''SMART'', ''#1f77b4'', ''s'', ''--''),
     (''ROLEX'', ''#2ca02c'', ''^'', ''-.''), (''Sherman'', ''#7f7f7f'', ''x'', '':'')]"

text \<open>
  One panel: a curve for every list of measurements that has points of the workload.
\<close>

definition draw_series ::
  "(obj list \<Rightarrow> string \<Rightarrow> (rat \<times> rat) list py) \<Rightarrow> (string \<times> string \<times> string \<times> string) list \<Rightarrow> (string \<times> obj list) list \<Rightarrow> string \<Rightarrow> curve list py" where
  "draw_series series styles data w =
     py_bind (py_mapM (\<lambda>(label, pts). py_bind (series pts w) (\<lambda>s.
       if s = [] then Inr []
       else py_bind (dict_get styles label) (\<lambda>(color, marker, dash). Inr [styled_curve label color marker dash s]))) data)
     (\<lambda>cs. Inr (concat cs))"

text \<open>The ticks are the thread counts of all measurements of the workload, the unsuccessful ones too.\<close>

definition competitor_ticks :: "(string \<times> obj list) list \<Rightarrow> string \<Rightarrow> rat list py" where
  "competitor_ticks data w =
     py_bind (py_mapM threads (filter (\<lambda>p. map_of p ''workload'' = Some (JStr w)) (concat (map snd data))))
       (\<lambda>ts. Inr (sorted_list_of_set (set ts)))"

definition competitor_panel :: "(string \<times> obj list) list \<Rightarrow> string \<times> string \<Rightarrow> panel py" where
  "competitor_panel data = (\<lambda>(w, title).
     py_bind (draw_series series_for_method competitor_styles data w) (\<lambda>cs.
     py_bind (competitor_ticks data w) (\<lambda>ts.
     Inr ((empty_panel title)\<lparr>pn_curves := cs, pn_ticks := thread_ticks ts\<rparr>))))"

definition competitor_main :: "(string \<Rightarrow> json option) \<Rightarrow> string \<Rightarrow> (plots, unit) act" where
  "competitor_main loads here =
     act_seq (mkdir (figures_dir here))
    (act_bind (act_get texts) (\<lambda>fs.
     act_bind (act_lift (py_mapM (competitor_panel (competitor_data loads here fs)) workload_titles)) (\<lambda>ps.
     savefig (figures_dir here) ''fig12-competitors.pdf''
       \<lparr>fg_title = ''CHIME vs Competitors on r650 Clemson, 1 CN + 1 MN'', fg_panels = ps, fg_caption = []\<rparr>)))"

section \<open>plot_cxl_reproducibility.py\<close>

definition reproducibility_series :: "obj list \<Rightarrow> string \<Rightarrow> (rat \<times> rat) list py" where
  "reproducibility_series = series_for_method"

definition may2_files :: "string \<Rightarrow> string list" where
  "may2_files stem = map (\<lambda>w. stem @ w @ ''.jsonl'') [''c'', ''d'', ''e'']"

definition reproducibility_data ::
  "(string \<Rightarrow> json option) \<Rightarrow> string \<Rightarrow> (string \<times> string) list \<Rightarrow> (string \<times> obj list) list" where
  "reproducibility_data loads here fs =
     [(''RDMA Apr 27'', load_all loads fs (apr27_dir here)
         [''fig_12_c_sweep.jsonl'', ''fig_12_chime_extra.jsonl'', ''fig_12_de_sweep.jsonl''] @ [manual_point]),
      (''RDMA May 2'', load_all loads fs (may2_dir here) (may2_files ''chime_rdma_may2_'')),
      (''CXL  May 1'', load_all loads fs (apr27_dir here) [''fig_12_cxl_sweep.jsonl'', ''fig_12_cxl_de.jsonl'']),
      (''CXL  May 2'', load_all loads fs (may2_dir here) (may2_files ''chime_cxl_may2_''))]"

definition reproducibility_styles :: "(string \<times> string \<times> string \<times> string) list" where
  "reproducibility_styles = [(''RDMA Apr 27'', ''#1f77b4'', ''o'', ''--''), (''RDMA May 2'', ''#1f77b4'', ''o'', ''-''),
     (''CXL  May 1'', ''#d62728'', ''s'', ''--''), (''CXL  May 2'', ''#d62728'', ''s'', ''-'')]"

definition series_panel ::
  "(obj list \<Rightarrow> string \<Rightarrow> (rat \<times> rat) list py) \<Rightarrow> (string \<times> string \<times> string \<times> string) list \<Rightarrow> (string \<times> obj list) list \<Rightarrow> string \<times> string \<Rightarrow> panel py" where
  "series_panel series styles data = (\<lambda>(w, title).
     py_bind (draw_series series styles data w) (\<lambda>cs. Inr ((empty_panel title)\<lparr>pn_curves := cs\<rparr>)))"

definition reproducibility_main :: "(string \<Rightarrow> json option) \<Rightarrow> string \<Rightarrow> (plots, unit) act" where
  "reproducibility_main loads here =
     act_bind (act_get texts) (\<lambda>fs.
     act_bind (act_lift (py_mapM (series_panel reproducibility_series reproducibility_styles (reproducibility_data loads here fs)) workload_titles)) (\<lambda>ps.
     savefig (figures_dir here) ''fig12-cxl-reproducibility.pdf''
       \<lparr>fg_title = ''CHIME RDMA vs CXL: Cross-Day Reproducibility on r650 Clemson 1 CN + 1 MN'', fg_panels = ps,
        fg_caption = []\<rparr>))"

section \<open>plot_transport_method.py\<close>

definition transport_series :: "obj list \<Rightarrow> string \<Rightarrow> (rat \<times> rat) list py" where
  "transport_series = series_for_method"

definition transport_data ::
  "(string \<Rightarrow> json option) \<Rightarrow> string \<Rightarrow> (string \<times> string) list \<Rightarrow> (string \<times> obj list) list" where
  "transport_data loads here fs =
     [(''CHIME-RDMA'', load_all loads fs (may2_dir here) (may2_files ''chime_rdma_may2_'')),
      (''CHIME-CXL'', load_all loads fs (apr27_dir here) [''fig_12_cxl_sweep.jsonl'', ''fig_12_cxl_de.jsonl'']),
      (''Sherman-RDMA'', load_all loads fs (may2_dir here)
         (map (\<lambda>w. ''sherman_'' @ w @ ''_sweep.jsonl'') [''c'', ''d'', ''e''])),
      (''Sherman-CXL'', load_all loads fs (may2_dir here) (may2_files ''sherman_cxl_''))]"

definition transport_styles :: "(string \<times> string \<times> string \<times> string) list" where
  "transport_styles = [(''CHIME-RDMA'', ''#d62728'', ''o'', ''-''), (''CHIME-CXL'', ''#d62728'', ''o'', ''--''),
     (''Sherman-RDMA'', ''#1f77b4'', ''s'', ''-''), (''Sherman-CXL'', ''#1f77b4'', ''s'', ''--'')]"

definition transport_main :: "(string \<Rightarrow> json option) \<Rightarrow> string \<Rightarrow> (plots, unit) act" where
  "transport_main loads here =
     act_bind (act_get texts) (\<lambda>fs.
     act_bind (act_lift (py_mapM (series_panel transport_series transport_styles (transport_data loads here fs))
       [(''c'', ''YCSB C''), (''d'', ''YCSB D''), (''e'', ''YCSB E'')])) (\<lambda>ps.
     savefig (figures_dir here) ''fig12-transport-method.pdf''
       \<lparr>fg_title = ''Transport vs Method: CHIME/Sherman x RDMA/CXL, r650 Clemson 1 CN + 1 MN (RDMA May 2 + CXL May 1, same hardware)'',
        fg_panels = ps, fg_caption = []\<rparr>))"

section \<open>plot_cxl_vs_rdma.py\<close>

text \<open>
  A measurement over RDMA without a workload counts for C.  A missing thread count would be grouped under
  \<^verbatim>\<open>None\<close>, which no result file has.
\<close>

definition rdma_sel :: "obj \<Rightarrow> ((string \<times> rat) \<times> rat) option py" where
  "rdma_sel d =
     py_bind (peak d) (\<lambda>m. case m of None \<Rightarrow> Inr None
     | Some m \<Rightarrow> py_bind (if map_of d ''workload'' = None then Inr ''c'' else str_field ''workload'' d) (\<lambda>w.
        py_bind (if map_of d ''threads'' = None then Inl IllTyped else threads d) (\<lambda>t. Inr (Some ((w, t), m)))))"

definition cxl_sel :: "obj \<Rightarrow> ((string \<times> rat) \<times> rat) option py" where
  "cxl_sel d =
     py_bind (peak d) (\<lambda>m. case m of None \<Rightarrow> Inr None
     | Some m \<Rightarrow> py_bind (str_field ''workload'' d) (\<lambda>w. py_bind (threads d) (\<lambda>t. Inr (Some ((w, t), m)))))"

type_synonym by_workload = "((string \<times> rat) \<times> rat list) list"

definition workload_series :: "by_workload \<Rightarrow> string \<Rightarrow> (rat \<times> rat) list" where
  "workload_series data w =
     sort_key fst (map (\<lambda>((ww, t), vals). (t, best vals)) (filter (\<lambda>((ww, t), vals). ww = w) data))"

definition vs_panel :: "by_workload \<Rightarrow> by_workload \<Rightarrow> string \<times> string \<Rightarrow> panel" where
  "vs_panel rdma cxl = (\<lambda>(w, title).
     let r = workload_series rdma w; c = workload_series cxl w in
     (empty_panel title)
       \<lparr>pn_curves := (if r = [] then [] else [styled_curve ''RDMA'' ''#1f77b4'' ''o'' ''-'' r]) @
          (if c = [] then [] else [styled_curve ''CXL'' ''#d62728'' ''s'' ''--'' c]),
        pn_ticks := thread_ticks (sorted_list_of_set (set (map fst r @ map fst c)))\<rparr>)"

text \<open>
  The three dictionaries of ratios, as one function of the workload: the thread counts measured over
  both transports, with the best value of the one over the best value of the other.
\<close>

definition ratio_step :: "by_workload \<Rightarrow> string \<Rightarrow> (rat \<times> rat) list \<Rightarrow> (string \<times> rat) \<times> rat list \<Rightarrow> (rat \<times> rat) list" where
  "ratio_step rdma w = (\<lambda>ratios ((ww, t), vals).
     case map_of rdma (ww, t) of None \<Rightarrow> ratios
     | Some rvals \<Rightarrow>
        if rvals = [] then ratios
        else if best rvals > 0 \<and> ww = w then AList.update t (best vals / best rvals) ratios
        else ratios)"

definition ratios :: "by_workload \<Rightarrow> by_workload \<Rightarrow> string \<Rightarrow> (rat \<times> rat) list" where
  "ratios rdma cxl w = foldl (ratio_step rdma w) [] cxl"

definition ratio_threads :: "by_workload \<Rightarrow> by_workload \<Rightarrow> rat list" where
  "ratio_threads rdma cxl =
     sorted_list_of_set (set (concat (map (\<lambda>w. map fst (ratios rdma cxl w)) [''c'', ''d'', ''e''])))"

definition ratio_bars :: "by_workload \<Rightarrow> by_workload \<Rightarrow> bars list" where
  "ratio_bars rdma cxl =
     (let ts = ratio_threads rdma cxl in
      map (\<lambda>(w, label, color, off).
        \<lparr>br_label = label, br_colors = [color], br_x = index_x ts off, br_h = map (get0 (ratios rdma cxl w)) ts\<rparr>)
        [(''c'', ''C'', ''#1f77b4'', - (27 / 100)), (''d'', ''D'', ''#ff7f0e'', 0), (''e'', ''E'', ''#2ca02c'', 27 / 100)])"

definition vs_rdma_main :: "(string \<Rightarrow> json option) \<Rightarrow> string \<Rightarrow> (plots, unit) act" where
  "vs_rdma_main loads here =
     act_seq (mkdir (figures_dir here))
    (act_bind (act_get texts) (\<lambda>fs.
     act_bind (act_lift (group_by rdma_sel (load_all loads fs (apr27_dir here)
       [''fig_12_c_sweep.jsonl'', ''fig_12_chime_extra.jsonl'', ''fig_12_de_sweep.jsonl'', ''fig_12_variance.jsonl'',
        ''fig_12_variance_v2.jsonl'']))) (\<lambda>rdma.
     act_bind (act_lift (group_by cxl_sel (load_all loads fs (apr27_dir here)
       [''fig_12_cxl_sweep.jsonl'', ''fig_12_cxl_de.jsonl'']))) (\<lambda>cxl.
     act_seq (savefig (figures_dir here) ''fig12-rdma-vs-cxl.pdf''
       \<lparr>fg_title = ''CHIME on r650 Clemson, 1 CN + 1 MN, May 1, 2026'',
        fg_panels = map (vs_panel rdma cxl) workload_titles, fg_caption = []\<rparr>)
     (savefig (figures_dir here) ''fig12-cxl-rdma-ratio.pdf'' \<lparr>fg_title = [], fg_panels =
       [(empty_panel ''CXL Throughput Speedup vs RDMA per Workload'')
         \<lparr>pn_bars := ratio_bars rdma cxl,
          pn_ticks := index_ticks (map (\<lambda>t. show_int \<lfloor>t\<rfloor>) (ratio_threads rdma cxl))\<rparr>], fg_caption = []\<rparr>)))))"

section \<open>plot_cxl_ablation.py\<close>

definition ablation_variants :: "string list" where
  "ablation_variants = [''sherman'', ''hopscotch'', ''vacancy'', ''metadata'', ''sibling'', ''chime'']"

definition ablation_labels :: "string list" where
  "ablation_labels = [''Sherman'', ''+Hopscotch'', ''+Vacancy'', ''+Metadata'', ''+Sibling'',
     ''+Speculative'' @ [CHR 0x0A] @ ''(full CHIME)'']"

definition ablation_colors :: "string list" where
  "ablation_colors = [''#7f7f7f'', ''#1f77b4'', ''#ff7f0e'', ''#2ca02c'', ''#9467bd'', ''#d62728'']"

definition same_number :: "json option \<Rightarrow> rat \<Rightarrow> bool" where
  "same_number v q = (case v of None \<Rightarrow> False | Some v \<Rightarrow> py_num v = Inr q)"

definition ablation_match :: "string \<Rightarrow> string \<Rightarrow> rat \<Rightarrow> obj \<Rightarrow> rat option py" where
  "ablation_match v w T p =
     (if map_of p ''variant'' = Some (JStr v) \<and> map_of p ''workload'' = Some (JStr w) \<and>
         same_number (map_of p ''threads'') T
      then peak p else Inr None)"

text \<open>The height of a bar is the value of the first match, or 0.\<close>

definition ablation_height :: "obj list \<Rightarrow> string \<Rightarrow> rat \<Rightarrow> string \<Rightarrow> rat py" where
  "ablation_height points w T v =
     py_bind (py_mapM (ablation_match v w T) points) (\<lambda>ms.
     Inr (case List.map_filter (\<lambda>m. m) ms of [] \<Rightarrow> 0 | y # _ \<Rightarrow> y))"

definition ablation_panel :: "obj list \<Rightarrow> string \<times> rat \<times> string \<Rightarrow> panel py" where
  "ablation_panel points = (\<lambda>(w, T, title).
     py_bind (py_mapM (ablation_height points w T) ablation_variants) (\<lambda>ys.
     Inr ((empty_panel title)
       \<lparr>pn_bars := [\<lparr>br_label = [], br_colors = ablation_colors, br_x = index_x ablation_variants 0, br_h = ys\<rparr>],
        pn_notes := map (\<lambda>(x, y). Height y x y) (filter (\<lambda>(x, y). y > 0) (zip (index_x ablation_variants 0) ys)),
        pn_ticks := index_ticks ablation_labels\<rparr>)))"

definition ablation_main :: "(string \<Rightarrow> json option) \<Rightarrow> string \<Rightarrow> (plots, unit) act" where
  "ablation_main loads here =
     act_bind (act_get texts) (\<lambda>fs.
     act_bind (act_lift (py_mapM (ablation_panel (load_jsonl loads fs (may2_dir here @ ''/cxl_ablation.jsonl'')))
       [(''c'', 16, ''YCSB C @ 16 threads''), (''c'', 32, ''YCSB C @ 32 threads'')])) (\<lambda>ps.
     savefig (figures_dir here) ''fig15a-cxl-ablation.pdf''
       \<lparr>fg_title = ''CXL Ablation: Cumulative Sherman-CXL -> CHIME-CXL on r650 Clemson 1 CN + 1 MN'', fg_panels = ps,
        fg_caption = []\<rparr>))"

section \<open>plot_cxl_ablation_full.py\<close>

definition variant_sel :: "string \<Rightarrow> obj \<Rightarrow> (rat \<times> rat) option py" where
  "variant_sel v p =
     (if map_of p ''variant'' \<noteq> Some (JStr v) then Inr None
      else py_bind (peak p) (\<lambda>m. case m of None \<Rightarrow> Inr None
        | Some m \<Rightarrow> py_bind (threads p) (\<lambda>t. Inr (Some (t, m)))))"

definition error_bar :: "(rat \<Rightarrow> rat) \<Rightarrow> rat list \<Rightarrow> rat" where
  "error_bar sqrt_f vs = (if length vs > 1 then stdev sqrt_f vs else 0)"

definition full_curve :: "(rat \<Rightarrow> rat) \<Rightarrow> obj list \<Rightarrow> string \<times> string \<times> string \<times> string \<Rightarrow> curve list py" where
  "full_curve sqrt_f points = (\<lambda>(v, label, color, marker).
     py_bind (group_by (variant_sel v) points) (\<lambda>grouped.
     if grouped = [] then Inr []
     else let g = curve_of (\<lambda>vs. vs) grouped in
       Inr [\<lparr>cv_label = label, cv_color = color, cv_marker = marker, cv_dash = (if v \<noteq> ''chime'' then ''-'' else ''--''),
             cv_xs = nums (map fst g), cv_ys = nums (map (\<lambda>(t, vs). mean vs) g),
             cv_err = map (\<lambda>(t, vs). (error_bar sqrt_f vs, error_bar sqrt_f vs)) g\<rparr>]))"

definition full_styles :: "(string \<times> string \<times> string \<times> string) list" where
  "full_styles = zip ablation_variants (zip ablation_labels (zip ablation_colors [''x'', ''o'', ''s'', ''^'', ''D'', ''*'']))"

definition full_panel ::
  "(rat \<Rightarrow> rat) \<Rightarrow> (string \<Rightarrow> json option) \<Rightarrow> (string \<times> string) list \<Rightarrow> string \<Rightarrow> string \<times> string \<Rightarrow> panel py" where
  "full_panel sqrt_f loads fs base = (\<lambda>(file, title).
     py_bind (py_mapM (full_curve sqrt_f (load_jsonl loads fs (base @ ''/'' @ file))) full_styles) (\<lambda>cs.
     Inr ((empty_panel title)\<lparr>pn_curves := concat cs\<rparr>)))"

definition ablation_full_main :: "(rat \<Rightarrow> rat) \<Rightarrow> (string \<Rightarrow> json option) \<Rightarrow> string \<Rightarrow> (plots, unit) act" where
  "ablation_full_main sqrt_f loads here =
     act_seq (mkdir (figures_dir here))
    (act_bind (act_get texts) (\<lambda>fs.
     act_bind (act_lift (py_mapM (full_panel sqrt_f loads fs (may2_24h_dir here))
       [(''p42_comprehensive_C.jsonl'', ''YCSB C (read-only)''), (''p43_comprehensive_D.jsonl'', ''YCSB D (95% R / 5% I)''),
        (''p44_comprehensive_E.jsonl'', ''YCSB E (range scan)'')])) (\<lambda>ps.
     savefig (figures_dir here) ''fig15a-cxl-ablation-full.pdf''
       \<lparr>fg_title = ''CXL fig_15a Ablation: Cumulative Sherman-CXL -> CHIME-CXL across thread counts (r650 Clemson, May 3, 2026)'',
        fg_panels = ps, fg_caption = []\<rparr>)))"

section \<open>The best run of a thread count\<close>

text \<open>A run: a measurement of a workload at a thread count with a positive throughput.\<close>

definition is_run :: "string \<Rightarrow> rat \<Rightarrow> rat \<Rightarrow> obj \<Rightarrow> bool" where
  "is_run w t v p \<longleftrightarrow> map_of p ''workload'' = Some (JStr w) \<and> same_number (map_of p ''threads'') t \<and>
     same_number (map_of p ''peak_mops'') v \<and> 0 < v"

lemma py_num_truthy: "py_num v = Inr q \<Longrightarrow> q \<noteq> 0 \<Longrightarrow> truthy v"
  by (cases v) (auto split: if_splits)

lemma threads_Inr: "threads p = Inr t \<longleftrightarrow> same_number (map_of p ''threads'') t"
  by (auto simp: number_field_def same_number_def dict_get_def split: option.splits sum.splits)

lemma peak_Inr: "peak p = Inr (Some v) \<longleftrightarrow> same_number (map_of p ''peak_mops'') v \<and> 0 < v"
  by (auto simp: peak_def positive_def same_number_def split: option.splits)

lemma truthy_peak_Inr: "truthy_peak p = Inr (Some v) \<longleftrightarrow> same_number (map_of p ''peak_mops'') v \<and> 0 < v"
  by (auto simp: truthy_peak_def positive_def same_number_def dest: py_num_truthy split: option.splits)

lemma opt_case_Inr:
  "(case x of None \<Rightarrow> Inr None | Some y \<Rightarrow> f y) = Inr (Some z) \<longleftrightarrow> (\<exists>y. x = Some y \<and> f y = Inr (Some z))"
  by (auto split: option.splits)

lemma str_field_Inr: "str_field k p = Inr s \<longleftrightarrow> map_of p k = Some (JStr s)"
  by (auto simp: str_field_def dict_get_def split: option.splits json.splits)

lemma series_sel_run: "series_sel w p = Inr (Some (t, v)) \<longleftrightarrow> is_run w t v p"
  by (auto simp: series_sel_def opt_case_Inr truthy_peak_Inr threads_Inr is_run_def)

lemma cxl_sel_run: "cxl_sel p = Inr (Some ((w, t), v)) \<longleftrightarrow> is_run w t v p"
  by (auto simp: cxl_sel_def opt_case_Inr peak_Inr threads_Inr str_field_Inr is_run_def)

text \<open>Over RDMA a measurement that names no workload is one of C.\<close>

definition is_rdma_run :: "string \<Rightarrow> rat \<Rightarrow> rat \<Rightarrow> obj \<Rightarrow> bool" where
  "is_rdma_run w t v p \<longleftrightarrow> is_run w t v (if map_of p ''workload'' = None then (''workload'', JStr ''c'') # p else p)"

lemma rdma_sel_run: "rdma_sel p = Inr (Some ((w, t), v)) \<longleftrightarrow> is_rdma_run w t v p"
  by (auto simp: rdma_sel_def opt_case_Inr peak_Inr threads_Inr str_field_Inr is_rdma_run_def is_run_def same_number_def)

definition run_values :: "(rat \<Rightarrow> obj \<Rightarrow> bool) \<Rightarrow> obj list \<Rightarrow> rat set" where
  "run_values R points = {v. \<exists>p \<in> set points. R v p}"

lemma best_chosen:
  assumes "\<And>v p. sel p = Inr (Some (k, v)) \<longleftrightarrow> R v p"
  shows "best (chosen sel k points) = Max (run_values R points)" and "chosen sel k points = [] \<longleftrightarrow> run_values R points = {}"
  using set_chosen[of sel k points] assms by (auto simp: best_def run_values_def simp flip: set_empty)

text \<open>
  C34: The series the comparison programs plot: the thread counts strictly increase, a thread count
  appears exactly when the workload has a successful run with it, and its value is the best of
  those runs.\<close>

theorem series_for_method_best:
  assumes "series_for_method points w = Inr s"
  shows "sorted_wrt (<) (map fst s) \<and>
    (\<forall>t y. (t, y) \<in> set s \<longleftrightarrow> run_values (is_run w t) points \<noteq> {} \<and> y = Max (run_values (is_run w t) points))"
proof -
  obtain d where d: "group_by (series_sel w) points = Inr d" and s: "s = curve_of best d"
    using assms by (auto simp: series_for_method_def)
  note g = group_by_groups(1)[OF d]
  show ?thesis
    unfolding s curve_of_mem[OF g] best_chosen[OF series_sel_run] using curve_of_sorted[OF g] by blast
qed

theorem series_for_method_best_witness:
  "(8, 3) \<in> set [(8 :: rat, 3 :: rat)] \<longleftrightarrow>
    run_values (is_run ''c'' 8) [manual_point, AList.update ''peak_mops'' (JNum 3) manual_point] \<noteq> {} \<and>
    3 = Max (run_values (is_run ''c'' 8) [manual_point, AList.update ''peak_mops'' (JNum 3) manual_point])"
proof -
  have "series_for_method [manual_point, AList.update ''peak_mops'' (JNum 3) manual_point] ''c'' = Inr [(8, 3)]"
    by code_simp
  from series_for_method_best[OF this] show ?thesis by blast
qed

section \<open>The speed-up bars\<close>

definition speedup :: "by_workload \<Rightarrow> string \<times> rat \<Rightarrow> rat list \<Rightarrow> rat option" where
  "speedup rdma k vals =
     (case map_of rdma k of None \<Rightarrow> None
      | Some rvals \<Rightarrow> if rvals \<noteq> [] \<and> best rvals > 0 then Some (best vals / best rvals) else None)"

lemma map_of_ratio_step:
  "map_of (ratio_step rdma w acc ((ww, u), vals)) t =
     (if ww = w \<and> u = t then (case speedup rdma (w, t) vals of None \<Rightarrow> map_of acc t | Some r \<Rightarrow> Some r) else map_of acc t)"
  by (simp add: ratio_step_def speedup_def update_conv split: option.split)

lemma ratio_fold:
  assumes "distinct (map fst cxl)"
  shows "map_of (foldl (ratio_step rdma w) acc cxl) t =
    (case Option.bind (map_of cxl (w, t)) (speedup rdma (w, t)) of None \<Rightarrow> map_of acc t | Some r \<Rightarrow> Some r)"
  using assms
proof (induction cxl arbitrary: acc)
  case (Cons x cxl)
  obtain ww u vs where x: "x = ((ww, u), vs)" by (metis prod.collapse)
  have IH: "map_of (foldl (ratio_step rdma w) (ratio_step rdma w acc x) cxl) t =
      (case Option.bind (map_of cxl (w, t)) (speedup rdma (w, t)) of None \<Rightarrow> map_of (ratio_step rdma w acc x) t | Some r \<Rightarrow> Some r)"
    using Cons by simp
  show ?case
  proof (cases "(ww, u) = (w, t)")
    case True
    with Cons.prems x have "map_of cxl (w, t) = None" by (simp add: map_of_eq_None_iff)
    with True IH x show ?thesis by (simp add: map_of_ratio_step)
  next
    case False
    then have "map_of (ratio_step rdma w acc x) t = map_of acc t" by (auto simp: x map_of_ratio_step)
    with False IH x show ?thesis by (auto split: option.split)
  qed
qed simp

text \<open>
  C35: The speed-up picture has a bar for a workload and a thread count exactly when both transports have a
  successful run there, and its height is the best run over CXL divided by the best run over RDMA, a
  positive number.\<close>

theorem speedup_ratios:
  assumes "group_by rdma_sel rdma_points = Inr rdma" and "group_by cxl_sel cxl_points = Inr cxl"
  shows "map_of (ratios rdma cxl w) t =
    (let R = run_values (is_rdma_run w t) rdma_points; C = run_values (is_run w t) cxl_points in
     if R = {} \<or> C = {} then None else Some (Max C / Max R)) \<and>
    (\<forall>r. map_of (ratios rdma cxl w) t = Some r \<longrightarrow> 0 < r)"
proof -
  note gr = group_by_groups(1)[OF assms(1)] and gc = group_by_groups(1)[OF assms(2)]
  let ?r = "chosen rdma_sel (w, t) rdma_points" and ?c = "chosen cxl_sel (w, t) cxl_points"
  have pos: "v \<in> set ?r \<or> v \<in> set ?c \<Longrightarrow> 0 < v" for v
    by (auto simp: set_chosen rdma_sel_run cxl_sel_run is_rdma_run_def is_run_def)
  have m: "map_of (ratios rdma cxl w) t = (if ?r = [] \<or> ?c = [] then None else Some (best ?c / best ?r))"
    using gr gc best.agg_positive[of ?r] pos
    by (simp add: ratios_def ratio_fold groups_def speedup_def split: option.split)
  have "?r \<noteq> [] \<Longrightarrow> ?c \<noteq> [] \<Longrightarrow> 0 < best ?c / best ?r"
    using best.agg_positive[of ?r] best.agg_positive[of ?c] pos by simp
  with m show ?thesis
    by (simp add: Let_def best_chosen[OF rdma_sel_run] best_chosen[OF cxl_sel_run])
qed

theorem speedup_ratios_witness:
  "map_of (ratios [((''c'', 8), [112 / 100])] [((''c'', 8), [112 / 100])] ''c'') 8 =
    (let R = run_values (is_rdma_run ''c'' 8) [manual_point]; C = run_values (is_run ''c'' 8) [manual_point] in
     if R = {} \<or> C = {} then None else Some (Max C / Max R))"
proof -
  have "group_by rdma_sel [manual_point] = Inr [((''c'', 8), [112 / 100])]"
    and "group_by cxl_sel [manual_point] = Inr [((''c'', 8), [112 / 100])]" by code_simp+
  from speedup_ratios[OF this] show ?thesis by blast
qed

end
