(* ===== verification/Doc_Plots.thy ===== *)
theory Doc_Plots
  imports Result_Plots
begin

text \<open>
  The two plot programs that read whole JSON documents, \<^verbatim>\<open>plot_fig_12_repro.py\<close> and
  \<^verbatim>\<open>plot_fig_12_three_way.py\<close>, after \<^verbatim>\<open>argparse\<close>.  An output path is a directory and a name; the dash and the
  micro sign of their labels are left out, and so are the legends.
\<close>

section \<open>plot_fig_12_repro.py\<close>

definition WORKLOAD_LABELS :: "(string \<times> string) list" where
  "WORKLOAD_LABELS = [(''c'', ''YCSB C''), (''d'', ''YCSB D''), (''e'', ''YCSB E''), (''a'', ''YCSB A''), (''b'', ''YCSB B''),
     (''load'', ''YCSB LOAD'')]"

definition METHOD_STYLES :: "(string \<times> string \<times> string) list" where
  "METHOD_STYLES = [(''CHIME'', ''o'', ''#1f77b4''), (''SMART'', ''s'', ''#ff7f0e''), (''Sherman'', ''^'', ''#2ca02c''),
     (''ROLEX'', ''v'', ''#d62728''), (''SMART-SC'', ''d'', ''#9467bd''), (''SMART-Opt'', ''d'', ''#9467bd'')]"

definition read_doc :: "(string \<Rightarrow> json option) \<Rightarrow> (string \<times> string) list \<Rightarrow> string \<Rightarrow> json py" where
  "read_doc loads fs path =
     (case map_of fs path of None \<Rightarrow> Inl (FileNotFoundError path)
      | Some t \<Rightarrow> (case loads t of None \<Rightarrow> Inl JSONDecodeError | Some j \<Rightarrow> Inr j))"

definition listed_methods :: "obj \<Rightarrow> string list py" where
  "listed_methods data =
     (case map_of data ''methods'' of None \<Rightarrow> Inr []
      | Some (JList l) \<Rightarrow> py_mapM (\<lambda>m. case m of JStr s \<Rightarrow> Inr s | _ \<Rightarrow> Inl IllTyped) l
      | Some _ \<Rightarrow> Inl IllTyped)"

text \<open>\<^verbatim>\<open>data.get(k, {}).get(m, [])\<close>.\<close>

definition method_data :: "obj \<Rightarrow> string \<Rightarrow> string \<Rightarrow> json list py" where
  "method_data data k m =
     py_bind (as_object (case map_of data k of None \<Rightarrow> JDict [] | Some v \<Rightarrow> v)) (\<lambda>d.
     case map_of d m of None \<Rightarrow> Inr [] | Some (JList l) \<Rightarrow> Inr l | Some _ \<Rightarrow> Inl IllTyped)"

definition repro_step :: "obj \<Rightarrow> (string \<times> json list \<times> json list) list \<Rightarrow> string \<Rightarrow> (string \<times> json list \<times> json list) list py" where
  "repro_step data out m =
     py_bind (method_data data ''X_data'' m) (\<lambda>x. py_bind (method_data data ''Y_data'' m) (\<lambda>y.
     Inr (AList.update m (x, y) out)))"

definition repro_load_series ::
  "(string \<Rightarrow> json option) \<Rightarrow> (string \<times> string) list \<Rightarrow> string \<Rightarrow> (string \<times> json list \<times> json list) list py" where
  "repro_load_series loads fs path =
     py_bind (read_doc loads fs path) (\<lambda>j. py_bind (as_object j) (\<lambda>data.
     py_bind (listed_methods data) (\<lambda>ms. py_foldM (repro_step data) [] ms)))"

definition repro_curve :: "string \<times> json list \<times> json list \<Rightarrow> curve" where
  "repro_curve = (\<lambda>(method, xs, ys).
     let (marker, color) = (case map_of METHOD_STYLES method of None \<Rightarrow> (''x'', ''gray'') | Some st \<Rightarrow> st) in
     \<lparr>cv_label = method, cv_color = color, cv_marker = marker, cv_dash = [], cv_xs = xs, cv_ys = ys, cv_err = []\<rparr>)"

text \<open>\<^verbatim>\<open>workloads.index(wk)\<close> of a workload in the list.\<close>

definition letter_of :: "string list \<Rightarrow> string \<Rightarrow> char" where
  "letter_of workloads wk = char_of (97 + length (takeWhile (\<lambda>w. w \<noteq> wk) workloads))"

definition repro_panel ::
  "(string \<Rightarrow> json option) \<Rightarrow> (string \<times> string) list \<Rightarrow> string list \<Rightarrow> string \<times> string \<Rightarrow> panel py" where
  "repro_panel loads fs workloads = (\<lambda>(wk, inp).
     py_bind (repro_load_series loads fs inp) (\<lambda>series.
     py_bind (dict_get WORKLOAD_LABELS wk) (\<lambda>label.
     Inr ((empty_panel (''('' @ [letter_of workloads wk] @ '') '' @ label))\<lparr>pn_curves := map repro_curve series\<rparr>))))"

definition repro_render :: "(string \<Rightarrow> json option) \<Rightarrow> string list \<Rightarrow> string list \<Rightarrow> string \<Rightarrow> string \<Rightarrow> (plots, unit) act" where
  "repro_render loads workloads inputs dir name =
     act_bind (act_get texts) (\<lambda>fs.
     act_bind (act_lift (py_mapM (repro_panel loads fs workloads) (zip workloads inputs))) (\<lambda>ps.
     act_seq (mkdir dir)
     (savefig dir name \<lparr>fg_title = [], fg_panels = ps, fg_caption = []\<rparr>)))"

definition repro_main :: "(string \<Rightarrow> json option) \<Rightarrow> string list \<Rightarrow> string list \<Rightarrow> string \<Rightarrow> string \<Rightarrow> (plots, unit) act" where
  "repro_main loads workloads inputs dir name =
     (if length workloads \<noteq> length inputs then act_raise (SystemExit 1)
      else repro_render loads workloads inputs dir name)"

section \<open>plot_fig_12_three_way.py\<close>

text \<open>The elements of a value that is iterated over.\<close>

fun tuple_of :: "json \<Rightarrow> json list py" where
  "tuple_of (JList l) = Inr l"
| "tuple_of (JStr s) = Inr (map (\<lambda>c. JStr [c]) s)"
| "tuple_of (JDict d) = Inr (map (\<lambda>(k, v). JStr k) d)"
| "tuple_of _ = Inl TypeError"

type_synonym point_series = "(string \<times> json list list) list"

definition three_way_step :: "point_series \<Rightarrow> string \<times> json \<Rightarrow> point_series py" where
  "three_way_step series = (\<lambda>(method, payload).
     case payload of
       JDict d \<Rightarrow>
         (case (map_of d ''tpt'', map_of d ''lat'') of
            (Some tpts, Some lats) \<Rightarrow>
              py_bind (tuple_of tpts) (\<lambda>ts. py_bind (tuple_of lats) (\<lambda>ls.
              Inr (AList.update method (map (\<lambda>(t, l). [t, l]) (zip ts ls)) series)))
          | _ \<Rightarrow> Inr series)
     | JList l \<Rightarrow> py_bind (py_mapM tuple_of l) (\<lambda>ps. Inr (AList.update method ps series))
     | _ \<Rightarrow> Inr series)"

definition three_way_load_series ::
  "(string \<Rightarrow> json option) \<Rightarrow> (string \<times> string) list \<Rightarrow> string \<Rightarrow> point_series py" where
  "three_way_load_series loads fs path =
     (if map_of fs path = None then Inr []
      else py_bind (read_doc loads fs path) (\<lambda>j. py_bind (as_object j) (\<lambda>data.
        py_foldM three_way_step [] data)))"

definition three_way_curve :: "string \<times> string \<times> string \<Rightarrow> string \<times> json list list \<Rightarrow> curve list py" where
  "three_way_curve = (\<lambda>(dash, marker, suffix) (method, points).
     if points = [] then Inr []
     else py_bind (py_mapM (\<lambda>p. py_index p 0) points) (\<lambda>xs. py_bind (py_mapM (\<lambda>p. py_index p 1) points) (\<lambda>ys.
       Inr [\<lparr>cv_label = method @ suffix, cv_color = [], cv_marker = marker, cv_dash = dash, cv_xs = xs, cv_ys = ys,
             cv_err = []\<rparr>])))"

definition upper :: "string \<Rightarrow> string" where
  "upper s = map (\<lambda>c. if 97 \<le> code c \<and> code c \<le> 122 then char_of (code c - 32) else c) s"

definition three_way_caption :: "string \<Rightarrow> int option \<Rightarrow> string option \<Rightarrow> string" where
  "three_way_caption workload cn_count date =
     py_join '' | '' ([''YCSB '' @ upper workload] @
       (case cn_count of None \<Rightarrow> [] | Some n \<Rightarrow> [''multi-node: '' @ show_int n @ '' CN'']) @
       (case date of None \<Rightarrow> [] | Some d \<Rightarrow> [''Part One runs: '' @ d]))"

definition three_way_styles :: "(string \<times> string \<times> string) list" where
  "three_way_styles = [(''-'', ''o'', '' (multi-node RDMA)''), (''--'', ''s'', '' (1-node RDMA)''), (''-.'', ''^'', '' (CXL)'')]"

definition three_way_render ::
  "string \<Rightarrow> point_series list \<Rightarrow> string \<Rightarrow> string \<Rightarrow> int option \<Rightarrow> string option \<Rightarrow> (plots, unit) act" where
  "three_way_render workload series dir name cn_count date =
     act_bind (act_lift (py_mapM (\<lambda>(s, st). py_mapM (three_way_curve st) s) (zip series three_way_styles))) (\<lambda>cs.
     act_seq (mkdir dir)
     (savefig dir name \<lparr>fg_title = [], fg_panels =
       [(empty_panel (''YCSB '' @ upper workload @ '' transport comparison''))\<lparr>pn_curves := concat (concat cs)\<rparr>],
        fg_caption = three_way_caption workload cn_count date\<rparr>))"

record three_way_args =
  tw_workload :: string
  tw_multi_node :: string
  tw_single_node_rdma :: string
  tw_cxl :: string
  tw_output :: "string \<times> string"
  tw_cn_count :: "int option"
  tw_date :: "string option"

definition three_way_main :: "(string \<Rightarrow> json option) \<Rightarrow> three_way_args \<Rightarrow> (plots, int) act" where
  "three_way_main loads a =
     act_bind (act_get texts) (\<lambda>fs.
     act_bind (act_lift (three_way_load_series loads fs (tw_multi_node a))) (\<lambda>multi.
     act_bind (act_lift (three_way_load_series loads fs (tw_single_node_rdma a))) (\<lambda>single.
     act_bind (act_lift (three_way_load_series loads fs (tw_cxl a))) (\<lambda>cxl.
     if multi = [] \<and> single = [] \<and> cxl = [] then act_return 1
     else act_seq (three_way_render (tw_workload a) [multi, single, cxl] (fst (tw_output a)) (snd (tw_output a))
        (tw_cn_count a) (tw_date a)) (act_return 0)))))"

section \<open>The result files of figure 12\<close>

lemma method_data_plot:
  assumes "map_of data k = Some (jseries X)"
  shows "method_data data k m = Inr (case map_of X m of None \<Rightarrow> [] | Some l \<Rightarrow> l)"
  using assms
  by (simp add: method_data_def jseries_def as_object_def map_of_map_restrict map_of_map split: option.split)

lemma listed_strs: "py_mapM (\<lambda>m. case m of JStr s \<Rightarrow> Inr s | _ \<Rightarrow> Inl IllTyped) (map JStr ms) = Inr ms"
  by (induction ms) simp_all

lemma update_new: "m \<notin> fst ` set out \<Longrightarrow> AList.update m v out = out @ [(m, v)]"
  by (induction out) auto

lemma repro_steps:
  assumes "\<And>m. method_data data ''X_data'' m = Inr (x m)" and "\<And>m. method_data data ''Y_data'' m = Inr (y m)"
    and "distinct (map fst out @ ms)"
  shows "py_foldM (repro_step data) out ms = Inr (out @ map (\<lambda>m. (m, x m, y m)) ms)"
  using assms(3)
proof (induction ms arbitrary: out)
  case (Cons m ms)
  then show ?case by (simp add: repro_step_def assms(1,2) update_new)
qed simp

lemma repro_reads_plot:
  assumes "map_of fs path = Some t" and "loads t = Some (plot_12 ms X Y B)" and "distinct ms"
  shows "repro_load_series loads fs path =
    Inr (map (\<lambda>m. (m, (case map_of X m of None \<Rightarrow> [] | Some l \<Rightarrow> l), (case map_of Y m of None \<Rightarrow> [] | Some l \<Rightarrow> l))) ms)"
proof -
  let ?d = "[(''methods'', jstrs ms), (''X_data'', jseries X), (''Y_data'', jseries Y), (''BACKUP_data'', jseries B)]"
  have "py_foldM (repro_step ?d) [] ms =
      Inr (map (\<lambda>m. (m, (case map_of X m of None \<Rightarrow> [] | Some l \<Rightarrow> l), (case map_of Y m of None \<Rightarrow> [] | Some l \<Rightarrow> l))) ms)"
    using repro_steps[of ?d, OF method_data_plot method_data_plot] assms(3) by simp
  with assms(1,2) show ?thesis
    by (simp add: repro_load_series_def read_doc_def plot_12_def as_object_def listed_methods_def jstrs_def listed_strs)
qed

text \<open>
  C31: \<^verbatim>\<open>plot_fig_12_repro.py\<close> reads back what \<^verbatim>\<open>fig_12.py\<close> wrote: after a workload ended, the series of the
  result file are one curve per method of the workload, in the order of the methods, with as many
  throughputs and P99 latencies as the method has client configurations.\<close>

theorem repro_reads_fig_12:
  assumes "fig_12_workload fuel C P target_epochs clients (workload, wl) s = (Inr (), s')"
    and "distinct (exp_methods P)"
    and "map_of fs path = Some t" and "loads t = map_of (saved s') (fig_12_file wl)"
  shows "\<exists>X Y B series. map_of (saved s') (fig_12_file wl) = Some (plot_12 (fig_12_methods P wl) X Y B) \<and>
    repro_load_series loads fs path = Inr series \<and> map fst series = fig_12_methods P wl \<and>
    list_all (\<lambda>(m, xs, ys). map_of X m = Some xs \<and> map_of Y m = Some ys \<and>
      length xs = length (clients_of clients workload m) \<and> length ys = length (clients_of clients workload m)) series"
proof -
  let ?ms = "fig_12_methods P wl"
  have d: "distinct ?ms" using assms(2) by (simp add: fig_12_methods_def)
  obtain X Y B where f: "map_of (saved s') (fig_12_file wl) = Some (plot_12 ?ms X Y B)"
    "full_series X ?ms (\<lambda>m. length (clients_of clients workload m))"
    "full_series Y ?ms (\<lambda>m. length (clients_of clients workload m))"
    by (rule fig_12_workload_ok[OF assms(1) refl d])
  have r: "repro_load_series loads fs path =
      Inr (map (\<lambda>m. (m, (case map_of X m of None \<Rightarrow> [] | Some l \<Rightarrow> l), (case map_of Y m of None \<Rightarrow> [] | Some l \<Rightarrow> l))) ?ms)"
    using assms(3,4) f(1) d by (intro repro_reads_plot) simp_all
  show ?thesis
    by (intro exI conjI, rule f(1), rule r)
      (use f(2,3) in \<open>auto simp: comp_def full_series_def list_all_iff split: option.splits\<close>)
qed

lemma tuple_strs: "py_mapM tuple_of (map JStr ms) = Inr (map (map (\<lambda>c. JStr [c])) ms)"
  by (induction ms) simp_all

lemma three_way_skip: "''tpt'' \<notin> fst ` set X \<Longrightarrow> three_way_step series (k, jseries X) = Inr series"
  by (simp add: three_way_step_def jseries_def map_of_map map_of_eq_None_iff[THEN iffD2] split: option.split)

lemma three_way_blind:
  assumes "map_of fs path = Some t" and "loads t = Some (plot_12 ms X Y B)"
    and "''tpt'' \<notin> fst ` set X" and "''tpt'' \<notin> fst ` set Y" and "''tpt'' \<notin> fst ` set B"
  shows "three_way_load_series loads fs path = Inr [(''methods'', map (map (\<lambda>c. JStr [c])) ms)]"
proof -
  have "three_way_step [] (''methods'', jstrs ms) = Inr [(''methods'', map (map (\<lambda>c. JStr [c])) ms)]"
    by (simp add: three_way_step_def jstrs_def tuple_strs)
  with assms show ?thesis
    by (simp add: three_way_load_series_def read_doc_def plot_12_def as_object_def three_way_skip)
qed

lemma letters: "list_all (\<lambda>m. i < length m) ms \<Longrightarrow>
   py_mapM (\<lambda>p. py_index p i) (map (map (\<lambda>c. JStr [c])) ms) = Inr (map (\<lambda>m. JStr [m ! i]) ms)"
  by (induction ms) (auto simp: py_index_def)

definition letter_curve :: "string list \<Rightarrow> curve" where
  "letter_curve ms =
     \<lparr>cv_label = ''methods (multi-node RDMA)'', cv_color = [], cv_marker = ''o'', cv_dash = ''-'',
      cv_xs = map (\<lambda>m. JStr [m ! 0]) ms, cv_ys = map (\<lambda>m. JStr [m ! 1]) ms, cv_err = []\<rparr>"

text \<open>
  C32: Given a result file of \<^verbatim>\<open>fig_12.py\<close>, as its usage text shows, \<^verbatim>\<open>plot_fig_12_three_way.py\<close> draws
  no measurement and still ends with success: its only curve is called after the key \<^verbatim>\<open>methods\<close> and has the
  first letters of the method names as throughputs and their second letters as latencies.\<close>

theorem three_way_draws_letters:
  assumes "map_of (texts s) (tw_multi_node a) = Some t" and "loads t = Some (plot_12 ms X Y B)"
    and "list_all (\<lambda>S. ''tpt'' \<notin> fst ` set S) [X, Y, B]" and "ms \<noteq> []" and "list_all (\<lambda>m. 1 < length m) ms"
    and "map_of (texts s) (tw_single_node_rdma a) = None" and "map_of (texts s) (tw_cxl a) = None"
  shows "\<exists>s' out fig. three_way_main loads a s = (Inr 0, s') \<and> figs s' = figs s @ [(out, fig)] \<and>
    concat (map pn_curves (fg_panels fig)) = [letter_curve ms]"
proof -
  let ?m = "[(''methods'', map (map (\<lambda>c. JStr [c])) ms)]"
  have multi: "three_way_load_series loads (texts s) (tw_multi_node a) = Inr ?m"
    by (rule three_way_blind[where loads = loads, OF assms(1,2)]) (use assms(3) in simp_all)
  have rest: "three_way_load_series loads (texts s) (tw_single_node_rdma a) = Inr []"
    "three_way_load_series loads (texts s) (tw_cxl a) = Inr []"
    using assms(6,7) by (simp_all add: three_way_load_series_def)
  have first: "list_all (\<lambda>m. 0 < length m) ms" using assms(5) by (auto simp: list_all_iff)
  have curve: "three_way_curve (''-'', ''o'', '' (multi-node RDMA)'') (''methods'', map (map (\<lambda>c. JStr [c])) ms) = Inr [letter_curve ms]"
    using assms(4) letters[OF first] letters[OF assms(5)] by (simp add: three_way_curve_def letter_curve_def)
  show ?thesis
    by (simp add: three_way_main_def act_bind_def act_seq_def act_defs multi rest three_way_render_def
        three_way_styles_def curve mkdir_def savefig_def empty_panel_def)
qed

section \<open>Examples\<close>

definition sample_fig_12 :: "unit py \<times> fig_state" where
  "sample_fig_12 = fig_12_workload 1 sample_options (sample_exp [''SMART'']) [(''W'', 1)]
     [(''W'', [(''SMART'', [(1, 1)])])] (''W'', ''c'') (sample_lat_state (sample_avg_out ''joined.''))"

theorem repro_reads_fig_12_witness:
  "\<exists>X Y B series.
    map_of (saved (snd sample_fig_12)) (fig_12_file ''c'') = Some (plot_12 (fig_12_methods (sample_exp [''SMART'']) ''c'') X Y B) \<and>
    repro_load_series (\<lambda>_. map_of (saved (snd sample_fig_12)) (fig_12_file ''c'')) [(''f'', ''t'')] ''f'' = Inr series \<and>
    map fst series = fig_12_methods (sample_exp [''SMART'']) ''c'' \<and>
    list_all (\<lambda>(m, xs, ys). map_of X m = Some xs \<and> map_of Y m = Some ys \<and>
      length xs = length (clients_of [(''W'', [(''SMART'', [(1, 1)])])] ''W'' m) \<and>
      length ys = length (clients_of [(''W'', [(''SMART'', [(1, 1)])])] ''W'' m)) series"
proof (rule repro_reads_fig_12)
  have "fst sample_fig_12 = Inr ()" by code_simp
  then show "fig_12_workload 1 sample_options (sample_exp [''SMART'']) [(''W'', 1)]
      [(''W'', [(''SMART'', [(1, 1)])])] (''W'', ''c'') (sample_lat_state (sample_avg_out ''joined.'')) =
    (Inr (), snd sample_fig_12)"
    unfolding sample_fig_12_def by (rule returns_pair)
  show "distinct (exp_methods (sample_exp [''SMART'']))" by (simp add: sample_exp_def)
  show "map_of [(''f'', ''t'')] ''f'' = Some ''t''" by simp
  show "map_of (saved (snd sample_fig_12)) (fig_12_file ''c'') = map_of (saved (snd sample_fig_12)) (fig_12_file ''c'')" ..
qed

definition sample_three_way :: three_way_args where
  "sample_three_way = \<lparr>tw_workload = ''c'', tw_multi_node = ''m'', tw_single_node_rdma = ''s'', tw_cxl = ''x'',
     tw_output = (''d'', ''o.pdf''), tw_cn_count = None, tw_date = None\<rparr>"

theorem three_way_draws_letters_witness:
  "\<exists>s' out fig. three_way_main (\<lambda>_. Some (plot_12 [''CHIME'', ''SMART''] [] [] [])) sample_three_way
      \<lparr>texts = [(''m'', ''t'')], dirs = [], figs = []\<rparr> = (Inr 0, s') \<and>
    figs s' = figs \<lparr>texts = [(''m'', ''t'')], dirs = [], figs = []\<rparr> @ [(out, fig)] \<and>
    concat (map pn_curves (fg_panels fig)) = [letter_curve [''CHIME'', ''SMART'']]"
  by (rule three_way_draws_letters[where X = "[]" and Y = "[]" and B = "[]" and t = "''t''"])
    (simp_all add: sample_three_way_def)

end
