(* ===== verification/Draw_Styles.thy ===== *)
theory Draw_Styles
  imports Fig_Common
begin

text \<open>
  The default attributes of the two drawers, \<^verbatim>\<open>LineDrawer\<close> of \<^verbatim>\<open>exp/utils/pic_line_drawer.py\<close> and
  \<^verbatim>\<open>BarDrawer\<close> of \<^verbatim>\<open>exp/utils/pic_bar_drawer.py\<close>.  An attribute is a JSON value, because a style file may set
  it; a tuple is a list.
\<close>

section \<open>pic_line_drawer.py\<close>

definition line_lineStyleDict :: "(string \<times> json) list" where
  "line_lineStyleDict = [
     (''CHIME'', JList [JNum 0, JList []]), (''SMART'', JList [JNum 0, JList []]),
     (''Sherman'', JList [JNum 0, JList []]), (''ROLEX'', JList [JNum 0, JList []]),
     (''SMART-SC'', JList [JNum 0, JList [JNum 5, JNum 3]]), (''Sherman (8-span)'', JList [JNum 0, JList []]),
     (''Sherman (16-span)'', JList [JNum 0, JList []]), (''Sherman (64-span)'', JList [JNum 0, JList []]),
     (''CHIME-indirect'', JList [JNum 0, JList []]), (''SMART-RCU'', JList [JNum 0, JList []]),
     (''Marlin'', JList [JNum 0, JList []]), (''ROLEX-indirect'', JList [JNum 0, JList []]),
     (''SMART-RCU-SC'', JList [JNum 0, JList [JNum 5, JNum 3]]), (''Associativity'', JList [JNum 0, JList []]),
     (''RACE'', JList [JNum 0, JList []]), (''Hopscotch'', JList [JNum 0, JList []]),
     (''FaRM'', JList [JNum 0, JList []]), (''optimistic lock'', JList [JNum 0, JList [JNum 5, JNum 3]]),
     (''pessimistic lock'', JList [JNum 0, JList [JNum 5, JNum 3]]),
     (''optimistic lock + RDWC'', JList [JNum 0, JList []]), (''pessimistic lock + RDWC'', JList [JNum 0, JList []]),
     (''Segment'', JList [JNum 0, JList []]), (''Metadata before Segment'', JList [JNum 0, JList [JNum 5, JNum 3]]),
     (''Node with Metadata'', JList [JNum 0, JList []]), (''Segment with Metadata'', JList [JNum 0, JList []]),
     (''Segment and Metadata (2-I/O)'', JList [JNum 0, JList [JNum 5, JNum 3]]),
     (''Neighborhood (1-entry)'', JList [JNum 0, JList []]), (''Neighborhood (2-entry)'', JList [JNum 0, JList []]),
     (''Neighborhood (4-entry)'', JList [JNum 0, JList []]), (''Neighborhood (8-entry)'', JList [JNum 0, JList []]),
     (''CHIME w/ Sibling-Based Validation'', JList [JNum 0, JList []]),
     (''CHIME w/o Sibling-Based Validation'', JList [JNum 0, JList []]),
     (''CHIME w/ Speculative Leaf Read'', JList [JNum 0, JList []]),
     (''CHIME w/o Speculative Leaf Read'', JList [JNum 0, JList []]),
     (''Sherman +Speculative Leaf Read'', JList [JNum 0, JList []]), (''Throughput'', JList [JNum 0, JList []]),
     (''P99 Latency'', JList [JNum 0, JList []]), (''Cache Efficiency'', JList [JNum 0, JList []]),
     (''Load Factor'', JList [JNum 0, JList []]), (''Buffer Hit Ratio'', JList [JNum 0, JList []]),
     (''Improvement Ratio'', JList [JNum 0, JList [JNum 5, JNum 3]]), (''RDMA_READ'', JList [JNum 0, JList []]),
     (''RDMA_WRITE'', JList [JNum 0, JList []]), (''RDMA_CAS'', JList [JNum 0, JList []])]"

definition line_lineColorDict :: "(string \<times> json) list" where
  "line_lineColorDict = [
     (''CHIME'', JStr ''#933fd3''), (''SMART'', JStr ''#75a35b''), (''Sherman'', JStr ''#4575B5''),
     (''ROLEX'', JStr ''#d5116d''), (''SMART-SC'', JStr ''#75a35b''), (''Sherman (8-span)'', JStr ''#4575B5''),
     (''Sherman (16-span)'', JStr ''#4575B5''), (''Sherman (64-span)'', JStr ''#4575B5''),
     (''CHIME-indirect'', JStr ''#933fd3''), (''SMART-RCU'', JStr ''#75a35b''), (''Marlin'', JStr ''#4575B5''),
     (''ROLEX-indirect'', JStr ''#d5116d''), (''SMART-RCU-SC'', JStr ''#75a35b''),
     (''Associativity'', JStr ''#ad261e''), (''RACE'', JStr ''#d5116d''), (''Hopscotch'', JStr ''#933fd3''),
     (''FaRM'', JStr ''#4575B5''), (''optimistic lock'', JStr ''#933fd3''), (''pessimistic lock'', JStr ''#ad261e''),
     (''optimistic lock + RDWC'', JStr ''#933fd3''), (''pessimistic lock + RDWC'', JStr ''#ad261e''),
     (''Segment'', JStr ''#933fd3''), (''Metadata before Segment'', JStr ''#4575B5''),
     (''Node with Metadata'', JStr ''#ad261e''), (''Segment with Metadata'', JStr ''#4575B5''),
     (''Segment and Metadata (2-I/O)'', JStr ''#4575B5''), (''Neighborhood (1-entry)'', JStr ''#933fd3''),
     (''Neighborhood (2-entry)'', JStr ''#4575B5''), (''Neighborhood (4-entry)'', JStr ''#4575B5''),
     (''Neighborhood (8-entry)'', JStr ''#4575B5''), (''CHIME w/ Sibling-Based Validation'', JStr ''#933fd3''),
     (''CHIME w/o Sibling-Based Validation'', JStr ''#4575B5''),
     (''CHIME w/ Speculative Leaf Read'', JStr ''#933fd3''), (''CHIME w/o Speculative Leaf Read'', JStr ''#4575B5''),
     (''Sherman +Speculative Leaf Read'', JStr ''#4575B5''), (''Throughput'', JStr ''#933fd3''),
     (''P99 Latency'', JStr ''#ad261e''), (''Cache Efficiency'', JStr ''#4575B5''),
     (''Load Factor'', JStr ''#ad261e''), (''Buffer Hit Ratio'', JStr ''#ad261e''),
     (''Improvement Ratio'', JStr ''#ad261e''), (''RDMA_READ'', JStr ''#ad261e''),
     (''RDMA_WRITE'', JStr ''#ad261e''), (''RDMA_CAS'', JStr ''#75a35b'')]"

definition line_lineMarkerDict :: "(string \<times> json) list" where
  "line_lineMarkerDict = [
     (''CHIME'', JStr ''d''), (''SMART'', JStr ''s''), (''Sherman'', JStr ''v''), (''ROLEX'', JStr ''o''),
     (''SMART-SC'', JStr []), (''Sherman (8-span)'', JStr ''x''), (''Sherman (16-span)'', JStr ''+''),
     (''Sherman (64-span)'', JStr ''v''), (''CHIME-indirect'', JStr ''d''), (''SMART-RCU'', JStr ''s''),
     (''Marlin'', JStr ''v''), (''ROLEX-indirect'', JStr ''o''), (''SMART-RCU-SC'', JStr []),
     (''Associativity'', JStr ''x''), (''RACE'', JStr ''o''), (''Hopscotch'', JStr ''^''), (''FaRM'', JStr ''+''),
     (''optimistic lock'', JStr ''^''), (''pessimistic lock'', JStr ''x''), (''optimistic lock + RDWC'', JStr ''^''),
     (''pessimistic lock + RDWC'', JStr ''x''), (''Segment'', JStr ''^''), (''Metadata before Segment'', JStr ''+''),
     (''Node with Metadata'', JStr ''x''), (''Segment with Metadata'', JStr ''o''),
     (''Segment and Metadata (2-I/O)'', JStr ''+''), (''Neighborhood (1-entry)'', JStr ''^''),
     (''Neighborhood (2-entry)'', JStr ''x''), (''Neighborhood (4-entry)'', JStr ''+''),
     (''Neighborhood (8-entry)'', JStr ''o''), (''CHIME w/ Sibling-Based Validation'', JStr ''d''),
     (''CHIME w/o Sibling-Based Validation'', JStr ''x''), (''CHIME w/ Speculative Leaf Read'', JStr ''d''),
     (''CHIME w/o Speculative Leaf Read'', JStr ''x''), (''Sherman +Speculative Leaf Read'', JStr ''o''),
     (''Throughput'', JStr ''d''), (''P99 Latency'', JStr ''^''), (''Cache Efficiency'', JStr ''+''),
     (''Load Factor'', JStr ''^''), (''Buffer Hit Ratio'', JStr ''o''), (''Improvement Ratio'', JStr ''^''),
     (''RDMA_READ'', JStr ''x''), (''RDMA_WRITE'', JStr ''x''), (''RDMA_CAS'', JStr ''^'')]"

definition line_zorderDict :: "(string \<times> json) list" where
  "line_zorderDict = [
     (''CHIME'', JNum 1350), (''SMART'', JNum 1250), (''Sherman'', JNum 1150), (''ROLEX'', JNum 1050),
     (''SMART-SC'', JNum 900), (''Sherman (8-span)'', JNum 1300), (''Sherman (16-span)'', JNum 1300),
     (''Sherman (64-span)'', JNum 1300), (''CHIME-indirect'', JNum 1350), (''SMART-RCU'', JNum 1250),
     (''Marlin'', JNum 1150), (''ROLEX-indirect'', JNum 1050), (''SMART-RCU-SC'', JNum 900),
     (''Associativity'', JNum 1100), (''RACE'', JNum 1200), (''Hopscotch'', JNum 1350), (''FaRM'', JNum 1300),
     (''optimistic lock'', JNum 1300), (''pessimistic lock'', JNum 1200), (''optimistic lock + RDWC'', JNum 1100),
     (''pessimistic lock + RDWC'', JNum 1000), (''Segment'', JNum 1350), (''Metadata before Segment'', JNum 1300),
     (''Node with Metadata'', JNum 1100), (''Segment with Metadata'', JNum 1320),
     (''Segment and Metadata (2-I/O)'', JNum 1330), (''Neighborhood (1-entry)'', JNum 1050),
     (''Neighborhood (2-entry)'', JNum 1150), (''Neighborhood (4-entry)'', JNum 1250),
     (''Neighborhood (8-entry)'', JNum 1350), (''CHIME w/ Sibling-Based Validation'', JNum 1200),
     (''CHIME w/o Sibling-Based Validation'', JNum 1100), (''CHIME w/ Speculative Leaf Read'', JNum 1200),
     (''CHIME w/o Speculative Leaf Read'', JNum 1100), (''Sherman +Speculative Leaf Read'', JNum 1100),
     (''Throughput'', JNum 1000), (''P99 Latency'', JNum 1000), (''Cache Efficiency'', JNum 1000),
     (''Load Factor'', JNum 1000), (''Improvement Ratio'', JNum 2000), (''RDMA_READ'', JNum 1000),
     (''RDMA_WRITE'', JNum 1000), (''RDMA_CAS'', JNum 1100)]"

definition line_defaults :: "(string \<times> json) list" where
  "line_defaults = [
     (''lineStyleDict'', JDict line_lineStyleDict), (''lineColorDict'', JDict line_lineColorDict),
     (''lineMarkerDict'', JDict line_lineMarkerDict), (''zorderDict'', JDict line_zorderDict),
     (''figsize'', JList [JNum 4, JNum (5 / 2)]), (''font_size'', JNum 15), (''legend_size'', JNum 15),
     (''tick_size'', JNum 14), (''linewidth'', JNum (4 / 5)), (''markersize'', JNum 6),
     (''grid_type'', JDict [(''axis'', JStr ''y''), (''lw'', JNum (3 / 10))]), (''y_major_num'', JNum 0),
     (''x_major_num'', JNum 0), (''grid_minor'', JBool False), (''hide_half_edge'', JBool False),
     (''hide_ylabel'', JBool False), (''hide_yRlabel'', JBool False), (''clip_on'', JBool True),
     (''legend_location'', JStr []), (''legend_anchor'', JList []), (''legendL_anchor'', JList []),
     (''legendR_anchor'', JList []), (''legend_ncol'', JNum 1), (''method_legend'', JDict []),
     (''x_ticklabel'', JBool False), (''y_lim'', JList []), (''x_lim'', JList []), (''ylim'', JList []),
     (''xlim'', JList []), (''yL_lim'', JList []), (''yR_lim'', JList []), (''x_tick'', JList []),
     (''y_tick'', JList []), (''yL_tick'', JList []), (''yR_tick'', JList []), (''yscale'', JStr []),
     (''yfloat'', JBool False), (''x_label'', JStr []), (''y_label'', JStr []), (''yL_label'', JStr []),
     (''yR_label'', JStr []), (''y_multiple'', JNum 1), (''aux_plt_func'', JNull), (''annotation_func'', JNull),
     (''dotted_methods'', JList []), (''shadow'', JDict []), (''method_ax'', JDict [])]"

section \<open>pic_bar_drawer.py\<close>

definition bar_barHatchDict :: "(string \<times> json) list" where
  "bar_barHatchDict = [
     (''Throughput'', JStr ''/''), (''Invalid Ratio'', JStr [CHR 0x5C]), (''Delegated Ratio'', JStr [CHR 0x5C]),
     (''Combined Ratio'', JStr [CHR 0x5C]), (''P99 Latency'', JStr [CHR 0x5C]), (''Lock-fail'', JStr ''x''),
     (''CHIME'', JStr ''|||''), (''SMART'', JStr []), (''Sherman'', JStr [CHR 0x5C, CHR 0x5C]),
     (''ROLEX'', JStr ''///''), (''CHIME-indirect'', JStr ''--''), (''SMART-RCU'', JStr []),
     (''Marlin'', JStr [CHR 0x5C, CHR 0x5C]), (''ROLEX-indirect'', JStr ''///''), (''RDMA READ'', JStr []),
     (''Hopscotch'', JStr []), (''Baseline (Sherman)'', JStr [CHR 0x5C, CHR 0x5C]),
     (''Baseline (ROLEX)'', JStr ''///''), (''+Hopscotch Leaf Node'', JStr ''|||''),
     (''+Vacancy-Aware Lock'', JStr ''--''), (''+Metadata Replication'', JStr ''+++''),
     (''+Sibling-Based Validation'', JStr ''xx''), (''+Speculative Leaf Read'', JStr []),
     (''+Speculative Leaf Read (CHIME)'', JStr []), (''Coarse-Grained Mode'', JStr [CHR 0x5C, CHR 0x5C]),
     (''Fine-Grained Mode'', JStr []), (''+Greedy Range Query'', JStr ''x'')]"

definition bar_barColorDict :: "(string \<times> json) list" where
  "bar_barColorDict = [
     (''Throughput'', JStr ''#F8CECC''), (''Invalid Ratio'', JStr ''#DAE8FC''),
     (''Delegated Ratio'', JStr ''#DAE8FC''), (''Combined Ratio'', JStr ''#DAE8FC''),
     (''P99 Latency'', JStr ''#DAE8FC''), (''Lock-fail'', JStr ''#D5E8D4''), (''CHIME'', JStr ''#e8cefb''),
     (''SMART'', JStr ''#D5E8D4''), (''Sherman'', JStr ''#DAE8FC''), (''ROLEX'', JStr ''#ee8fab''),
     (''CHIME-indirect'', JStr ''#e8cefb''), (''SMART-RCU'', JStr ''#D5E8D4''), (''Marlin'', JStr ''#DAE8FC''),
     (''ROLEX-indirect'', JStr ''#ee8fab''), (''RDMA READ'', JStr ''#DAE8FC''), (''Hopscotch'', JStr ''#e8cefb''),
     (''Baseline (Sherman)'', JStr ''#F8CECC''), (''Baseline (ROLEX)'', JStr ''#F8CECC''),
     (''+Hopscotch Leaf Node'', JStr ''#D5E8D4''), (''+Vacancy-Aware Lock'', JStr ''#D5E8D4''),
     (''+Metadata Replication'', JStr ''#DAE8FC''), (''+Sibling-Based Validation'', JStr ''#DAE8FC''),
     (''+Speculative Leaf Read'', JStr ''#e8cefb''), (''+Speculative Leaf Read (CHIME)'', JStr ''#e8cefb''),
     (''Coarse-Grained Mode'', JStr ''#DAE8FC''), (''Fine-Grained Mode'', JStr ''#D5E8D4''),
     (''+Greedy Range Query'', JStr ''#e8cefb'')]"

definition bar_lineStyleDict :: "(string \<times> json) list" where
  "bar_lineStyleDict = [
     (''P50 Latency'', JList [JNum 0, JList []]), (''P99 Latency'', JList [JNum 0, JList [JNum 3, JNum 1]]),
     (''Cache Hit Ratio'', JList [JNum 0, JList []])]"

definition bar_lineColorDict :: "(string \<times> json) list" where
  "bar_lineColorDict = [
     (''P50 Latency'', JStr ''#333333''), (''P99 Latency'', JStr ''#333333''), (''Cache Hit Ratio'', JStr ''#333333'')]"

definition bar_lineMarkerDict :: "(string \<times> json) list" where
  "bar_lineMarkerDict = [
     (''P50 Latency'', JStr ''o''), (''P99 Latency'', JStr ''^''), (''Cache Hit Ratio'', JStr ''o'')]"

definition bar_zorderDict :: "(string \<times> json) list" where
  "bar_zorderDict = [
     (''P50 Latency'', JNum 1200), (''P99 Latency'', JNum 1250), (''Cache Hit Ratio'', JNum 1250)]"

definition bar_defaults :: "(string \<times> json) list" where
  "bar_defaults = [
     (''barHatchDict'', JDict bar_barHatchDict), (''barColorDict'', JDict bar_barColorDict),
     (''lineStyleDict'', JDict bar_lineStyleDict), (''lineColorDict'', JDict bar_lineColorDict),
     (''lineMarkerDict'', JDict bar_lineMarkerDict), (''zorderDict'', JDict bar_zorderDict),
     (''figsize'', JList [JNum 4, JNum (5 / 2)]), (''font_size'', JNum 15), (''legend_size'', JNum 15),
     (''tick_size'', JNum 14), (''linewidth'', JNum (4 / 5)), (''markersize'', JNum 6),
     (''line_clip_on'', JBool False), (''ignore_point'', JDict []), (''hide_ylabel'', JBool False),
     (''hide_yRlabel'', JBool False), (''yRfloat'', JBool False), (''group_width'', JNum (4 / 5)),
     (''bar_offset'', JNum (1 / 2)), (''bar_padding'', JNum 0), (''group_width_ratio'', JNum 1),
     (''legend_location'', JStr []), (''legend_anchor'', JList []), (''legendL_location'', JStr []),
     (''legendR_location'', JStr []), (''legendL_anchor'', JList []), (''legendR_anchor'', JList []),
     (''legend_ncol'', JNum 1), (''legendL_ncol'', JNum 2), (''legendR_ncol'', JNum 2), (''legend_param'', JDict []),
     (''legendL_param'', JDict []), (''legendR_param'', JDict []), (''method_legend'', JDict []),
     (''x_ticklabel'', JBool False), (''y_lim'', JList []), (''x_lim'', JList []), (''yL_lim'', JList []),
     (''yR_lim'', JList []), (''x_tick'', JList []), (''y_tick'', JList []), (''yL_tick'', JList []),
     (''yR_tick'', JList []), (''yscale'', JStr []), (''yfloat'', JBool False), (''yR_scale'', JStr []),
     (''x_label'', JStr []), (''y_label'', JStr []), (''yL_label'', JStr []), (''yR_label'', JStr []),
     (''y_multiple'', JNum 1), (''aux_plt_func'', JNull), (''annotation_func'', JNull), (''method_ax'', JDict []),
     (''pile_up_value'', JDict []), (''pile_up_legend'', JStr []), (''pile_up_color'', JStr ''grey''),
     (''pile_up_hatch'', JStr ''--'')]"

end
