(* ===== verification/Pic_Drawer.thy ===== *)
theory Pic_Drawer
  imports Draw_Styles Pic_Generator
begin

text \<open>
  The drawers \<^verbatim>\<open>exp/utils/pic_line_drawer.py\<close> and \<^verbatim>\<open>exp/utils/pic_bar_drawer.py\<close>, and the auxiliary plot functions
  of \<^verbatim>\<open>exp/utils/pic_generator.py\<close>.  A picture is the list of the calls that matplotlib gets: the axes, the
  name of the function, the arguments and the keyword arguments.  The functions of numpy that the
  drawers call on style values are fields of a record \<open>np_ops\<close>.
\<close>

section \<open>Calls and attributes\<close>

record call =
  c_ax :: string
  c_fun :: string
  c_args :: "json list"
  c_kw :: "(string \<times> json) list"

record np_ops =
  linspace :: "json \<Rightarrow> json \<Rightarrow> json \<Rightarrow> json py"
  higher :: "json \<Rightarrow> json \<Rightarrow> json py"

type_synonym attrs = "(string \<times> json) list"

definition att :: "attrs \<Rightarrow> string \<Rightarrow> json" where
  "att a k = (case map_of a k of None \<Rightarrow> JNull | Some v \<Rightarrow> v)"

definition setattrs :: "attrs \<Rightarrow> attrs \<Rightarrow> attrs" where
  "setattrs a st = foldl (\<lambda>a (k, v). AList.update k v a) a st"

definition ax_call :: "string \<Rightarrow> string \<Rightarrow> json list \<Rightarrow> (string \<times> json) list \<Rightarrow> call list py" where
  "ax_call ax f args kw = Inr [\<lparr>c_ax = ax, c_fun = f, c_args = args, c_kw = kw\<rparr>]"

text \<open>Statements one after the other; the first that raises ends the drawing.\<close>

fun do_calls :: "call list py list \<Rightarrow> call list py" where
  "do_calls [] = Inr []"
| "do_calls (m # ms) = py_bind m (\<lambda>c. py_bind (do_calls ms) (\<lambda>cs. Inr (c @ cs)))"

definition only_if :: "bool \<Rightarrow> call list py \<Rightarrow> call list py" where
  "only_if b m = (if b then m else Inr [])"

section \<open>Values\<close>

definition sub_get :: "json \<Rightarrow> string \<Rightarrow> json py" where
  "sub_get j k = (case j of JDict d \<Rightarrow> dict_get d k | _ \<Rightarrow> Inl TypeError)"

definition item_at :: "json \<Rightarrow> nat \<Rightarrow> json py" where
  "item_at j i = (case j of JList l \<Rightarrow> py_index l i | _ \<Rightarrow> Inl IllTyped)"

definition items_of :: "json \<Rightarrow> json list py" where
  "items_of j = (case j of JList l \<Rightarrow> Inr l | _ \<Rightarrow> Inl IllTyped)"

fun str_item :: "json \<Rightarrow> string py" where
  "str_item (JStr s) = Inr s"
| "str_item _ = Inl IllTyped"

definition str_items :: "json \<Rightarrow> string list py" where
  "str_items j = py_bind (items_of j) (py_mapM str_item)"

text \<open>\<^verbatim>\<open>method in xs\<close> for a list or a dictionary.\<close>

definition contains :: "json \<Rightarrow> string \<Rightarrow> bool py" where
  "contains j m =
     (case j of JList l \<Rightarrow> Inr (JStr m \<in> set l) | JDict d \<Rightarrow> Inr (m \<in> fst ` set d) | JStr s \<Rightarrow> Inr (py_in m s) | _ \<Rightarrow> Inl TypeError)"

fun to_float :: "json \<Rightarrow> rat py" where
  "to_float (JNum q) = Inr q"
| "to_float (JBool b) = Inr (if b then 1 else 0)"
| "to_float (JStr s) = py_float s"
| "to_float _ = Inl TypeError"

text \<open>\<^verbatim>\<open>float(x) / self.y_multiple\<close>.\<close>

definition scaled :: "attrs \<Rightarrow> json \<Rightarrow> json py" where
  "scaled a v =
     py_bind (to_float v) (\<lambda>x. py_bind (py_num (att a ''y_multiple'')) (\<lambda>m.
     if m = 0 then Inl ZeroDivisionError else Inr (JNum (x / m))))"

definition scaled_list :: "attrs \<Rightarrow> json \<Rightarrow> json py" where
  "scaled_list a j = py_bind (items_of j) (\<lambda>l. py_bind (py_mapM (scaled a) l) (\<lambda>ys. Inr (JList ys)))"

text \<open>\<^verbatim>\<open>**d\<close> beside keywords that are already given.\<close>

definition star_kw :: "string list \<Rightarrow> json \<Rightarrow> (string \<times> json) list py" where
  "star_kw given j =
     (case j of JDict d \<Rightarrow> if list_ex (\<lambda>(k, v). k \<in> set given) d then Inl TypeError else Inr d | _ \<Rightarrow> Inl TypeError)"

section \<open>What the plot functions share\<close>

definition plot_methods :: "json \<Rightarrow> string list py" where
  "plot_methods data = py_bind (sub_get data ''methods'') str_items"

definition with_legend :: "string list \<Rightarrow> attrs \<Rightarrow> attrs" where
  "with_legend ms a =
     (if truthy (att a ''method_legend'') then a
      else AList.update ''method_legend'' (JDict (map (\<lambda>m. (m, JStr m)) ms)) a)"

definition with_axes :: "string list \<Rightarrow> attrs \<Rightarrow> attrs" where
  "with_axes ms a =
     (if truthy (att a ''method_ax'') then a
      else AList.update ''method_ax'' (JDict (zip ms [JStr ''left'', JStr ''right''])) a)"

definition x_of :: "json \<Rightarrow> string \<Rightarrow> json py" where
  "x_of X method = (case X of JDict d \<Rightarrow> dict_get d method | _ \<Rightarrow> Inr X)"

definition dotted_style :: json where
  "dotted_style = JList [JNum 0, JList [JNum 5, JNum 3]]"

definition marker_size :: "attrs \<Rightarrow> string list \<Rightarrow> json \<Rightarrow> json py" where
  "marker_size a small mk =
     (if mk = JStr ''+'' then py_bind (py_num (att a ''markersize'')) (\<lambda>m. Inr (JNum (m + 3 / 2)))
      else if mk \<in> JStr ` set small then py_bind (py_num (att a ''markersize'')) (\<lambda>m. Inr (JNum (m + 1 / 2)))
      else Inr (att a ''markersize''))"

definition which_grid :: "attrs \<Rightarrow> json" where
  "which_grid a = (if truthy (att a ''grid_minor'') then JStr ''both'' else JStr ''major'')"

definition minor_count :: "attrs \<Rightarrow> json \<Rightarrow> json py" where
  "minor_count a n =
     (if att a ''grid_minor'' = JBool False then Inr (JNum 0) else py_bind (py_num n) (\<lambda>q. Inr (JNum (q * 2 - 1))))"

definition lim_ticks :: "np_ops \<Rightarrow> attrs \<Rightarrow> string \<Rightarrow> string \<Rightarrow> string \<Rightarrow> string \<Rightarrow> call list py" where
  "lim_ticks np a k num ax f =
     only_if (truthy (att a k))
       (py_bind (item_at (att a k) 0) (\<lambda>lo. py_bind (item_at (att a k) 1) (\<lambda>hi.
        py_bind (linspace np lo hi (att a num)) (\<lambda>ticks.
        py_bind (minor_count a (att a num)) (\<lambda>n. py_bind (linspace np lo hi n) (\<lambda>minor.
        do_calls [ax_call ax f [ticks] [], ax_call ax f [minor] [(''minor'', JBool True)]]))))))"

text \<open>\<^verbatim>\<open>ax.set_ylim(*self.y_lim)\<close> and its like, when the attribute is not empty.\<close>

definition set_lim :: "attrs \<Rightarrow> string \<Rightarrow> string \<Rightarrow> string \<Rightarrow> call list py" where
  "set_lim a k ax f = only_if (truthy (att a k)) (py_bind (items_of (att a k)) (\<lambda>l. ax_call ax f l []))"

definition set_one :: "attrs \<Rightarrow> string \<Rightarrow> string \<Rightarrow> string \<Rightarrow> call list py" where
  "set_one a k ax f = only_if (truthy (att a k)) (ax_call ax f [att a k] [])"

definition set_label :: "attrs \<Rightarrow> string \<Rightarrow> string \<Rightarrow> string \<Rightarrow> call list py" where
  "set_label a k ax f = ax_call ax f [att a k] [(''fontsize'', att a ''font_size'')]"

definition set_labels :: "attrs \<Rightarrow> string \<Rightarrow> string \<Rightarrow> string \<Rightarrow> string \<Rightarrow> call list py" where
  "set_labels a k sz ax f = ax_call ax f [att a k] [(''fontsize'', att a sz)]"

definition grid_call :: "attrs \<Rightarrow> string \<Rightarrow> call list py" where
  "grid_call a ax =
     py_bind (star_kw [''color'', ''which'', ''zorder''] (att a ''grid_type'')) (\<lambda>kw.
     ax_call ax ''grid'' [] ((''color'', JStr ''#dbdbdb'') # kw @ [(''which'', which_grid a), (''zorder'', JNum 0)]))"

text \<open>A call of a style value that is no function.\<close>

definition call_value :: "json \<Rightarrow> call list py" where
  "call_value j = only_if (truthy j) (Inl TypeError)"

definition run_aux :: "attrs \<Rightarrow> call list option \<Rightarrow> call list py" where
  "run_aux a aux = (case aux of None \<Rightarrow> call_value (att a ''aux_plt_func'') | Some cs \<Rightarrow> Inr cs)"

definition save_call :: "string \<Rightarrow> call list py" where
  "save_call fig_name =
     do_calls [ax_call ''plt'' ''savefig'' [JStr fig_name] [(''format'', JStr ''pdf''), (''bbox_inches'', JStr ''tight'')],
       ax_call ''plt'' ''close'' [] []]"

definition subplots :: "attrs \<Rightarrow> call list py" where
  "subplots a = ax_call ''plt'' ''subplots'' [JNum 1, JNum 1] [(''figsize'', att a ''figsize''), (''dpi'', JNum 300)]"

section \<open>LineDrawer\<close>

definition line_of :: "attrs \<Rightarrow> json \<Rightarrow> json \<Rightarrow> string \<Rightarrow> call list py" where
  "line_of a X Y method =
     py_bind (x_of X method) (\<lambda>xs.
     py_bind (py_bind (sub_get Y method) (scaled_list a)) (\<lambda>ys.
     py_bind (contains (att a ''dotted_methods'') method) (\<lambda>dotted.
     py_bind (if dotted then Inr dotted_style else sub_get (att a ''lineStyleDict'') method) (\<lambda>ls.
     py_bind (sub_get (att a ''lineColorDict'') method) (\<lambda>color.
     py_bind (if dotted then Inr (JStr []) else sub_get (att a ''lineMarkerDict'') method) (\<lambda>marker.
     py_bind (sub_get (att a ''lineMarkerDict'') method) (\<lambda>mk.
     py_bind (marker_size a [''x''] mk) (\<lambda>ms.
     py_bind (sub_get (att a ''zorderDict'') method) (\<lambda>z.
     ax_call ''L'' ''plot'' [xs, ys]
       [(''linestyle'', ls), (''color'', color), (''marker'', marker), (''markerfacecolor'', JStr ''none''), (''mew'', att a ''linewidth''),
        (''clip_on'', att a ''clip_on''), (''linewidth'', att a ''linewidth''), (''markersize'', ms), (''zorder'', z)])))))))))"

text \<open>The handles of the legend are the lines of the methods that have an entry, with their labels.\<close>

definition legend_entries :: "attrs \<Rightarrow> string list \<Rightarrow> (string \<times> json) list py" where
  "legend_entries a ms =
     py_bind (py_mapM (\<lambda>m. py_bind (contains (att a ''method_legend'') m) (\<lambda>b.
       if b then py_bind (sub_get (att a ''method_legend'') m) (\<lambda>l. Inr [(m, l)]) else Inr [])) ms) (\<lambda>es. Inr (concat es))"

definition line_legend :: "attrs \<Rightarrow> (string \<times> json) list \<Rightarrow> call list py" where
  "line_legend a es =
     (let args = [JList (map (\<lambda>(m, l). JStr m) es), JList (map snd es)] in
      if truthy (att a ''legend_anchor'') then
        ax_call ''L'' ''legend'' args [(''fontsize'', att a ''legend_size''), (''bbox_to_anchor'', att a ''legend_anchor''),
          (''frameon'', JBool False), (''ncol'', att a ''legend_ncol'')]
      else only_if (truthy (att a ''legend_location''))
        (ax_call ''L'' ''legend'' args [(''fontsize'', att a ''legend_size''), (''loc'', att a ''legend_location''),
          (''frameon'', JBool False), (''ncol'', att a ''legend_ncol'')]))"

definition line_shadow :: "np_ops \<Rightarrow> attrs \<Rightarrow> json \<Rightarrow> json \<Rightarrow> call list py" where
  "line_shadow np a X Y =
     (let sh = att a ''shadow'' in
      only_if (truthy sh)
       (py_bind (py_bind (sub_get sh ''upper'') str_item) (\<lambda>up.
        py_bind (x_of X up) (\<lambda>xs.
        py_bind (sub_get Y up) (\<lambda>yu.
        py_bind (py_bind (sub_get sh ''lower'') str_item) (\<lambda>low.
        py_bind (sub_get Y low) (\<lambda>yl.
        py_bind (sub_get sh ''only_higher'') (\<lambda>only.
        py_bind (if truthy only then higher np yu yl
                 else py_bind (items_of yu) (\<lambda>l. Inr (JList (map (\<lambda>_. JBool True) l)))) (\<lambda>wh.
        py_bind (sub_get sh ''color'') (\<lambda>color.
        py_bind (sub_get sh ''alpha'') (\<lambda>alpha.
        ax_call ''L'' ''fill_between'' [xs, yu, yl] [(''where'', wh), (''color'', color), (''alpha'', alpha)])))))))))))"

text \<open>The statements before the lines and after them.\<close>

definition line_head :: "attrs \<Rightarrow> call list py list" where
  "line_head a = [subplots a,
     only_if (truthy (att a ''hide_half_edge'')) (do_calls [ax_call ''L'' ''spines.right.set_visible'' [JBool False] [],
       ax_call ''L'' ''spines.top.set_visible'' [JBool False] []])]"

definition line_tail :: "np_ops \<Rightarrow> call list option \<Rightarrow> json \<Rightarrow> json \<Rightarrow> (string \<times> json) list \<Rightarrow> string \<Rightarrow> attrs \<Rightarrow> call list py list" where
  "line_tail np aux X Y es fig_name a = [
     set_label a ''x_label'' ''L'' ''set_xlabel'',
     only_if (\<not> truthy (att a ''hide_ylabel'')) (set_label a ''y_label'' ''L'' ''set_ylabel''),
     set_one a ''yscale'' ''L'' ''set_yscale'',
     only_if (truthy (att a ''yfloat'')) (ax_call ''L'' ''set_major_formatter'' [JStr ''%.1f''] []),
     lim_ticks np a ''ylim'' ''y_major_num'' ''L'' ''set_yticks'',
     lim_ticks np a ''xlim'' ''x_major_num'' ''L'' ''set_xticks'',
     set_one a ''y_tick'' ''L'' ''set_yticks'',
     only_if (truthy (att a ''x_tick'')) (do_calls [set_one a ''x_tick'' ''L'' ''set_xticks'',
       only_if (truthy (att a ''x_ticklabel'')) (set_labels a ''x_ticklabel'' ''tick_size'' ''L'' ''set_xticklabels'')]),
     set_lim a ''y_lim'' ''L'' ''set_ylim'',
     set_lim a ''x_lim'' ''L'' ''set_xlim'',
     ax_call ''L'' ''tick_params'' [] [(''labelsize'', att a ''tick_size'')],
     call_value (att a ''annotation_func''),
     grid_call a ''L'',
     line_legend a es,
     line_shadow np a X Y,
     run_aux a aux,
     save_call fig_name]"

definition line_one_ax :: "np_ops \<Rightarrow> call list option \<Rightarrow> json \<Rightarrow> string \<Rightarrow> attrs \<Rightarrow> call list py" where
  "line_one_ax np aux data fig_name custom =
     (let a = setattrs line_defaults custom in
      py_bind (plot_methods data) (\<lambda>ms.
      let a = with_legend ms a in
      py_bind (sub_get data ''X_data'') (\<lambda>X. py_bind (sub_get data ''Y_data'') (\<lambda>Y.
      py_bind (do_calls (map (line_of a X Y) ms)) (\<lambda>lines.
      py_bind (legend_entries a ms) (\<lambda>es.
      do_calls (line_head a @ Inr lines # line_tail np aux X Y es fig_name a)))))))"

definition side_of :: "attrs \<Rightarrow> string \<Rightarrow> string py" where
  "side_of a method = py_bind (sub_get (att a ''method_ax'') method) (\<lambda>v. Inr (if v = JStr ''left'' then ''L'' else ''R''))"

definition line_of_two :: "attrs \<Rightarrow> json \<Rightarrow> json \<Rightarrow> string \<Rightarrow> call list py" where
  "line_of_two a X Y method =
     py_bind (side_of a method) (\<lambda>ax.
     py_bind (x_of X method) (\<lambda>xs.
     py_bind (sub_get Y method) (\<lambda>y.
     py_bind (if ax = ''L'' then scaled_list a y else Inr y) (\<lambda>ys.
     py_bind (sub_get (att a ''method_legend'') method) (\<lambda>label.
     py_bind (contains (att a ''dotted_methods'') method) (\<lambda>dotted.
     py_bind (if dotted then Inr dotted_style else sub_get (att a ''lineStyleDict'') method) (\<lambda>ls.
     py_bind (sub_get (att a ''lineColorDict'') method) (\<lambda>color.
     py_bind (sub_get (att a ''lineMarkerDict'') method) (\<lambda>mk.
     py_bind (marker_size a [''x''] mk) (\<lambda>ms.
     ax_call ax ''plot'' [xs, ys]
       [(''label'', label), (''linestyle'', ls), (''color'', color), (''marker'', mk), (''markerfacecolor'', JStr ''none''),
        (''clip_on'', att a ''clip_on''), (''linewidth'', att a ''linewidth''), (''markersize'', ms)]))))))))))"

text \<open>After the loop the variable \<^verbatim>\<open>ax\<close> is the axes of the last method.\<close>

definition last_side :: "attrs \<Rightarrow> string list \<Rightarrow> string py" where
  "last_side a ms = (if ms = [] then Inl UnboundLocalError else side_of a (last ms))"

definition on_last :: "attrs \<Rightarrow> string list \<Rightarrow> string \<Rightarrow> (string \<Rightarrow> call list py) \<Rightarrow> call list py" where
  "on_last a ms k f = only_if (truthy (att a k)) (py_bind (last_side a ms) f)"

definition two_legend :: "attrs \<Rightarrow> string \<Rightarrow> string \<Rightarrow> call list py" where
  "two_legend a ax k =
     ax_call ax ''legend'' [] [(''fontsize'', att a ''legend_size''), (''bbox_to_anchor'', att a k), (''frameon'', JBool False),
       (''ncol'', att a ''legend_ncol'')]"

text \<open>The auxiliary functions of the generator take one axes; here they get two.\<close>

definition run_aux_two :: "attrs \<Rightarrow> call list option \<Rightarrow> call list py" where
  "run_aux_two a aux = (case aux of None \<Rightarrow> call_value (att a ''aux_plt_func'') | Some cs \<Rightarrow> Inl TypeError)"

definition two_tail :: "np_ops \<Rightarrow> call list option \<Rightarrow> string list \<Rightarrow> string \<Rightarrow> attrs \<Rightarrow> call list py list" where
  "two_tail np aux ms fig_name a = [
     set_label a ''x_label'' ''L'' ''set_xlabel'',
     only_if (\<not> truthy (att a ''hide_ylabel'')) (set_label a ''yL_label'' ''L'' ''set_ylabel''),
     only_if (\<not> truthy (att a ''hide_yRlabel'')) (set_label a ''yR_label'' ''R'' ''set_ylabel''),
     lim_ticks np a ''ylim'' ''y_major_num'' ''L'' ''set_yticks'',
     on_last a ms ''xlim'' (\<lambda>ax. lim_ticks np a ''xlim'' ''x_major_num'' ax ''set_xticks''),
     only_if (truthy (att a ''yL_tick'')) (do_calls [set_one a ''yL_tick'' ''L'' ''set_yticks'',
       set_labels a ''yL_tick'' ''tick_size'' ''L'' ''set_yticklabels'']),
     only_if (truthy (att a ''yR_tick'')) (do_calls [set_one a ''yR_tick'' ''R'' ''set_yticks'',
       set_labels a ''yR_tick'' ''tick_size'' ''R'' ''set_yticklabels'']),
     only_if (truthy (att a ''yfloat'')) (ax_call ''L'' ''set_major_formatter'' [JStr ''%.1f''] []),
     only_if (truthy (att a ''x_tick'')) (do_calls [set_one a ''x_tick'' ''L'' ''set_xticks'',
       set_labels a ''x_tick'' ''tick_size'' ''L'' ''set_xticklabels'']),
     set_lim a ''yL_lim'' ''L'' ''set_ylim'',
     set_lim a ''yR_lim'' ''R'' ''set_ylim'',
     on_last a ms ''x_lim'' (\<lambda>ax. set_lim a ''x_lim'' ax ''set_xlim''),
     grid_call a ''L'',
     two_legend a ''L'' ''legendL_anchor'',
     two_legend a ''R'' ''legendR_anchor'',
     run_aux_two a aux,
     save_call fig_name]"

definition line_two_ax :: "np_ops \<Rightarrow> call list option \<Rightarrow> json \<Rightarrow> string \<Rightarrow> attrs \<Rightarrow> call list py" where
  "line_two_ax np aux data fig_name custom =
     (let a = setattrs line_defaults custom in
      py_bind (plot_methods data) (\<lambda>ms.
      let a = with_axes ms (with_legend ms a) in
      py_bind (sub_get data ''X_data'') (\<lambda>X. py_bind (sub_get data ''Y_data'') (\<lambda>Y.
      do_calls ([subplots a, ax_call ''L'' ''twinx'' [] []] @ do_calls (map (line_of_two a X Y) ms) #
        two_tail np aux ms fig_name a)))))"

section \<open>BarDrawer\<close>

text \<open>The positions of the bars of the \<open>i\<close>-th method, one per group.\<close>

definition bar_x :: "nat \<Rightarrow> rat \<Rightarrow> rat \<Rightarrow> nat \<Rightarrow> json list" where
  "bar_x n off width i = map (\<lambda>g. JNum (of_nat g + (of_nat i - off) * width)) [0..<n]"

definition bar_width :: "rat \<Rightarrow> string list \<Rightarrow> rat py" where
  "bar_width gw ms = (if ms = [] then Inl ZeroDivisionError else Inr (gw / of_nat (length ms)))"

definition bar_kw :: "attrs \<Rightarrow> rat \<Rightarrow> string \<Rightarrow> (string \<times> json) list py" where
  "bar_kw a width method =
     py_bind (sub_get (att a ''method_legend'') method) (\<lambda>label.
     py_bind (sub_get (att a ''barColorDict'') method) (\<lambda>color.
     py_bind (sub_get (att a ''barHatchDict'') method) (\<lambda>hatch.
     Inr [(''width'', JNum width), (''label'', label), (''color'', color), (''edgecolor'', JStr ''black''), (''linewidth'', att a ''linewidth''),
        (''fill'', JBool True), (''hatch'', hatch), (''zorder'', JNum 100)])))"

definition group_value :: "json \<Rightarrow> string \<Rightarrow> string \<Rightarrow> json py" where
  "group_value data method g =
     py_bind (sub_get data ''Y_data'') (\<lambda>Y. py_bind (sub_get Y method) (\<lambda>d. sub_get d g))"

definition bar_groups :: "json \<Rightarrow> string list py" where
  "bar_groups data = py_bind (sub_get data ''bar_groups'') str_items"

definition pile_up :: "attrs \<Rightarrow> string list \<Rightarrow> json list \<Rightarrow> rat \<Rightarrow> json list \<Rightarrow> string \<Rightarrow> call list py" where
  "pile_up a gs xs width ys method =
     py_bind (contains (att a ''pile_up_value'') method) (\<lambda>b.
     only_if b (py_bind (py_mapM (\<lambda>g. py_bind (sub_get (att a ''pile_up_value'') method) (scaled a)) gs) (\<lambda>hs.
       ax_call ''L'' ''bar'' [JList xs, JList hs]
         [(''bottom'', JList ys), (''width'', JNum width), (''label'', att a ''pile_up_legend''), (''color'', att a ''pile_up_color''),
          (''edgecolor'', JStr ''black''), (''linewidth'', att a ''linewidth''), (''fill'', JBool True), (''hatch'', att a ''pile_up_hatch''),
          (''zorder'', JNum 100)])))"

definition bar_of :: "attrs \<Rightarrow> json \<Rightarrow> string list \<Rightarrow> rat \<Rightarrow> rat \<Rightarrow> nat \<times> string \<Rightarrow> call list py" where
  "bar_of a data gs off width = (\<lambda>(i, method).
     let xs = bar_x (length gs) off width i in
     py_bind (py_mapM (\<lambda>g. py_bind (group_value data method g) (scaled a)) gs) (\<lambda>ys.
     py_bind (bar_kw a width method) (\<lambda>kw.
     do_calls [ax_call ''L'' ''bar'' [JList xs, JList ys] kw, pile_up a gs xs width ys method])))"

definition group_ticks :: "attrs \<Rightarrow> string \<Rightarrow> string list \<Rightarrow> call list py" where
  "group_ticks a sz gs =
     do_calls [only_if (truthy (att a ''x_label'')) (set_label a ''x_label'' ''L'' ''set_xlabel''),
       ax_call ''L'' ''set_xticks'' [JList (map (\<lambda>i. JNum (of_nat i)) [0..<length gs])] [],
       ax_call ''L'' ''set_xticklabels'' [JList (map JStr gs)] [(''fontsize'', att a sz)],
       ax_call ''L'' ''grid'' [] [(''axis'', JStr ''y''), (''color'', JStr ''#dbdbdb''), (''lw'', JNum (3 / 10)), (''zorder'', JNum 0)]]"

definition bar_legend :: "attrs \<Rightarrow> string \<Rightarrow> json list \<Rightarrow> string \<Rightarrow> attrs \<Rightarrow> attrs \<Rightarrow> call list py" where
  "bar_legend a ax args side anchored located =
     (let anchor = att a (''legend'' @ side @ ''_anchor''); param = att a (''legend'' @ side @ ''_param'') in
      if truthy anchor then
        if truthy param then
          py_bind (star_kw [''bbox_to_anchor'', ''frameon''] param) (\<lambda>kw.
          ax_call ax ''legend'' args ([(''bbox_to_anchor'', anchor), (''frameon'', JBool False)] @ kw))
        else ax_call ax ''legend'' args ([(''fontsize'', att a ''legend_size''), (''bbox_to_anchor'', anchor), (''frameon'', JBool False)] @ anchored)
      else ax_call ax ''legend'' args
        ([(''fontsize'', att a ''legend_size''), (''loc'', att a (''legend'' @ side @ ''_location'')), (''frameon'', JBool False)] @ located))"

definition spine_calls :: "call list py" where
  "spine_calls = do_calls [ax_call ''gca'' ''spines.bottom.set_zorder'' [JNum 1000] [], ax_call ''gca'' ''spines.left.set_zorder'' [JNum 1000] []]"

definition bar_tail :: "call list option \<Rightarrow> string list \<Rightarrow> string \<Rightarrow> attrs \<Rightarrow> call list py list" where
  "bar_tail aux gs fig_name a = [
     group_ticks a ''tick_size'' gs,
     set_label a ''y_label'' ''L'' ''set_ylabel'',
     only_if (truthy (att a ''y_tick'')) (do_calls [set_one a ''y_tick'' ''L'' ''set_yticks'',
       set_labels a ''y_tick'' ''tick_size'' ''L'' ''set_yticklabels'']),
     set_lim a ''y_lim'' ''L'' ''set_ylim'',
     set_one a ''yscale'' ''L'' ''set_yscale'',
     bar_legend a ''L'' [] [] [(''ncol'', att a ''legend_ncol'')] [],
     spine_calls,
     run_aux a aux,
     save_call fig_name]"

definition bar_one_ax :: "call list option \<Rightarrow> json \<Rightarrow> string \<Rightarrow> attrs \<Rightarrow> call list py" where
  "bar_one_ax aux data fig_name custom =
     (let a = setattrs bar_defaults custom in
      py_bind (plot_methods data) (\<lambda>ms. py_bind (bar_groups data) (\<lambda>gs.
      let a = with_legend ms a in
      py_bind (py_num (att a ''group_width'')) (\<lambda>gw. py_bind (bar_width gw ms) (\<lambda>width.
      py_bind (py_num (att a ''bar_offset'')) (\<lambda>off.
      do_calls ([subplots a] @ do_calls (map (bar_of a data gs off width) (enumerate 0 ms)) #
        bar_tail aux gs fig_name a)))))))"

definition bar_of_two :: "attrs \<Rightarrow> json \<Rightarrow> string list \<Rightarrow> rat \<Rightarrow> rat \<Rightarrow> nat \<times> string \<Rightarrow> call list py" where
  "bar_of_two a data gs off width = (\<lambda>(i, method).
     py_bind (side_of a method) (\<lambda>ax.
     py_bind (py_mapM (group_value data method) gs) (\<lambda>ys.
     py_bind (bar_kw a width method) (\<lambda>kw.
     ax_call ax ''bar'' [JList (bar_x (length gs) off width i), JList ys] kw))))"

definition run_aux_last :: "attrs \<Rightarrow> string list \<Rightarrow> call list option \<Rightarrow> call list py" where
  "run_aux_last a ms aux =
     py_bind (run_aux a aux) (\<lambda>cs. py_bind (last_side a ms) (\<lambda>ax. Inr (map (\<lambda>c. c\<lparr>c_ax := ax\<rparr>) cs)))"

definition bar_two_ax :: "call list option \<Rightarrow> json \<Rightarrow> string \<Rightarrow> attrs \<Rightarrow> call list py" where
  "bar_two_ax aux data fig_name custom =
     (let a = setattrs bar_defaults custom in
      py_bind (plot_methods data) (\<lambda>ms. py_bind (bar_groups data) (\<lambda>gs.
      let a = with_axes ms (with_legend ms a) in
      py_bind (py_num (att a ''group_width'')) (\<lambda>gw. py_bind (bar_width gw ms) (\<lambda>width.
      py_bind (py_num (att a ''bar_offset'')) (\<lambda>off.
      do_calls [subplots a, ax_call ''L'' ''twinx'' [] [],
        do_calls (map (bar_of_two a data gs off width) (enumerate 0 ms)),
        group_ticks a ''tick_size'' gs,
        set_label a ''yL_label'' ''L'' ''set_ylabel'',
        ax_call ''L'' ''set_yticks'' [att a ''yL_tick''] [],
        set_labels a ''yL_tick'' ''font_size'' ''L'' ''set_yticklabels'',
        bar_legend a ''L'' [] ''L'' [] [],
        set_label a ''yR_label'' ''R'' ''set_ylabel'',
        ax_call ''R'' ''set_yticks'' [att a ''yR_tick''] [],
        set_labels a ''yR_tick'' ''tick_size'' ''R'' ''set_yticklabels'',
        bar_legend a ''R'' [] ''R'' [] [],
        only_if (truthy (att a ''yRfloat'')) (ax_call ''R'' ''set_major_formatter'' [JStr ''%.2f''] []),
        spine_calls,
        run_aux_last a ms aux,
        save_call fig_name]))))))"

text \<open>A point that the style excludes from the lines.\<close>

definition ignored :: "attrs \<Rightarrow> string \<Rightarrow> string \<Rightarrow> bool py" where
  "ignored a g method =
     (let ip = att a ''ignore_point'' in
      if \<not> truthy ip then Inr False
      else py_bind (sub_get ip ''bar_group'') (\<lambda>b.
        if b \<noteq> JStr g then Inr False
        else py_bind (sub_get ip ''method'') (\<lambda>m. Inr (m = JStr method))))"

definition metric_value :: "json \<Rightarrow> string \<Rightarrow> string \<Rightarrow> string \<Rightarrow> json py" where
  "metric_value data metric method g = py_bind (group_value data method g) (\<lambda>d. sub_get d metric)"

text \<open>The points of a group that are kept: what \<open>f\<close> gives for the position and the name of every method.\<close>

definition kept_points :: "attrs \<Rightarrow> string list \<Rightarrow> string \<Rightarrow> (nat \<Rightarrow> string \<Rightarrow> json list py) \<Rightarrow> json list py" where
  "kept_points a ms g f =
     py_bind (py_mapM (\<lambda>(i, m). py_bind (ignored a g m) (\<lambda>b. if b then Inr [] else f i m)) (enumerate 0 ms))
       (\<lambda>vs. Inr (concat vs))"

definition line_x :: "attrs \<Rightarrow> string list \<Rightarrow> string list \<Rightarrow> rat \<Rightarrow> rat \<Rightarrow> string \<Rightarrow> json list py" where
  "line_x a ms gs off width g =
     kept_points a ms g (\<lambda>i m. Inr (map fst (filter (\<lambda>(x, h). h = g) (zip (bar_x (length gs) off width i) gs))))"

definition bar_of_metric :: "attrs \<Rightarrow> json \<Rightarrow> string list \<Rightarrow> rat \<Rightarrow> rat \<Rightarrow> rat \<Rightarrow> string \<Rightarrow> nat \<times> string \<Rightarrow> call list py" where
  "bar_of_metric a data gs off width pad metric = (\<lambda>(i, method).
     py_bind (py_mapM (\<lambda>g. ignored a g method) gs) (\<lambda>_.
     py_bind (py_mapM (metric_value data metric method) gs) (\<lambda>ys.
     py_bind (bar_kw a (width * (1 - pad)) method) (\<lambda>kw.
     ax_call ''L'' ''bar'' [JList (bar_x (length gs) off width i), JList ys] kw))))"

text \<open>The data of the lines: a group, a metric and its values.  With several methods each is a line of its group.\<close>

definition lines_data :: "attrs \<Rightarrow> json \<Rightarrow> string list \<Rightarrow> string list \<Rightarrow> string list \<Rightarrow> (string \<times> string \<times> json list) list py" where
  "lines_data a data ms gs metrics =
     py_mapM (\<lambda>(g, m). py_bind (kept_points a ms g (\<lambda>i method. py_bind (metric_value data m method g) (\<lambda>v. Inr [v]))) (\<lambda>vs. Inr (g, m, vs)))
       (List.product gs metrics)"

definition metric_line :: "attrs \<Rightarrow> string list \<Rightarrow> string list \<Rightarrow> rat \<Rightarrow> rat \<Rightarrow> string \<times> string \<times> json list \<Rightarrow> call list py" where
  "metric_line a ms gs off width = (\<lambda>(g, metric, ys).
     py_bind (line_x a ms gs off width g) (\<lambda>xs.
     py_bind (sub_get (att a ''lineStyleDict'') metric) (\<lambda>ls.
     py_bind (sub_get (att a ''lineColorDict'') metric) (\<lambda>color.
     py_bind (sub_get (att a ''lineMarkerDict'') metric) (\<lambda>mk.
     py_bind (marker_size a [''x'', ''^''] mk) (\<lambda>sz.
     py_bind (sub_get (att a ''zorderDict'') metric) (\<lambda>z.
     ax_call ''R'' ''plot'' [JList xs, JList ys]
       [(''linestyle'', ls), (''color'', color), (''marker'', mk), (''markerfacecolor'', JStr ''white''), (''mew'', att a ''linewidth''),
        (''clip_on'', att a ''line_clip_on''), (''linewidth'', att a ''linewidth''), (''markersize'', sz), (''zorder'', z)])))))))"

text \<open>
  With a single method the code takes two values out of each entry of three and raises at the first.
\<close>

definition metric_lines ::
  "attrs \<Rightarrow> string list \<Rightarrow> string list \<Rightarrow> rat \<Rightarrow> rat \<Rightarrow> (string \<times> string \<times> json list) list \<Rightarrow> call list py" where
  "metric_lines a ms gs off width lds =
     (if length ms > 1 then do_calls (map (metric_line a ms gs off width) lds)
      else if lds = [] then Inr [] else Inl ValueError)"

definition right_legend :: "attrs \<Rightarrow> string list \<Rightarrow> call list py" where
  "right_legend a metrics =
     (let args = [JList (map JStr metrics), JList (map JStr metrics)]; param = att a ''legendR_param'';
          place = (if truthy (att a ''legendR_location'') then (''loc'', att a ''legendR_location'')
                   else (''bbox_to_anchor'', att a ''legendR_anchor'')) in
      if truthy param then py_bind (star_kw [fst place, ''frameon''] param) (\<lambda>kw.
        ax_call ''R'' ''legend'' args ([place, (''frameon'', JBool False)] @ kw))
      else ax_call ''R'' ''legend'' args
        [(''fontsize'', att a ''legend_size''), place, (''frameon'', JBool False), (''ncol'', att a ''legendR_ncol'')])"

text \<open>The statements between the bars and the lines, and the part that draws the lines.\<close>

definition metric_frame :: "string list \<Rightarrow> attrs \<Rightarrow> call list py list" where
  "metric_frame gs a = [
     group_ticks a ''font_size'' gs,
     only_if (\<not> truthy (att a ''hide_ylabel'')) (set_label a ''y_label'' ''L'' ''set_ylabel''),
     set_one a ''y_tick'' ''L'' ''set_yticks'',
     set_lim a ''y_lim'' ''L'' ''set_ylim'',
     bar_legend a ''L'' [] [] [(''ncol'', att a ''legend_ncol'')]
       [(''ncol'', att a ''legend_ncol''), (''columnspacing'', JNum (4 / 5))],
     ax_call ''L'' ''tick_params'' [] [(''labelsize'', att a ''tick_size'')],
     ax_call ''L'' ''twinx'' [] []]"

definition metric_part :: "attrs \<Rightarrow> json \<Rightarrow> string list \<Rightarrow> string list \<Rightarrow> string list \<Rightarrow> rat \<Rightarrow> rat \<Rightarrow> call list py" where
  "metric_part a data ms gs line_metrics off width =
     py_bind (lines_data a data ms gs line_metrics) (\<lambda>lds. py_bind (metric_lines a ms gs off width lds) (\<lambda>cs.
     do_calls [Inr cs,
       only_if (\<not> truthy (att a ''hide_yRlabel'')) (set_label a ''yR_label'' ''R'' ''set_ylabel''),
       set_one a ''yR_tick'' ''R'' ''set_yticks'',
       set_lim a ''yR_lim'' ''R'' ''set_ylim'',
       set_one a ''yR_scale'' ''R'' ''set_yscale'',
       ax_call ''R'' ''tick_params'' [] [(''labelsize'', att a ''tick_size'')],
       right_legend a (rev (remdups (rev (map (\<lambda>(g, m, ys). m) lds))))]))"

definition bar_with_line :: "json \<Rightarrow> string \<Rightarrow> attrs \<Rightarrow> call list py" where
  "bar_with_line data fig_name custom =
     (let a = setattrs bar_defaults custom in
      py_bind (plot_methods data) (\<lambda>ms. py_bind (bar_groups data) (\<lambda>gs.
      let a = with_axes ms (with_legend ms a) in
      py_bind (py_bind (sub_get data ''metrics'') str_items) (\<lambda>metrics.
      py_bind (py_index metrics 0) (\<lambda>bar_metric.
      py_bind (py_num (att a ''group_width'')) (\<lambda>gw. py_bind (py_num (att a ''group_width_ratio'')) (\<lambda>ratio.
      py_bind (bar_width (gw * ratio) ms) (\<lambda>width.
      py_bind (py_num (att a ''bar_offset'')) (\<lambda>off. py_bind (py_num (att a ''bar_padding'')) (\<lambda>pad.
      do_calls ([subplots a] @ do_calls (map (bar_of_metric a data gs off width pad bar_metric) (enumerate 0 ms)) #
        metric_frame gs a @ metric_part a data ms gs (tl metrics) off width # [spine_calls, save_call fig_name])))))))))))"

section \<open>The auxiliary plot functions and the dispatch\<close>

definition bound_line :: "rat \<Rightarrow> string \<Rightarrow> (string \<times> json) list \<Rightarrow> call" where
  "bound_line y color kw = \<lparr>c_ax = ''L'', c_fun = ''axhline'', c_args = [],
     c_kw = [(''y'', JNum y), (''ls'', dotted_style), (''c'', JStr color), (''lw'', JNum 1)] @ kw\<rparr>"

definition text_call :: "rat \<Rightarrow> rat \<Rightarrow> string \<Rightarrow> rat \<Rightarrow> string \<Rightarrow> (string \<times> json) list \<Rightarrow> call" where
  "text_call x y t fs color kw = \<lparr>c_ax = ''L'', c_fun = ''text'', c_args = [JNum x, JNum y, JStr t],
     c_kw = [(''fontsize'', JNum fs), (''color'', JStr color)] @ kw\<rparr>"

definition aux_calls :: "string \<Rightarrow> call list" where
  "aux_calls f =
     (if f = ''__plot_03a_goal'' then
        [\<lparr>c_ax = ''L'', c_fun = ''plot'', c_args = [JNum 10, JNum (21 / 2)],
           c_kw = [(''color'', JStr ''orange''), (''marker'', JStr ''*''), (''markersize'', JNum 13)]\<rparr>,
         text_call 16 (83 / 10) ''Goal'' 13 ''orange'' [(''style'', JStr ''italic'')]]
      else if f = ''__plot_03b_bandwidth_bound'' then
        [bound_line 16 ''#D63026'' [], text_call 160 20 ''Bandwidth-Bound'' 12 ''#D63026'' []]
      else if f = ''__plot_03c_cache_bound'' then
        [bound_line 20 ''#D63026'' [], text_call 240 24 ''Cache-Bound'' 12 ''#D63026'' []]
      else if f = ''__plot_03d_example_line'' then
        [bound_line 90 ''black'' [], text_call (46 / 10) 92 ''90%'' 10 ''black'' []]
      else if f = ''__plot_04c_upperbound'' then
        [bound_line 64 ''#D63026'' [(''zorder'', JNum 3000)], text_call 27 66 ''IOPS-Bound'' 12 ''#D63026'' []]
      else if f = ''__plot_14_notation'' then
        [bound_line 1 ''#D63026'' [(''zorder'', JNum 3100)],
         text_call (- (4 / 10)) (120 / 100) ''100 MB'' 8 ''#D63026'' [(''zorder'', JNum 3000), (''bbox'', JDict [(''facecolor'', JStr ''white''),
           (''edgecolor'', JStr ''none''), (''alpha'', JNum 1), (''pad'', JNum 1)])],
         text_call (16 / 10) 2 (''Hotspot Buffer'' @ [CHR 0x0A] @ ''   (Optional)'') (85 / 10) ''black'' [(''zorder'', JNum 3000), (''bbox'',
           JDict [(''facecolor'', JStr ''white''), (''edgecolor'', JStr ''black''), (''alpha'', JNum 1), (''pad'', JNum (18 / 10)), (''linewidth'', JNum (5 / 10))])],
         \<lparr>c_ax = ''L'', c_fun = ''annotate'', c_args = [JStr []],
           c_kw = [(''xy'', JList [JNum (27 / 10), JNum (50 / 100)]), (''xytext'', JList [JNum (28 / 10), JNum 2]),
             (''arrowprops'', JDict [(''arrowstyle'', JStr ''<-''), (''linewidth'', JNum (8 / 10))]), (''zorder'', JNum 3100)]\<rparr>]
      else [])"

definition draw_picture :: "np_ops \<Rightarrow> drawing \<Rightarrow> call list py" where
  "draw_picture np d =
     py_bind (as_object (dr_style d)) (\<lambda>custom.
     let aux = map_option aux_calls (dr_aux d) in
     case dr_drawer d of
       Line_One_Ax \<Rightarrow> line_one_ax np aux (dr_data d) (dr_file d) custom
     | Line_Two_Ax \<Rightarrow> line_two_ax np aux (dr_data d) (dr_file d) custom
     | Bar_One_Ax \<Rightarrow> bar_one_ax aux (dr_data d) (dr_file d) custom
     | Bar_Two_Ax \<Rightarrow> bar_two_ax aux (dr_data d) (dr_file d) custom
     | Bar_With_Line \<Rightarrow> bar_with_line (dr_data d) (dr_file d) custom)"

section \<open>Drawing without an error\<close>

named_theorems draw_ok \<open>statements of a drawer that return\<close>

definition ok :: "'a py \<Rightarrow> bool" where
  "ok m \<longleftrightarrow> (\<exists>x. m = Inr x)"

lemma ok_Inr [draw_ok, simp]: "ok (Inr x)"
  by (simp add: ok_def)

lemma ok_ax_call [draw_ok]: "ok (ax_call ax f args kw)"
  by (simp add: ax_call_def)

lemma ok_only_if [draw_ok]: "(b \<Longrightarrow> ok m) \<Longrightarrow> ok (only_if b m)"
  by (simp add: only_if_def)

lemma ok_bind [draw_ok]: "ok m \<Longrightarrow> (\<And>x. m = Inr x \<Longrightarrow> ok (f x)) \<Longrightarrow> ok (py_bind m f)"
  by (auto simp: ok_def)

lemma ok_do_calls: "ok (do_calls ms) \<longleftrightarrow> list_all ok ms"
  by (induction ms) (auto simp: ok_def)

lemma ok_do_callsI [draw_ok]: "list_all ok ms \<Longrightarrow> ok (do_calls ms)"
  by (simp add: ok_do_calls)

lemma ok_mapM: "ok (py_mapM f xs) \<longleftrightarrow> (\<forall>x \<in> set xs. ok (f x))"
  by (induction xs) (auto simp: ok_def)

lemma ok_statements [draw_ok]:
  "ok (set_one a k ax f)" "ok (set_label a k ax f)" "ok (set_labels a k sz ax f)" "ok (save_call n)" "ok (subplots a)"
  "ok (line_legend a es)" "ok spine_calls" "ok (two_legend a ax k)"
  by (auto simp: set_one_def set_label_def set_labels_def save_call_def subplots_def line_legend_def two_legend_def
      spine_calls_def Let_def ax_call_def only_if_def)

lemma ok_falsy [draw_ok]:
  "\<not> truthy (att a k) \<Longrightarrow> ok (lim_ticks np a k num ax f)"
  "\<not> truthy (att a k) \<Longrightarrow> ok (on_last a ms k g)"
  "\<not> truthy j \<Longrightarrow> ok (call_value j)"
  "\<not> truthy (att a ''shadow'') \<Longrightarrow> ok (line_shadow np a X Y)"
  "aux \<noteq> None \<or> \<not> truthy (att a ''aux_plt_func'') \<Longrightarrow> ok (run_aux a aux)"
  "\<not> truthy (att a ''aux_plt_func'') \<Longrightarrow> ok (run_aux_two a None)"
  by (auto simp: lim_ticks_def on_last_def call_value_def line_shadow_def run_aux_def run_aux_two_def only_if_def Let_def split: option.split)

fun is_list :: "json \<Rightarrow> bool" where
  "is_list (JList l) = True"
| "is_list _ = False"

fun is_dict :: "json \<Rightarrow> bool" where
  "is_dict (JDict d) = True"
| "is_dict _ = False"

fun is_jnum :: "json \<Rightarrow> bool" where
  "is_jnum (JNum q) = True"
| "is_jnum _ = False"

lemma ok_set_lim [draw_ok]: "is_list (att a k) \<Longrightarrow> ok (set_lim a k ax f)"
  by (cases "att a k") (auto simp: set_lim_def items_of_def ax_call_def only_if_def)

section \<open>Attributes after a style\<close>

lemma att_update [simp]: "att (AList.update k v a) k' = (if k' = k then v else att a k')"
  by (simp add: att_def update_conv)

lemma att_setattrs:
  assumes "\<forall>v. (k, v) \<in> set st \<longrightarrow> P v" and "P (att a k)"
  shows "P (att (setattrs a st) k)"
  using assms unfolding setattrs_def
proof (induction st arbitrary: a)
  case (Cons kv st)
  obtain k' v where kv: "kv = (k', v)" by (cases kv)
  show ?case unfolding foldl_Cons
    by (rule Cons.IH) (use Cons.prems kv in \<open>auto split: if_splits\<close>)
qed simp

lemma att_other: "k \<notin> fst ` set st \<Longrightarrow> att (setattrs a st) k = att a k"
  by (rule att_setattrs[where P = "\<lambda>v. v = att a k"]) force+

lemma att_with_legend [simp]: "k \<noteq> ''method_legend'' \<Longrightarrow> att (with_legend ms a) k = att a k"
  by (simp add: with_legend_def)

lemma att_with_axes [simp]: "k \<noteq> ''method_ax'' \<Longrightarrow> att (with_axes ms a) k = att a k"
  by (simp add: with_axes_def)

lemma legend_dict: "is_dict (att a ''method_legend'') \<Longrightarrow> is_dict (att (with_legend ms a) ''method_legend'')"
  by (simp add: with_legend_def)

end
