(* ===== verification/Draw_Progress.thy ===== *)
theory Draw_Progress
  imports Pic_Drawer
begin

text \<open>
  When the drawers return and what they draw: with data of the form the figure scripts write, methods
  the style tables know and a style that sets the attributes the style files of the repository set.
\<close>

section \<open>Line pictures\<close>

definition free_keys :: "string list" where
  "free_keys = [''x_label'', ''y_label'', ''yL_label'', ''yR_label'', ''yscale'', ''legend_location'', ''legendR_location'',
     ''legendL_anchor'', ''legendR_anchor'', ''figsize'', ''yR_scale'', ''pile_up_legend'']"

fun ignore_entry :: "json \<Rightarrow> bool" where
  "ignore_entry (JDict d) = (d = [] \<or> list_all (\<lambda>k. k \<in> fst ` set d) [''bar_group'', ''method''])"
| "ignore_entry _ = False"

fun pile_entry :: "json \<Rightarrow> bool" where
  "pile_entry (JDict d) = list_all (\<lambda>(k, v). is_jnum v) d"
| "pile_entry _ = False"

text \<open>What a style file may set, with its type.\<close>

definition style_entry :: "string \<times> json \<Rightarrow> bool" where
  "style_entry = (\<lambda>(k, v). k \<in> set free_keys \<or> (k = ''method_legend'' \<and> is_dict v) \<or> (k = ''dotted_methods'' \<and> is_list v) \<or>
     (k = ''y_multiple'' \<and> is_jnum v \<and> v \<noteq> JNum 0) \<or> (k = ''bar_offset'' \<and> is_jnum v) \<or> (k = ''y_lim'' \<and> is_list v) \<or>
     (k = ''ignore_point'' \<and> ignore_entry v) \<or> (k = ''pile_up_value'' \<and> pile_entry v))"

definition style_ok :: "attrs \<Rightarrow> bool" where
  "style_ok st = list_all style_entry st"

lemma style_att_default:
  assumes "style_ok st" and "k \<notin> set free_keys"
    and "k \<notin> set [''method_legend'', ''dotted_methods'', ''y_multiple'', ''bar_offset'', ''y_lim'', ''ignore_point'', ''pile_up_value'']"
  shows "att (setattrs a st) k = att a k"
proof (rule att_other, rule notI)
  assume "k \<in> fst ` set st"
  then obtain v where "style_entry (k, v)" using assms(1) by (auto simp: style_ok_def list_all_iff)
  with assms(2,3) show False by (auto simp: style_entry_def)
qed

lemma style_att_typed:
  assumes "style_ok st"
  shows "is_dict (att a ''method_legend'') \<Longrightarrow> is_dict (att (setattrs a st) ''method_legend'')"
    and "is_list (att a ''dotted_methods'') \<Longrightarrow> is_list (att (setattrs a st) ''dotted_methods'')"
    and "att a ''y_multiple'' = JNum 1 \<Longrightarrow> \<exists>q. q \<noteq> 0 \<and> att (setattrs a st) ''y_multiple'' = JNum q"
    and "is_jnum (att a ''bar_offset'') \<Longrightarrow> is_jnum (att (setattrs a st) ''bar_offset'')"
    and "is_list (att a ''y_lim'') \<Longrightarrow> is_list (att (setattrs a st) ''y_lim'')"
    and "ignore_entry (att a ''ignore_point'') \<Longrightarrow> ignore_entry (att (setattrs a st) ''ignore_point'')"
    and "pile_entry (att a ''pile_up_value'') \<Longrightarrow> pile_entry (att (setattrs a st) ''pile_up_value'')"
proof -
  have e: "(k, v) \<in> set st \<Longrightarrow> style_entry (k, v)" for k v
    using assms by (auto simp: style_ok_def list_all_iff)
  show "is_dict (att a ''method_legend'') \<Longrightarrow> is_dict (att (setattrs a st) ''method_legend'')"
    by (rule att_setattrs) (auto dest!: e simp: style_entry_def free_keys_def)
  show "is_list (att a ''dotted_methods'') \<Longrightarrow> is_list (att (setattrs a st) ''dotted_methods'')"
    by (rule att_setattrs) (auto dest!: e simp: style_entry_def free_keys_def)
  have num: "is_jnum v \<Longrightarrow> v \<noteq> JNum 0 \<Longrightarrow> \<exists>q. q \<noteq> 0 \<and> v = JNum q" for v by (cases v) auto
  show "att a ''y_multiple'' = JNum 1 \<Longrightarrow> \<exists>q. q \<noteq> 0 \<and> att (setattrs a st) ''y_multiple'' = JNum q"
    by (rule att_setattrs) (auto dest!: e intro: num simp: style_entry_def free_keys_def)
  show "is_jnum (att a ''bar_offset'') \<Longrightarrow> is_jnum (att (setattrs a st) ''bar_offset'')"
    by (rule att_setattrs) (auto dest!: e simp: style_entry_def free_keys_def)
  show "is_list (att a ''y_lim'') \<Longrightarrow> is_list (att (setattrs a st) ''y_lim'')"
    by (rule att_setattrs) (auto dest!: e simp: style_entry_def free_keys_def)
  show "ignore_entry (att a ''ignore_point'') \<Longrightarrow> ignore_entry (att (setattrs a st) ''ignore_point'')"
    by (rule att_setattrs) (auto dest!: e simp: style_entry_def free_keys_def)
  show "pile_entry (att a ''pile_up_value'') \<Longrightarrow> pile_entry (att (setattrs a st) ''pile_up_value'')"
    by (rule att_setattrs) (auto dest!: e simp: style_entry_def free_keys_def)
qed

lemma line_default_atts:
  "att line_defaults ''lineStyleDict'' = JDict line_lineStyleDict" "att line_defaults ''lineColorDict'' = JDict line_lineColorDict"
  "att line_defaults ''lineMarkerDict'' = JDict line_lineMarkerDict" "att line_defaults ''zorderDict'' = JDict line_zorderDict"
  "att line_defaults ''markersize'' = JNum 6" "att line_defaults ''y_multiple'' = JNum 1"
  "att line_defaults ''dotted_methods'' = JList []" "att line_defaults ''method_legend'' = JDict []"
  "att line_defaults ''method_ax'' = JDict []" "att line_defaults ''y_lim'' = JList []" "att line_defaults ''x_lim'' = JList []"
  "att line_defaults ''yL_lim'' = JList []" "att line_defaults ''yR_lim'' = JList []" "att line_defaults ''ylim'' = JList []"
  "att line_defaults ''xlim'' = JList []" "att line_defaults ''annotation_func'' = JNull" "att line_defaults ''aux_plt_func'' = JNull"
  "att line_defaults ''shadow'' = JDict []" "att line_defaults ''grid_type'' = JDict [(''axis'', JStr ''y''), (''lw'', JNum (3 / 10))]"
  by (simp_all add: att_def line_defaults_def)

definition line_known :: "string \<Rightarrow> bool" where
  "line_known m \<longleftrightarrow> list_all (\<lambda>d. m \<in> fst ` set d) [line_lineStyleDict, line_lineColorDict, line_lineMarkerDict]"

definition layered :: "string \<Rightarrow> bool" where
  "layered m \<longleftrightarrow> m \<in> fst ` set line_zorderDict"

text \<open>Data of a line picture: the methods, a value for the axis of each, and a list of numbers for each.\<close>

definition line_data :: "string list \<Rightarrow> (string \<Rightarrow> json) \<Rightarrow> (string \<Rightarrow> rat list) \<Rightarrow> json \<Rightarrow> bool" where
  "line_data ms xs ys data \<longleftrightarrow> sub_get data ''methods'' = Inr (jstrs ms) \<and>
     (\<exists>X Y. sub_get data ''X_data'' = Inr X \<and> sub_get data ''Y_data'' = Inr Y \<and>
       (\<forall>m \<in> set ms. x_of X m = Inr (xs m) \<and> sub_get Y m = Inr (JList (map JNum (ys m)))))"

lemma str_items_jstrs [simp]: "str_items (jstrs ms) = Inr ms"
proof -
  have "py_mapM str_item (map JStr ms) = Inr ms" by (induction ms) auto
  then show ?thesis by (simp add: str_items_def items_of_def jstrs_def)
qed

lemma plot_methods_jstrs: "sub_get data ''methods'' = Inr (jstrs ms) \<Longrightarrow> plot_methods data = Inr ms"
  by (simp add: plot_methods_def)

lemma known_get: "m \<in> fst ` set d \<Longrightarrow> \<exists>v. sub_get (JDict d) m = Inr v"
  by (auto simp: sub_get_def dict_get_Inr_iff) (metis map_of_eq_None_iff not_None_eq image_eqI fst_conv)

lemma scaled_nums:
  assumes "att a ''y_multiple'' = JNum q" and "q \<noteq> 0"
  shows "scaled_list a (JList (map JNum ys)) = Inr (JList (map (\<lambda>y. JNum (y / q)) ys))"
proof -
  have "py_mapM (scaled a) (map JNum ys) = Inr (map (\<lambda>y. JNum (y / q)) ys)"
    using assms by (induction ys) (auto simp: scaled_def)
  then show ?thesis by (simp add: scaled_list_def items_of_def)
qed

lemma marker_size_ok: "is_jnum (att a ''markersize'') \<Longrightarrow> \<exists>v. marker_size a small mk = Inr v"
  by (cases "att a ''markersize''") (auto simp: marker_size_def)

lemma contains_list: "is_list j \<Longrightarrow> \<exists>b. contains j m = Inr b"
  by (cases j) (auto simp: contains_def)

text \<open>Attributes with which a line is drawn for every method of the tables.\<close>

definition line_atts :: "attrs \<Rightarrow> rat \<Rightarrow> bool" where
  "line_atts a q \<longleftrightarrow> att a ''lineStyleDict'' = JDict line_lineStyleDict \<and> att a ''lineColorDict'' = JDict line_lineColorDict \<and>
     att a ''lineMarkerDict'' = JDict line_lineMarkerDict \<and> att a ''zorderDict'' = JDict line_zorderDict \<and>
     att a ''y_multiple'' = JNum q \<and> q \<noteq> 0 \<and> is_jnum (att a ''markersize'') \<and> is_list (att a ''dotted_methods'')"

lemma style_line_atts:
  assumes "style_ok st"
  shows "\<exists>q. att (setattrs line_defaults st) ''y_multiple'' = JNum q \<and> line_atts (setattrs line_defaults st) q"
  using style_att_typed(2,3)[OF assms, of line_defaults]
  by (auto simp: line_atts_def line_default_atts style_att_default[OF assms] free_keys_def)

lemma line_atts_legend: "line_atts a q \<Longrightarrow> line_atts (with_legend ms a) q"
  by (simp add: line_atts_def)

lemma line_atts_axes: "line_atts a q \<Longrightarrow> line_atts (with_axes ms a) q"
  by (simp add: line_atts_def)

lemma line_of_draws:
  assumes "line_atts a q" and "line_known m" and "layered m"
    and "x_of X m = Inr x" and "sub_get Y m = Inr (JList (map JNum ys))"
  shows "\<exists>kw. line_of a X Y m =
    Inr [\<lparr>c_ax = ''L'', c_fun = ''plot'', c_args = [x, JList (map (\<lambda>y. JNum (y / q)) ys)], c_kw = kw\<rparr>]"
proof -
  from assms(2,3) obtain ls color mk z where
    "sub_get (JDict line_lineStyleDict) m = Inr ls" "sub_get (JDict line_lineColorDict) m = Inr color"
    "sub_get (JDict line_lineMarkerDict) m = Inr mk" "sub_get (JDict line_zorderDict) m = Inr z"
    by (auto simp: line_known_def layered_def dest!: known_get)
  moreover from assms(1) obtain b where "contains (att a ''dotted_methods'') m = Inr b"
    using contains_list by (auto simp: line_atts_def)
  moreover obtain sz where "marker_size a [''x''] mk = Inr sz"
    using marker_size_ok[of a "[''x'']" mk] assms(1) by (auto simp: line_atts_def)
  moreover have "scaled_list a (JList (map JNum ys)) = Inr (JList (map (\<lambda>y. JNum (y / q)) ys))"
    using assms(1) by (intro scaled_nums) (auto simp: line_atts_def)
  ultimately show ?thesis
    using assms(1,4,5) by (cases b) (auto simp: line_of_def line_atts_def ax_call_def)
qed

lemma do_calls_each:
  assumes "\<And>m. m \<in> set ms \<Longrightarrow> \<exists>c. f m = Inr [c] \<and> P m c"
  shows "\<exists>cs. do_calls (map f ms) = Inr cs \<and> list_all2 P ms cs"
  using assms
proof (induction ms)
  case (Cons m ms)
  obtain c where "f m = Inr [c]" "P m c" using Cons.prems by auto
  moreover obtain cs where "do_calls (map f ms) = Inr cs" "list_all2 P ms cs" using Cons by auto
  ultimately show ?case by auto
qed simp

lemma legend_entries_ok: "is_dict (att a ''method_legend'') \<Longrightarrow> \<exists>es. legend_entries a ms = Inr es"
proof -
  assume "is_dict (att a ''method_legend'')"
  then obtain d where d: "att a ''method_legend'' = JDict d" by (cases "att a ''method_legend''") auto
  have "ok (py_bind (contains (JDict d) m) (\<lambda>b. if b then py_bind (sub_get (JDict d) m) (\<lambda>l. Inr [(m, l)]) else Inr []))" for m
    using known_get[of m d] by (auto simp: contains_def ok_def)
  then have "ok (legend_entries a ms)" unfolding legend_entries_def d by (intro ok_bind) (auto simp: ok_mapM)
  then show ?thesis by (simp add: ok_def)
qed

lemma do_calls_append: "do_calls (ms @ ns) = py_bind (do_calls ms) (\<lambda>c. py_bind (do_calls ns) (\<lambda>d. Inr (c @ d)))"
  by (induction ms) (auto simp: py_bind_assoc)

lemma do_calls_middle:
  assumes "list_all ok pre" and "list_all ok post"
  shows "\<exists>p q. do_calls (pre @ Inr cs # post) = Inr (p @ cs @ q)"
proof -
  obtain p q where "do_calls pre = Inr p" "do_calls post = Inr q"
    using assms ok_do_calls[of pre] ok_do_calls[of post] by (auto simp: ok_def)
  then have "do_calls (pre @ Inr cs # post) = Inr (p @ cs @ q)" by (simp add: do_calls_append)
  then show ?thesis by blast
qed

lemma grid_ok:
  "att a ''grid_type'' = JDict [(''axis'', JStr ''y''), (''lw'', JNum (3 / 10))] \<Longrightarrow> ok (grid_call a ax)"
  by (simp add: grid_call_def star_kw_def ax_call_def)

text \<open>The statements around the lines never raise.\<close>

definition calm :: "attrs \<Rightarrow> bool" where
  "calm a \<longleftrightarrow> list_all (\<lambda>k. \<not> truthy (att a k)) [''ylim'', ''xlim'', ''annotation_func'', ''aux_plt_func'', ''shadow''] \<and>
     list_all (\<lambda>k. is_list (att a k)) [''y_lim'', ''x_lim'', ''yL_lim'', ''yR_lim''] \<and> \<not> truthy (att a ''x_lim'') \<and>
     is_dict (att a ''method_legend'') \<and> att a ''grid_type'' = JDict [(''axis'', JStr ''y''), (''lw'', JNum (3 / 10))]"

lemma style_calm: "style_ok st \<Longrightarrow> calm (setattrs line_defaults st)"
  using style_att_typed(1,5)[of st line_defaults]
  by (simp add: calm_def line_default_atts style_att_default free_keys_def)

lemma calm_legend: "calm a \<Longrightarrow> calm (with_legend ms a)"
  using legend_dict[of a ms] by (simp add: calm_def)

lemma calm_axes: "calm a \<Longrightarrow> calm (with_axes ms a)"
  by (simp add: calm_def)

lemma line_head_ok: "list_all ok (line_head a)"
  by (auto simp: line_head_def intro!: draw_ok)

lemma line_tail_ok: "calm a \<Longrightarrow> list_all ok (line_tail np aux X Y es fig_name a)"
  unfolding line_tail_def list.pred_inject
  by (intro conjI TrueI draw_ok grid_ok) (simp_all add: calm_def draw_ok)

text \<open>
  The line drawer returns for data as the figure scripts write it, methods of its tables and a style of
  the expected types, and the picture has one line per method, in order, with the values of the
  axis and the measured values divided by \<^verbatim>\<open>y_multiple\<close>.\<close>

theorem line_one_ax_draws:
  assumes "style_ok st" and "line_data ms xs ys data" and "list_all (\<lambda>m. line_known m \<and> layered m) ms"
  shows "\<exists>q pre lines post. q \<noteq> 0 \<and> att (setattrs line_defaults st) ''y_multiple'' = JNum q \<and>
    line_one_ax np aux data fig_name st = Inr (pre @ lines @ post) \<and>
    list_all2 (\<lambda>m c. c_fun c = ''plot'' \<and> c_args c = [xs m, JList (map (\<lambda>y. JNum (y / q)) (ys m))]) ms lines"
proof -
  let ?a = "with_legend ms (setattrs line_defaults st)"
  obtain q where q: "att (setattrs line_defaults st) ''y_multiple'' = JNum q" "line_atts (setattrs line_defaults st) q"
    using style_line_atts[OF assms(1)] by auto
  note a = line_atts_legend[OF q(2), of ms] and calm = calm_legend[OF style_calm[OF assms(1)], of ms]
  obtain X Y where d: "sub_get data ''methods'' = Inr (jstrs ms)" "sub_get data ''X_data'' = Inr X" "sub_get data ''Y_data'' = Inr Y"
    and v: "\<And>m. m \<in> set ms \<Longrightarrow> x_of X m = Inr (xs m) \<and> sub_get Y m = Inr (JList (map JNum (ys m)))"
    using assms(2) by (auto simp: line_data_def)
  let ?P = "\<lambda>m c. c_fun c = ''plot'' \<and> c_args c = [xs m, JList (map (\<lambda>y. JNum (y / q)) (ys m))]"
  have "\<exists>c. line_of ?a X Y m = Inr [c] \<and> ?P m c" if m: "m \<in> set ms" for m
  proof -
    have "line_known m" "layered m" using assms(3) m by (auto simp: list_all_iff)
    from line_of_draws[OF a this conjunct1[OF v[OF m]] conjunct2[OF v[OF m]]] show ?thesis by fastforce
  qed
  from do_calls_each[of ms "line_of ?a X Y" ?P, OF this]
  obtain lines where l: "do_calls (map (line_of ?a X Y) ms) = Inr lines" "list_all2 ?P ms lines" by blast
  obtain es where es: "legend_entries ?a ms = Inr es" using legend_entries_ok calm unfolding calm_def by blast
  have "\<exists>p r. line_one_ax np aux data fig_name st = Inr (p @ lines @ r)"
    unfolding line_one_ax_def Let_def plot_methods_jstrs[OF d(1)] d(2,3) py_bind_simps l(1) es
    by (rule do_calls_middle[OF line_head_ok line_tail_ok[OF calm]])
  then obtain p r where "line_one_ax np aux data fig_name st = Inr (p @ lines @ r)" by blast
  moreover have "q \<noteq> 0" using q(2) by (simp add: line_atts_def)
  ultimately show ?thesis using q(1) l(2) by blast
qed

section \<open>Bar pictures\<close>

lemma bar_default_atts:
  "att bar_defaults ''barColorDict'' = JDict bar_barColorDict" "att bar_defaults ''barHatchDict'' = JDict bar_barHatchDict"
  "att bar_defaults ''lineStyleDict'' = JDict bar_lineStyleDict" "att bar_defaults ''lineColorDict'' = JDict bar_lineColorDict"
  "att bar_defaults ''lineMarkerDict'' = JDict bar_lineMarkerDict" "att bar_defaults ''zorderDict'' = JDict bar_zorderDict"
  "att bar_defaults ''markersize'' = JNum 6" "att bar_defaults ''y_multiple'' = JNum 1" "att bar_defaults ''group_width'' = JNum (4 / 5)"
  "att bar_defaults ''group_width_ratio'' = JNum 1" "att bar_defaults ''bar_padding'' = JNum 0" "att bar_defaults ''bar_offset'' = JNum (1 / 2)"
  "att bar_defaults ''method_legend'' = JDict []" "att bar_defaults ''method_ax'' = JDict []" "att bar_defaults ''y_lim'' = JList []"
  "att bar_defaults ''yR_lim'' = JList []" "att bar_defaults ''legend_anchor'' = JList []" "att bar_defaults ''legendR_param'' = JDict []"
  "att bar_defaults ''aux_plt_func'' = JNull" "att bar_defaults ''ignore_point'' = JDict []" "att bar_defaults ''pile_up_value'' = JDict []"
  by (simp_all add: att_def bar_defaults_def)

definition bar_known :: "string \<Rightarrow> bool" where
  "bar_known m \<longleftrightarrow> list_all (\<lambda>d. m \<in> fst ` set d) [bar_barColorDict, bar_barHatchDict]"

definition metric_known :: "string \<Rightarrow> bool" where
  "metric_known m \<longleftrightarrow>
     list_all (\<lambda>d. m \<in> fst ` set d) [bar_lineStyleDict, bar_lineColorDict, bar_lineMarkerDict, bar_zorderDict]"

text \<open>The legend of a style is empty or names every method.\<close>

fun covers :: "string list \<Rightarrow> json \<Rightarrow> bool" where
  "covers ms (JDict d) = (d = [] \<or> list_all (\<lambda>m. m \<in> fst ` set d) ms)"
| "covers ms _ = False"

definition legend_covers :: "string list \<Rightarrow> attrs \<Rightarrow> bool" where
  "legend_covers ms st = list_all (\<lambda>(k, v). k = ''method_legend'' \<longrightarrow> covers ms v) st"

definition bar_atts :: "string list \<Rightarrow> attrs \<Rightarrow> rat \<Rightarrow> rat \<Rightarrow> bool" where
  "bar_atts ms a off q \<longleftrightarrow> att a ''barColorDict'' = JDict bar_barColorDict \<and> att a ''barHatchDict'' = JDict bar_barHatchDict \<and>
     att a ''lineStyleDict'' = JDict bar_lineStyleDict \<and> att a ''lineColorDict'' = JDict bar_lineColorDict \<and>
     att a ''lineMarkerDict'' = JDict bar_lineMarkerDict \<and> att a ''zorderDict'' = JDict bar_zorderDict \<and>
     is_jnum (att a ''markersize'') \<and> att a ''y_multiple'' = JNum q \<and> q \<noteq> 0 \<and> att a ''group_width'' = JNum (4 / 5) \<and>
     att a ''group_width_ratio'' = JNum 1 \<and> att a ''bar_padding'' = JNum 0 \<and> att a ''bar_offset'' = JNum off \<and>
     covers ms (att a ''method_legend'') \<and> is_list (att a ''y_lim'') \<and> is_list (att a ''yR_lim'') \<and> \<not> truthy (att a ''legend_anchor'') \<and>
     \<not> truthy (att a ''legendR_param'') \<and> \<not> truthy (att a ''aux_plt_func'') \<and> ignore_entry (att a ''ignore_point'') \<and>
     pile_entry (att a ''pile_up_value'')"

lemma style_bar_atts:
  assumes "style_ok st" and "legend_covers ms st"
  shows "\<exists>off q. bar_atts ms (setattrs bar_defaults st) off q \<and> att (setattrs bar_defaults st) ''bar_offset'' = JNum off \<and>
    att (setattrs bar_defaults st) ''y_multiple'' = JNum q"
proof -
  have c: "covers ms (att (setattrs bar_defaults st) ''method_legend'')"
    by (rule att_setattrs) (use assms(2) in \<open>auto simp: legend_covers_def list_all_iff bar_default_atts\<close>)
  have n: "is_jnum v \<Longrightarrow> \<exists>q. v = JNum q" for v by (cases v) auto
  show ?thesis
    using style_att_typed(3-7)[OF assms(1), of bar_defaults] c
    by (auto simp: bar_atts_def bar_default_atts style_att_default[OF assms(1)] free_keys_def dest!: n)
qed

lemma bar_atts_legend: "bar_atts ms a off q \<Longrightarrow> bar_atts ms (with_legend ms a) off q"
  by (cases "att a ''method_legend''") (auto simp: bar_atts_def with_legend_def list_all_iff image_image)

lemma bar_atts_axes: "bar_atts ms a off q \<Longrightarrow> bar_atts ms (with_axes ms a) off q"
  by (simp add: bar_atts_def)

lemma legend_covered:
  assumes "covers ms (att a ''method_legend'')" and "m \<in> set ms"
  shows "\<exists>v. sub_get (att (with_legend ms a) ''method_legend'') m = Inr v"
proof -
  obtain d where d: "att a ''method_legend'' = JDict d" and c: "covers ms (JDict d)"
    using assms(1) by (cases "att a ''method_legend''") auto
  have "m \<in> fst ` set (if d = [] then map (\<lambda>m. (m, JStr m)) ms else d)"
    using c assms(2) by (force simp: list_all_iff)
  from known_get[OF this] show ?thesis using d by (auto simp: with_legend_def)
qed

lemma legend_label:
  assumes "bar_atts ms a off q" and "m \<in> set ms"
  shows "\<exists>v. sub_get (att (with_legend ms a) ''method_legend'') m = Inr v"
  using legend_covered[OF _ assms(2)] assms(1) by (simp add: bar_atts_def)

lemma bar_kw_ok:
  assumes "bar_atts ms a off q" and "m \<in> set ms" and "bar_known m"
  shows "\<exists>kw. bar_kw (with_legend ms a) w m = Inr kw"
proof -
  obtain l where l: "sub_get (att (with_legend ms a) ''method_legend'') m = Inr l" using legend_label[OF assms(1,2)] by auto
  obtain c h where "sub_get (JDict bar_barColorDict) m = Inr c" "sub_get (JDict bar_barHatchDict) m = Inr h"
    using assms(3) by (auto simp: bar_known_def dest!: known_get)
  with l assms(1) show ?thesis by (simp add: bar_kw_def bar_atts_def)
qed

lemma bar_kw_axes: "bar_kw (with_axes ms a) w m = bar_kw a w m"
  by (simp add: bar_kw_def)

lemma ignored_ok:
  assumes "ignore_entry (att a ''ignore_point'')"
  shows "\<exists>b. ignored a g m = Inr b"
proof -
  obtain d where d: "att a ''ignore_point'' = JDict d" "d = [] \<or> list_all (\<lambda>k. k \<in> fst ` set d) [''bar_group'', ''method'']"
    using assms by (cases "att a ''ignore_point''") auto
  show ?thesis
  proof (cases "d = []")
    case True
    then have "ignored a g m = Inr False" using d by (simp add: ignored_def)
    then show ?thesis by blast
  next
    case False
    then obtain x y where "sub_get (JDict d) ''bar_group'' = Inr x" "sub_get (JDict d) ''method'' = Inr y"
      using d(2) by (auto dest!: known_get)
    then show ?thesis using d(1) by (auto simp: ignored_def Let_def)
  qed
qed

lemma mapM_values: "(\<And>x. x \<in> set xs \<Longrightarrow> f x = Inr (v x)) \<Longrightarrow> py_mapM f xs = Inr (map v xs)"
  by (induction xs) auto

text \<open>Data of a picture with bars and lines: every method has every metric for every group.\<close>

definition metric_data :: "string list \<Rightarrow> string list \<Rightarrow> string list \<Rightarrow> (string \<Rightarrow> string \<Rightarrow> string \<Rightarrow> json) \<Rightarrow> json \<Rightarrow> bool" where
  "metric_data ms gs metrics val data \<longleftrightarrow> sub_get data ''methods'' = Inr (jstrs ms) \<and>
     sub_get data ''bar_groups'' = Inr (jstrs gs) \<and> sub_get data ''metrics'' = Inr (jstrs metrics) \<and>
     (\<forall>m \<in> set ms. \<forall>g \<in> set gs. \<forall>k \<in> set metrics. metric_value data k m g = Inr (val m g k))"

lemma bar_of_metric_draws:
  assumes "bar_atts ms a off q" and "m \<in> set ms" and "bar_known m"
    and "\<And>g. g \<in> set gs \<Longrightarrow> metric_value data k m g = Inr (val g)"
  shows "\<exists>c. bar_of_metric (with_axes ms (with_legend ms a)) data gs off width 0 k (i, m) = Inr [c] \<and>
    c_fun c = ''bar'' \<and> c_args c = [JList (bar_x (length gs) off width i), JList (map val gs)]"
proof -
  have "ignore_entry (att (with_axes ms (with_legend ms a)) ''ignore_point'')"
    using assms(1) by (simp add: bar_atts_def)
  then have ig: "ok (py_mapM (\<lambda>g. ignored (with_axes ms (with_legend ms a)) g m) gs)"
    unfolding ok_mapM using ignored_ok unfolding ok_def by blast
  obtain kw where "bar_kw (with_legend ms a) (width * (1 - 0)) m = Inr kw" using bar_kw_ok[OF assms(1-3)] by blast
  with ig mapM_values[of gs "metric_value data k m" val, OF assms(4)] show ?thesis
    by (auto simp: bar_of_metric_def bar_kw_axes ax_call_def ok_def)
qed

lemma kept_points_ok:
  assumes "ignore_entry (att a ''ignore_point'')" and "\<And>i m. m \<in> set ms \<Longrightarrow> ok (f i m)"
  shows "ok (kept_points a ms g f)"
proof -
  have "ok (case x of (i, m) \<Rightarrow> py_bind (ignored a g m) (\<lambda>b. if b then Inr [] else f i m))"
    if x: "x \<in> set (enumerate 0 ms)" for x
  proof -
    obtain i m where im: "x = (i, m)" by (cases x)
    have "m \<in> snd ` set (enumerate 0 ms)" using x im by force
    then have m: "m \<in> set ms" by (metis list.set_map map_snd_enumerate)
    obtain b where b: "ignored a g m = Inr b" using ignored_ok[OF assms(1)] by blast
    show ?thesis unfolding im prod.case b py_bind_simps using assms(2)[OF m, of i] by (cases b) simp_all
  qed
  then show ?thesis unfolding kept_points_def by (intro ok_bind ok_Inr) (unfold ok_mapM, blast)
qed

lemma lines_data_ok:
  assumes "ignore_entry (att a ''ignore_point'')"
    and "\<And>m g k. m \<in> set ms \<Longrightarrow> g \<in> set gs \<Longrightarrow> k \<in> set ks \<Longrightarrow> ok (metric_value data k m g)"
  shows "\<exists>lds. lines_data a data ms gs ks = Inr lds \<and> map (\<lambda>(g, k, ys). (g, k)) lds = List.product gs ks"
proof -
  have *: "\<exists>vs. kept_points a ms g (\<lambda>i m. py_bind (metric_value data k m g) (\<lambda>v. Inr [v])) = Inr vs"
    if "(g, k) \<in> set (List.product gs ks)" for g k
  proof -
    have "ok (py_bind (metric_value data k m g) (\<lambda>v. Inr [v]))" if "m \<in> set ms" for m
      using assms(2)[OF that, of g k] \<open>(g, k) \<in> set (List.product gs ks)\<close> by (auto simp: ok_def)
    from kept_points_ok[OF assms(1) this] show ?thesis by (simp add: ok_def)
  qed
  have "\<exists>lds. py_mapM (\<lambda>(g, k). py_bind (kept_points a ms g (\<lambda>i m. py_bind (metric_value data k m g) (\<lambda>v. Inr [v])))
      (\<lambda>vs. Inr (g, k, vs))) ps = Inr lds \<and> map (\<lambda>(g, k, ys). (g, k)) lds = ps"
    if "set ps \<subseteq> set (List.product gs ks)" for ps
    using that
  proof (induction ps)
    case (Cons p ps)
    obtain g k where p: "p = (g, k)" by (cases p)
    obtain vs where "kept_points a ms g (\<lambda>i m. py_bind (metric_value data k m g) (\<lambda>v. Inr [v])) = Inr vs"
      using *[of g k] Cons.prems p by auto
    with Cons p show ?case by auto
  qed simp
  then show ?thesis unfolding lines_data_def by blast
qed

lemma metric_line_ok:
  assumes "bar_atts ms a off q" and "metric_known k"
  shows "ok (metric_line a ms' gs off width (g, k, ys))"
proof -
  obtain xs where "line_x a ms' gs off width g = Inr xs"
    using kept_points_ok[of a ms'] assms(1) by (force simp: line_x_def ok_def bar_atts_def)
  moreover obtain ls c mk z where "sub_get (JDict bar_lineStyleDict) k = Inr ls" "sub_get (JDict bar_lineColorDict) k = Inr c"
    "sub_get (JDict bar_lineMarkerDict) k = Inr mk" "sub_get (JDict bar_zorderDict) k = Inr z"
    using assms(2) by (auto simp: metric_known_def dest!: known_get)
  moreover obtain sz where "marker_size a [''x'', ''^''] mk = Inr sz"
    using marker_size_ok[of a] assms(1) by (auto simp: bar_atts_def)
  ultimately show ?thesis using assms(1) by (simp add: metric_line_def bar_atts_def ax_call_def)
qed

lemma group_ticks_ok: "ok (group_ticks a sz gs)"
  by (auto simp: group_ticks_def intro!: draw_ok)

lemma bar_legend_ok: "\<not> truthy (att a ''legend_anchor'') \<Longrightarrow> ok (bar_legend a ax args [] x y)"
  by (simp add: bar_legend_def Let_def draw_ok)

lemma metric_frame_ok:
  assumes "bar_atts ms a off q"
  shows "list_all ok (metric_frame gs a)"
  using assms unfolding metric_frame_def list.pred_inject
  by (intro conjI TrueI draw_ok group_ticks_ok bar_legend_ok) (simp_all add: bar_atts_def)

lemma right_legend_ok: "\<not> truthy (att a ''legendR_param'') \<Longrightarrow> ok (right_legend a ks)"
  by (simp add: right_legend_def Let_def draw_ok)

lemma metric_part_ok:
  assumes "bar_atts ms a off q" and "1 < length ms" and "list_all metric_known ks"
    and "\<And>m g k. m \<in> set ms \<Longrightarrow> g \<in> set gs \<Longrightarrow> k \<in> set ks \<Longrightarrow> ok (metric_value data k m g)"
  shows "ok (metric_part a data ms gs ks off width)"
proof -
  have ig: "ignore_entry (att a ''ignore_point'')" and yr: "is_list (att a ''yR_lim'')" and rp: "\<not> truthy (att a ''legendR_param'')"
    using assms(1) by (auto simp: bar_atts_def)
  obtain lds where l: "lines_data a data ms gs ks = Inr lds" "map (\<lambda>(g, k, ys). (g, k)) lds = List.product gs ks"
    using lines_data_ok[OF ig assms(4)] by blast
  have "k \<in> set ks" if "(g, k, ys) \<in> set lds" for g k ys
  proof -
    have "(g, k) \<in> set (map (\<lambda>(g, k, ys). (g, k)) lds)" using that by force
    then show ?thesis unfolding l(2) by simp
  qed
  then have "list_all ok (map (metric_line a ms gs off width) lds)"
    using metric_line_ok[OF assms(1)] assms(3) by (auto simp: list_all_iff)
  then have "ok (metric_lines a ms gs off width lds)" using assms(2) by (simp add: metric_lines_def ok_do_calls)
  then show ?thesis unfolding metric_part_def l(1) py_bind_simps
    by (intro ok_bind ok_do_callsI) (auto simp: yr rp intro!: draw_ok right_legend_ok)
qed

section \<open>The pictures of the bar drawer\<close>

lemma enumerate_each:
  assumes "\<And>i m. m \<in> set ms \<Longrightarrow> \<exists>c. f (i, m) = Inr [c] \<and> P (i, m) c"
  shows "\<exists>cs. do_calls (map f (enumerate 0 ms)) = Inr cs \<and> list_all2 P (enumerate 0 ms) cs"
proof (rule do_calls_each)
  fix x assume x: "x \<in> set (enumerate 0 ms)"
  obtain i m where im: "x = (i, m)" by (cases x)
  have "m \<in> snd ` set (enumerate 0 ms)" using x im by force
  then have "m \<in> set ms" by (metis list.set_map map_snd_enumerate)
  then show "\<exists>c. f x = Inr [c] \<and> P x c" using assms im by simp
qed

definition bar_step :: "nat \<Rightarrow> rat" where
  "bar_step n = (4 / 5) / of_nat n"

lemma bar_groups_jstrs: "sub_get data ''bar_groups'' = Inr (jstrs gs) \<Longrightarrow> bar_groups data = Inr gs"
  by (simp add: bar_groups_def)

lemma frame_atts:
  assumes "bar_atts ms a off q"
  shows "py_num (att a ''group_width'') = Inr (4 / 5)" "py_num (att a ''group_width_ratio'') = Inr 1"
    "py_num (att a ''bar_offset'') = Inr off" "py_num (att a ''bar_padding'') = Inr 0"
  using assms by (simp_all add: bar_atts_def)

text \<open>What \<^verbatim>\<open>plot_with_line\<close> runs for such data.\<close>

lemma bar_with_line_eq:
  assumes "style_ok st" and "legend_covers ms st" and "metric_data ms gs (k # ks) val data" and "list_all bar_known ms" and "ms \<noteq> []"
  shows "\<exists>off q bars. att (setattrs bar_defaults st) ''bar_offset'' = JNum off \<and>
    bar_atts ms (with_axes ms (with_legend ms (setattrs bar_defaults st))) off q \<and>
    list_all2 (\<lambda>(i, m) c. c_fun c = ''bar'' \<and>
      c_args c = [JList (bar_x (length gs) off (bar_step (length ms)) i), JList (map (\<lambda>g. val m g k) gs)]) (enumerate 0 ms) bars \<and>
    bar_with_line data name st =
      do_calls ([subplots (with_axes ms (with_legend ms (setattrs bar_defaults st)))] @ Inr bars #
        metric_frame gs (with_axes ms (with_legend ms (setattrs bar_defaults st))) @
        metric_part (with_axes ms (with_legend ms (setattrs bar_defaults st))) data ms gs ks off (bar_step (length ms)) #
        [spine_calls, save_call name])"
proof -
  let ?d = "setattrs bar_defaults st"
  let ?a = "with_axes ms (with_legend ms ?d)"
  let ?P = "\<lambda>off (i, m) c. c_fun c = ''bar'' \<and>
      c_args c = [JList (bar_x (length gs) off (bar_step (length ms)) i), JList (map (\<lambda>g. val m g k) gs)]"
  obtain off q where o: "bar_atts ms ?d off q" "att ?d ''bar_offset'' = JNum off" using style_bar_atts[OF assms(1,2)] by blast
  note a = bar_atts_axes[OF bar_atts_legend[OF o(1)]]
  have d: "plot_methods data = Inr ms" "bar_groups data = Inr gs" "sub_get data ''metrics'' = Inr (jstrs (k # ks))"
    and v: "\<And>m g. m \<in> set ms \<Longrightarrow> g \<in> set gs \<Longrightarrow> metric_value data k m g = Inr (val m g k)"
    using assms(3) by (auto simp: metric_data_def plot_methods_jstrs bar_groups_jstrs)
  have "\<exists>c. bar_of_metric ?a data gs off (bar_step (length ms)) 0 k (i, m) = Inr [c] \<and> ?P off (i, m) c" if m: "m \<in> set ms" for i m
  proof -
    have b: "bar_known m" using assms(4) m by (simp add: list_all_iff)
    show ?thesis using bar_of_metric_draws[OF o(1) m b, where val = "\<lambda>g. val m g k", OF v[OF m]] by simp
  qed
  from enumerate_each[of ms _ "?P off", OF this] obtain bars
    where bars: "do_calls (map (bar_of_metric ?a data gs off (bar_step (length ms)) 0 k) (enumerate 0 ms)) = Inr bars"
      "list_all2 (?P off) (enumerate 0 ms) bars" by blast
  have w: "bar_width (4 / 5 * 1) ms = Inr (bar_step (length ms))" using assms(5) by (simp add: bar_width_def bar_step_def)
  have "py_index (k # ks) 0 = Inr k" by (simp add: py_index_def)
  then have "bar_with_line data name st = do_calls ([subplots ?a] @ Inr bars # metric_frame gs ?a @
      metric_part ?a data ms gs ks off (bar_step (length ms)) # [spine_calls, save_call name])"
    unfolding bar_with_line_def Let_def d(1,2,3) py_bind_simps str_items_jstrs by (simp only: frame_atts[OF a] w py_bind_simps bars(1) list.sel)
  with o(2) a bars(2) show ?thesis by blast
qed

text \<open>
  The drawer of bars with lines returns for several methods of its tables, a legend that is empty or
  names all of them and data with every metric, and the picture has one group of bars per method,
  in order, with the values of the first metric.\<close>

theorem bar_with_line_draws:
  assumes "style_ok st" and "legend_covers ms st" and "metric_data ms gs (k # ks) val data"
    and "list_all bar_known ms" and "1 < length ms" and "list_all metric_known ks"
  shows "\<exists>off pre bars post. att (setattrs bar_defaults st) ''bar_offset'' = JNum off \<and>
    bar_with_line data fig_name st = Inr (pre @ bars @ post) \<and>
    list_all2 (\<lambda>(i, m) c. c_fun c = ''bar'' \<and>
      c_args c = [JList (bar_x (length gs) off (bar_step (length ms)) i), JList (map (\<lambda>g. val m g k) gs)]) (enumerate 0 ms) bars"
proof -
  have ne: "ms \<noteq> []" using assms(5) by auto
  let ?a = "with_axes ms (with_legend ms (setattrs bar_defaults st))"
  obtain off q bars where e: "att (setattrs bar_defaults st) ''bar_offset'' = JNum off" and a: "bar_atts ms ?a off q"
    and b: "list_all2 (\<lambda>(i, m) c. c_fun c = ''bar'' \<and>
      c_args c = [JList (bar_x (length gs) off (bar_step (length ms)) i), JList (map (\<lambda>g. val m g k) gs)]) (enumerate 0 ms) bars"
    and r: "bar_with_line data fig_name st = do_calls ([subplots ?a] @ Inr bars # metric_frame gs ?a @
        metric_part ?a data ms gs ks off (bar_step (length ms)) # [spine_calls, save_call fig_name])"
    using bar_with_line_eq[OF assms(1-4) ne] by blast
  have "ok (metric_value data k' m g)" if "m \<in> set ms" "g \<in> set gs" "k' \<in> set ks" for m g k'
    using assms(3) that by (simp add: metric_data_def)
  then have "ok (metric_part ?a data ms gs ks off (bar_step (length ms)))" by (rule metric_part_ok[OF a assms(5,6)])
  then have "list_all ok (metric_frame gs ?a @ metric_part ?a data ms gs ks off (bar_step (length ms)) # [spine_calls, save_call fig_name])"
    using metric_frame_ok[OF a] by (simp add: draw_ok)
  moreover have "list_all ok [subplots ?a]" by (simp add: draw_ok)
  ultimately obtain p s where "bar_with_line data fig_name st = Inr (p @ bars @ s)" unfolding r by (meson do_calls_middle)
  with e b show ?thesis by blast
qed

lemma do_calls_error: "list_all ok pre \<Longrightarrow> do_calls (pre @ Inl e # post) = Inl e"
  by (induction pre) (auto simp: ok_def)


definition sample_bars :: json where
  "sample_bars = JDict [(''methods'', jstrs [''CHIME'']), (''bar_groups'', jstrs [''YCSB C'']), (''metrics'', jstrs [''Throughput'', ''P50 Latency'']),
     (''Y_data'', JDict [(''CHIME'', JDict [(''YCSB C'', JDict [(''Throughput'', JNum 3), (''P50 Latency'', JNum 5)])])])]"


end
