(* ===== verification/Draw_Figures.thy ===== *)
theory Draw_Figures
  imports Draw_Progress
begin

text \<open>
  The other two drawers that the figures use, bars on one axis (figure 14) and lines on two (19a, 19b and
  19c).
\<close>

section \<open>Bars on one axis\<close>

definition group_data :: "string list \<Rightarrow> string list \<Rightarrow> (string \<Rightarrow> string \<Rightarrow> rat) \<Rightarrow> json \<Rightarrow> bool" where
  "group_data ms gs val data \<longleftrightarrow> sub_get data ''methods'' = Inr (jstrs ms) \<and> sub_get data ''bar_groups'' = Inr (jstrs gs) \<and>
     (\<forall>m \<in> set ms. \<forall>g \<in> set gs. group_value data m g = Inr (JNum (val m g)))"

lemma do_calls_groups:
  assumes "\<And>x. x \<in> set xs \<Longrightarrow> \<exists>cs. f x = Inr cs \<and> P x cs"
  shows "\<exists>css. do_calls (map f xs) = Inr (concat css) \<and> list_all2 P xs css"
  using assms
proof (induction xs)
  case (Cons x xs)
  obtain cs where "f x = Inr cs" "P x cs" using Cons.prems by auto
  moreover obtain css where "do_calls (map f xs) = Inr (concat css)" "list_all2 P xs css" using Cons by auto
  ultimately have "do_calls (map f (x # xs)) = Inr (concat (cs # css)) \<and> list_all2 P (x # xs) (cs # css)" by simp
  then show ?case by blast
qed simp

lemma enumerate_groups:
  assumes "\<And>i m. m \<in> set ms \<Longrightarrow> \<exists>cs. f (i, m) = Inr cs \<and> P (i, m) cs"
  shows "\<exists>css. do_calls (map f (enumerate 0 ms)) = Inr (concat css) \<and> list_all2 P (enumerate 0 ms) css"
proof (rule do_calls_groups)
  fix x assume x: "x \<in> set (enumerate 0 ms)"
  obtain i m where im: "x = (i, m)" by (cases x)
  have "m \<in> snd ` set (enumerate 0 ms)" using x im by force
  then have "m \<in> set ms" by (metis list.set_map map_snd_enumerate)
  then show "\<exists>cs. f x = Inr cs \<and> P x cs" using assms im by simp
qed

lemma pile_value_ok:
  assumes "pile_entry j" and "contains j m = Inr True"
  shows "\<exists>q. sub_get j m = Inr (JNum q)"
proof -
  obtain d where d: "j = JDict d" "list_all (\<lambda>(k, v). is_jnum v) d" using assms(1) by (cases j) auto
  obtain v where v: "sub_get j m = Inr v" using assms(2) known_get[of m d] d(1) by (auto simp: contains_def)
  then have "(m, v) \<in> set d" using d(1) by (auto simp: sub_get_def dict_get_Inr_iff dest: map_of_SomeD)
  then have "is_jnum v" using d(2) by (auto simp: list_all_iff)
  with v show ?thesis by (cases v) auto
qed

lemma pile_up_ok:
  assumes "bar_atts ms a off q"
  shows "\<exists>cs. pile_up a gs xs width ys m = Inr cs"
proof -
  have p: "pile_entry (att a ''pile_up_value'')" and q: "att a ''y_multiple'' = JNum q" "q \<noteq> 0"
    using assms by (auto simp: bar_atts_def)
  obtain b where b: "contains (att a ''pile_up_value'') m = Inr b" using p by (cases "att a ''pile_up_value''") (auto simp: contains_def)
  show ?thesis
  proof (cases b)
    case True
    with b obtain r where "sub_get (att a ''pile_up_value'') m = Inr (JNum r)" using pile_value_ok[OF p, of m] by auto
    then have "py_mapM (\<lambda>g. py_bind (sub_get (att a ''pile_up_value'') m) (scaled a)) gs = Inr (map (\<lambda>g. JNum (r / q)) gs)"
      using q by (intro mapM_values) (simp add: scaled_def)
    with b True show ?thesis by (simp add: pile_up_def only_if_def ax_call_def)
  next
    case False
    with b show ?thesis by (simp add: pile_up_def only_if_def)
  qed
qed

lemma bar_of_draws:
  assumes "bar_atts ms a off q" and "m \<in> set ms" and "bar_known m"
    and "\<And>g. g \<in> set gs \<Longrightarrow> group_value data m g = Inr (JNum (val g))"
  shows "\<exists>c cs. bar_of (with_legend ms a) data gs off width (i, m) = Inr (c # cs) \<and>
    c_fun c = ''bar'' \<and> c_args c = [JList (bar_x (length gs) off width i), JList (map (\<lambda>g. JNum (val g / q)) gs)]"
proof -
  note a = bar_atts_legend[OF assms(1)]
  have q: "att (with_legend ms a) ''y_multiple'' = JNum q" "q \<noteq> 0" using a by (auto simp: bar_atts_def)
  obtain kw where kw: "bar_kw (with_legend ms a) width m = Inr kw" using bar_kw_ok[OF assms(1-3)] by blast
  have ys: "py_mapM (\<lambda>g. py_bind (group_value data m g) (scaled (with_legend ms a))) gs = Inr (map (\<lambda>g. JNum (val g / q)) gs)"
    using q assms(4) by (intro mapM_values) (simp add: scaled_def)
  obtain cs where "pile_up (with_legend ms a) gs (bar_x (length gs) off width i) width (map (\<lambda>g. JNum (val g / q)) gs) m = Inr cs"
    using pile_up_ok[OF a] by blast
  then show ?thesis by (simp add: bar_of_def Let_def ys kw ax_call_def)
qed

lemma bar_tail_ok:
  assumes "bar_atts ms a off q"
  shows "list_all ok (bar_tail aux gs name a)"
  using assms unfolding bar_tail_def list.pred_inject
  by (intro conjI TrueI draw_ok group_ticks_ok bar_legend_ok) (simp_all add: bar_atts_def draw_ok)

text \<open>
  The bar drawer returns for methods of its tables, a legend that is empty or names all of them and
  numbers for every group, and the picture has one group of bars per method, in order, with the
  numbers divided by \<^verbatim>\<open>y_multiple\<close>.\<close>

theorem bar_one_ax_draws:
  assumes "style_ok st" and "legend_covers ms st" and "group_data ms gs val data" and "list_all bar_known ms" and "ms \<noteq> []"
  shows "\<exists>off q pre bars post. att (setattrs bar_defaults st) ''bar_offset'' = JNum off \<and>
    att (setattrs bar_defaults st) ''y_multiple'' = JNum q \<and> bar_one_ax aux data fig_name st = Inr (pre @ concat bars @ post) \<and>
    list_all2 (\<lambda>(i, m) cs. \<exists>c cs'. cs = c # cs' \<and> c_fun c = ''bar'' \<and>
      c_args c = [JList (bar_x (length gs) off (bar_step (length ms)) i), JList (map (\<lambda>g. JNum (val m g / q)) gs)])
      (enumerate 0 ms) bars"
proof -
  let ?d = "setattrs bar_defaults st"
  let ?a = "with_legend ms ?d"
  let ?P = "\<lambda>off q (i, m) cs. \<exists>c cs'. cs = c # cs' \<and> c_fun c = ''bar'' \<and>
      c_args c = [JList (bar_x (length gs) off (bar_step (length ms)) i), JList (map (\<lambda>g. JNum (val m g / q)) gs)]"
  obtain off q where o: "bar_atts ms ?d off q" "att ?d ''bar_offset'' = JNum off" "att ?d ''y_multiple'' = JNum q"
    using style_bar_atts[OF assms(1,2)] by blast
  note a = bar_atts_legend[OF o(1)]
  have d: "plot_methods data = Inr ms" "bar_groups data = Inr gs"
    and v: "\<And>m g. m \<in> set ms \<Longrightarrow> g \<in> set gs \<Longrightarrow> group_value data m g = Inr (JNum (val m g))"
    using assms(3) by (auto simp: group_data_def plot_methods_jstrs bar_groups_jstrs)
  have "\<exists>cs. bar_of ?a data gs off (bar_step (length ms)) (i, m) = Inr cs \<and> ?P off q (i, m) cs" if m: "m \<in> set ms" for i m
  proof -
    have "bar_known m" using assms(4) m by (simp add: list_all_iff)
    from bar_of_draws[OF o(1) m this v[OF m]] show ?thesis by fastforce
  qed
  from enumerate_groups[of ms _ "?P off q", OF this] obtain bars
    where bars: "do_calls (map (bar_of ?a data gs off (bar_step (length ms))) (enumerate 0 ms)) = Inr (concat bars)"
      "list_all2 (?P off q) (enumerate 0 ms) bars" by blast
  have w: "bar_width (4 / 5) ms = Inr (bar_step (length ms))" using assms(5) by (simp add: bar_width_def bar_step_def)
  have "bar_one_ax aux data fig_name st = do_calls ([subplots ?a] @ Inr (concat bars) # bar_tail aux gs fig_name ?a)"
    unfolding bar_one_ax_def Let_def d py_bind_simps by (simp only: frame_atts[OF a] w py_bind_simps bars(1))
  moreover have "list_all ok [subplots ?a]" by (simp add: draw_ok)
  ultimately obtain p r where "bar_one_ax aux data fig_name st = Inr (p @ concat bars @ r)"
    using do_calls_middle[OF _ bar_tail_ok[OF a], of "[subplots ?a]" "concat bars"] by metis
  with o(2,3) bars(2) show ?thesis by blast
qed

section \<open>Lines on two axes\<close>

lemma two_tail_ok:
  assumes "calm a"
  shows "list_all ok (two_tail np None ms name a)"
  using assms unfolding two_tail_def list.pred_inject
  by (intro conjI TrueI draw_ok grid_ok) (simp_all add: calm_def draw_ok)

lemma style_axes: "style_ok st \<Longrightarrow> att (setattrs line_defaults st) ''method_ax'' = JDict []"
  by (simp add: style_att_default free_keys_def line_default_atts)

lemma line_of_two_draws:
  assumes "line_atts a q" and "line_known m" and "sub_get (att a ''method_legend'') m = Inr label" and "side_of a m = Inr ax"
    and "x_of X m = Inr x" and "sub_get Y m = Inr (JList (map JNum ys))"
  shows "\<exists>kw. line_of_two a X Y m = Inr [\<lparr>c_ax = ax, c_fun = ''plot'',
    c_args = [x, JList (map (\<lambda>y. JNum (if ax = ''L'' then y / q else y)) ys)], c_kw = kw\<rparr>]"
proof -
  from assms(2) obtain ls color mk where
    "sub_get (JDict line_lineStyleDict) m = Inr ls" "sub_get (JDict line_lineColorDict) m = Inr color"
    "sub_get (JDict line_lineMarkerDict) m = Inr mk"
    by (auto simp: line_known_def dest!: known_get)
  moreover from assms(1) obtain b where "contains (att a ''dotted_methods'') m = Inr b"
    using contains_list by (auto simp: line_atts_def)
  moreover obtain sz where "marker_size a [''x''] mk = Inr sz"
    using marker_size_ok[of a "[''x'']" mk] assms(1) by (auto simp: line_atts_def)
  moreover have "scaled_list a (JList (map JNum ys)) = Inr (JList (map (\<lambda>y. JNum (y / q)) ys))"
    using assms(1) by (intro scaled_nums) (auto simp: line_atts_def)
  ultimately show ?thesis
    using assms(1,3-6) by (cases b; cases "ax = ''L''") (auto simp: line_of_two_def line_atts_def ax_call_def)
qed

text \<open>
  The drawer with two axes returns for two different methods of its tables, and draws the first on the
  left axis, divided by \<^verbatim>\<open>y_multiple\<close>, and the second on the right one as it is.\<close>

theorem line_two_ax_draws:
  assumes "style_ok st" and "legend_covers [l, r] st" and "line_data [l, r] xs ys data" and "l \<noteq> r"
    and "line_known l" and "line_known r"
  shows "\<exists>q pre kw kw' post. att (setattrs line_defaults st) ''y_multiple'' = JNum q \<and> line_two_ax np None data fig_name st =
    Inr (pre @ [\<lparr>c_ax = ''L'', c_fun = ''plot'', c_args = [xs l, JList (map (\<lambda>y. JNum (y / q)) (ys l))], c_kw = kw\<rparr>,
                \<lparr>c_ax = ''R'', c_fun = ''plot'', c_args = [xs r, JList (map JNum (ys r))], c_kw = kw'\<rparr>] @ post)"
proof -
  let ?ms = "[l, r]" and ?d = "setattrs line_defaults st"
  let ?a = "with_axes ?ms (with_legend ?ms ?d)"
  obtain q where q: "att ?d ''y_multiple'' = JNum q" "line_atts ?d q" using style_line_atts[OF assms(1)] by auto
  note a = line_atts_axes[OF line_atts_legend[OF q(2), of ?ms], of ?ms]
    and calm = calm_axes[OF calm_legend[OF style_calm[OF assms(1)], of ?ms], of ?ms]
  obtain X Y where d: "plot_methods data = Inr ?ms" "sub_get data ''X_data'' = Inr X" "sub_get data ''Y_data'' = Inr Y"
    and v: "x_of X l = Inr (xs l)" "sub_get Y l = Inr (JList (map JNum (ys l)))"
      "x_of X r = Inr (xs r)" "sub_get Y r = Inr (JList (map JNum (ys r)))"
    using assms(3) by (auto simp: line_data_def plot_methods_jstrs)
  have ax: "att ?a ''method_ax'' = JDict [(l, JStr ''left''), (r, JStr ''right'')]"
    using style_axes[OF assms(1)] by (simp add: with_axes_def)
  have side: "side_of ?a l = Inr ''L''" "side_of ?a r = Inr ''R''"
    unfolding side_of_def ax using assms(4) by (simp_all add: sub_get_def dict_get_def)
  have "covers ?ms (att ?d ''method_legend'')"
    by (rule att_setattrs) (use assms(2) in \<open>auto simp: legend_covers_def list_all_iff line_default_atts\<close>)
  then have "\<exists>v. sub_get (att ?a ''method_legend'') m = Inr v" if "m \<in> set ?ms" for m
    using that legend_covered[of ?ms ?d m] by simp
  from this[of l] this[of r] obtain ll lr
    where leg: "sub_get (att ?a ''method_legend'') l = Inr ll" "sub_get (att ?a ''method_legend'') r = Inr lr" by auto
  obtain kw kw' where "line_of_two ?a X Y l = Inr [\<lparr>c_ax = ''L'', c_fun = ''plot'',
      c_args = [xs l, JList (map (\<lambda>y. JNum (y / q)) (ys l))], c_kw = kw\<rparr>]"
    "line_of_two ?a X Y r = Inr [\<lparr>c_ax = ''R'', c_fun = ''plot'', c_args = [xs r, JList (map JNum (ys r))], c_kw = kw'\<rparr>]"
    using line_of_two_draws[OF a assms(5) leg(1) side(1) v(1,2)] line_of_two_draws[OF a assms(6) leg(2) side(2) v(3,4)]
    by auto
  then have l: "do_calls (map (line_of_two ?a X Y) ?ms) =
      Inr [\<lparr>c_ax = ''L'', c_fun = ''plot'', c_args = [xs l, JList (map (\<lambda>y. JNum (y / q)) (ys l))], c_kw = kw\<rparr>,
           \<lparr>c_ax = ''R'', c_fun = ''plot'', c_args = [xs r, JList (map JNum (ys r))], c_kw = kw'\<rparr>]" by simp
  have pre: "list_all ok [subplots ?a, ax_call ''L'' ''twinx'' [] []]" by (simp add: draw_ok)
  have "\<exists>p s. line_two_ax np None data fig_name st = Inr (p @
      [\<lparr>c_ax = ''L'', c_fun = ''plot'', c_args = [xs l, JList (map (\<lambda>y. JNum (y / q)) (ys l))], c_kw = kw\<rparr>,
       \<lparr>c_ax = ''R'', c_fun = ''plot'', c_args = [xs r, JList (map JNum (ys r))], c_kw = kw'\<rparr>] @ s)"
    unfolding line_two_ax_def Let_def d py_bind_simps l by (rule do_calls_middle[OF pre two_tail_ok[OF calm]])
  with q(1) show ?thesis by blast
qed

section \<open>A numpy for the examples\<close>

text \<open>
  \<^verbatim>\<open>np.linspace(lo, hi, n)\<close> on numbers with a count above one, and the comparison of two lists of numbers of
  the same length; other values raise.\<close>

definition sample_linspace :: "json \<Rightarrow> json \<Rightarrow> json \<Rightarrow> json py" where
  "sample_linspace lo hi n =
     (case (lo, hi, n) of
        (JNum a, JNum b, JNum q) \<Rightarrow>
          if 1 < q then Inr (JList (map (\<lambda>i. JNum (a + of_nat i * (b - a) / (q - 1))) [0..<nat \<lfloor>q\<rfloor>])) else Inl ValueError
      | _ \<Rightarrow> Inl TypeError)"

definition sample_higher :: "json \<Rightarrow> json \<Rightarrow> json py" where
  "sample_higher us ls =
     (case (us, ls) of
        (JList us, JList ls) \<Rightarrow>
          if length us = length ls
          then py_bind (py_mapM (\<lambda>(u, l). case (u, l) of (JNum x, JNum y) \<Rightarrow> Inr (JBool (y < x)) | _ \<Rightarrow> Inl TypeError) (zip us ls))
            (\<lambda>bs. Inr (JList bs))
          else Inl ValueError
      | _ \<Rightarrow> Inl TypeError)"

definition sample_np :: np_ops where
  "sample_np = \<lparr>linspace = sample_linspace, higher = sample_higher\<rparr>"

end
