(* ===== verification/Shipped_Styles.thy ===== *)
theory Shipped_Styles
  imports Draw_Figures Shipped_Params
begin

text \<open>
  The style files \<^verbatim>\<open>exp/styles/fig_*.json\<close> of the repository and the methods each figure plots with the
  parameter files of the repository: every picture of the paper can be drawn from any data of the
  form its script writes.
\<close>

section \<open>The style files\<close>

definition style_03a :: attrs where
  "style_03a = [
     (''y_label'', JStr ''Cache Consumption (MB)''), (''x_label'', JStr ''Amplification Factor''),
     (''yscale'', JStr ''log''), (''legend_location'', JStr ''best''), (''figsize'', JList [JNum 5, JNum 4]),
     (''method_legend'', JDict [(''SMART'', JStr ''SMART''), (''Sherman'', JStr ''Sherman''), (''ROLEX'', JStr ''ROLEX'')])]"

definition style_03b :: attrs where
  "style_03b = [
     (''y_label'', JStr ''Throughput (Mops/s)''), (''x_label'', JStr ''Number of Clients''),
     (''legend_location'', JStr ''upper left''), (''figsize'', JList [JNum 5, JNum 4])]"

definition style_03c :: attrs where
  "style_03c = [
     (''y_label'', JStr ''Throughput (Mops/s)''), (''x_label'', JStr ''Number of Clients''),
     (''legend_location'', JStr ''best''), (''figsize'', JList [JNum 5, JNum 4])]"

definition style_03d :: attrs where
  "style_03d = [
     (''y_label'', JStr ''Max. Load Factor (%)''), (''x_label'', JStr ''Amplification Factor''),
     (''legend_location'', JStr ''best''), (''figsize'', JList [JNum 5, JNum 4])]"

definition style_04a :: attrs where
  "style_04a = [
     (''y_label'', JStr ''Throughput (Mops/s)''), (''x_label'', JStr ''Hop Range Size (Entries)      ''),
     (''legend_location'', JStr ''upper right''), (''figsize'', JList [JNum 5, JNum 4]),
     (''method_legend'', JDict [(''Segment'', JStr ''Ideal''), (''Metadata before Segment'', JStr ''Vacancy.'')])]"

definition style_04b :: attrs where
  "style_04b = [
     (''y_label'', JStr ''Throughput (Mops/s)''), (''x_label'', JStr ''Key Size (Bytes)''),
     (''legend_location'', JStr ''best''), (''figsize'', JList [JNum 5, JNum 4]),
     (''method_legend'', JDict [(''Segment'', JStr ''Ideal''), (''Segment and Metadata (2-I/O)'', JStr ''Leaf Meta.'')])]"

definition style_04c :: attrs where
  "style_04c = [
     (''y_label'', JStr ''Throughput (Mops/s)''), (''x_label'', JStr ''Key Size (Bytes)''),
     (''legend_location'', JStr ''lower right''), (''figsize'', JList [JNum 5, JNum 4]),
     (''method_legend'', JDict [(''Neighborhood (1-entry)'', JStr ''1 Entry''), (''Neighborhood (4-entry)'', JStr ''4 Entries''), (''Neighborhood (8-entry)'', JStr ''8 Entries'')])]"

definition style_12_la :: attrs where
  "style_12_la = [
     (''y_label'', JStr ''P99 Latency (x10 us)''), (''x_label'', JStr ''Throughput (Mops/s)      ''),
     (''y_multiple'', JNum 10), (''legend_location'', JStr ''upper right''), (''figsize'', JList [JNum 5, JNum 4]),
     (''method_legend'', JDict [(''CHIME'', JStr ''CHIME'')])]"

definition style_12_a :: attrs where
  "style_12_a = [
     (''y_label'', JStr ''P99 Latency (x10 us)''), (''x_label'', JStr ''Throughput (Mops/s)  ''),
     (''y_multiple'', JNum 10), (''legend_location'', JStr ''upper right''), (''figsize'', JList [JNum 5, JNum 4]),
     (''method_legend'', JDict [(''SMART'', JStr ''SMART'')])]"

definition style_12_b :: attrs where
  "style_12_b = [
     (''y_label'', JStr ''P99 Latency (x10 us)''), (''x_label'', JStr ''Throughput (Mops/s)  ''),
     (''y_multiple'', JNum 10), (''legend_location'', JStr ''upper right''), (''figsize'', JList [JNum 5, JNum 4]),
     (''method_legend'', JDict [(''Sherman'', JStr ''Sherman'')])]"

definition style_12_c :: attrs where
  "style_12_c = [
     (''y_label'', JStr ''P99 Latency (x10 us)''), (''x_label'', JStr ''Throughput (Mops/s)  ''),
     (''y_multiple'', JNum 10), (''legend_location'', JStr ''upper right''), (''figsize'', JList [JNum 5, JNum 4]),
     (''method_legend'', JDict [(''ROLEX'', JStr ''ROLEX'')])]"

definition style_12_d :: attrs where
  "style_12_d = [
     (''y_label'', JStr ''P99 Latency (x10 us)''), (''x_label'', JStr ''Throughput (Mops/s)  ''),
     (''y_multiple'', JNum 10), (''legend_location'', JStr ''upper right''), (''figsize'', JList [JNum 5, JNum 4]),
     (''method_legend'', JDict [(''SMART-SC'', JStr ''SMART-Opt'')])]"

definition style_12_e :: attrs where
  "style_12_e = [
     (''y_label'', JStr ''P99 Latency (x10 us)''), (''x_label'', JStr ''Throughput (Mops/s)  ''),
     (''y_multiple'', JNum 10), (''legend_location'', JStr ''upper right''), (''figsize'', JList [JNum 5, JNum 4]),
     (''method_legend'', JDict [([], JStr [])])]"

definition style_13 :: attrs where
  "style_13 = [
     (''y_label'', JStr ''Throughput (Mops/s)''), (''yR_label'', JStr ''Latency (us)''),
     (''legend_location'', JStr ''best''), (''legendR_location'', JStr ''upper right''),
     (''figsize'', JList [JNum 10, JNum 6]),
     (''ignore_point'', JDict [(''bar_group'', JStr ''YCSB LOAD''), (''method'', JStr ''ROLEX-indirect'')]),
     (''method_legend'', JDict [(''CHIME-indirect'', JStr ''CHIME-Indirect''), (''Marlin'', JStr ''Marlin''), (''ROLEX-indirect'', JStr ''ROLEX-Indirect''), (''SMART-RCU'', JStr ''SMART-RCU'')])]"

definition style_14 :: attrs where
  "style_14 = [
     (''y_label'', JStr ''Cache Consumption
(x100 MB)''), (''x_label'', JStr ''Number of KV Items (M)''),
     (''y_multiple'', JNum 100), (''pile_up_value'', JDict [(''CHIME'', JNum 30)]), (''bar_offset'', JNum (3 / 2)),
     (''legend_location'', JStr ''best''), (''figsize'', JList [JNum 5, JNum 4]),
     (''method_legend'', JDict [(''CHIME'', JStr ''CHIME''), (''Sherman'', JStr ''Sherman''), (''ROLEX'', JStr ''ROLEX''), (''SMART'', JStr ''SMART'')])]"

definition style_15a :: attrs where
  "style_15a = [
     (''y_label'', JStr ''Throughput (Mops/s)''), (''yR_label'', JStr ''Latency (us)''),
     (''y_lim'', JList [JNum 0, JNum 100]), (''yR_scale'', JStr ''log''), (''bar_offset'', JNum (5 / 2)),
     (''legend_location'', JStr ''upper left''), (''legendR_location'', JStr ''upper right''),
     (''figsize'', JList [JNum 10, JNum 6]),
     (''method_legend'', JDict [(''Baseline (Sherman)'', JStr ''Sherman''), (''+Hopscotch Leaf Node'', JStr ''+Hopscotch leaf node''), (''+Vacancy-Aware Lock'', JStr ''+Vacancy bitmap piggybacking''), (''+Metadata Replication'', JStr ''+Leaf metadata replication''), (''+Sibling-Based Validation'', JStr ''+Sibling-based validation''), (''+Speculative Leaf Read (CHIME)'', JStr ''+Speculative read (CHIME)'')])]"

definition style_15b :: attrs where
  "style_15b = [
     (''y_label'', JStr ''Throughput (Mops/s)''), (''yR_label'', JStr ''Latency (us)''),
     (''y_lim'', JList [JNum 0, JNum 100]), (''yR_scale'', JStr ''log''), (''bar_offset'', JNum (5 / 2)),
     (''legend_location'', JStr ''upper left''), (''legendR_location'', JStr ''upper right''),
     (''figsize'', JList [JNum 8, JNum 6]),
     (''method_legend'', JDict [(''Baseline (ROLEX)'', JStr ''ROLEX''), (''+Hopscotch Leaf Node'', JStr ''+Hopscotch leaf node''), (''+Vacancy-Aware Lock'', JStr ''+Vacancy bitmap piggybacking''), (''+Metadata Replication'', JStr ''+Leaf metadata replication''), (''+Speculative Leaf Read'', JStr ''+Speculative read'')])]"

definition style_16 :: attrs where
  "style_16 = [
     (''y_label'', JStr ''Meta. Size (Bytes/KV) ''), (''x_label'', JStr ''Key Size (Bytes)''),
     (''legend_location'', JStr ''upper left''), (''figsize'', JList [JNum 5, JNum 4]),
     (''method_legend'', JDict [(''CHIME w/ Sibling-Based Validation'', JStr ''CHIME w/ SV''), (''CHIME w/o Sibling-Based Validation'', JStr ''CHIME w/o SV''), (''SMART'', JStr ''SMART''), (''Sherman'', JStr ''Sherman''), (''ROLEX'', JStr ''ROLEX'')])]"

definition style_17 :: attrs where
  "style_17 = [
     (''y_label'', JStr ''Throughput (Mops/s)''), (''x_label'', JStr ''Number of Clients''),
     (''legend_location'', JStr ''lower right''), (''figsize'', JList [JNum 5, JNum 4]),
     (''method_legend'', JDict [(''SMART'', JStr ''SMART-Opt''), (''CHIME w/ Speculative Leaf Read'', JStr ''CHIME w/ SR''), (''CHIME w/o Speculative Leaf Read'', JStr ''CHIME w/o SR'')]),
     (''dotted_methods'', JList [JStr ''SMART''])]"

definition style_18a :: attrs where
  "style_18a = [
     (''y_label'', JStr ''Throughput (Mops/s)''), (''x_label'', JStr ''Zipfian coefficient''),
     (''legend_location'', JStr ''upper right''), (''figsize'', JList [JNum 5, JNum 4]),
     (''method_legend'', JDict [(''CHIME'', JStr ''CHIME''), (''Sherman'', JStr ''Sherman''), (''ROLEX'', JStr ''ROLEX''), (''SMART'', JStr ''SMART'')])]"

definition style_18b :: attrs where
  "style_18b = [
     (''y_label'', JStr ''Throughput (Mops/s)''), (''x_label'', JStr ''Cache Size (MB)''),
     (''legend_location'', JStr ''upper left''), (''figsize'', JList [JNum 5, JNum 4]),
     (''method_legend'', JDict [(''CHIME'', JStr ''CHIME''), (''Sherman'', JStr ''Sherman''), (''ROLEX'', JStr ''ROLEX''), (''SMART'', JStr ''SMART'')])]"

definition style_18c :: attrs where
  "style_18c = [
     (''y_label'', JStr ''Throughput (Mops/s)''), (''x_label'', JStr ''Value Size (Bytes)''),
     (''legend_location'', JStr ''upper right''), (''figsize'', JList [JNum 5, JNum 4]),
     (''method_legend'', JDict [(''CHIME'', JStr ''CHIME''), (''Sherman'', JStr ''Sherman''), (''ROLEX'', JStr ''ROLEX''), (''SMART'', JStr ''SMART'')])]"

definition style_18d :: attrs where
  "style_18d = [
     (''y_label'', JStr ''Throughput (Mops/s)''), (''x_label'', JStr ''Value Size (Bytes)''),
     (''legend_location'', JStr ''upper right''), (''figsize'', JList [JNum 5, JNum 4]),
     (''method_legend'', JDict [(''CHIME-indirect'', JStr ''CHIME-Indirect''), (''SMART-RCU'', JStr ''SMART-RCU''), (''Marlin'', JStr ''Marlin''), (''ROLEX-indirect'', JStr ''ROLEX-Indirect'')])]"

definition style_18e :: attrs where
  "style_18e = [
     (''y_label'', JStr ''Throughput (Mops/s)''), (''x_label'', JStr ''Span Size (Entries)''),
     (''legend_location'', JStr ''best''), (''figsize'', JList [JNum 5, JNum 4]),
     (''method_legend'', JDict [(''CHIME'', JStr ''CHIME''), (''Sherman'', JStr ''Sherman''), (''ROLEX'', JStr ''ROLEX''), (''SMART'', JStr ''SMART'')])]"

definition style_18f :: attrs where
  "style_18f = [
     (''y_label'', JStr ''Throughput (Mops/s)''), (''x_label'', JStr ''Neighbor. Size (Entries)''),
     (''legend_location'', JStr ''upper right''), (''figsize'', JList [JNum 5, JNum 4]),
     (''method_legend'', JDict [(''CHIME'', JStr ''CHIME''), (''Sherman'', JStr ''Sherman''), (''ROLEX'', JStr ''ROLEX''), (''SMART'', JStr ''SMART'')])]"

definition style_19a :: attrs where
  "style_19a = [
     (''yL_label'', JStr ''Cache Consumption (MB)''), (''yR_label'', JStr ''Max. Load Factor (%)''),
     (''x_label'', JStr ''Span Size (Entries)''), (''legendL_anchor'', JList [JNum (3 / 10), JNum (4 / 5)]),
     (''legendR_anchor'', JList [JNum (3 / 10), JNum (3 / 5)]), (''figsize'', JList [JNum 5, JNum 4])]"

definition style_19b :: attrs where
  "style_19b = [
     (''yL_label'', JStr ''Cache Consumed (MB)''), (''yR_label'', JStr ''Max. Load Factor (%)''),
     (''x_label'', JStr ''Neighbor. Size (Entries)''), (''legendL_anchor'', JList [JNum (3 / 10), JNum (4 / 5)]),
     (''legendR_anchor'', JList [JNum (3 / 10), JNum (3 / 5)]), (''figsize'', JList [JNum 5, JNum 4])]"

definition style_19c :: attrs where
  "style_19c = [
     (''yL_label'', JStr ''Throughput (Mops/s)''), (''yR_label'', JStr ''Buffer Hit Ratio (%)''),
     (''x_label'', JStr ''Hotspot Buffer Size (MB)''), (''legendL_anchor'', JList [JNum (3 / 10), JNum (1 / 2)]),
     (''legendR_anchor'', JList [JNum (3 / 10), JNum (3 / 10)]), (''figsize'', JList [JNum 5, JNum 4])]"

section \<open>The pictures\<close>

text \<open>Each picture with the methods its script plots and its style.\<close>

definition shipped_pictures :: "(string \<times> string list \<times> attrs) list" where
  "shipped_pictures = [
     (''03a'', [''SMART'', ''Sherman'', ''ROLEX''], style_03a),
     (''03b'', [''SMART'', ''Sherman'', ''ROLEX''], style_03b),
     (''03c'', [''SMART'', ''Sherman'', ''ROLEX''], style_03c),
     (''03d'', [''Hopscotch'', ''FaRM'', ''Associativity'', ''RACE''], style_03d),
     (''04a'', [''Segment'', ''Metadata before Segment''], style_04a),
     (''04b'', [''Segment'', ''Segment and Metadata (2-I/O)''], style_04b),
     (''04c'', [''Neighborhood (1-entry)'', ''Neighborhood (4-entry)'', ''Neighborhood (8-entry)''], style_04c),
     (''12_la'', [''CHIME'', ''SMART'', ''Sherman'', ''SMART-SC''], style_12_la),
     (''12_a'', [''CHIME'', ''SMART'', ''Sherman'', ''ROLEX'', ''SMART-SC''], style_12_a),
     (''12_b'', [''CHIME'', ''SMART'', ''Sherman'', ''ROLEX'', ''SMART-SC''], style_12_b),
     (''12_c'', [''CHIME'', ''SMART'', ''Sherman'', ''ROLEX'', ''SMART-SC''], style_12_c),
     (''12_d'', [''CHIME'', ''SMART'', ''Sherman'', ''ROLEX'', ''SMART-SC''], style_12_d),
     (''12_e'', [''CHIME'', ''SMART'', ''Sherman'', ''ROLEX'', ''SMART-SC''], style_12_e),
     (''13'', [''CHIME-indirect'', ''SMART-RCU'', ''Marlin'', ''ROLEX-indirect''], style_13),
     (''14'', [''CHIME'', ''Sherman'', ''ROLEX'', ''SMART''], style_14),
     (''15a'', [''Baseline (Sherman)'', ''+Hopscotch Leaf Node'', ''+Vacancy-Aware Lock'', ''+Metadata Replication'', ''+Sibling-Based Validation'', ''+Speculative Leaf Read (CHIME)''], style_15a),
     (''15b'', [''Baseline (ROLEX)'', ''+Hopscotch Leaf Node'', ''+Vacancy-Aware Lock'', ''+Metadata Replication'', ''+Speculative Leaf Read''], style_15b),
     (''16'', [''CHIME w/ Sibling-Based Validation'', ''CHIME w/o Sibling-Based Validation'', ''SMART'', ''Sherman'', ''ROLEX''], style_16),
     (''17'', [''SMART'', ''CHIME w/ Speculative Leaf Read'', ''CHIME w/o Speculative Leaf Read''], style_17),
     (''18a'', [''CHIME'', ''SMART'', ''Sherman'', ''ROLEX''], style_18a),
     (''18b'', [''SMART'', ''CHIME'', ''Sherman'', ''ROLEX''], style_18b),
     (''18c'', [''CHIME'', ''SMART'', ''Sherman'', ''ROLEX''], style_18c),
     (''18d'', [''CHIME-indirect'', ''SMART-RCU'', ''Marlin'', ''ROLEX-indirect''], style_18d),
     (''18e'', [''CHIME'', ''Sherman'', ''ROLEX''], style_18e), (''18f'', [''CHIME''], style_18f),
     (''19a'', [''Cache Efficiency'', ''Load Factor''], style_19a),
     (''19b'', [''Cache Efficiency'', ''Load Factor''], style_19b),
     (''19c'', [''Throughput'', ''Buffer Hit Ratio''], style_19c)]"

text \<open>
  The methods of the table above are those of the parameter files, where the script plots them as they
  stand; for the two factor analyses they are the names the script shows for them.\<close>

definition plots_methods_of :: "json \<Rightarrow> string \<Rightarrow> bool" where
  "plots_methods_of P n = (case map_of shipped_pictures n of None \<Rightarrow> False | Some (ms, _) \<Rightarrow> json_get json_strs P ''methods'' = Some ms)"

lemma plotted_methods:
  "list_all (\<lambda>(P, ns). list_all (plots_methods_of P) ns)
     [(params_03a, [''03a'']), (params_03b, [''03b'']), (params_03c, [''03c'']), (params_03d, [''03d'']), (params_04a, [''04a'']),
      (params_04b, [''04b'']), (params_12, [''12_a'', ''12_b'', ''12_c'', ''12_d'', ''12_e'']), (params_13, [''13'']),
      (params_14, [''14'']), (params_16, [''16'']), (params_17, [''17'']), (params_18a, [''18a'']), (params_18b, [''18b'']),
      (params_18c, [''18c'']), (params_18d, [''18d'']), (params_18e, [''18e'']), (params_18f_19b, [''18f''])]"
  by code_simp

lemma plotted_factors:
  "map_option fst (map_of shipped_pictures ''15a'') = Some (map snd method_maps_15a)"
  "map_option fst (map_of shipped_pictures ''15b'') = Some (map snd method_maps_15b)"
  by code_simp+

lemma plotted_without_rolex:
  "map_option fst (map_of shipped_pictures ''12_la'') =
     map_option (filter (\<lambda>m. m \<noteq> ''ROLEX'')) (json_get json_strs params_12 ''methods'')"
  by code_simp

definition metric_names :: "string list" where
  "metric_names = [''Throughput'', ''P50 Latency'', ''P99 Latency'']"

definition picture_ok :: "string \<Rightarrow> string list \<Rightarrow> attrs \<Rightarrow> bool" where
  "picture_ok n ms st \<longleftrightarrow> style_ok st \<and>
     (case drawer_for n of
        None \<Rightarrow> False
      | Some Line_One_Ax \<Rightarrow> list_all (\<lambda>m. line_known m \<and> layered m) ms
      | Some Line_Two_Ax \<Rightarrow> aux_plt_func n = None \<and> length ms = 2 \<and> distinct ms \<and> legend_covers ms st \<and> list_all line_known ms
      | Some Bar_One_Ax \<Rightarrow> ms \<noteq> [] \<and> legend_covers ms st \<and> list_all bar_known ms
      | Some Bar_Two_Ax \<Rightarrow> False
      | Some Bar_With_Line \<Rightarrow> 1 < length ms \<and> legend_covers ms st \<and> list_all bar_known ms \<and> list_all metric_known (tl metric_names))"

text \<open>Data of the form the scripts write for a drawer.\<close>

definition picture_data :: "drawer \<Rightarrow> string list \<Rightarrow> json \<Rightarrow> bool" where
  "picture_data d ms data \<longleftrightarrow>
     (case d of
        Line_One_Ax \<Rightarrow> \<exists>xs ys. line_data ms xs ys data
      | Line_Two_Ax \<Rightarrow> \<exists>xs ys. line_data ms xs ys data
      | Bar_One_Ax \<Rightarrow> \<exists>gs val. group_data ms gs val data
      | Bar_Two_Ax \<Rightarrow> False
      | Bar_With_Line \<Rightarrow> \<exists>gs val. metric_data ms gs metric_names val data)"

text \<open>
  What a picture shows of the data it is drawn from: the calls that draw the measured values, method by
  method, stand in a row in its list of calls.\<close>

definition shows_lines :: "string list \<Rightarrow> attrs \<Rightarrow> (string \<Rightarrow> json) \<Rightarrow> (string \<Rightarrow> rat list) \<Rightarrow> call list \<Rightarrow> bool" where
  "shows_lines ms st xs ys cs \<longleftrightarrow>
     (\<exists>q pre lines post. att (setattrs line_defaults st) ''y_multiple'' = JNum q \<and> cs = pre @ lines @ post \<and>
        list_all2 (\<lambda>m c. c_fun c = ''plot'' \<and> c_args c = [xs m, JList (map (\<lambda>y. JNum (y / q)) (ys m))]) ms lines)"

definition shows_two_lines :: "string \<Rightarrow> string \<Rightarrow> attrs \<Rightarrow> (string \<Rightarrow> json) \<Rightarrow> (string \<Rightarrow> rat list) \<Rightarrow> call list \<Rightarrow> bool" where
  "shows_two_lines l r st xs ys cs \<longleftrightarrow>
     (\<exists>q pre kw kw' post. att (setattrs line_defaults st) ''y_multiple'' = JNum q \<and>
        cs = pre @ [\<lparr>c_ax = ''L'', c_fun = ''plot'', c_args = [xs l, JList (map (\<lambda>y. JNum (y / q)) (ys l))], c_kw = kw\<rparr>,
          \<lparr>c_ax = ''R'', c_fun = ''plot'', c_args = [xs r, JList (map JNum (ys r))], c_kw = kw'\<rparr>] @ post)"

definition shows_bars :: "string list \<Rightarrow> attrs \<Rightarrow> string list \<Rightarrow> (string \<Rightarrow> string \<Rightarrow> rat) \<Rightarrow> call list \<Rightarrow> bool" where
  "shows_bars ms st gs val cs \<longleftrightarrow>
     (\<exists>off q pre bars post. att (setattrs bar_defaults st) ''bar_offset'' = JNum off \<and>
        att (setattrs bar_defaults st) ''y_multiple'' = JNum q \<and> cs = pre @ concat bars @ post \<and>
        list_all2 (\<lambda>(i, m) cs. \<exists>c cs'. cs = c # cs' \<and> c_fun c = ''bar'' \<and>
          c_args c = [JList (bar_x (length gs) off (bar_step (length ms)) i), JList (map (\<lambda>g. JNum (val m g / q)) gs)])
          (enumerate 0 ms) bars)"

definition shows_metric_bars ::
    "string list \<Rightarrow> attrs \<Rightarrow> string list \<Rightarrow> string \<Rightarrow> (string \<Rightarrow> string \<Rightarrow> string \<Rightarrow> json) \<Rightarrow> call list \<Rightarrow> bool" where
  "shows_metric_bars ms st gs k val cs \<longleftrightarrow>
     (\<exists>off pre bars post. att (setattrs bar_defaults st) ''bar_offset'' = JNum off \<and> cs = pre @ bars @ post \<and>
        list_all2 (\<lambda>(i, m) c. c_fun c = ''bar'' \<and>
          c_args c = [JList (bar_x (length gs) off (bar_step (length ms)) i), JList (map (\<lambda>g. val m g k) gs)])
          (enumerate 0 ms) bars)"

fun picture_shows :: "drawer \<Rightarrow> string list \<Rightarrow> attrs \<Rightarrow> json \<Rightarrow> call list \<Rightarrow> bool" where
  "picture_shows Line_One_Ax ms st data cs = (\<forall>xs ys. line_data ms xs ys data \<longrightarrow> shows_lines ms st xs ys cs)"
| "picture_shows Line_Two_Ax ms st data cs =
     (\<forall>xs ys. line_data ms xs ys data \<longrightarrow> shows_two_lines (hd ms) (last ms) st xs ys cs)"
| "picture_shows Bar_One_Ax ms st data cs = (\<forall>gs val. group_data ms gs val data \<longrightarrow> shows_bars ms st gs val cs)"
| "picture_shows Bar_Two_Ax ms st data cs = False"
| "picture_shows Bar_With_Line ms st data cs =
     (\<forall>gs val. metric_data ms gs metric_names val data \<longrightarrow> shows_metric_bars ms st gs (hd metric_names) val cs)"

lemma picture_ok_style: "picture_ok n ms st \<Longrightarrow> style_ok st"
  by (simp add: picture_ok_def)

lemma returned_shows:
  assumes "D x" and "\<And>x. D x \<Longrightarrow> \<exists>cs. m = Inr cs \<and> S x cs"
  shows "\<exists>cs. m = Inr cs \<and> (\<forall>x. D x \<longrightarrow> S x cs)"
  using assms by (metis sum.inject(2))

lemma returned_shows2:
  assumes "D x y" and "\<And>x y. D x y \<Longrightarrow> \<exists>cs. m = Inr cs \<and> S x y cs"
  shows "\<exists>cs. m = Inr cs \<and> (\<forall>x y. D x y \<longrightarrow> S x y cs)"
  using returned_shows[of "\<lambda>(x, y). D x y" "(x, y)" m "\<lambda>(x, y). S x y"] assms by auto

lemma line_one_shows:
  assumes "style_ok st" and "list_all (\<lambda>m. line_known m \<and> layered m) ms" and "line_data ms xs ys data"
  shows "\<exists>cs. line_one_ax np aux data fname st = Inr cs \<and> shows_lines ms st xs ys cs"
proof -
  from line_one_ax_draws[OF assms(1,3,2), where fig_name = fname and np = np and aux = aux]
  obtain q pre lines post where q: "att (setattrs line_defaults st) ''y_multiple'' = JNum q"
    and r: "line_one_ax np aux data fname st = Inr (pre @ lines @ post)"
    and l: "list_all2 (\<lambda>m c. c_fun c = ''plot'' \<and> c_args c = [xs m, JList (map (\<lambda>y. JNum (y / q)) (ys m))]) ms lines"
    by blast
  have "shows_lines ms st xs ys (pre @ lines @ post)"
    unfolding shows_lines_def by (intro exI conjI) (rule q, rule refl, rule l)
  with r show ?thesis by blast
qed

lemma line_two_shows:
  assumes "style_ok st" and "legend_covers [l, r] st" and "l \<noteq> r" and "line_known l" and "line_known r" and "line_data [l, r] xs ys data"
  shows "\<exists>cs. line_two_ax np None data fname st = Inr cs \<and> shows_two_lines l r st xs ys cs"
proof -
  from line_two_ax_draws[OF assms(1,2,6,3-5), where fig_name = fname and np = np]
  obtain q pre kw kw' post where q: "att (setattrs line_defaults st) ''y_multiple'' = JNum q"
    and r: "line_two_ax np None data fname st =
      Inr (pre @ [\<lparr>c_ax = ''L'', c_fun = ''plot'', c_args = [xs l, JList (map (\<lambda>y. JNum (y / q)) (ys l))], c_kw = kw\<rparr>,
        \<lparr>c_ax = ''R'', c_fun = ''plot'', c_args = [xs r, JList (map JNum (ys r))], c_kw = kw'\<rparr>] @ post)" by blast
  from q have "shows_two_lines l r st xs ys
      (pre @ [\<lparr>c_ax = ''L'', c_fun = ''plot'', c_args = [xs l, JList (map (\<lambda>y. JNum (y / q)) (ys l))], c_kw = kw\<rparr>,
        \<lparr>c_ax = ''R'', c_fun = ''plot'', c_args = [xs r, JList (map JNum (ys r))], c_kw = kw'\<rparr>] @ post)"
    unfolding shows_two_lines_def by blast
  with r show ?thesis by blast
qed

lemma bar_one_shows:
  assumes "style_ok st" and "legend_covers ms st" and "list_all bar_known ms" and "ms \<noteq> []" and "group_data ms gs val data"
  shows "\<exists>cs. bar_one_ax aux data fname st = Inr cs \<and> shows_bars ms st gs val cs"
proof -
  from bar_one_ax_draws[OF assms(1,2,5,3,4), where fig_name = fname and aux = aux]
  obtain off q pre bars post where o: "att (setattrs bar_defaults st) ''bar_offset'' = JNum off"
    and q: "att (setattrs bar_defaults st) ''y_multiple'' = JNum q"
    and r: "bar_one_ax aux data fname st = Inr (pre @ concat bars @ post)"
    and l: "list_all2 (\<lambda>(i, m) cs. \<exists>c cs'. cs = c # cs' \<and> c_fun c = ''bar'' \<and>
      c_args c = [JList (bar_x (length gs) off (bar_step (length ms)) i), JList (map (\<lambda>g. JNum (val m g / q)) gs)])
      (enumerate 0 ms) bars" by blast
  have "shows_bars ms st gs val (pre @ concat bars @ post)"
    unfolding shows_bars_def by (intro exI conjI) (rule o, rule q, rule refl, rule l)
  with r show ?thesis by blast
qed

lemma bar_with_line_shows:
  assumes "style_ok st" and "legend_covers ms st" and "list_all bar_known ms" and "1 < length ms" and "list_all metric_known ks"
    and "metric_data ms gs (k # ks) val data"
  shows "\<exists>cs. bar_with_line data fname st = Inr cs \<and> shows_metric_bars ms st gs k val cs"
proof -
  from bar_with_line_draws[OF assms(1,2,6,3-5), where fig_name = fname]
  obtain off pre bars post where o: "att (setattrs bar_defaults st) ''bar_offset'' = JNum off"
    and r: "bar_with_line data fname st = Inr (pre @ bars @ post)"
    and l: "list_all2 (\<lambda>(i, m) c. c_fun c = ''bar'' \<and>
      c_args c = [JList (bar_x (length gs) off (bar_step (length ms)) i), JList (map (\<lambda>g. val m g k) gs)]) (enumerate 0 ms) bars"
    by blast
  have "shows_metric_bars ms st gs k val (pre @ bars @ post)"
    unfolding shows_metric_bars_def by (intro exI conjI) (rule o, rule refl, rule l)
  with r show ?thesis by blast
qed

lemma metric_names_split: "metric_names = hd metric_names # tl metric_names"
  by (simp add: metric_names_def)

lemma picture_ok_draws:
  assumes "picture_ok n ms st" and "drawer_for n = Some d" and "picture_data d ms data"
  shows "\<exists>cs. draw_picture np \<lparr>dr_file = fname, dr_drawer = d, dr_data = data, dr_style = JDict st, dr_aux = aux_plt_func n\<rparr> = Inr cs \<and>
    picture_shows d ms st data cs"
proof (cases d)
  case Line_One_Ax
  with assms(1,2) have "list_all (\<lambda>m. line_known m \<and> layered m) ms" by (simp add: picture_ok_def)
  note draws = line_one_shows[OF picture_ok_style[OF assms(1)] this, where fname = fname and np = np and aux = "map_option aux_calls (aux_plt_func n)"]
  from assms(3) Line_One_Ax obtain xs ys where "line_data ms xs ys data" by (auto simp: picture_data_def)
  from returned_shows2[of "\<lambda>xs ys. line_data ms xs ys data", OF this draws]
  show ?thesis by (simp add: draw_picture_def as_object_def Line_One_Ax)
next
  case Line_Two_Ax
  from assms(1,2) Line_Two_Ax obtain l r where ms: "ms = [l, r]" and aux: "aux_plt_func n = None" and k: "legend_covers [l, r] st" "l \<noteq> r" "line_known l" "line_known r"
    by (auto simp: picture_ok_def numeral_2_eq_2 length_Suc_conv)
  note draws = line_two_shows[OF picture_ok_style[OF assms(1)] k, where fname = fname and np = np]
  from assms(3) Line_Two_Ax ms obtain xs ys where "line_data [l, r] xs ys data" by (auto simp: picture_data_def)
  from returned_shows2[of "\<lambda>xs ys. line_data [l, r] xs ys data", OF this draws]
  show ?thesis by (simp add: draw_picture_def as_object_def Line_Two_Ax ms aux)
next
  case Bar_One_Ax
  with assms(1,2) have k: "legend_covers ms st" "list_all bar_known ms" "ms \<noteq> []" by (simp_all add: picture_ok_def)
  note draws = bar_one_shows[OF picture_ok_style[OF assms(1)] k, where fname = fname and aux = "map_option aux_calls (aux_plt_func n)"]
  from assms(3) Bar_One_Ax obtain gs val where "group_data ms gs val data" by (auto simp: picture_data_def)
  from returned_shows2[of "\<lambda>gs val. group_data ms gs val data", OF this draws]
  show ?thesis by (simp add: draw_picture_def as_object_def Bar_One_Ax)
next
  case Bar_Two_Ax
  with assms(3) show ?thesis by (simp add: picture_data_def)
next
  case Bar_With_Line
  with assms(1,2) have k: "legend_covers ms st" "list_all bar_known ms" "1 < length ms" "list_all metric_known (tl metric_names)"
    by (simp_all add: picture_ok_def)
  note draws = bar_with_line_shows[OF picture_ok_style[OF assms(1)] k, where k = "hd metric_names" and fname = fname,
    folded metric_names_split]
  from assms(3) Bar_With_Line obtain gs val where "metric_data ms gs metric_names val data" by (auto simp: picture_data_def)
  from returned_shows2[of "\<lambda>gs val. metric_data ms gs metric_names val data", OF this draws]
  show ?thesis by (simp add: draw_picture_def as_object_def Bar_With_Line)
qed

lemma pictures_ok_first: "list_all (\<lambda>(n, ms, st). picture_ok n ms st) (take 10 shipped_pictures)"
  by code_simp

lemma pictures_ok_second: "list_all (\<lambda>(n, ms, st). picture_ok n ms st) (take 9 (drop 10 shipped_pictures))"
  by code_simp

lemma pictures_ok_third: "list_all (\<lambda>(n, ms, st). picture_ok n ms st) (drop 9 (drop 10 shipped_pictures))"
  by code_simp

lemma pictures_ok: "list_all (\<lambda>(n, ms, st). picture_ok n ms st) shipped_pictures"
  using pictures_ok_first pictures_ok_second pictures_ok_third by (metis append_take_drop_id list_all_append)

text \<open>
  C11: Every picture of the paper is drawn and shows its measurements: with the style file of the
  repository and any data of the form its script writes for the methods of the parameter file, the
  drawer the generator chooses returns, and its calls contain one line or group of bars per method, in
  order, with the values of the data over \<^verbatim>\<open>y_multiple\<close> of the style.\<close>

theorem shipped_pictures_draw:
  assumes "(n, ms, st) \<in> set shipped_pictures" and "drawer_for n = Some d" and "picture_data d ms data"
  shows "\<exists>cs. draw_picture np \<lparr>dr_file = ''fig_'' @ n @ ''.pdf'', dr_drawer = d, dr_data = data, dr_style = JDict st,
    dr_aux = aux_plt_func n\<rparr> = Inr cs \<and> picture_shows d ms st data cs"
proof (rule picture_ok_draws[OF _ assms(2,3)])
  show "picture_ok n ms st" using assms(1) pictures_ok by (auto simp: list_all_iff)
qed

definition sample_lines :: "string list \<Rightarrow> json" where
  "sample_lines ms = JDict [(''methods'', jstrs ms), (''X_data'', JDict (map (\<lambda>m. (m, JList [JNum 1, JNum 2])) ms)),
     (''Y_data'', JDict (map (\<lambda>m. (m, JList [JNum 10, JNum 20])) ms))]"

theorem shipped_pictures_draw_witness:
  "\<exists>cs. draw_picture sample_np \<lparr>dr_file = ''fig_'' @ ''03b'' @ ''.pdf'', dr_drawer = Line_One_Ax,
      dr_data = sample_lines [''SMART'', ''Sherman'', ''ROLEX''], dr_style = JDict style_03b,
      dr_aux = aux_plt_func ''03b''\<rparr> = Inr cs \<and>
    picture_shows Line_One_Ax [''SMART'', ''Sherman'', ''ROLEX''] style_03b (sample_lines [''SMART'', ''Sherman'', ''ROLEX'']) cs"
proof (rule shipped_pictures_draw)
  show "(''03b'', [''SMART'', ''Sherman'', ''ROLEX''], style_03b) \<in> set shipped_pictures" by (simp add: shipped_pictures_def)
  show "drawer_for ''03b'' = Some Line_One_Ax" by code_simp
  have "line_data [''SMART'', ''Sherman'', ''ROLEX''] (\<lambda>_. JList [JNum 1, JNum 2]) (\<lambda>_. [10, 20])
      (sample_lines [''SMART'', ''Sherman'', ''ROLEX''])"
    by (simp add: line_data_def sample_lines_def sub_get_def dict_get_def x_of_def)
  then show "picture_data Line_One_Ax [''SMART'', ''Sherman'', ''ROLEX''] (sample_lines [''SMART'', ''Sherman'', ''ROLEX''])"
    by (auto simp: picture_data_def)
qed

end
