(* ===== verification/Drawn_Results.thy ===== *)
theory Drawn_Results
  imports Draw_Figures Fig_Bars
begin

text \<open>
  From the measurement to the picture: the file \<^verbatim>\<open>fig_12.py\<close> writes for a workload is drawn with one line per
  method through exactly its measured points.
\<close>

section \<open>The latencies of figure 12 are numbers\<close>

definition all_nums :: "series \<Rightarrow> bool" where
  "all_nums Y \<longleftrightarrow> (\<forall>m l. map_of Y m = Some l \<longrightarrow> list_all is_jnum l)"

lemma all_nums_append: "append_to Y m (JNum r) = Inr Y' \<Longrightarrow> all_nums Y \<Longrightarrow> all_nums Y'"
  by (auto simp: append_to_def all_nums_def update_conv split: option.splits if_splits)

lemma all_nums_clear: "all_nums d \<Longrightarrow> all_nums (AList.update m [] d)"
  by (simp add: all_nums_def update_conv)

lemma all_nums_init: "all_nums (series_init [] ms)"
proof -
  have "all_nums (foldl (\<lambda>d m. AList.update m [] d) d ms)" if "all_nums d" for d
    using that
  proof (induction ms arbitrary: d)
    case (Cons m ms)
    show ?case using Cons.IH[OF all_nums_clear[OF Cons.prems]] by simp
  qed simp
  from this[of "[]"] show ?thesis by (simp add: series_init_def all_nums_def)
qed

lemma fig_12_point_nums:
  "fig_12_point fuel C P es ms workload wl method b cn s = (Inr b', s') \<Longrightarrow> all_nums (fst (snd b)) \<Longrightarrow> all_nums (fst (snd b'))"
  by (auto simp: fig_12_point_def act_dest Let_def split: prod.splits intro: all_nums_append)

lemma fig_12_method_nums:
  assumes "fig_12_method fuel C P es clients ms w wl b method s = (Inr b', s')" and "all_nums (fst (snd b))"
  shows "all_nums (fst (snd b'))"
  by (rule act_fold_keeps[where Q = "\<lambda>b. all_nums (fst (snd b))", OF fig_12_point_nums fig_12_method_fold[OF assms(1)] assms(2)])

lemma fig_12_workload_nums:
  assumes "fig_12_workload fuel C P es clients (w, wl) s = (Inr (), s')" and "distinct (fig_12_methods P wl)"
  obtains X Y B where
    "map_of (saved s') (fig_12_file wl) = Some (plot_12 (fig_12_methods P wl) X Y B)"
    "full_series X (fig_12_methods P wl) (\<lambda>m. length (clients_of clients w m))"
    "full_series Y (fig_12_methods P wl) (\<lambda>m. length (clients_of clients w m))" "all_nums Y"
proof -
  let ?ms = "fig_12_methods P wl"
  obtain X Y B where f: "map_of (saved s') (fig_12_file wl) = Some (plot_12 ?ms X Y B)"
    "full_series X ?ms (\<lambda>m. length (clients_of clients w m))" "full_series Y ?ms (\<lambda>m. length (clients_of clients w m))"
    by (rule fig_12_workload_ok[OF assms(1) refl assms(2)])
  from assms(1) obtain X' Y' B' t where
    r: "act_fold (fig_12_method fuel C P es clients ?ms w wl) (series_init [] ?ms, series_init [] ?ms, series_init [] ?ms) ?ms s =
      (Inr (X', Y', B'), t)"
    and s': "s' = t\<lparr>saved := AList.update (fig_12_file wl) (plot_12 ?ms X' Y' B') (saved t)\<rparr>"
    by (auto simp: fig_12_workload_def act_dest Let_def)
  have n: "all_nums Y'"
    using act_fold_keeps[where Q = "\<lambda>b. all_nums (fst (snd b))", OF fig_12_method_nums r] all_nums_init by simp
  have "plot_12 ?ms X Y B = plot_12 ?ms X' Y' B'" using f(1) s' by (simp add: update_conv)
  then have "map (\<lambda>(m, l). (m, JList l)) Y = map (\<lambda>(m, l). (m, JList l)) Y'" by (simp add: plot_12_def jseries_def)
  moreover have "inj (\<lambda>(m, l). (m, JList l))" by (auto simp: inj_def)
  ultimately have "Y = Y'" by (metis inj_map_eq_map)
  with f n that show thesis by blast
qed

section \<open>Its picture\<close>

definition the_num :: "json \<Rightarrow> rat" where
  "the_num j = (case j of JNum q \<Rightarrow> q | _ \<Rightarrow> 0)"

lemma all_jnums: "list_all is_jnum l \<Longrightarrow> l = map JNum (map the_num l)"
proof (induction l)
  case (Cons j l)
  then show ?case by (cases j) (auto simp: the_num_def)
qed simp

definition points_of :: "series \<Rightarrow> string \<Rightarrow> json list" where
  "points_of S m = (case map_of S m of None \<Rightarrow> [] | Some l \<Rightarrow> l)"

lemma jseries_get: "map_of S m = Some l \<Longrightarrow> x_of (jseries S) m = Inr (JList l) \<and> sub_get (jseries S) m = Inr (JList l)"
  by (simp add: jseries_def x_of_def sub_get_def dict_get_def map_of_map)

lemma full_series_get: "full_series S ms n \<Longrightarrow> m \<in> set ms \<Longrightarrow> \<exists>l. map_of S m = Some l \<and> length l = n m"
  by (auto simp: full_series_def list_all_iff split: option.splits)

lemma plot_12_line_data:
  assumes "full_series X ms nx" and "full_series Y ms ny" and "all_nums Y"
  shows "line_data ms (\<lambda>m. JList (points_of X m)) (\<lambda>m. map the_num (points_of Y m)) (plot_12 ms X Y B)"
proof -
  have "x_of (jseries X) m = Inr (JList (points_of X m)) \<and>
      sub_get (jseries Y) m = Inr (JList (map JNum (map the_num (points_of Y m))))" if "m \<in> set ms" for m
  proof -
    from full_series_get[OF assms(1) that] full_series_get[OF assms(2) that]
    obtain lx ly where l: "map_of X m = Some lx" "map_of Y m = Some ly" by blast
    have "list_all is_jnum ly" using assms(3) l(2) by (auto simp: all_nums_def)
    from all_jnums[OF this] show ?thesis
      using jseries_get[OF l(1)] jseries_get[OF l(2)] l by (simp add: points_of_def)
  qed
  then show ?thesis by (simp add: line_data_def plot_12_def sub_get_def dict_get_def)
qed

text \<open>
  When \<^verbatim>\<open>fig_12.py\<close> has ended a workload, the line drawer turns its result file into a picture with one
  line per plotted method, through one point per client configuration: the measured throughputs
  against the measured P99 latencies over \<^verbatim>\<open>y_multiple\<close>.\<close>

theorem fig_12_picture:
  assumes "fig_12_workload fuel C P target_epochs clients (workload, wl) s = (Inr (), s')"
    and "distinct (exp_methods P)" and "list_all (\<lambda>m. line_known m \<and> layered m) (exp_methods P)" and "style_ok st"
  shows "\<exists>X Y B q pre lines post.
    map_of (saved s') (fig_12_file wl) = Some (plot_12 (fig_12_methods P wl) X Y B) \<and>
    att (setattrs line_defaults st) ''y_multiple'' = JNum q \<and>
    line_one_ax np aux (plot_12 (fig_12_methods P wl) X Y B) fig_name st = Inr (pre @ lines @ post) \<and>
    list_all2 (\<lambda>m c. c_fun c = ''plot'' \<and>
      c_args c = [JList (points_of X m), JList (map (\<lambda>y. JNum (the_num y / q)) (points_of Y m))] \<and>
      length (points_of X m) = length (clients_of clients workload m) \<and>
      length (points_of Y m) = length (clients_of clients workload m)) (fig_12_methods P wl) lines"
proof -
  let ?ms = "fig_12_methods P wl"
  have d: "distinct ?ms" and k: "list_all (\<lambda>m. line_known m \<and> layered m) ?ms"
    using assms(2,3) by (auto simp: fig_12_methods_def list_all_iff)
  obtain X Y B where f: "map_of (saved s') (fig_12_file wl) = Some (plot_12 ?ms X Y B)"
    "full_series X ?ms (\<lambda>m. length (clients_of clients workload m))"
    "full_series Y ?ms (\<lambda>m. length (clients_of clients workload m))" "all_nums Y"
    by (rule fig_12_workload_nums[OF assms(1) d])
  from line_one_ax_draws[OF assms(4) plot_12_line_data[OF f(2-4)] k, where np = np and aux = aux and fig_name = fig_name]
  obtain q pre lines post where r: "att (setattrs line_defaults st) ''y_multiple'' = JNum q"
    "line_one_ax np aux (plot_12 ?ms X Y B) fig_name st = Inr (pre @ lines @ post)"
    and l: "list_all2 (\<lambda>m c. c_fun c = ''plot'' \<and>
      c_args c = [JList (points_of X m), JList (map (\<lambda>y. JNum (y / q)) (map the_num (points_of Y m)))]) ?ms lines" by blast
  have len: "length (points_of X m) = length (clients_of clients workload m) \<and> length (points_of Y m) = length (clients_of clients workload m)"
    if "m \<in> set ?ms" for m
    using f(2,3) that by (auto simp: full_series_def points_of_def list_all_iff split: option.splits)
  have "list_all2 (\<lambda>m c. c_fun c = ''plot'' \<and>
      c_args c = [JList (points_of X m), JList (map (\<lambda>y. JNum (the_num y / q)) (points_of Y m))] \<and>
      length (points_of X m) = length (clients_of clients workload m) \<and>
      length (points_of Y m) = length (clients_of clients workload m)) ?ms lines"
    by (rule list.rel_mono_strong[OF l]) (auto simp: comp_def dest: len)
  with f(1) r show ?thesis by blast
qed

theorem fig_12_picture_witness:
  "\<exists>X Y B q pre lines post.
    map_of (saved (snd (fig_12_workload 1 sample_options (sample_exp [''SMART'']) [(''W'', 1)]
      [(''W'', [(''SMART'', [(1, 1)])])] (''W'', ''c'') (sample_lat_state (sample_avg_out ''joined.''))))) (fig_12_file ''c'') =
      Some (plot_12 (fig_12_methods (sample_exp [''SMART'']) ''c'') X Y B) \<and>
    att (setattrs line_defaults [(''y_multiple'', JNum 1000)]) ''y_multiple'' = JNum q \<and>
    line_one_ax sample_np None (plot_12 (fig_12_methods (sample_exp [''SMART'']) ''c'') X Y B) ''fig_12_c.pdf''
      [(''y_multiple'', JNum 1000)] = Inr (pre @ lines @ post) \<and>
    list_all2 (\<lambda>m c. c_fun c = ''plot'' \<and>
      c_args c = [JList (points_of X m), JList (map (\<lambda>y. JNum (the_num y / q)) (points_of Y m))] \<and>
      length (points_of X m) = length (clients_of [(''W'', [(''SMART'', [(1, 1)])])] ''W'' m) \<and>
      length (points_of Y m) = length (clients_of [(''W'', [(''SMART'', [(1, 1)])])] ''W'' m))
      (fig_12_methods (sample_exp [''SMART'']) ''c'') lines"
proof (rule fig_12_picture)
  have "fst (fig_12_workload 1 sample_options (sample_exp [''SMART'']) [(''W'', 1)]
      [(''W'', [(''SMART'', [(1, 1)])])] (''W'', ''c'') (sample_lat_state (sample_avg_out ''joined.''))) = Inr ()" by code_simp
  then show "fig_12_workload 1 sample_options (sample_exp [''SMART'']) [(''W'', 1)]
      [(''W'', [(''SMART'', [(1, 1)])])] (''W'', ''c'') (sample_lat_state (sample_avg_out ''joined.'')) =
    (Inr (), snd (fig_12_workload 1 sample_options (sample_exp [''SMART'']) [(''W'', 1)]
      [(''W'', [(''SMART'', [(1, 1)])])] (''W'', ''c'') (sample_lat_state (sample_avg_out ''joined.''))))"
    by (rule returns_pair)
  show "distinct (exp_methods (sample_exp [''SMART'']))" by (simp add: sample_exp_def)
  show "list_all (\<lambda>m. line_known m \<and> layered m) (exp_methods (sample_exp [''SMART'']))" by code_simp
  show "style_ok [(''y_multiple'', JNum 1000)]" by (simp add: style_ok_def style_entry_def)
qed

end
