(* ===== verification/Fig_12_Run.thy ===== *)
theory Fig_12_Run
  imports Drawn_Results Shipped_Styles
begin

text \<open>
  The main experiment from its first parameter to its last picture: a run of \<^verbatim>\<open>fig_12.py\<close> that ends
  normally has drawn one picture per workload, and each shows the points that very run has measured.
\<close>

section \<open>The files of the workloads\<close>

lemma save_other: "g \<noteq> f \<Longrightarrow> act_keeps (\<lambda>s. map_of (saved s) f = v) (save_json g j)"
  by (rule act_keepsI) (simp add: save_json_def act_defs update_conv)

lemma on_cluster_other: "act_keeps (\<lambda>s. map_of (saved s) f = v) (on_cluster m)"
  by (rule act_keepsI) (simp add: on_cluster_def split: prod.split)

lemma workload_other:
  assumes "fig_12_partial wl \<noteq> f" and "fig_12_file wl \<noteq> f"
  shows "act_keeps (\<lambda>s. map_of (saved s) f = v) (fig_12_workload fuel C P es clients (w, wl))"
  unfolding fig_12_workload_def fig_12_method_def fig_12_point_def fig_12_measure_def run_test_def statistics_def
    cluster_lats_def sh_all_def sh_one_def prod.case
  by (intro keeps_rules save_other on_cluster_other assms)

lemma files_apart:
  "wl' \<noteq> wl \<Longrightarrow> fig_12_file wl' \<noteq> fig_12_file wl"
  "\<not> py_endswith wl ''_partial'' \<Longrightarrow> fig_12_partial wl' \<noteq> fig_12_file wl"
proof -
  show "wl' \<noteq> wl \<Longrightarrow> fig_12_file wl' \<noteq> fig_12_file wl" by (simp add: fig_12_file_def)
  assume n: "\<not> py_endswith wl ''_partial''"
  show "fig_12_partial wl' \<noteq> fig_12_file wl"
  proof
    assume "fig_12_partial wl' = fig_12_file wl"
    then have "(wl' @ ''_partial'') @ ''.json'' = wl @ ''.json''" by (simp add: fig_12_partial_def fig_12_file_def)
    then have "wl = wl' @ ''_partial''" by (simp only: append_same_eq)
    with n show False by (simp add: py_endswith_def)
  qed
qed

lemma main_files:
  assumes "\<And>w wl t t'. fig_12_workload fuel C P es clients (w, wl) t = (Inr (), t') \<Longrightarrow> R w wl (map_of (saved t') (fig_12_file wl))"
  shows "act_for wls (fig_12_workload fuel C P es clients) s = (Inr (), s') \<Longrightarrow> distinct (map snd wls) \<Longrightarrow>
    list_all (\<lambda>(w, wl). \<not> py_endswith wl ''_partial'') wls \<Longrightarrow>
    list_all (\<lambda>(w, wl). R w wl (map_of (saved s') (fig_12_file wl))) wls"
proof (induction wls arbitrary: s)
  case (Cons k wls)
  obtain w wl where k: "k = (w, wl)" by (cases k)
  from Cons.prems(1) k obtain t where t: "fig_12_workload fuel C P es clients (w, wl) s = (Inr (), t)"
    and rest: "act_for wls (fig_12_workload fuel C P es clients) t = (Inr (), s')" by (auto simp: act_seq_Inr_iff)
  have apart: "fig_12_partial (snd x) \<noteq> fig_12_file wl \<and> fig_12_file (snd x) \<noteq> fig_12_file wl" if "x \<in> set wls" for x
  proof (rule conjI)
    from that Cons.prems(2) k have "snd x \<noteq> wl" by auto
    then show "fig_12_file (snd x) \<noteq> fig_12_file wl" by (rule files_apart(1))
    from Cons.prems(3) k have "\<not> py_endswith wl ''_partial''" by simp
    then show "fig_12_partial (snd x) \<noteq> fig_12_file wl" by (rule files_apart(2))
  qed
  have "act_keeps (\<lambda>u. map_of (saved u) (fig_12_file wl) = map_of (saved t) (fig_12_file wl)) (act_for wls (fig_12_workload fuel C P es clients))"
  proof (rule act_keeps_for)
    fix x assume "x \<in> set wls"
    from apart[OF this] show "act_keeps (\<lambda>u. map_of (saved u) (fig_12_file wl) = map_of (saved t) (fig_12_file wl))
        (fig_12_workload fuel C P es clients x)"
      using workload_other[of "snd x" "fig_12_file wl" _ fuel C P es clients "fst x"] by simp
  qed
  from act_keepsD[OF this refl rest] assms[OF t] have "R w wl (map_of (saved s') (fig_12_file wl))" by simp
  with Cons.IH[OF rest] Cons.prems k show ?case by simp
qed simp

section \<open>The pictures of the workloads\<close>

lemma map_of_key: "map_of d k = Some v \<Longrightarrow> k \<in> fst ` set d"
  by (metis domI dom_map_of_conv_image_fst)

lemma generate_drawable:
  "generate n w = (Inr u, w') \<Longrightarrow> map_of (styles w) (fig_file n) = Some (JDict st) \<Longrightarrow> drawable w n"
  by (auto simp: generate_def act_bind_Inr_iff act_seq_Inr_iff act_defs open_json_def drawable_def dict_get_Inr_iff
      split: option.splits sum.splits dest: map_of_key)

lemma generates:
  "act_for ns generate w = (Inr u, w') \<Longrightarrow> \<forall>n \<in> set ns. \<exists>st. map_of (styles w) (fig_file n) = Some (JDict st) \<Longrightarrow>
   (\<forall>n \<in> set ns. drawable w n) \<and> w' = w\<lparr>drawn := drawn w @ map (drawing_of w) ns\<rparr>"
proof (induction ns arbitrary: w)
  case (Cons n ns)
  then obtain v where v: "generate n w = (Inr (), v)" and rest: "act_for ns generate v = (Inr u, w')"
    by (auto simp: act_seq_Inr_iff)
  from Cons.prems(2) obtain st where "map_of (styles w) (fig_file n) = Some (JDict st)" by auto
  from generate_drawable[OF v this] have d: "drawable w n" .
  from generate_ok[OF d] v have "v = w\<lparr>drawn := drawn w @ [drawing_of w n]\<rparr>" by simp
  with Cons.IH[OF rest] Cons.prems(2) d show ?case by simp
qed (simp add: act_return_iff)

lemma drawer_12:
  "''12_'' @ wl \<in> fst ` set figs_type \<Longrightarrow> drawer_for (''12_'' @ wl) = Some Line_One_Ax"
  "aux_plt_func (''12_'' @ wl) = None"
  by (auto simp: figs_type_def drawer_for_def drawer_of_def aux_plt_func_def)

lemma run_script_InrD:
  assumes "run_script nds t load w = (Inr (), w')"
  obtains j c s where "load (params w) = Inr j" "job_main j \<lparr>cl = c, saved = results w\<rparr> = (Inr (), s)"
    "script_end j t (w\<lparr>conn := Some (cl s), results := saved s\<rparr>) = (Inr (), w')"
proof -
  from assms obtain j where j: "load (params w) = Inr j" and r: "with_manager nds j (script_end j t) w = (Inr (), w')"
    by (auto simp: run_script_def run_job_def act_bind_Inr_iff act_defs split: sum.splits)
  from with_manager_InrD[OF r] j that show thesis by blast
qed

text \<open>
  What the picture of a workload shows: it is drawn from the result file of the workload, which has for
  every plotted method one point per client configuration, and its lines have these points.
\<close>

definition shows_workload :: "np_ops \<Rightarrow> world \<Rightarrow> exp_params \<Rightarrow> client_table \<Rightarrow> string \<times> string \<Rightarrow> drawing \<Rightarrow> bool" where
  "shows_workload np w P clients = (\<lambda>(k, wl) d.
     let ms = fig_12_methods P wl; n = (\<lambda>m. length (clients_of clients k m)) in
     dr_file d = ''fig_12_'' @ wl @ ''.pdf'' \<and>
     (\<exists>X Y B st cs. map_of (results w) (fig_12_file wl) = Some (plot_12 ms X Y B) \<and> dr_data d = plot_12 ms X Y B \<and>
        map_of (styles w) (fig_file (''12_'' @ wl)) = Some (JDict st) \<and> draw_picture np d = Inr cs \<and>
        shows_lines ms st (\<lambda>m. JList (points_of X m)) (\<lambda>m. map the_num (points_of Y m)) cs \<and>
        list_all (\<lambda>m. length (points_of X m) = n m \<and> length (points_of Y m) = n m) ms))"

lemma series_points_count:
  assumes "full_series X ms n" and "full_series Y ms n"
  shows "list_all (\<lambda>m. length (points_of X m) = n m \<and> length (points_of Y m) = n m) ms"
  using full_series_get[OF assms(1)] full_series_get[OF assms(2)] by (fastforce simp: list_all_iff points_of_def)

lemma workload_drawing:
  assumes "map_of (results v) (fig_12_file wl) = Some (plot_12 (fig_12_methods P wl) X Y B)"
    and "full_series X (fig_12_methods P wl) (\<lambda>m. length (clients_of clients k m))"
    and "full_series Y (fig_12_methods P wl) (\<lambda>m. length (clients_of clients k m))" "all_nums Y"
    and "map_of (styles v) (fig_file (''12_'' @ wl)) = Some (JDict st)" and "style_ok st"
    and "list_all (\<lambda>m. line_known m \<and> layered m) (fig_12_methods P wl)" and "drawable v (''12_'' @ wl)"
  shows "shows_workload np v P clients (k, wl) (drawing_of v (''12_'' @ wl))"
proof -
  let ?ms = "fig_12_methods P wl"
  have "drawer_for (''12_'' @ wl) = Some Line_One_Ax" using assms(8) by (intro drawer_12(1)) (simp add: drawable_def)
  then have d: "drawing_of v (''12_'' @ wl) = \<lparr>dr_file = ''fig_12_'' @ wl @ ''.pdf'', dr_drawer = Line_One_Ax,
      dr_data = plot_12 ?ms X Y B, dr_style = JDict st, dr_aux = None\<rparr>"
    using assms(1,5) drawer_12(2)[of wl] by (simp add: drawing_of_def fig_12_file_eq)
  from line_one_shows[OF assms(6,7) plot_12_line_data[OF assms(2-4)], where np = np and aux = None and fname = "''fig_12_'' @ wl @ ''.pdf''"]
  obtain cs where "draw_picture np (drawing_of v (''12_'' @ wl)) = Inr cs"
    "shows_lines ?ms st (\<lambda>m. JList (points_of X m)) (\<lambda>m. map the_num (points_of Y m)) cs"
    unfolding d by (auto simp: draw_picture_def as_object_def)
  with assms(1,5) series_points_count[OF assms(2,3)] show ?thesis
    unfolding shows_workload_def prod.case Let_def d drawing.simps by blast
qed

lemma main_results:
  assumes "fig_12_main fuel C P es clients wls s = (Inr (), s')" and "distinct (exp_methods P)"
    and "distinct (map snd wls)" and "list_all (\<lambda>(k, wl). \<not> py_endswith wl ''_partial'') wls"
  shows "list_all (\<lambda>(k, wl). \<exists>X Y B. map_of (saved s') (fig_12_file wl) = Some (plot_12 (fig_12_methods P wl) X Y B) \<and>
    full_series X (fig_12_methods P wl) (\<lambda>m. length (clients_of clients k m)) \<and>
    full_series Y (fig_12_methods P wl) (\<lambda>m. length (clients_of clients k m)) \<and> all_nums Y) wls"
proof (rule main_files[where R = "\<lambda>k wl v. \<exists>X Y B. v = Some (plot_12 (fig_12_methods P wl) X Y B) \<and>
    full_series X (fig_12_methods P wl) (\<lambda>m. length (clients_of clients k m)) \<and>
    full_series Y (fig_12_methods P wl) (\<lambda>m. length (clients_of clients k m)) \<and> all_nums Y",
    OF _ assms(1)[unfolded fig_12_main_def] assms(3,4)])
  fix k wl t t'
  assume r: "fig_12_workload fuel C P es clients (k, wl) t = (Inr (), t')"
  have "distinct (fig_12_methods P wl)" using assms(2) by (simp add: fig_12_methods_def)
  then show "\<exists>X Y B. map_of (saved t') (fig_12_file wl) = Some (plot_12 (fig_12_methods P wl) X Y B) \<and>
    full_series X (fig_12_methods P wl) (\<lambda>m. length (clients_of clients k m)) \<and>
    full_series Y (fig_12_methods P wl) (\<lambda>m. length (clients_of clients k m)) \<and> all_nums Y"
    by (rule fig_12_workload_nums[OF r]) blast
qed

lemma shows_workload_drawn [simp]: "shows_workload np (w\<lparr>drawn := ds\<rparr>) = shows_workload np w"
  by (simp add: shows_workload_def fun_eq_iff)

lemma fig_12_run_drawn:
  assumes "run_script nds t (fig_12_job fuel) w = (Inr (), w')"
    and "fig_12_job fuel (params w) = Inr \<lparr>job_num = ''12'', job_ips = ips, job_master = master,
      job_main = fig_12_main fuel C P es clients wls, job_pics = map (\<lambda>(_, wl). ''12_'' @ wl) wls\<rparr>"
    and "distinct (exp_methods P)" and "list_all (\<lambda>m. line_known m \<and> layered m) (exp_methods P)"
    and "distinct (map snd wls)" and "list_all (\<lambda>(k, wl). \<not> py_endswith wl ''_partial'') wls"
    and "list_all (\<lambda>(k, wl). \<exists>st. map_of (styles w) (fig_file (''12_'' @ wl)) = Some (JDict st) \<and> style_ok st) wls"
  shows "\<exists>ds. drawn w' = drawn w @ ds \<and> list_all2 (shows_workload np w' P clients) wls ds"
proof -
  let ?pics = "map (\<lambda>(_, wl). ''12_'' @ wl) wls"
  from assms(1,2) obtain c s where m: "fig_12_main fuel C P es clients wls \<lparr>cl = c, saved = results w\<rparr> = (Inr (), s)"
    and e: "script_end \<lparr>job_num = ''12'', job_ips = ips, job_master = master, job_main = fig_12_main fuel C P es clients wls,
      job_pics = ?pics\<rparr> t (w\<lparr>conn := Some (cl s), results := saved s\<rparr>) = (Inr (), w')"
    by (auto elim!: run_script_InrD)
  define v where "v = w\<lparr>conn := Some (cl s), results := saved s, time_log := time_log w @ time_line ''12'' t\<rparr>"
  have same: "results v = saved s" "styles v = styles w" "drawn v = drawn w" by (simp_all add: v_def)
  have "act_for ?pics generate v = (Inr (), w')" using e by (simp add: script_end_def act_seq_def act_bind_def act_defs v_def)
  moreover have "\<forall>n \<in> set ?pics. \<exists>st. map_of (styles v) (fig_file n) = Some (JDict st)"
    using assms(7) by (fastforce simp: same list_all_iff)
  ultimately have able: "\<forall>n \<in> set ?pics. drawable v n" and w': "w' = v\<lparr>drawn := drawn v @ map (drawing_of v) ?pics\<rparr>"
    using generates by blast+
  have "shows_workload np v P clients x (drawing_of v (''12_'' @ snd x))" if x: "x \<in> set wls" for x
  proof -
    obtain k wl where kw: "x = (k, wl)" by (cases x)
    from main_results[OF m assms(3,5,6)] x kw obtain X Y B where f: "map_of (results v) (fig_12_file wl) = Some (plot_12 (fig_12_methods P wl) X Y B)"
      "full_series X (fig_12_methods P wl) (\<lambda>m. length (clients_of clients k m))"
      "full_series Y (fig_12_methods P wl) (\<lambda>m. length (clients_of clients k m))" "all_nums Y"
      by (fastforce simp: list_all_iff same)
    from assms(7) x kw obtain st where st: "map_of (styles v) (fig_file (''12_'' @ wl)) = Some (JDict st)" "style_ok st"
      by (fastforce simp: list_all_iff same)
    have "list_all (\<lambda>m. line_known m \<and> layered m) (fig_12_methods P wl)" using assms(4) by (auto simp: fig_12_methods_def list_all_iff)
    moreover have "drawable v (''12_'' @ wl)" using able x kw by force
    ultimately show ?thesis using workload_drawing[OF f st] by (simp add: kw)
  qed
  then have "list_all2 (shows_workload np v P clients) wls (map (drawing_of v) ?pics)"
    unfolding list_all2_map2 list.map_comp by (intro list_all2_all_nthI) (auto simp: case_prod_beta)
  then show ?thesis using w' same by auto
qed

text \<open>
  C5: A run of \<^verbatim>\<open>fig_12.py\<close> that ends normally has drawn one picture per workload, in order, each from the
  data that very run has measured: one line per plotted method, through one point per client
  configuration, the throughputs against the latencies over \<^verbatim>\<open>y_multiple\<close>.  The script needs methods the
  line drawer knows, different names of workloads and style files as in the repository.\<close>

theorem fig_12_run_draws:
  assumes "run_script nds t (fig_12_job fuel) w = (Inr (), w')"
    and "fig_12_job fuel (params w) = Inr \<lparr>job_num = ''12'', job_ips = ips, job_master = master,
      job_main = fig_12_main fuel C P es clients wls, job_pics = map (\<lambda>(_, wl). ''12_'' @ wl) wls\<rparr>"
    and "distinct (exp_methods P)" and "list_all (\<lambda>m. line_known m \<and> layered m) (exp_methods P)"
    and "distinct (map snd wls)" and "list_all (\<lambda>(k, wl). \<not> py_endswith wl ''_partial'') wls"
    and "list_all (\<lambda>(k, wl). \<exists>st. map_of (styles w) (fig_file (''12_'' @ wl)) = Some (JDict st) \<and> style_ok st) wls"
  shows "\<exists>ds. drawn w' = drawn w @ ds \<and> list_all2 (shows_workload np w' P clients) wls ds"
  using fig_12_run_drawn[OF assms] .

section \<open>With the files of the repository\<close>

lemma fig_12_job_parts:
  assumes "fig_12_job fuel files = Inr j"
  shows "\<exists>e C ips master P es clients wls. open_json ''params'' files (fig_file ''12'') = Inr e \<and>
    rd (as_list as_str) e ''methods'' Inr = Inr (exp_methods P) \<and> rd (as_dict as_str) e ''workload_names'' Inr = Inr wls \<and>
    j = \<lparr>job_num = ''12'', job_ips = ips, job_master = master, job_main = fig_12_main fuel C P es clients wls,
      job_pics = map (\<lambda>(_, wl). ''12_'' @ wl) wls\<rparr>"
proof -
  from assms obtain c e ms wls es clients mn kt vs cs spans eps nb hb where c: "open_json ''params'' files (fig_file ''12'') = Inr e"
      "rd (as_list as_str) e ''methods'' Inr = Inr ms" "rd (as_dict as_str) e ''workload_names'' Inr = Inr wls"
    and j: "j = (case c of (C, ips, master) \<Rightarrow> \<lparr>job_num = ''12'', job_ips = ips, job_master = master,
      job_main = fig_12_main fuel C (exp_blank\<lparr>exp_methods := ms, MN_num := mn, key_type := kt, value_size := vs,
        cache_size := cs, span_sizes := spans, epsilon := eps, neighbor_size := nb, hotspot_buffer_size := hb\<rparr>) es clients wls,
      job_pics = map (\<lambda>(_, wl). ''12_'' @ wl) wls\<rparr>)"
    by (auto simp: fig_12_job_def common_full_def rd_def Let_def)
  show ?thesis
    by (intro exI[of _ e] exI[of _ "fst c"] exI[of _ "fst (snd c)"] exI[of _ "snd (snd c)"]
        exI[of _ "exp_blank\<lparr>exp_methods := ms, MN_num := mn, key_type := kt, value_size := vs, cache_size := cs,
          span_sizes := spans, epsilon := eps, neighbor_size := nb, hotspot_buffer_size := hb\<rparr>"]
        exI[of _ es] exI[of _ clients] exI[of _ wls]) (simp add: c j split_beta)
qed

text \<open>
  With the parameter files and the style files of the repository, every run of \<^verbatim>\<open>fig_12.py\<close> that ends draws
  the six pictures of the paper from its measurements.\<close>

definition shipped_12 :: "(string \<times> attrs) list" where
  "shipped_12 = [(''c'', style_12_c), (''d'', style_12_d), (''e'', style_12_e), (''la'', style_12_la), (''a'', style_12_a), (''b'', style_12_b)]"

lemma params_12_reads:
  "rd (as_list as_str) params_12 ''methods'' Inr = Inr [''CHIME'', ''SMART'', ''Sherman'', ''ROLEX'', ''SMART-SC'']"
  "rd (as_dict as_str) params_12 ''workload_names'' Inr = Inr [(''YCSB C'', ''c''), (''YCSB D'', ''d''), (''YCSB E'', ''e''),
     (''YCSB LOAD'', ''la''), (''YCSB A'', ''a''), (''YCSB B'', ''b'')]"
  by (simp_all add: params_12_def)

lemma shipped_12_styles: "list_all (\<lambda>(wl, st). style_ok st \<and> \<not> py_endswith wl ''_partial'') shipped_12"
  by code_simp

lemma styles_known:
  assumes "list_all (\<lambda>(wl, st). f wl = Some (JDict st)) ws" and "list_all (\<lambda>(wl, st). Q st \<and> R wl) ws"
  shows "list_all (\<lambda>wl. R wl \<and> (\<exists>st. f wl = Some (JDict st) \<and> Q st)) (map fst ws)"
  using assms by (induction ws) auto

theorem fig_12_paper_pictures:
  assumes "run_script nds t (fig_12_job fuel) w = (Inr (), w')" and "params w = shipped_params"
    and "list_all (\<lambda>(wl, st). map_of (styles w) (fig_file (''12_'' @ wl)) = Some (JDict st)) shipped_12"
  shows "\<exists>ds P clients wls. drawn w' = drawn w @ ds \<and> exp_methods P = [''CHIME'', ''SMART'', ''Sherman'', ''ROLEX'', ''SMART-SC''] \<and>
    map snd wls = map fst shipped_12 \<and> list_all2 (shows_workload np w' P clients) wls ds"
proof -
  from assms(1) obtain j where "fig_12_job fuel (params w) = Inr j" by (auto elim: run_script_InrD)
  from fig_12_job_parts[OF this] obtain e C ips master P es clients wls
    where e: "open_json ''params'' shipped_params (fig_file ''12'') = Inr e" "rd (as_list as_str) e ''methods'' Inr = Inr (exp_methods P)"
      "rd (as_dict as_str) e ''workload_names'' Inr = Inr wls"
    and j: "fig_12_job fuel (params w) = Inr \<lparr>job_num = ''12'', job_ips = ips, job_master = master,
      job_main = fig_12_main fuel C P es clients wls, job_pics = map (\<lambda>(_, wl). ''12_'' @ wl) wls\<rparr>"
    using assms(2) \<open>fig_12_job fuel (params w) = Inr j\<close> by auto
  have ms: "exp_methods P = [''CHIME'', ''SMART'', ''Sherman'', ''ROLEX'', ''SMART-SC'']"
    and wls: "wls = zip [''YCSB C'', ''YCSB D'', ''YCSB E'', ''YCSB LOAD'', ''YCSB A'', ''YCSB B''] (map fst shipped_12)"
    using e by (auto simp: shipped_open params_12_reads shipped_12_def)
  have names: "map snd wls = map fst shipped_12" by (simp add: wls shipped_12_def)
  have known: "list_all (\<lambda>m. line_known m \<and> layered m) [''CHIME'', ''SMART'', ''Sherman'', ''ROLEX'', ''SMART-SC'']" by code_simp
  have st: "list_all (\<lambda>wl. \<not> py_endswith wl ''_partial'' \<and> (\<exists>st. map_of (styles w) (fig_file (''12_'' @ wl)) = Some (JDict st) \<and> style_ok st)) (map snd wls)"
    using styles_known[OF assms(3) shipped_12_styles] unfolding names .
  have "distinct (exp_methods P)" "list_all (\<lambda>m. line_known m \<and> layered m) (exp_methods P)" using known by (simp_all add: ms)
  moreover have "distinct (map snd wls)" by (simp add: names shipped_12_def)
  moreover have "list_all (\<lambda>(k, wl). \<not> py_endswith wl ''_partial'') wls"
    "list_all (\<lambda>(k, wl). \<exists>st. map_of (styles w) (fig_file (''12_'' @ wl)) = Some (JDict st) \<and> style_ok st) wls"
    using st by (auto simp: list_all_iff)
  ultimately have "\<exists>ds. drawn w' = drawn w @ ds \<and> list_all2 (shows_workload np w' P clients) wls ds"
    by (rule fig_12_run_drawn[OF assms(1) j])
  then show ?thesis using ms names by blast
qed

section \<open>An example\<close>

definition sample_12 :: json where
  "sample_12 = JDict [(''methods'', jstrs [''SMART'']), (''workload_names'', JDict [(''W'', JStr ''c'')]),
     (''target_epoch'', JDict [(''W'', JNum 1)]), (''client_num'', JDict [(''W'', JDict [(''SMART'', JList [JList [JNum 1, JNum 1]])])]),
     (''MN_num'', JNum 1), (''key_size'', JStr ''randint''), (''value_size'', JNum 8), (''cache_size'', JNum 100),
     (''span_size'', JDict [(''SMART'', JNum 1)]), (''epsilon'', JNum 16), (''neighbor_size'', JNum 8), (''hotspot_buffer_size'', JNum 30)]"

definition sample_12_common :: json where
  "sample_12_common = JDict [(''home_dir'', JStr ''/x''), (''workloads_dir'', JStr ''/x/w''),
     (''cluster_ips'', jstrs [''1.1'']), (''master_ip'', JStr ''1.1''), (''common_options'', JStr ''-DA=on''),
     (''cmake_options'', JDict [(''SMART'', JStr ''-DS=on'')])]"

definition sample_12_world :: world where
  "sample_12_world = \<lparr>params = [(''common.json'', sample_12_common), (fig_file ''12'', sample_12)],
     styles = [(fig_file ''12_c'', JDict [(''y_multiple'', JNum 1000)])], results = [], time_log = [], drawn = [], conn = None\<rparr>"

definition sample_12_nodes :: nodes where
  "sample_12_nodes = ([[Msg ''$'', Msg ''$'', Msg (sample_avg_out ''joined.'')]], [replicate 5 (Inr (Inr [], Inr []))],
     [\<lambda>_. Some [''2'' @ [CHR 0x09] @ ''4'']])"

definition sample_12_C :: common_params where
  "sample_12_C = \<lparr>home_dir = ''/x'', workloads_dir = ''/x/w'', common_options = ''-DA=on'', cmake_options = [(''SMART'', ''-DS=on'')]\<rparr>"

definition sample_12_P :: exp_params where
  "sample_12_P = exp_blank\<lparr>exp_methods := [''SMART''], MN_num := 1, key_type := ''randint'', value_size := 8,
     cache_size := 100, span_sizes := [(''SMART'', 1)], epsilon := 16, neighbor_size := 8, hotspot_buffer_size := 30\<rparr>"

lemma sample_12_job:
  "fig_12_job 1 (params sample_12_world) = Inr \<lparr>job_num = ''12'', job_ips = [''1.1''], job_master = ''1.1'',
     job_main = fig_12_main 1 sample_12_C sample_12_P [(''W'', 1)] [(''W'', [(''SMART'', [(1, 1)])])] [(''W'', ''c'')],
     job_pics = map (\<lambda>(_, wl). ''12_'' @ wl) [(''W'', ''c'')]\<rparr>"
  by (simp add: fig_12_job_def sample_12_world_def common_full_def open_head fig_file_def sample_12_common_def sample_12_def
      sample_12_C_def sample_12_P_def as_pair_def)

lemma sample_12_run: "fst (run_script sample_12_nodes 61 (fig_12_job 1) sample_12_world) = Inr ()"
  by code_simp

theorem fig_12_run_draws_witness:
  "\<exists>ds. drawn (snd (run_script sample_12_nodes 61 (fig_12_job 1) sample_12_world)) = drawn sample_12_world @ ds \<and>
    list_all2 (shows_workload sample_np (snd (run_script sample_12_nodes 61 (fig_12_job 1) sample_12_world)) sample_12_P
      [(''W'', [(''SMART'', [(1, 1)])])]) [(''W'', ''c'')] ds"
proof (rule fig_12_run_draws[OF returns_pair[of "run_script sample_12_nodes 61 (fig_12_job 1)" sample_12_world, OF sample_12_run] sample_12_job])
  show "distinct (exp_methods sample_12_P)" by (simp add: sample_12_P_def)
  show "list_all (\<lambda>m. line_known m \<and> layered m) (exp_methods sample_12_P)" by code_simp
  show "list_all (\<lambda>(k, wl). \<exists>st. map_of (styles sample_12_world) (fig_file (''12_'' @ wl)) = Some (JDict st) \<and> style_ok st) [(''W'', ''c'')]"
    by (simp add: sample_12_world_def fig_file_def style_ok_def style_entry_def)
qed (simp_all add: py_endswith_def)

end
