(* ===== verification/Extra_Scripts.thy ===== *)
theory Extra_Scripts
  imports Shipped_Params Fig_Extra
begin

text \<open>
  The three additional experiments as they are run: the configuration read from
  \<^verbatim>\<open>params/common.json\<close>, the command manager, \<^verbatim>\<open>main\<close> and the line in \<^verbatim>\<open>results/time.log\<close>.  They have no
  parameter file of their own and draw no picture.
\<close>

section \<open>The scripts\<close>

definition extra_job :: "string \<Rightarrow> (common_params \<Rightarrow> (fig_state, unit) act) \<Rightarrow> (string \<times> json) list \<Rightarrow> job py" where
  "extra_job exp_name main files =
     common_full files (\<lambda>(C, ips, master).
     Inr \<lparr>job_num = exp_name, job_ips = ips, job_master = master, job_main = main C, job_pics = []\<rparr>)"

definition extra_cache_job :: "nat \<Rightarrow> (string \<times> json) list \<Rightarrow> job py" where
  "extra_cache_job fuel = extra_job ''extra_cache_sensitivity'' (\<lambda>C. extra_cache_main fuel C cache_params cache_sizes)"

definition extra_value_job :: "nat \<Rightarrow> (string \<times> json) list \<Rightarrow> job py" where
  "extra_value_job fuel = extra_job ''extra_value_size'' (\<lambda>C. extra_value_main fuel C value_params value_sizes)"

definition extra_uniform_job :: "nat \<Rightarrow> (string \<times> json) list \<Rightarrow> job py" where
  "extra_uniform_job fuel = extra_job ''extra_uniform_dist'' (\<lambda>C. extra_uniform_main fuel C uniform_params distributions)"

definition extra_end :: "job \<Rightarrow> rat \<Rightarrow> (world, unit) act" where
  "extra_end j t = act_modify (\<lambda>w. w\<lparr>time_log := time_log w @ took_line (job_num j) t\<rparr>)"

definition run_extra :: "nodes \<Rightarrow> rat \<Rightarrow> ((string \<times> json) list \<Rightarrow> job py) \<Rightarrow> (world, unit) act" where
  "run_extra nds t load =
     act_bind (act_get params) (\<lambda>files. act_bind (act_lift (load files)) (\<lambda>j. with_manager nds j (extra_end j t)))"

definition extra_scripts :: "nat \<Rightarrow> (string \<times> ((string \<times> json) list \<Rightarrow> job py)) list" where
  "extra_scripts fuel = [(''extra_cache_sensitivity'', extra_cache_job fuel), (''extra_value_size'', extra_value_job fuel),
     (''extra_uniform_dist'', extra_uniform_job fuel)]"

section \<open>Their parameters\<close>

lemma extra_reads:
  assumes "extra_job n main files = Inr j"
    and "k \<in> set [''home_dir'', ''workloads_dir'', ''cluster_ips'', ''master_ip'', ''common_options'', ''cmake_options'']"
  shows "present files (''common.json'', k)"
  using assms by (auto simp: extra_job_def common_full_def rd_def intro: presentI)

text \<open>
  Without one of the six entries of the configuration an additional experiment raises before it
  contacts a node or writes a file.\<close>

theorem extra_needs_common:
  assumes "(n, load) \<in> set (extra_scripts fuel)"
    and "k \<in> set [''home_dir'', ''workloads_dir'', ''cluster_ips'', ''master_ip'', ''common_options'', ''cmake_options'']"
    and "\<not> present (params w) (''common.json'', k)"
  shows "\<exists>e. run_extra nds t load w = (Inl e, w)"
proof -
  from assms(1) obtain main where "load = extra_job n main"
    by (auto simp: extra_scripts_def extra_cache_job_def extra_value_job_def extra_uniform_job_def)
  with extra_reads[OF _ assms(2)] assms(3) obtain e where "load (params w) = Inl e" by (cases "load (params w)") auto
  then show ?thesis by (simp add: run_extra_def act_bind_def act_defs)
qed

text \<open>With the configuration of the repository all three start, and every method they build is configured.\<close>

lemma extra_shipped:
  "extra_job n main shipped_params =
     Inr \<lparr>job_num = n, job_ips = shipped_ips, job_master = ''10.10.1.2'', job_main = main shipped_C, job_pics = []\<rparr>"
  by (simp add: extra_job_def shipped_common)

theorem extra_scripts_start:
  assumes "(n, load) \<in> set (extra_scripts fuel)"
  shows "startable (load shipped_params)"
  using assms by (auto simp: extra_scripts_def extra_cache_job_def extra_value_job_def extra_uniform_job_def extra_shipped
    startable_def master_shipped)

lemma extra_methods_configured:
  "list_all (\<lambda>P. list_all (\<lambda>m. m \<in> fst ` set shipped_options \<and> m \<in> fst ` set (span_sizes P)) (exp_methods P))
     [cache_params, value_params, uniform_params]"
  by code_simp

section \<open>Their results\<close>

text \<open>A run that ends has run \<^verbatim>\<open>main\<close> to its end and added its line to the time log.\<close>

lemma run_extra_InrD:
  assumes "run_extra nds t (extra_job n main) w = (Inr (), w')"
  obtains C c s where "main C \<lparr>cl = c, saved = results w\<rparr> = (Inr (), s)" "results w' = saved s"
    "time_log w' = time_log w @ took_line n t" "drawn w' = drawn w"
proof -
  from assms obtain j where j: "extra_job n main (params w) = Inr j" and r: "with_manager nds j (extra_end j t) w = (Inr (), w')"
    by (auto simp: run_extra_def act_bind_Inr_iff act_defs split: sum.splits)
  from j obtain C where C: "job_main j = main C" and n: "job_num j = n" by (auto simp: extra_job_def common_full_def rd_def)
  from r obtain c s where m: "job_main j \<lparr>cl = c, saved = results w\<rparr> = (Inr (), s)"
    and e: "extra_end j t (w\<lparr>conn := Some (cl s), results := saved s\<rparr>) = (Inr (), w')"
    by (rule with_manager_InrD)
  from e n have "results w' = saved s" "time_log w' = time_log w @ took_line n t" "drawn w' = drawn w"
    by (auto simp: extra_end_def act_defs)
  with that m C show thesis by simp
qed

text \<open>
  When the cache experiment has ended, its result file has for each of the three methods one value
  per cache size in each series, and the time log its line.\<close>

theorem extra_cache_run:
  assumes "run_extra nds t (extra_cache_job fuel) w = (Inr (), w')"
  shows "\<exists>X Y B. map_of (results w') ''extra_cache_sensitivity.json'' =
      Some (plot_extra [''CHIME'', ''Sherman'', ''SMART''] ''cache_sizes'' [10, 100, 1000] (X, Y, B)) \<and>
    list_all (\<lambda>S. full_series S [''CHIME'', ''Sherman'', ''SMART''] (\<lambda>_. 3)) [X, Y, B] \<and>
    time_log w' = time_log w @ took_line ''extra_cache_sensitivity'' t \<and> drawn w' = drawn w"
proof -
  from assms[unfolded extra_cache_job_def] obtain C c s
    where m: "extra_cache_main fuel C cache_params cache_sizes \<lparr>cl = c, saved = results w\<rparr> = (Inr (), s)"
    and r: "results w' = saved s" "time_log w' = time_log w @ took_line ''extra_cache_sensitivity'' t" "drawn w' = drawn w"
    by (rule run_extra_InrD)
  have "distinct (exp_methods cache_params)" by (simp add: cache_params_def)
  from extra_cache_complete[OF m this] r show ?thesis by (simp add: cache_params_def cache_sizes_def numeral_3_eq_3)
qed

text \<open>Likewise the experiment with value sizes, with four methods.\<close>

theorem extra_value_run:
  assumes "run_extra nds t (extra_value_job fuel) w = (Inr (), w')"
  shows "\<exists>X Y B. map_of (results w') ''extra_value_size.json'' =
      Some (plot_extra [''CHIME'', ''Sherman'', ''SMART'', ''ROLEX''] ''value_sizes'' [8, 64, 256] (X, Y, B)) \<and>
    list_all (\<lambda>S. full_series S [''CHIME'', ''Sherman'', ''SMART'', ''ROLEX''] (\<lambda>_. 3)) [X, Y, B] \<and>
    time_log w' = time_log w @ took_line ''extra_value_size'' t \<and> drawn w' = drawn w"
proof -
  from assms[unfolded extra_value_job_def] obtain C c s
    where m: "extra_value_main fuel C value_params value_sizes \<lparr>cl = c, saved = results w\<rparr> = (Inr (), s)"
    and r: "results w' = saved s" "time_log w' = time_log w @ took_line ''extra_value_size'' t" "drawn w' = drawn w"
    by (rule run_extra_InrD)
  have "distinct (exp_methods value_params)" by (simp add: value_params_def)
  from extra_value_complete[OF m this] r show ?thesis by (simp add: value_params_def value_sizes_def numeral_3_eq_3)
qed

end
