(* ===== verification/Cluster_Nodes.thy ===== *)
theory Cluster_Nodes
  imports Lat_Parser
begin

text \<open>
  The nodes of a cluster on its own network: the request of the CloudLab profile
  \<^verbatim>\<open>cloudlab/profile-r650-lan.py\<close> and the command line of \<^verbatim>\<open>us_lat/cluster_latency.py\<close>, which visits nodes by a
  fixed list of addresses.  A request to CloudLab is the record of what the script puts into it.
\<close>

section \<open>profile-r650-lan.py\<close>

record raw_pc =
  pc_name :: string
  pc_hardware :: string
  pc_image :: string
  pc_manager :: string
  pc_iface :: string
  pc_address :: string
  pc_mask :: string

record lan_link =
  lan_name :: string
  best_effort :: bool
  vlan_tagging :: bool
  link_multiplexing :: bool
  lan_ifaces :: "(string \<times> string) list"

record rspec =
  rs_lan :: lan_link
  rs_nodes :: "raw_pc list"

definition lan_defaults :: "int \<times> string" where
  "lan_defaults = (6, ''r650'')"

definition lan_hardware :: "string list" where
  "lan_hardware = [''r650'', ''r6525'']"

definition lan_node :: "string \<Rightarrow> int \<Rightarrow> raw_pc" where
  "lan_node hw i = \<lparr>pc_name = ''node'' @ show_int i, pc_hardware = hw,
     pc_image = ''urn:publicid:IDN+emulab.net+image+emulab-ops//UBUNTU20-64-STD'',
     pc_manager = ''urn:publicid:IDN+clemson.cloudlab.us+authority+cm'',
     pc_iface = ''if1'', pc_address = ''10.10.1.'' @ show_int (i + 1), pc_mask = ''255.255.255.0''\<rparr>"

definition add_node :: "string \<Rightarrow> rspec \<Rightarrow> int \<Rightarrow> rspec" where
  "add_node hw rs i =
     (let node = lan_node hw i in
      rs\<lparr>rs_nodes := rs_nodes rs @ [node],
         rs_lan := (rs_lan rs)\<lparr>lan_ifaces := lan_ifaces (rs_lan rs) @ [(pc_name node, pc_iface node)]\<rparr>\<rparr>)"

definition lan_profile :: "int \<Rightarrow> string \<Rightarrow> rspec" where
  "lan_profile n hw =
     foldl (add_node hw) \<lparr>rs_lan = \<lparr>lan_name = ''rdma-lan'', best_effort = True, vlan_tagging = True, link_multiplexing = True,
       lan_ifaces = []\<rparr>, rs_nodes = []\<rparr> [0..n - 1]"

section \<open>The command line of cluster\_latency.py\<close>

definition latency_ips :: "string list" where
  "latency_ips = [''10.10.1.1'', ''10.10.1.2'', ''10.10.1.3'', ''10.10.1.4'', ''10.10.1.5'', ''10.10.1.6'', ''10.10.1.7'',
     ''10.10.1.8'', ''10.10.1.9'', ''10.10.1.10'', ''10.10.1.11'', ''10.10.1.12'', ''10.10.1.13'', ''10.10.1.14'',
     ''10.10.1.15'', ''10.10.1.16'']"

definition latency_args :: "string list \<Rightarrow> (int \<times> int \<times> int) option py" where
  "latency_args argv =
     (if length argv \<noteq> 4 then Inr None
      else py_bind (py_int (argv ! 1)) (\<lambda>node_num. py_bind (py_int (argv ! 2)) (\<lambda>epoch_start.
        py_bind (py_int (argv ! 3)) (\<lambda>epoch_num. Inr (Some (node_num, epoch_start, epoch_num))))))"

definition latency_hosts :: "int \<Rightarrow> string list" where
  "latency_hosts node_num = py_slice latency_ips 0 node_num"

text \<open>\<open>connect\<close> is \<^verbatim>\<open>get_sftp_client\<close>.  A wrong number of arguments prints the usage and ends with 0.\<close>

definition latency_main ::
  "(string \<Rightarrow> sftp py) \<Rightarrow> string \<Rightarrow> string list \<Rightarrow> (int \<times> (string \<times> string) list) list option py" where
  "latency_main connect lat_dir argv =
     py_bind (latency_args argv) (\<lambda>args. case args of None \<Rightarrow> Inr None
       | Some (node_num, epoch_start, epoch_num) \<Rightarrow>
           py_bind (py_mapM connect (latency_hosts node_num)) (\<lambda>clients.
           py_bind (cluster_latency clients lat_dir epoch_start epoch_num) (\<lambda>out. Inr (Some out))))"

section \<open>The request\<close>

lemma add_nodes:
  "foldl (add_node hw) rs is = rs\<lparr>rs_nodes := rs_nodes rs @ map (lan_node hw) is,
     rs_lan := (rs_lan rs)\<lparr>lan_ifaces := lan_ifaces (rs_lan rs) @ map (\<lambda>i. (pc_name (lan_node hw i), ''if1'')) is\<rparr>\<rparr>"
  by (induction "is" arbitrary: rs) (simp_all add: add_node_def lan_node_def)

lemma profile_nodes: "rs_nodes (lan_profile n hw) = map (lan_node hw) [0..n - 1]"
  by (simp add: lan_profile_def add_nodes)

text \<open>
  A request for \<open>n\<close> nodes has \<open>n\<close> nodes with different names and different addresses, all of the
  chosen hardware, and the network joins exactly their interfaces.\<close>

theorem lan_profile_joins:
  assumes "0 \<le> n"
  shows "length (rs_nodes (lan_profile n hw)) = nat n" and "distinct (map pc_name (rs_nodes (lan_profile n hw)))"
    and "distinct (map pc_address (rs_nodes (lan_profile n hw)))"
    and "lan_ifaces (rs_lan (lan_profile n hw)) = map (\<lambda>p. (pc_name p, pc_iface p)) (rs_nodes (lan_profile n hw))"
    and "list_all (\<lambda>p. pc_hardware p = hw) (rs_nodes (lan_profile n hw))"
proof -
  show "length (rs_nodes (lan_profile n hw)) = nat n" by (simp add: profile_nodes)
  show "distinct (map pc_name (rs_nodes (lan_profile n hw)))"
    by (simp add: profile_nodes distinct_map inj_on_def lan_node_def comp_def)
  show "distinct (map pc_address (rs_nodes (lan_profile n hw)))"
    by (simp add: profile_nodes distinct_map inj_on_def lan_node_def comp_def)
  show "lan_ifaces (rs_lan (lan_profile n hw)) = map (\<lambda>p. (pc_name p, pc_iface p)) (rs_nodes (lan_profile n hw))"
    by (simp add: lan_profile_def add_nodes lan_node_def)
  show "list_all (\<lambda>p. pc_hardware p = hw) (rs_nodes (lan_profile n hw))"
    by (simp add: profile_nodes list_all_iff lan_node_def)
qed

section \<open>Which nodes the latency program visits\<close>

lemma all_latency_ips: "latency_ips = map (\<lambda>i. pc_address (lan_node hw i)) [0..15]"
  by (simp add: lan_node_def, code_simp)

lemma first_addresses:
  assumes "0 \<le> n" and "n \<le> 16"
  shows "take (nat n) latency_ips = map (\<lambda>i. pc_address (lan_node hw i)) [0..n - 1]"
proof -
  have "[0..15] = [0..n - 1] @ [n..15]"
  proof (cases "n \<le> 15")
    case True
    then show ?thesis using upto_split1[of 0 n 15] assms(1) by simp
  next
    case False
    with assms(2) have "n = 16" by simp
    then show ?thesis by simp
  qed
  then have "latency_ips = map (\<lambda>i. pc_address (lan_node hw i)) [0..n - 1] @ map (\<lambda>i. pc_address (lan_node hw i)) [n..15]"
    using all_latency_ips[of hw] by simp
  then show ?thesis by (metis append_eq_conv_conj length_map length_upto diff_0_right diff_add_cancel)
qed

text \<open>
  On a cluster of the profile with up to sixteen nodes, the latency program run for all nodes visits
  each node of the request once, in order.\<close>

theorem latency_visits_profile:
  assumes "0 \<le> n" and "n \<le> 16"
  shows "latency_hosts n = map pc_address (rs_nodes (lan_profile n hw))"
  using first_addresses[OF assms, of hw] py_slice_nat[of latency_ips 0 "nat n"] assms(1)
  by (simp add: latency_hosts_def profile_nodes comp_def)

text \<open>For more nodes it says nothing of the nodes after the sixteenth, without an error.\<close>

theorem latency_stops_at_sixteen:
  assumes "16 \<le> n"
  shows "latency_hosts n = map pc_address (rs_nodes (lan_profile 16 hw))"
proof -
  have "latency_hosts n = latency_ips"
    using assms py_slice_nat[of latency_ips 0 "nat n"] by (simp add: latency_hosts_def latency_ips_def)
  also have "\<dots> = latency_hosts 16" by code_simp
  finally show ?thesis using latency_visits_profile[of 16 hw] by simp
qed

text \<open>With a negative count the last nodes of the list are left out.\<close>

lemma latency_negative: "latency_hosts (-1) = butlast latency_ips"
  by code_simp

theorem latency_main_reports:
  assumes "py_mapM connect (latency_hosts n) = Inr clients"
  shows "latency_main connect dir [prog, show_int n, show_int e, show_int k] =
    py_bind (cluster_latency clients dir e k) (\<lambda>out. Inr (Some out))"
  using assms by (simp add: latency_main_def latency_args_def)

end
