(* ===== verification/Spec2Isabelle.thy ===== *)
theory Spec2Isabelle
  imports Split_Workload Gen_Workload Run_Harness Checkpoints Patch_CN Fig_Others Fig_Extra Smoke_Test Surrogate Set_Key
    Shipped_Params Profiles Report_Lists Cxl_Plots Doc_Plots Shipped_Styles Fig_12_Run
    Extra_Scripts Cluster_Nodes
begin

text \<open>
  Verification of the experiment pipeline of CHIME, a disaggregated-memory range index: the Python
  programs that prepare workloads and clusters, run the benchmark on the nodes, read its output and
  write the result files of the figures.  The index itself is C++ over RDMA and is seen here only
  through what its benchmark prints.

  \<^bold>\<open>The program.\<close>  \<^verbatim>\<open>ycsb/gen_workload.py\<close> turns YCSB traces into key traces and
  \<^verbatim>\<open>ycsb/split_workload.py\<close> cuts them into one file per client thread.
  \<^verbatim>\<open>construction/scripts/generate-common-json.py\<close>, \<^verbatim>\<open>construction/scripts/patch-cn-count.py\<close> and
  \<^verbatim>\<open>script/setKey.py\<close> configure a cluster.  Every experiment script \<^verbatim>\<open>exp/fig_*.py\<close> and
  \<^verbatim>\<open>exp/extra_*.py\<close> reads that configuration, edits and builds the sources
  (\<^verbatim>\<open>exp/utils/sed_generator.py\<close>), runs the benchmark on all nodes through
  \<^verbatim>\<open>exp/utils/cmd_manager.py\<close>, retries until a measurement succeeds, gets numbers from
  \<^verbatim>\<open>exp/utils/log_parser.py\<close> and \<^verbatim>\<open>exp/utils/lat_parser.py\<close>, and dumps them as JSON.
  \<^verbatim>\<open>exp/resilient_runner.py\<close> runs a list of these scripts with a watchdog that reads their partial
  result files, and changes the cluster when a node dies.  \<^verbatim>\<open>exp/run_harness.py\<close>,
  \<^verbatim>\<open>exp/smoke_test.py\<close> and \<^verbatim>\<open>exp/fig_14_surrogate.py\<close> run the benchmark on their own.
  A figure script ends by drawing its results (\<^verbatim>\<open>exp/utils/pic_generator.py\<close> with
  \<^verbatim>\<open>exp/utils/pic_line_drawer.py\<close> and \<^verbatim>\<open>exp/utils/pic_bar_drawer.py\<close>); the programs
  \<^verbatim>\<open>exp/plot_*.py\<close> draw comparisons of finished runs.
  \<^verbatim>\<open>script/cloudlab-setup.py\<close> and \<^verbatim>\<open>scripts/create-profiles.py\<close> get the nodes from CloudLab, and four
  programs under \<^verbatim>\<open>scripts/\<close> check the slides and the report.

  \<^bold>\<open>Theories.\<close>
  \<^item> \<open>Py_Prelude\<close>: Python exceptions as values of a sum, string methods, \<^verbatim>\<open>int\<close> and \<^verbatim>\<open>float\<close>, dictionaries
    as association lists, scanning lemmas.  \<open>Py_State\<close>: computations on an explicit state that may
    raise, loops, file maps, slices.
  \<^item> \<open>Split_Workload\<close>, \<open>Gen_Workload\<close>: the two YCSB scripts, whole.  Splitting writes files that
    read back to back are the trace; the monotone renumbering is an injective renaming; e-mail
    positions do not collide.
  \<^item> \<open>Log_Parser\<close>, \<open>Lat_Parser\<close>: the statistics functions and both latency programs.  On logs as the
    benchmark prints them the averages are the means over the documented window; the percentiles are
    percentiles of the samples, and both programs agree on them.
  \<^item> \<open>Sed_Generator\<close>: every edit of \<^verbatim>\<open>Common.h\<close>; the command text is a chain of edits and determines
    them.
  \<^item> \<open>Cmd_Manager\<close>: the SSH sessions as scripts of events in a record \<open>cluster\<close>; what all four remote
    operations return, when they end and which fault they report.
  \<^item> \<open>Fig_Common\<close>: parameters, command texts, the retry loop and the series the scripts share, with
    the contracts \<open>sweep\<close> and \<open>method_sweep\<close> as locales.  \<open>Fig_Sweeps\<close>, \<open>Fig_Others\<close>, \<open>Fig_Bars\<close>,
    \<open>Fig_Extra\<close>: the 25 experiment scripts, each as the body of its loops and its \<^verbatim>\<open>main\<close>,
    with interpretations of the contracts (and of \<open>axis_sweep\<close> for the scripts that loop over the
    axis outside): a script that ends has written a complete series or table.
  \<^item> \<open>Pic_Generator\<close>: the files a script sees and the choice of a drawer for a picture.
    \<open>Fig_Scripts\<close>: the 22 figure scripts from their first parameter to their last picture
    (\<open>fig_<n>_job\<close> is the module level of \<^verbatim>\<open>fig_<n>.py\<close>, \<open>run_script\<close> the whole): a script with a missing
    parameter touches nothing, one whose \<^verbatim>\<open>main\<close> ends draws what it has just written.
    \<open>Shipped_Params\<close>: the parameter files of the repository, which every script accepts.
    \<open>Extra_Scripts\<close>: the three additional experiments as they are run.
  \<^item> \<open>Draw_Styles\<close>, \<open>Pic_Drawer\<close>: the tables and default attributes of both drawers and their five plot
    functions (\<open>line_one_ax\<close>, \<open>line_two_ax\<close>, \<open>bar_one_ax\<close>, \<open>bar_two_ax\<close>, \<open>bar_with_line\<close>) as the calls matplotlib
    gets, or the exception; the rules \<open>draw_ok\<close> say when a statement returns.  \<open>Draw_Progress\<close>, \<open>Draw_Figures\<close>:
    on data as the scripts write it a drawer returns, and its lines and bars have the values of the data; with one
    method the drawer of bars with lines always raises.  \<open>Shipped_Styles\<close>: the style files of the
    repository, with which every picture is drawn.  \<open>Drawn_Results\<close>, \<open>Fig_12_Run\<close>: a run of \<^verbatim>\<open>fig_12.py\<close>
    from its parameters to its last picture shows what it has measured.
  \<^item> \<open>Run_Harness\<close>: the wrapper around one benchmark run, its verdict and its core search.
  \<^item> \<open>Resilient_Runner\<close>: checkpoint counts, cluster management, watchdog, retries, exit code.
    \<open>Checkpoints\<close>: what the runner reads of the files \<^verbatim>\<open>fig_12.py\<close> writes.
  \<^item> \<open>Common_Json\<close>: the generated configuration and its reading by the scripts; \<open>Patch_CN\<close>: the node
    count patch, by way of tokens; \<open>Smoke_Test\<close>, \<open>Surrogate\<close>, \<open>Set_Key\<close>: the stand-alone tools.
  \<^item> \<open>Cloudlab\<close>: the commands of \<^verbatim>\<open>cloudlab-setup.py\<close> over a state file and a trace of calls: the experiment
    created is the one terminated, nothing is called without a token, the phases of the set-up keep
    their order.  \<open>Profiles\<close>: requests with redirects and the profiles that get created.
    \<open>Cluster_Nodes\<close>: the nodes \<^verbatim>\<open>profile-r650-lan.py\<close> asks for, and those \<^verbatim>\<open>cluster_latency.py\<close> visits.
  \<^item> \<open>Re_Scan\<close>: regular expressions as scanners, with the contract \<open>headed\<close> of a pattern that starts with
    a literal.  \<open>Word_Cap\<close>, \<open>Spoken_Time\<close>, \<open>Report_Lists\<close>: the checks of slides and report, against decks
    and lists written out from their parts.
  \<^item> \<open>Jsonl_Plots\<close>: result files with one object per line, groups of runs, one number per group (the contract
    \<open>summary\<close>, for the best run and for the mean) and pictures as values.  \<open>Result_Plots\<close>, \<open>Cxl_Plots\<close>,
    \<open>Doc_Plots\<close>: the ten programs \<^verbatim>\<open>exp/plot_*.py\<close>.  The curves have the best or the mean of exactly the
    successful runs; the program for figure 12 reads back what \<^verbatim>\<open>fig_12.py\<close> writes, the three-way
    program does not.
  \<^item> This theory: properties that span components, the progress seen by the watchdog and the patch
    started when a node is excluded.

  \<^bold>\<open>State and operations.\<close>  A Python object is a record with its fields, a function that may raise
  returns \<open>py_exc + 'a\<close>, one with effects takes and returns the state (\<open>act\<close>).  Programs
  outside the repository are parameters: what SSH sessions answer (\<open>cluster\<close>), how child processes end
  (\<open>subproc\<close>, \<open>child\<close>, \<open>benchmark\<close>), what a shell does (\<open>shell\<close>), what numpy returns (\<open>np_ops\<close>).  Floats are the
  rationals they denote, without rounding; console output is not modelled except where a program
  reads it.

  \<^bold>\<open>Loops and fuel.\<close>  Loops over lists are structural.  The \<^verbatim>\<open>while True\<close> retry loops of the scripts
  take fuel and end in \<open>OutOfFuel\<close>, which nothing catches; \<open>retry_enough\<close>, \<open>retry_result\<close> and
  \<open>retry_stable\<close> show that a run that ends in Python ends with the same result for all large enough
  fuel, and \<open>first_number_retried\<close> states it as an equivalence.  Reading a shell ends with the
  events of the session, where the code's own time limit (\<^verbatim>\<open>FunctionTimedOut\<close>) takes over.  The
  pattern matchers and the token functions of \<open>Patch_CN\<close> recurse on a shorter rest of the text.

  A request to the portal recurses on the number of redirects it may still follow, and the scanners
  of \<open>Re_Scan\<close> on the text behind a match.

  \<^bold>\<open>Not modelled.\<close>  What matplotlib does with the calls it gets; the functions of numpy that the
  drawers apply to style values are fields of the parameter \<open>np_ops\<close>.  A style value of a type no style file has,
  where Python would go on in its own way, raises \<open>IllTyped\<close>.
  Console output and timing (\<^verbatim>\<open>color_printer.py\<close>, \<^verbatim>\<open>func_timer.py\<close>).  What \<^verbatim>\<open>argparse\<close> does with a command line.  The C++ index and shell scripts.
\<close>

section \<open>Checkpoints and the runner\<close>



text \<open>
  A workload of \<^verbatim>\<open>fig_12.py\<close> that starts without a partial file of its own and ends has added to
  the runner's count one point per plotted method and client configuration.\<close>

theorem fig_12_workload_counted:
  assumes "fig_12_workload fuel C P target_epochs clients (w, wl) s = (Inr (), s')"
    and "distinct (exp_methods P)" and "distinct (map fst (saved s))"
    and "map_of (saved s) (fig_12_partial wl) = None" and "\<not> glob_partial ''fig_12'' (fig_12_file wl)"
  shows "total_completed_points (seen_results s') ''fig_12'' = total_completed_points (seen_results s) ''fig_12'' +
    sum_list (map (\<lambda>m. length (clients_of clients w m)) (fig_12_methods P wl))"
  using workload_counts[OF assms] .

theorem fig_12_workload_counted_witness:
  "total_completed_points (seen_results (snd (fig_12_workload 1 sample_options (sample_exp [''SMART'']) [(''W'', 1)]
      [(''W'', [(''SMART'', [(1, 1)])])] (''W'', ''c'') (sample_lat_state (sample_avg_out ''joined.''))))) ''fig_12'' =
    total_completed_points (seen_results (sample_lat_state (sample_avg_out ''joined.''))) ''fig_12'' +
    sum_list (map (\<lambda>m. length (clients_of [(''W'', [(''SMART'', [(1, 1)])])] ''W'' m)) (fig_12_methods (sample_exp [''SMART'']) ''c''))"
proof (rule fig_12_workload_counted)
  let ?s = "sample_lat_state (sample_avg_out ''joined.'')"
  let ?r = "fig_12_workload 1 sample_options (sample_exp [''SMART'']) [(''W'', 1)] [(''W'', [(''SMART'', [(1, 1)])])] (''W'', ''c'') ?s"
  have "fst ?r = Inr ()" by code_simp
  then show "?r = (Inr (), snd ?r)" by (rule returns_pair)
  show "distinct (exp_methods (sample_exp [''SMART'']))" by (simp add: sample_exp_def)
  show "distinct (map fst (saved ?s))" by code_simp
  show "map_of (saved ?s) (fig_12_partial ''c'') = None" by code_simp
  show "\<not> glob_partial ''fig_12'' (fig_12_file ''c'')" by code_simp
qed

section \<open>Excluding a node and patching the parameters\<close>

text \<open>
  C7: When the runner has excluded a node, it has started the patch program with one less than the
  number of remaining nodes, and a run of that program with this argument makes every target
  parameter file that had a node count show the new one: one node is kept for the memory.\<close>

theorem reconfigure_patches:
  assumes "reconfigure_cluster sub chime_root node s = (Inr True, s')"
    and "\<forall>fname \<in> set TARGET_FILES. \<forall>t. f (dir @ ''/'' @ fname) = Some t \<longrightarrow> canonical (cn_section t)"
  shows "\<exists>k f'. Suc k = length (get_healthy_nodes s') \<and> 5 \<le> k \<and>
    [''python3'', chime_root @ ''/construction/scripts/patch-cn-count.py'', show_nat k] \<in> set (calls s') \<and>
    patch_main dir [prog, show_nat k] f = (Inr (), f') \<and>
    (\<forall>fname \<in> set TARGET_FILES. \<forall>t. f (dir @ ''/'' @ fname) = Some t \<longrightarrow> detect_text t \<noteq> None \<longrightarrow>
      (\<exists>t'. f' (dir @ ''/'' @ fname) = Some t' \<and> detect_text t' = Some (int k)))"
proof -
  let ?ns = "remove1 node (get_healthy_nodes s)"
  have n6: "6 \<le> length ?ns" using assms(1) by (auto simp: reconfigure_eq Let_def split: if_splits)
  then obtain k where k: "length ?ns = Suc k" "5 \<le> k" by (cases "length ?ns") auto
  have s': "healthy_file s' = Some (py_join [CHR 0x0A] ?ns @ [CHR 0x0A])"
    "[''python3'', chime_root @ ''/construction/scripts/patch-cn-count.py'', show_int (int (length ?ns) - 1)] \<in> set (calls s')"
    using assms(1) n6 by (auto simp: reconfigure_eq Let_def split: if_splits)
  have "show_int (int (length ?ns) - 1) = show_nat k" using k(1) by (simp add: show_int_def)
  moreover have "get_healthy_nodes s' = ?ns"
    using nodes_of_text_join[of ?ns] healthy_names[of s] k(1) s'(1)
    by (metis get_healthy_nodes_def list.size(3) nat.distinct(1) notin_set_remove1 option.simps(5))
  moreover obtain f' where f': "patch_main dir [prog, show_nat k] f = (Inr (), f')"
    "\<forall>p. f' p = (if p \<in> (\<lambda>x. dir @ ''/'' @ x) ` set TARGET_FILES then map_option (patch_to (int k)) (f p) else f p)"
    using patch_main_ok by blast
  moreover have "detect_text (patch_to (int k) t) = Some (int k)"
    if "fname \<in> set TARGET_FILES" "f (dir @ ''/'' @ fname) = Some t" "detect_text t \<noteq> None" for fname t
    using detect_patched[of t _ k] assms(2) that by auto
  ultimately show ?thesis using k s'(2) by (intro exI[of _ k] exI[of _ f']) auto
qed

definition seven_nodes :: runner where
  "seven_nodes = \<lparr>result_dir = [], healthy_file = Some (concat (map (\<lambda>n. n @ [CHR 0x0A]) [''a'', ''b'', ''c'', ''d'', ''e'', ''f'', ''g''])), calls = []\<rparr>"

theorem reconfigure_patches_witness:
  "\<exists>k f'. 5 \<le> k \<and> patch_main ''d'' [''p'', show_nat k] sample_fs = (Inr (), f') \<and>
    (\<exists>t'. f' ''d/fig_12.json'' = Some t' \<and> detect_text t' = Some (int k))"
proof -
  let ?r = "reconfigure_cluster (\<lambda>_ _. Done 0 []) ''..'' ''b'' seven_nodes"
  have "fst ?r = Inr True" by code_simp
  then have r: "?r = (Inr True, snd ?r)" by (simp add: prod_eq_iff)
  have c: "canonical (cn_section sample_params)" by code_simp
  have d: "detect_text sample_params \<noteq> None" by code_simp
  have "\<forall>fname \<in> set TARGET_FILES. \<forall>t. sample_fs (''d'' @ ''/'' @ fname) = Some t \<longrightarrow> canonical (cn_section t)"
    using c by (simp add: sample_fs_def TARGET_FILES_def)
  from reconfigure_patches[OF r this, of "''p''"] obtain k f' where
    k: "5 \<le> k" "patch_main ''d'' [''p'', show_nat k] sample_fs = (Inr (), f')"
    "\<And>fname t. fname \<in> set TARGET_FILES \<Longrightarrow> sample_fs (''d'' @ ''/'' @ fname) = Some t \<Longrightarrow> detect_text t \<noteq> None \<Longrightarrow>
      \<exists>t'. f' (''d'' @ ''/'' @ fname) = Some t' \<and> detect_text t' = Some (int k)"
    by blast
  have "\<exists>t'. f' ''d/fig_12.json'' = Some t' \<and> detect_text t' = Some (int k)"
    using k(3)[of "''fig_12.json''" sample_params] d by (simp add: TARGET_FILES_def sample_fs_def)
  with k show ?thesis by blast
qed

end
